(* ===== verification/Prelude.thy ===== *)
theory Prelude
  imports Main "HOL-Library.Sublist"
begin

text \<open>
  Shared base of the development: JavaScript strings as lists of characters and the
  string, list and option operations of the language that the modelled code uses.

  A \<open>string\<close> (a list of \<open>char\<close>) stands for a JavaScript string whose UTF-16 code units are
  all below 256: one \<open>char\<close> is one code unit, so \<open>length\<close>, indexing and slicing agree with
  the language.  Classes such as white space and letter case are written out on the code
  units, for the whole range 0 to 255.
\<close>

named_theorems js_simps \<open>evaluation rules for the string primitives\<close>
named_theorems js_defs \<open>definitions of the string primitives\<close>

section \<open>Characters\<close>

abbreviation nl :: char where "nl \<equiv> CHR 0x0A"
abbreviation cr :: char where "cr \<equiv> CHR 0x0D"
abbreviation bslash :: char where "bslash \<equiv> CHR 0x5C"
abbreviation dquote :: char where "dquote \<equiv> CHR 0x22"
abbreviation squote :: char where "squote \<equiv> CHR 0x27"

definition code :: "char \<Rightarrow> nat" where
  "code c = of_char c"

definition in_range :: "nat \<Rightarrow> nat \<Rightarrow> char \<Rightarrow> bool" where
  "in_range lo hi c \<longleftrightarrow> lo \<le> code c \<and> code c \<le> hi"

text \<open>The class \<open>\s\<close> of regular expressions, also the set that \<open>trim\<close> removes.\<close>

definition is_ws :: "char \<Rightarrow> bool" where
  "is_ws c \<longleftrightarrow> code c \<in> {9, 10, 11, 12, 13, 32, 160}"

definition is_digit :: "char \<Rightarrow> bool" where
  "is_digit c \<longleftrightarrow> in_range 48 57 c"

definition is_alpha :: "char \<Rightarrow> bool" where
  "is_alpha c \<longleftrightarrow> in_range 65 90 c \<or> in_range 97 122 c"

text \<open>The class \<open>\w\<close> of regular expressions.\<close>

definition is_word_char :: "char \<Rightarrow> bool" where
  "is_word_char c \<longleftrightarrow> is_alpha c \<or> is_digit c \<or> c = CHR ''_''"

definition lower_char :: "char \<Rightarrow> char" where
  "lower_char c =
     (if in_range 65 90 c \<or> in_range 192 214 c \<or> in_range 216 222 c
      then char_of (code c + 32) else c)"

definition to_lower :: "string \<Rightarrow> string" where
  "to_lower s = map lower_char s"

lemmas char_class_defs [js_defs] =
  code_def in_range_def is_ws_def is_digit_def is_alpha_def is_word_char_def lower_char_def

lemma length_to_lower [simp]: "length (to_lower s) = length s"
  by (simp add: to_lower_def)

lemma to_lower_append [simp]: "to_lower (s @ t) = to_lower s @ to_lower t"
  by (simp add: to_lower_def)

lemma to_lower_Nil [simp]: "to_lower [] = []"
  by (simp add: to_lower_def)

lemma to_lower_Nil_iff [simp]: "to_lower s = [] \<longleftrightarrow> s = []"
  by (simp add: to_lower_def)

lemma code_char_of: "n < 256 \<Longrightarrow> code (char_of n) = n"
  by (simp add: code_def)

lemma lower_char_idem [simp]: "lower_char (lower_char c) = lower_char c"
  by (auto simp: lower_char_def in_range_def code_char_of)

lemma to_lower_idem [simp]: "to_lower (to_lower s) = to_lower s"
  by (simp add: to_lower_def)

section \<open>Trimming\<close>

definition trim_start :: "string \<Rightarrow> string" where
  "trim_start s = dropWhile is_ws s"

definition trim_end :: "string \<Rightarrow> string" where
  "trim_end s = rev (dropWhile is_ws (rev s))"

definition trim :: "string \<Rightarrow> string" where
  "trim s = trim_end (trim_start s)"

lemma trim_Nil [simp]: "trim [] = []"
  by (simp add: trim_def trim_start_def trim_end_def)

lemma dropWhile_hd_id: "s = [] \<or> \<not> P (hd s) \<Longrightarrow> dropWhile P s = s"
  by (cases s) auto

lemma trim_end_hd: "trim_end s \<noteq> [] \<Longrightarrow> hd (trim_end s) = hd s"
proof -
  assume ne: "trim_end s \<noteq> []"
  obtain p where "rev s = p @ dropWhile is_ws (rev s)"
    by (metis takeWhile_dropWhile_id)
  then have "s = trim_end s @ rev p"
    by (metis rev_append rev_rev_ident trim_end_def)
  with ne show ?thesis by (metis hd_append2)
qed

lemma trim_end_last: "trim_end s \<noteq> [] \<Longrightarrow> \<not> is_ws (last (trim_end s))"
  by (metis hd_dropWhile last_rev rev_is_Nil_conv trim_end_def)

lemma trim_fixed_iff:
  "trim s = s \<longleftrightarrow> s = [] \<or> (\<not> is_ws (hd s) \<and> \<not> is_ws (last s))"
proof
  assume t: "trim s = s"
  show "s = [] \<or> (\<not> is_ws (hd s) \<and> \<not> is_ws (last s))"
  proof (cases "s = []")
    case False
    have "length (trim_end (trim_start s)) \<le> length (trim_start s)"
      by (metis length_dropWhile_le length_rev trim_end_def)
    moreover have "length (trim_start s) \<le> length s"
      by (simp add: trim_start_def length_dropWhile_le)
    ultimately have "length (trim_start s) = length s"
      using t by (metis le_antisym trim_def)
    then have st: "trim_start s = s"
      by (metis append_self_conv2 append_eq_append_conv takeWhile_dropWhile_id
          trim_start_def)
    have "\<not> is_ws (hd s)"
      using False st by (metis hd_dropWhile trim_start_def)
    moreover have "\<not> is_ws (last s)"
      using False st t trim_end_last by (metis trim_def)
    ultimately show ?thesis by simp
  qed simp
next
  assume "s = [] \<or> (\<not> is_ws (hd s) \<and> \<not> is_ws (last s))"
  then show "trim s = s"
    by (auto simp: trim_def trim_start_def trim_end_def dropWhile_hd_id hd_rev)
qed

lemma trim_idem [simp]: "trim (trim s) = trim s"
proof (cases "trim s = []")
  case False
  then have "trim_start s \<noteq> []"
    by (auto simp: trim_def trim_end_def)
  then have "\<not> is_ws (hd (trim_start s))"
    by (metis hd_dropWhile trim_start_def)
  with False have "\<not> is_ws (hd (trim s))"
    by (simp add: trim_def trim_end_hd)
  moreover have "\<not> is_ws (last (trim s))"
    using False trim_end_last by (simp add: trim_def)
  ultimately show ?thesis by (simp add: trim_fixed_iff)
qed simp

lemma set_trim: "set (trim s) \<subseteq> set s"
  by (metis set_dropWhileD set_rev subsetI trim_def trim_end_def trim_start_def)

section \<open>Splitting and joining\<close>

text \<open>
  \<open>s.split(c)\<close> for a one-character separator: one piece more than there are separators, so
  the empty string gives the list of the empty string.
\<close>

fun split_on :: "char \<Rightarrow> string \<Rightarrow> string list" where
  "split_on d [] = [[]]"
| "split_on d (c # cs) =
     (if c = d then [] # split_on d cs
      else (case split_on d cs of [] \<Rightarrow> [[c]] | p # ps \<Rightarrow> (c # p) # ps))"

fun join :: "string \<Rightarrow> string list \<Rightarrow> string" where
  "join sep [] = []"
| "join sep [x] = x"
| "join sep (x # y # ys) = x @ sep @ join sep (y # ys)"

lemma split_on_nonempty [simp]: "split_on d s \<noteq> []"
  by (induction s) (auto split: list.splits)

lemma split_on_no_sep: "d \<notin> set s \<Longrightarrow> split_on d s = [s]"
  by (induction s) auto

lemma split_on_append_sep:
  "d \<notin> set x \<Longrightarrow> split_on d (x @ d # s) = x # split_on d s"
  by (induction x) auto

lemma split_on_pieces: "p \<in> set (split_on d s) \<Longrightarrow> d \<notin> set p"
  by (induction s arbitrary: p) (auto split: list.splits if_splits)

lemma split_on_join:
  "xs \<noteq> [] \<Longrightarrow> \<forall>x \<in> set xs. d \<notin> set x \<Longrightarrow> split_on d (join [d] xs) = xs"
  by (induction "[d]" xs rule: join.induct) (auto simp: split_on_no_sep split_on_append_sep)

lemma join_split_on: "join [d] (split_on d s) = s"
proof (induction s)
  case (Cons c cs)
  then show ?case
    by (cases "split_on d cs" rule: list.exhaust; cases "tl (split_on d cs)")
      (auto split: list.splits)
qed simp

lemma join_Cons: "xs \<noteq> [] \<Longrightarrow> join sep (x # xs) = x @ sep @ join sep xs"
  by (cases xs) auto

section \<open>Searching and replacing\<close>

fun contains :: "string \<Rightarrow> string \<Rightarrow> bool" where
  "contains [] pat = (pat = [])"
| "contains (c # cs) pat = (prefix pat (c # cs) \<or> contains cs pat)"

lemma contains_sublist: "contains s pat = sublist pat s"
  by (induction s) (auto simp: sublist_Cons_right)

definition starts_with :: "string \<Rightarrow> string \<Rightarrow> bool" where
  "starts_with s pat = prefix pat s"

text \<open>\<open>s.indexOf(pat)\<close>, with \<open>None\<close> for -1.\<close>

fun index_of :: "string \<Rightarrow> string \<Rightarrow> nat option" where
  "index_of pat [] = (if pat = [] then Some 0 else None)"
| "index_of pat (c # cs) =
     (if prefix pat (c # cs) then Some 0 else map_option Suc (index_of pat cs))"

lemma index_of_bound: "index_of pat s = Some k \<Longrightarrow> k + length pat \<le> length s"
  by (induction s arbitrary: k) (auto split: if_splits dest: prefix_length_le)

text \<open>\<open>s.replace(/c/g, r)\<close> for a one-character pattern.\<close>

definition replace_char :: "char \<Rightarrow> string \<Rightarrow> string \<Rightarrow> string" where
  "replace_char c r s = concat (map (\<lambda>x. if x = c then r else [x]) s)"

lemma replace_char_append [simp]:
  "replace_char c r (s @ t) = replace_char c r s @ replace_char c r t"
  by (simp add: replace_char_def)

lemma replace_char_Nil [simp]: "replace_char c r [] = []"
  by (simp add: replace_char_def)

lemma replace_char_Cons [simp]:
  "replace_char c r (x # s) = (if x = c then r else [x]) @ replace_char c r s"
  by (simp add: replace_char_def)

lemma replace_char_id: "c \<notin> set s \<Longrightarrow> replace_char c r s = s"
  by (induction s) auto

section \<open>Numbers as text\<close>

fun nat_str :: "nat \<Rightarrow> string" where
  "nat_str n =
     (if n < 10 then [char_of (48 + n)] else nat_str (n div 10) @ [char_of (48 + n mod 10)])"

declare nat_str.simps [simp del]

lemma nat_str_nonempty [simp]: "nat_str n \<noteq> []"
  by (subst nat_str.simps) simp

lemma nat_str_digits: "c \<in> set (nat_str n) \<Longrightarrow> is_digit c"
proof (induction n rule: nat_str.induct)
  case (1 n)
  have d: "is_digit (char_of (48 + m))" if "m < 10" for m :: nat
    using that by (simp add: is_digit_def in_range_def code_char_of)
  show ?case
  proof (cases "n < 10")
    case True
    with "1.prems" d [of n] show ?thesis by (simp add: nat_str.simps [of n])
  next
    case False
    with "1.prems" have "c \<in> set (nat_str (n div 10)) \<or> c = char_of (48 + n mod 10)"
      by (auto simp: nat_str.simps [of n])
    with "1.IH" False d [of "n mod 10"] show ?thesis by auto
  qed
qed

section \<open>Falsy values\<close>

text \<open>\<open>x || d\<close> for a string and for an optional string (both \<open>undefined\<close> and \<open>''\<close> are falsy).\<close>

definition or_else :: "string \<Rightarrow> string \<Rightarrow> string" where
  "or_else s d = (if s = [] then d else s)"

definition opt_string :: "string option \<Rightarrow> string" where
  "opt_string so = (case so of None \<Rightarrow> [] | Some s \<Rightarrow> s)"

definition truthy_opt :: "string option \<Rightarrow> bool" where
  "truthy_opt so \<longleftrightarrow> opt_string so \<noteq> []"

lemma opt_string_simps [simp]: "opt_string None = []" "opt_string (Some s) = s"
  by (simp_all add: opt_string_def)

lemma find_Some_set: "find P xs = Some x \<Longrightarrow> x \<in> set xs \<and> P x"
  by (auto simp: find_Some_iff)

end
