(* ===== verification/SieveGen.thy ===== *)
theory SieveGen
  imports Prelude
begin

text \<open>
  The Sieve rule model (\<open>frontend/src/types/sieve.ts\<close>) and the generator half of
  \<open>frontend/src/utils/sieveGenerator.ts\<close>: \<open>rulesToSieve\<close> and its helpers.  Unions of string
  literals are datatypes, interfaces are records, optional fields are options.
\<close>

section \<open>Data model\<close>

datatype sieve_test = THeader | TAddress | TExists | TTrue

datatype address_part = NoPart | Domain | Localpart | UserPart

datatype cond_op = Contains | Is | Matches

record sieve_condition =
  cond_id :: string
  test :: sieve_test
  part :: address_part
  cop :: cond_op
  negated :: bool
  hdr :: string
  val :: string

datatype action_type =
  Fileinto | Redirect | Reject | Discard | Keep | Stop | Setflag | Addflag | Removeflag

record sieve_action =
  act_id :: string
  atype :: action_type
  mailbox :: "string option"
  copy :: "bool option"
  address :: "string option"
  rtext :: "string option"
  flag :: "string option"

datatype rule_join = Allof | Anyof

record sieve_rule =
  rule_id :: string
  rname :: string
  enabled :: bool
  conditionJoin :: rule_join
  conditions :: "sieve_condition list"
  actions :: "sieve_action list"

text \<open>The string literals behind the unions, as they are interpolated into templates.\<close>

fun part_str :: "address_part \<Rightarrow> string" where
  "part_str NoPart = []"
| "part_str Domain = ''domain''"
| "part_str Localpart = ''localpart''"
| "part_str UserPart = ''user''"

fun op_str :: "cond_op \<Rightarrow> string" where
  "op_str Contains = ''contains''"
| "op_str Is = ''is''"
| "op_str Matches = ''matches''"

fun action_str :: "action_type \<Rightarrow> string" where
  "action_str Fileinto = ''fileinto''"
| "action_str Redirect = ''redirect''"
| "action_str Reject = ''reject''"
| "action_str Discard = ''discard''"
| "action_str Keep = ''keep''"
| "action_str Stop = ''stop''"
| "action_str Setflag = ''setflag''"
| "action_str Addflag = ''addflag''"
| "action_str Removeflag = ''removeflag''"

fun join_str :: "rule_join \<Rightarrow> string" where
  "join_str Allof = ''allof''"
| "join_str Anyof = ''anyof''"

section \<open>Quoting and lists\<close>

definition esc :: "string \<Rightarrow> string" where
  "esc s = replace_char dquote [bslash, dquote] (replace_char bslash [bslash, bslash] s)"

definition quoted :: "string \<Rightarrow> string" where
  "quoted s = [dquote] @ esc s @ [dquote]"

definition quoteListOrOne :: "string list \<Rightarrow> string" where
  "quoteListOrOne items =
     (case items of
        [x] \<Rightarrow> quoted x
      | _ \<Rightarrow> ''['' @ join '','' (map quoted items) @ '']'')"

definition splitList :: "string option \<Rightarrow> string list" where
  "splitList so =
     (if opt_string so = [] then []
      else filter (\<lambda>x. x \<noteq> []) (map trim (split_on CHR '','' (opt_string so))))"

section \<open>Required extensions\<close>

text \<open>The set \<open>req\<close> only grows; it is kept as the list of the names added so far.\<close>

definition actionRequires :: "sieve_action \<Rightarrow> string list \<Rightarrow> string list" where
  "actionRequires a req =
     req
     @ (if atype a = Fileinto then [''fileinto''] else [])
     @ (if atype a = Fileinto \<and> copy a = Some True then [''copy''] else [])
     @ (if atype a = Reject then [''reject''] else [])
     @ (if atype a = Setflag \<or> atype a = Addflag \<or> atype a = Removeflag
        then [''imap4flags''] else [])"

definition require_order :: "string list" where
  "require_order = [''fileinto'', ''imap4flags'', ''copy'', ''reject'']"

section \<open>Tests and actions as Sieve text\<close>

definition conditionTest :: "sieve_condition \<Rightarrow> string option" where
  "conditionTest c =
     (let headers = splitList (Some (hdr c));
          core = (case test c of
              TTrue \<Rightarrow> Some ''true''
            | TExists \<Rightarrow>
                if headers = [] then None else Some (''exists '' @ quoteListOrOne headers)
            | TAddress \<Rightarrow>
                Some (''address ''
                  @ (if part c \<noteq> NoPart then '':'' @ part_str (part c) @ '' '' else [])
                  @ '':'' @ op_str (cop c) @ '' ''
                  @ (if headers \<noteq> [] then quoteListOrOne headers @ '' '' else [])
                  @ quoted (val c))
            | THeader \<Rightarrow>
                if headers = [] then None
                else Some (''header :'' @ op_str (cop c) @ '' '' @ quoteListOrOne headers
                       @ '' '' @ quoted (val c)))
      in map_option (\<lambda>core. if negated c then ''not '' @ core else core) core)"

definition actionToSieve :: "sieve_action \<Rightarrow> string option" where
  "actionToSieve a =
     (case atype a of
        Fileinto \<Rightarrow>
          (let boxes = splitList (mailbox a)
           in if boxes = [] then None
              else Some (''fileinto'' @ (if copy a = Some True then '' :copy'' else [])
                     @ '' '' @ quoteListOrOne boxes))
      | Redirect \<Rightarrow>
          if opt_string (address a) = [] then None
          else Some (''redirect '' @ quoted (opt_string (address a)))
      | Reject \<Rightarrow> Some (''reject '' @ quoted (or_else (opt_string (rtext a)) ''Rejected''))
      | Discard \<Rightarrow> Some ''discard''
      | Keep \<Rightarrow> Some ''keep''
      | Stop \<Rightarrow> Some ''stop''
      | _ \<Rightarrow>
          (let flags = splitList (flag a)
           in if flags = [] then None
              else Some (action_str (atype a) @ '' '' @ quoteListOrOne flags)))"

section \<open>The generator\<close>

definition is_terminal :: "sieve_action \<Rightarrow> bool" where
  "is_terminal a \<longleftrightarrow> atype a \<in> {Fileinto, Redirect, Discard, Reject}"

definition rule_body :: "sieve_rule \<Rightarrow> string" where
  "rule_body r =
     concat (map (\<lambda>a. case actionToSieve a of
         None \<Rightarrow> [] | Some s \<Rightarrow> ''  '' @ s @ '';'' @ [nl]) (actions r))
     @ (if list_ex is_terminal (actions r) \<and> \<not> list_ex (\<lambda>a. atype a = Stop) (actions r)
        then ''  stop;'' @ [nl] else [])"

text \<open>One turn of the loop over the enabled rules: what it appends to \<open>out\<close>.\<close>

definition rule_text :: "sieve_rule \<Rightarrow> string" where
  "rule_text r =
     (let tests = map conditionTest (conditions r)
      in ''# rule:['' @ rname r @ '']'' @ [nl]
         @ (if None \<in> set tests then []
            else
              let realTests = filter (\<lambda>t. t \<noteq> []) (map the tests);
                  body = rule_body r
              in if realTests = [] then or_else body (''  keep;'' @ [nl])
                 else
                   let expr = (if length realTests = 1 then hd realTests
                               else join_str (conditionJoin r) @ '' ('' @ join '', '' realTests @ '')'')
                   in ''if '' @ expr @ '' {'' @ [nl] @ body @ ''}'' @ [nl, nl]))"

definition require_line :: "sieve_rule list \<Rightarrow> string" where
  "require_line rs =
     (let req = fold actionRequires (concat (map actions rs)) [];
          reqList = filter (\<lambda>e. e \<in> set req) require_order
      in if reqList \<noteq> []
         then ''require ['' @ join '','' (map (\<lambda>r. [dquote] @ r @ [dquote]) reqList) @ ''];'' @ [nl]
         else [])"

definition rulesToSieve :: "sieve_rule list \<Rightarrow> string" where
  "rulesToSieve rules =
     (let en = filter enabled rules;
          out = ''# Generated by e2Mail Sieve Rule Builder'' @ [nl] @ require_line en @ [nl]
      in if en = [] then out @ ''# No rules defined'' @ [nl]
         else out @ concat (map rule_text en))"

section \<open>Facts about the generator\<close>

lemma esc_append [simp]: "esc (s @ t) = esc s @ esc t"
  by (simp add: esc_def)

lemma esc_Nil [simp]: "esc [] = []"
  by (simp add: esc_def)

lemma esc_Cons:
  "esc (c # s) = (if c = bslash then [bslash, bslash]
                  else if c = dquote then [bslash, dquote] else [c]) @ esc s"
  by (simp add: esc_def)

lemma splitList_pieces:
  assumes "h \<in> set (splitList so)"
  shows "h \<noteq> [] \<and> trim h = h \<and> CHR '','' \<notin> set h"
proof -
  from assms obtain p where p: "p \<in> set (split_on CHR '','' (opt_string so))" "h = trim p" "h \<noteq> []"
    by (auto simp: splitList_def split: if_splits)
  then show ?thesis
    using split_on_pieces [OF p(1)] set_trim [of p] by auto
qed

lemma splitList_join:
  assumes "hs \<noteq> []" and "\<forall>h \<in> set hs. h \<noteq> [] \<and> trim h = h \<and> CHR '','' \<notin> set h"
  shows "splitList (Some (join '','' hs)) = hs"
proof -
  from assms have "join '','' hs \<noteq> []"
    by (cases hs; cases "tl hs") auto
  moreover have "split_on CHR '','' (join '','' hs) = hs"
    using assms by (intro split_on_join) auto
  moreover have "map trim hs = hs"
    using assms(2) by (induction hs) auto
  moreover have "filter (\<lambda>x. x \<noteq> []) hs = hs"
    using assms(2) by (simp add: filter_id_conv)
  ultimately show ?thesis by (simp add: splitList_def)
qed

lemma set_fold_actionRequires:
  "set (fold actionRequires as req) = set req \<union> (\<Union>a \<in> set as. set (actionRequires a []))"
  by (induction as arbitrary: req) (auto simp: actionRequires_def)

end
