(* ===== verification/SieveLex.thy ===== *)
theory SieveLex
  imports SieveGen
begin

text \<open>
  The tokenizer of \<open>frontend/src/utils/sieveGenerator.ts\<close> (\<open>tokenize\<close>).  The index \<open>i\<close> of the
  source only moves forward, so the model recurses on the suffix \<open>src.slice(i)\<close>; \<open>lex_step\<close>
  is one turn of the outer loop.
\<close>

section \<open>Tokens\<close>

datatype tok_kind = Quoted | Word | Annot | Punct | Num | Comment

datatype tok = Tok (tk: tok_kind) (tv: string)

datatype lex_result = Skip string | Emit tok string | LexFail

definition is_name_char :: "char \<Rightarrow> bool" where
  "is_name_char c \<longleftrightarrow> is_alpha c \<or> is_digit c \<or> c = CHR ''_'' \<or> c = CHR ''-''"

definition is_name_start :: "char \<Rightarrow> bool" where
  "is_name_start c \<longleftrightarrow> is_alpha c \<or> c = CHR ''_''"

section \<open>The scanning loops\<close>

text \<open>
  The inner loop of a quoted string, from behind its opening quote: the text and the rest
  behind the closing quote, or \<open>None\<close> when the string is never closed.  A backslash takes the
  next character literally, except as the last character of the source.
\<close>

fun scan_quoted :: "string \<Rightarrow> (string \<times> string) option" where
  "scan_quoted [] = None"
| "scan_quoted (c # cs) =
     (if c = bslash \<and> cs \<noteq> [] then
        (case cs of
           d # ds \<Rightarrow> map_option (\<lambda>(s, r). (d # s, r)) (scan_quoted ds)
         | [] \<Rightarrow> None)
      else if c = dquote then Some ([], cs)
      else map_option (\<lambda>(s, r). (c # s, r)) (scan_quoted cs))"

text \<open>The regular expression for the length of a literal: spaces, digits, an optional plus, spaces.\<close>

definition literal_len :: "string \<Rightarrow> bool" where
  "literal_len s =
     (let s1 = dropWhile is_ws s;
          ds = takeWhile is_digit s1;
          s2 = dropWhile is_digit s1;
          s3 = (case s2 of c # cs \<Rightarrow> if c = CHR ''+'' then cs else s2 | [] \<Rightarrow> [])
      in ds \<noteq> [] \<and> list_all is_ws s3)"

definition lex_step :: "char \<Rightarrow> string \<Rightarrow> lex_result" where
  "lex_step c cs =
     (if c = CHR ''#'' then
        Emit (Tok Comment (trim (takeWhile (\<lambda>x. x \<noteq> nl) cs))) (dropWhile (\<lambda>x. x \<noteq> nl) cs)
      else if c = CHR ''/'' \<and> cs \<noteq> [] \<and> hd cs = CHR ''*'' then
        (case index_of ''*/'' (tl cs) of
           None \<Rightarrow> LexFail
         | Some e \<Rightarrow> Skip (drop (e + 2) (tl cs)))
      else if is_ws c then Skip cs
      else if c = dquote then
        (case scan_quoted cs of
           None \<Rightarrow> LexFail
         | Some (s, r) \<Rightarrow> Emit (Tok Quoted s) r)
      else if c = CHR ''{'' then
        (case index_of ''}'' cs of
           Some e \<Rightarrow> if literal_len (take e cs) then Emit (Tok Punct ''{'') (drop (e + 1) cs)
                     else Emit (Tok Punct ''{'') cs
         | None \<Rightarrow> Emit (Tok Punct ''{'') cs)
      else if c \<in> set ''}(),;['' then Emit (Tok Punct [c]) cs
      else if c = CHR '']'' then Emit (Tok Punct [c]) cs
      else if c = CHR '':'' then
        (let nm = takeWhile is_name_char cs
         in if nm = [] then LexFail
            else Emit (Tok Annot (to_lower (c # nm))) (dropWhile is_name_char cs))
      else if is_name_start c then
        Emit (Tok Word (to_lower (c # takeWhile is_name_char cs))) (dropWhile is_name_char cs)
      else if is_digit c then
        Emit (Tok Num (c # takeWhile is_digit cs)) (dropWhile is_digit cs)
      else LexFail)"

section \<open>Termination and the loop\<close>

lemma scan_quoted_shorter: "scan_quoted cs = Some (s, r) \<Longrightarrow> length r < length cs"
  by (induction cs arbitrary: s r rule: scan_quoted.induct)
    (fastforce split: if_splits list.splits)+

lemma length_dropWhile_less_Suc: "length (dropWhile P cs) < Suc (length cs)"
  by (simp add: length_dropWhile_le less_Suc_eq_le)

lemma lex_step_shorter:
  "lex_step c cs = Skip r \<Longrightarrow> length r < length (c # cs)"
  "lex_step c cs = Emit t r \<Longrightarrow> length r < length (c # cs)"
  by (auto simp: lex_step_def Let_def length_dropWhile_less_Suc
      split: if_splits option.splits prod.splits dest!: scan_quoted_shorter)

text \<open>\<open>None\<close> is the \<open>null\<close> of the source: the script is not tokenizable.\<close>

function tokenize :: "string \<Rightarrow> tok list option" where
  "tokenize [] = Some []"
| "tokenize (c # cs) =
     (case lex_step c cs of
        Skip r \<Rightarrow> tokenize r
      | Emit t r \<Rightarrow> map_option (\<lambda>ts. t # ts) (tokenize r)
      | LexFail \<Rightarrow> None)"
  by pat_completeness auto
termination
  by (relation "measure length") (use lex_step_shorter in fastforce)+

section \<open>Composing scripts\<close>

text \<open>
  A string \<open>s\<close> is \<^emph>\<open>self-delimiting\<close> with tokens \<open>ts\<close> when it yields \<open>ts\<close> whatever follows.
  The notion is closed under concatenation, so the tokens of a generated script are found
  piece by piece.
\<close>

definition lexes :: "string \<Rightarrow> tok list \<Rightarrow> bool" where
  "lexes s ts \<longleftrightarrow> (\<forall>r. tokenize (s @ r) = map_option (\<lambda>x. ts @ x) (tokenize r))"

lemma lexesI: "(\<And>r. tokenize (s @ r) = map_option (\<lambda>x. ts @ x) (tokenize r)) \<Longrightarrow> lexes s ts"
  by (simp add: lexes_def)

lemma lexesD: "lexes s ts \<Longrightarrow> tokenize (s @ r) = map_option (\<lambda>x. ts @ x) (tokenize r)"
  by (simp add: lexes_def)

lemma lexes_Nil [simp]: "lexes [] []"
  by (simp add: lexes_def option.map_ident)

lemma lexes_append: "lexes s ts \<Longrightarrow> lexes s' ts' \<Longrightarrow> lexes (s @ s') (ts @ ts')"
  by (simp add: lexes_def option.map_comp comp_def)

lemma lexes_tokenize: "lexes s ts \<Longrightarrow> tokenize s = Some ts"
  by (metis append_Nil2 lexesD option.simps(9) tokenize.simps(1))

lemma lexes_concat:
  "(\<And>x. x \<in> set xs \<Longrightarrow> lexes (f x) (g x)) \<Longrightarrow> lexes (concat (map f xs)) (concat (map g xs))"
  by (induction xs) (simp_all add: lexes_append)

lemma lexes_skip: "(\<And>r. lex_step c r = Skip r) \<Longrightarrow> lexes [c] []"
  by (rule lexesI) (simp add: option.map_ident)

lemma lexes_emit1: "(\<And>r. lex_step c r = Emit t r) \<Longrightarrow> lexes [c] [t]"
  by (rule lexesI) (simp add: comp_def)

named_theorems lex_pieces \<open>self-delimiting pieces of a script\<close>

lemma lexes_space [lex_pieces]: "lexes '' '' []"
  by (rule lexes_skip) (simp add: lex_step_def js_defs)

lemma lexes_nl [lex_pieces]: "lexes [nl] []"
  by (rule lexes_skip) (simp add: lex_step_def js_defs)

lemma lexes_punct:
  "c \<in> set ''}(),;[]'' \<Longrightarrow> lexes [c] [Tok Punct [c]]"
  by (rule lexes_emit1) (auto simp: lex_step_def js_defs)

lemmas lexes_puncts [lex_pieces] =
  lexes_punct [of "CHR ''}''", simplified] lexes_punct [of "CHR ''(''", simplified]
  lexes_punct [of "CHR '')''", simplified] lexes_punct [of "CHR '',''", simplified]
  lexes_punct [of "CHR '';''", simplified] lexes_punct [of "CHR ''[''", simplified]
  lexes_punct [of "CHR '']''", simplified]

text \<open>A quoted string: the escapes of the generator are undone by the scanning loop.\<close>

lemma scan_quoted_esc: "scan_quoted (esc s @ dquote # r) = Some (s, r)"
  by (induction s) (auto simp: esc_Cons)

lemma lexes_quoted [lex_pieces]: "lexes (quoted s) [Tok Quoted s]"
proof (rule lexesI)
  fix r
  have "lex_step dquote (esc s @ dquote # r) = Emit (Tok Quoted s) r"
    by (simp add: lex_step_def js_defs scan_quoted_esc)
  then show "tokenize (quoted s @ r) = map_option (\<lambda>x. [Tok Quoted s] @ x) (tokenize r)"
    by (simp add: quoted_def comp_def)
qed

text \<open>A word and an annotation end at the following space; a word may also end at a semicolon.\<close>

lemma takeWhile_name: "list_all P w \<Longrightarrow> \<not> P d \<Longrightarrow> takeWhile P (w @ d # r) = w"
  by (induction w) auto

lemma dropWhile_name: "list_all P w \<Longrightarrow> \<not> P d \<Longrightarrow> dropWhile P (w @ d # r) = d # r"
  by (induction w) auto

definition is_word :: "string \<Rightarrow> bool" where
  "is_word w \<longleftrightarrow> w \<noteq> [] \<and> is_name_start (hd w) \<and> list_all is_name_char w \<and> to_lower w = w"

lemma name_start_not_other:
  assumes "is_name_start c"
  shows "c \<noteq> CHR ''#''" "c \<noteq> CHR ''/''" "\<not> is_ws c" "c \<noteq> dquote" "c \<noteq> CHR ''{''"
    "c \<notin> set ''}(),;[''" "c \<noteq> CHR '']''" "c \<noteq> CHR '':''"
  using assms by (auto simp: is_name_start_def js_defs)

lemma tokenize_word:
  assumes "is_word w" and "\<not> is_name_char d"
  shows "tokenize (w @ d # r) = map_option ((#) (Tok Word w)) (tokenize (d # r))"
proof -
  from assms(1) obtain c cs where w: "w = c # cs" and c: "is_name_start c"
    and cs: "list_all is_name_char cs" and low: "to_lower (c # cs) = c # cs"
    by (cases w) (auto simp: is_word_def)
  have "lex_step c (cs @ d # r) = Emit (Tok Word w) (d # r)"
    using name_start_not_other [OF c] c low w
    by (simp add: lex_step_def takeWhile_name [OF cs assms(2)] dropWhile_name [OF cs assms(2)])
  then show ?thesis by (simp add: w)
qed

text \<open>
  Words and annotations need a character behind them that is not part of a name:
  \<open>lexesd s ts\<close> says that \<open>s\<close> yields \<open>ts\<close> before any such character.
\<close>

definition lexesd :: "string \<Rightarrow> tok list \<Rightarrow> bool" where
  "lexesd s ts \<longleftrightarrow>
     (\<forall>d r. \<not> is_name_char d \<longrightarrow> tokenize (s @ d # r) = map_option (\<lambda>x. ts @ x) (tokenize (d # r)))"

lemma lexesdI:
  "(\<And>d r. \<not> is_name_char d \<Longrightarrow> tokenize (s @ d # r) = map_option (\<lambda>x. ts @ x) (tokenize (d # r)))
   \<Longrightarrow> lexesd s ts"
  by (simp add: lexesd_def)

lemma lexesdD:
  "lexesd s ts \<Longrightarrow> \<not> is_name_char d \<Longrightarrow>
     tokenize (s @ d # r) = map_option (\<lambda>x. ts @ x) (tokenize (d # r))"
  by (simp add: lexesd_def del: tokenize.simps)

lemma lexes_lexesd: "lexes s ts \<Longrightarrow> lexesd s ts"
  by (simp add: lexes_def lexesd_def del: tokenize.simps)

lemma lexes_lexesd_append:
  "lexes s ts \<Longrightarrow> lexesd s' ts' \<Longrightarrow> lexesd (s @ s') (ts @ ts')"
  by (rule lexesdI) (simp add: lexesD lexesdD option.map_comp comp_def del: tokenize.simps)

lemma lexesd_lexes:
  assumes "lexesd s ts" and "lexes (d # s') ts'" and "\<not> is_name_char d"
  shows "lexes (s @ d # s') (ts @ ts')"
proof (rule lexesI)
  fix r
  have "tokenize ((s @ d # s') @ r) = map_option (\<lambda>x. ts @ x) (tokenize ((d # s') @ r))"
    using lexesdD [OF assms(1,3), of "s' @ r"] by (simp del: tokenize.simps)
  then show "tokenize ((s @ d # s') @ r) = map_option (\<lambda>x. (ts @ ts') @ x) (tokenize r)"
    using lexesD [OF assms(2), of r] by (simp add: option.map_comp comp_def del: tokenize.simps)
qed

lemma lexesd_lexesd:
  assumes "lexesd s ts" and "lexesd (d # s') ts'" and "\<not> is_name_char d"
  shows "lexesd (s @ d # s') (ts @ ts')"
proof (rule lexesdI)
  fix e r
  assume e: "\<not> is_name_char e"
  have "tokenize ((s @ d # s') @ e # r) = map_option (\<lambda>x. ts @ x) (tokenize ((d # s') @ e # r))"
    using lexesdD [OF assms(1,3), of "s' @ e # r"] by (simp del: tokenize.simps)
  then show "tokenize ((s @ d # s') @ e # r) = map_option (\<lambda>x. (ts @ ts') @ x) (tokenize (e # r))"
    using lexesdD [OF assms(2) e, of r] by (simp add: option.map_comp comp_def del: tokenize.simps)
qed

lemma lexesd_word: "is_word w \<Longrightarrow> lexesd w [Tok Word w]"
  by (rule lexesdI) (simp add: tokenize_word del: tokenize.simps)

lemma lexesd_annot:
  assumes "w \<noteq> []" "list_all is_name_char w" "to_lower w = w"
  shows "lexesd (CHR '':'' # w) [Tok Annot (CHR '':'' # w)]"
proof (rule lexesdI)
  fix d r
  assume d: "\<not> is_name_char d"
  have "to_lower (CHR '':'' # w) = CHR '':'' # w"
    using assms(3) by (simp add: to_lower_def js_defs)
  then have "lex_step CHR '':'' (w @ d # r) = Emit (Tok Annot (CHR '':'' # w)) (d # r)"
    using assms(1,2) d by (simp add: lex_step_def js_defs takeWhile_name dropWhile_name)
  then show "tokenize ((CHR '':'' # w) @ d # r)
      = map_option (\<lambda>x. [Tok Annot (CHR '':'' # w)] @ x) (tokenize (d # r))"
    by simp
qed

lemma lexes_word_space: "is_word w \<Longrightarrow> lexes (w @ '' '') [Tok Word w]"
  using lexesd_lexes [OF lexesd_word, of w "CHR '' ''" "[]" "[]"] lexes_space
  by (simp add: is_name_char_def js_defs)

text \<open>A comment line.\<close>

lemma lexes_comment:
  assumes "nl \<notin> set s"
  shows "lexes (CHR ''#'' # s @ [nl]) [Tok Comment (trim s)]"
proof (rule lexesI)
  fix r
  have "takeWhile (\<lambda>x. x \<noteq> nl) (s @ nl # r) = s" "dropWhile (\<lambda>x. x \<noteq> nl) (s @ nl # r) = nl # r"
    using assms by (auto simp: takeWhile_append dropWhile_append)
  then have "lex_step CHR ''#'' (s @ nl # r) = Emit (Tok Comment (trim s)) (nl # r)"
    by (simp add: lex_step_def)
  moreover have "tokenize (nl # r) = tokenize r"
    by (simp add: lex_step_def js_defs)
  ultimately show "tokenize ((CHR ''#'' # s @ [nl]) @ r)
      = map_option (\<lambda>x. [Tok Comment (trim s)] @ x) (tokenize r)"
    by (simp add: comp_def)
qed

end
