(* ===== verification/SieveParse.thy ===== *)
theory SieveParse
  imports SieveLex
begin

text \<open>
  The recursive-descent parser of \<open>frontend/src/utils/sieveGenerator.ts\<close>: class \<open>Parser\<close>,
  \<open>flattenTest\<close> and \<open>sieveToRules\<close>.

  The field \<open>toks\<close> holds \<open>this.toks.slice(this.i)\<close>: the position only moves forward.  \<open>draws\<close>
  counts the calls of \<open>uid()\<close>; the n-th call returns \<open>u n\<close>, where the parameter \<open>u\<close> stands for
  the results of \<open>Math.random\<close>.  A method that returns \<open>T | null\<close> and may set \<open>error\<close> returns a
  pair of an option and the new parser.
\<close>

section \<open>State and primitive operations\<close>

record parser =
  toks :: "tok list"
  perror :: bool
  draws :: nat

definition is_comment :: "tok \<Rightarrow> bool" where
  "is_comment t \<longleftrightarrow> tk t = Comment"

definition peek :: "parser \<Rightarrow> tok option" where
  "peek p = (case dropWhile is_comment (toks p) of [] \<Rightarrow> None | t # _ \<Rightarrow> Some t)"

definition skip :: "parser \<Rightarrow> parser" where
  "skip p = p\<lparr>toks := tl (dropWhile is_comment (toks p))\<rparr>"

definition next_tok :: "parser \<Rightarrow> tok option \<times> parser" where
  "next_tok p = (peek p, skip p)"

definition is_kw :: "string \<Rightarrow> parser \<Rightarrow> bool" where
  "is_kw w p \<longleftrightarrow> (case peek p of Some t \<Rightarrow> tk t = Word \<and> tv t = w | None \<Rightarrow> False)"

definition fail :: "parser \<Rightarrow> 'a option \<times> parser" where
  "fail p = (None, p\<lparr>perror := True\<rparr>)"

definition expectPunct :: "string \<Rightarrow> parser \<Rightarrow> bool \<times> parser" where
  "expectPunct s p =
     (if peek p = Some (Tok Punct s) then (True, skip p) else (False, p\<lparr>perror := True\<rparr>))"

definition uid :: "(nat \<Rightarrow> string) \<Rightarrow> parser \<Rightarrow> string \<times> parser" where
  "uid u p = (u (draws p), p\<lparr>draws := Suc (draws p)\<rparr>)"

text \<open>The number of tokens left, the measure of every loop.\<close>

definition left :: "parser \<Rightarrow> nat" where
  "left p = length (toks p)"

lemma left_skip_le [simp]: "left (skip p) \<le> left p"
  by (simp add: left_def skip_def) (meson diff_le_self le_trans length_dropWhile_le)

lemma left_skip_less: "peek p = Some t \<Longrightarrow> left (skip p) < left p"
proof -
  assume "peek p = Some t"
  then have "dropWhile is_comment (toks p) \<noteq> []"
    by (cases "dropWhile is_comment (toks p)") (simp_all add: peek_def)
  then have "length (tl (dropWhile is_comment (toks p))) < length (dropWhile is_comment (toks p))"
    by simp
  then show ?thesis
    using length_dropWhile_le [of is_comment "toks p"] by (simp add: left_def skip_def)
qed

lemma left_error [simp]: "left (p\<lparr>perror := b\<rparr>) = left p"
  by (simp add: left_def)

lemma left_draws [simp]: "left (p\<lparr>draws := n\<rparr>) = left p"
  by (simp add: left_def)

lemma left_fail [simp]: "left (snd (fail p)) = left p"
  by (simp add: fail_def)

lemma left_expectPunct [simp]: "left (snd (expectPunct s p)) \<le> left p"
  by (simp add: expectPunct_def)

lemma expectPunct_less: "fst (expectPunct s p) \<Longrightarrow> left (snd (expectPunct s p)) < left p"
  by (auto simp: expectPunct_def left_skip_less split: if_splits)

section \<open>String lists\<close>

function list_loop :: "string list \<Rightarrow> parser \<Rightarrow> string list option \<times> parser" where
  "list_loop items p =
     (case peek p of
        Some it \<Rightarrow>
          (if tk it = Quoted then
             (let p1 = skip p; items' = items @ [tv it]
              in if peek p1 = Some (Tok Punct '','') then list_loop items' (skip p1)
                 else if peek p1 = Some (Tok Punct '']'') then (Some items', skip p1)
                 else fail p1)
           else fail p)
      | None \<Rightarrow> fail p)"
  by pat_completeness auto
termination
  by (relation "measure (\<lambda>(_, p). left p)")
    (auto dest!: left_skip_less intro: le_less_trans [OF left_skip_le])

declare list_loop.simps [simp del]

definition parseStringList :: "parser \<Rightarrow> string list option \<times> parser" where
  "parseStringList p =
     (case peek p of
        None \<Rightarrow> fail p
      | Some t \<Rightarrow>
          if tk t = Quoted then (Some [tv t], skip p)
          else if t = Tok Punct ''['' then list_loop [] (skip p)
          else fail p)"

lemma left_skip_skip [simp]: "left (skip (skip p)) \<le> left p"
  by (rule le_trans [OF left_skip_le left_skip_le])

lemma left_list_loop: "left (snd (list_loop items p)) \<le> left p"
proof (induction items p rule: list_loop.induct)
  case (1 items p)
  have ih: "left (snd (list_loop (items @ [tv it]) (skip (skip p)))) \<le> left p"
    if "peek p = Some it" "tk it = Quoted" "peek (skip p) = Some (Tok Punct '','')" for it
    using "1.IH" [OF that(1,2) refl refl that(3)] left_skip_skip [of p] by (rule le_trans)
  show ?case
    by (subst list_loop.simps) (simp add: Let_def ih split: option.split)
qed

lemma left_parseStringList_le: "left (snd (parseStringList p)) \<le> left p"
  by (auto simp: parseStringList_def split: option.splits intro: le_trans [OF left_list_loop])

lemma left_parseStringList_less:
  "fst (parseStringList p) = Some xs \<Longrightarrow> left (snd (parseStringList p)) < left p"
  by (auto simp: parseStringList_def fail_def left_skip_less split: option.splits if_splits
      intro: le_less_trans [OF left_list_loop])

section \<open>Tests\<close>

record simple_test =
  stest :: sieve_test
  spart :: "address_part option"
  sop :: "cond_op option"
  sneg :: bool
  sheaders :: "string list"
  svalues :: "string list"

datatype group_kind = All | Any

datatype test_node = Simple simple_test | Group group_kind "test_node list" | TrueNode

definition op_of_annot :: "string \<Rightarrow> cond_op option" where
  "op_of_annot v =
     (if v = '':is'' then Some Is else if v = '':contains'' then Some Contains
      else if v = '':matches'' then Some Matches else None)"

definition part_of_annot :: "string \<Rightarrow> address_part option" where
  "part_of_annot v =
     (if v = '':domain'' then Some Domain else if v = '':localpart'' then Some Localpart
      else if v = '':user'' then Some UserPart else if v = '':all'' then Some NoPart else None)"

text \<open>The state of the loop: \<open>op\<close> (\<open>None\<close> is the empty string of the source) and \<open>part\<close>.\<close>

function annot_loop ::
    "cond_op option \<Rightarrow> address_part \<Rightarrow> parser \<Rightarrow> (cond_op \<times> address_part) option \<times> parser" where
  "annot_loop opr prt p =
     (case peek p of
        None \<Rightarrow> (Some (case opr of None \<Rightarrow> Is | Some x \<Rightarrow> x, prt), p)
      | Some t \<Rightarrow>
          if tk t \<noteq> Annot then (Some (case opr of None \<Rightarrow> Is | Some x \<Rightarrow> x, prt), p)
          else
            let p1 = skip p
            in (case op_of_annot (tv t) of
                  Some x \<Rightarrow> if opr \<noteq> None \<and> opr \<noteq> Some x then fail p1
                            else annot_loop (Some x) prt p1
                | None \<Rightarrow>
                    (case part_of_annot (tv t) of
                       Some y \<Rightarrow> if prt \<noteq> NoPart then fail p1 else annot_loop opr y p1
                     | None \<Rightarrow>
                         if tv t = '':comparator'' then
                           (case peek p1 of
                              Some s \<Rightarrow> if tk s = Quoted then annot_loop opr prt (skip p1)
                                        else annot_loop opr prt p1
                            | None \<Rightarrow> annot_loop opr prt p1)
                         else fail p1)))"
  by pat_completeness auto
termination
  by (relation "measure (\<lambda>(_, _, p). left p)")
    (auto dest!: left_skip_less intro: le_less_trans [OF left_skip_le])

declare annot_loop.simps [simp del]

definition parseTestAnnotations :: "parser \<Rightarrow> (cond_op \<times> address_part) option \<times> parser" where
  "parseTestAnnotations p = annot_loop None NoPart p"

lemma left_annot_loop: "left (snd (annot_loop opr prt p)) \<le> left p"
proof (induction opr prt p rule: annot_loop.induct)
  case (1 opr prt p)
  note tr = le_trans [OF _ left_skip_le [of p]] le_trans [OF _ left_skip_skip [of p]]
  show ?case
  proof (cases "peek p")
    case None
    then show ?thesis by (subst annot_loop.simps) simp
  next
    case (Some t)
    show ?thesis
    proof (cases "tk t \<noteq> Annot")
      case True
      with Some show ?thesis by (subst annot_loop.simps) simp
    next
      case False
      note ih = "1.IH" [OF Some False refl]
      note un = annot_loop.simps [of opr prt p]
      show ?thesis
      proof (cases "op_of_annot (tv t)")
        case (Some x)
        then show ?thesis
          using \<open>peek p = Some t\<close> False tr(1) [OF ih(5) [OF Some]] by (simp add: un Let_def)
      next
        case op: None
        show ?thesis
        proof (cases "part_of_annot (tv t)")
          case (Some y)
          then show ?thesis
            using \<open>peek p = Some t\<close> False op tr(1) [OF ih(4) [OF op Some]]
            by (simp add: un Let_def)
        next
          case None
          note ih' = ih(1-3) [OF op None]
          show ?thesis
            using \<open>peek p = Some t\<close> False op None tr(1) [OF ih'(1)] tr(2) [OF ih'(2)]
              tr(1) [OF ih'(3)]
            by (cases "peek (skip p)") (simp_all add: un Let_def)
        qed
      qed
    qed
  qed
qed

definition starts_list :: "tok \<Rightarrow> bool" where
  "starts_list t \<longleftrightarrow> tk t = Quoted \<or> t = Tok Punct ''[''"

function lists_loop :: "string list list \<Rightarrow> parser \<Rightarrow> string list list option \<times> parser" where
  "lists_loop lss p =
     (case peek p of
        Some t \<Rightarrow>
          (if starts_list t then
             (case parseStringList p of
                (None, p1) \<Rightarrow> (None, p1)
              | (Some s, p1) \<Rightarrow> lists_loop (lss @ [s]) p1)
           else (Some lss, p))
      | None \<Rightarrow> (Some lss, p))"
  by pat_completeness auto
termination
  by (relation "measure (\<lambda>(_, p). left p)") (auto, metis fst_conv left_parseStringList_less snd_conv)

declare lists_loop.simps [simp del]

lemma left_lists_loop: "left (snd (lists_loop lss p)) \<le> left p"
proof (induction lss p rule: lists_loop.induct)
  case (1 lss p)
  show ?case
  proof (cases "peek p")
    case None
    then show ?thesis by (subst lists_loop.simps) simp
  next
    case (Some t)
    obtain r p1 where ps: "parseStringList p = (r, p1)" by fastforce
    have le: "left p1 \<le> left p" using left_parseStringList_le [of p] ps by simp
    show ?thesis
    proof (cases "starts_list t")
      case True
      with Some ps le show ?thesis
        using "1.IH" [OF Some True]
        by (subst lists_loop.simps) (cases r, auto intro: le_trans)
    next
      case False
      with Some show ?thesis by (subst lists_loop.simps) simp
    qed
  qed
qed

text \<open>The shape check of \<open>parseSimpleTest\<close>: headers and values, or \<open>None\<close> where it sets \<open>error\<close>.\<close>

definition simple_args :: "sieve_test \<Rightarrow> string list list \<Rightarrow> (string list \<times> string list) option" where
  "simple_args name lss =
     (case name of
        TExists \<Rightarrow> (case lss of [hs] \<Rightarrow> Some (hs, []) | _ \<Rightarrow> None)
      | THeader \<Rightarrow> (case lss of
            [hs, vs] \<Rightarrow> if hs = [] \<or> vs = [] then None else Some (hs, vs)
          | _ \<Rightarrow> None)
      | _ \<Rightarrow> (case lss of
            [vs] \<Rightarrow> if vs = [] then None else Some ([], vs)
          | [hs, vs] \<Rightarrow> if vs = [] then None else Some (hs, vs)
          | _ \<Rightarrow> None))"

definition parseSimpleTest :: "sieve_test \<Rightarrow> parser \<Rightarrow> test_node option \<times> parser" where
  "parseSimpleTest name p =
     (case parseTestAnnotations (skip p) of
        (None, p1) \<Rightarrow> (None, p1)
      | (Some (opr, prt), p1) \<Rightarrow>
          (case lists_loop [] p1 of
             (None, p2) \<Rightarrow> (None, p2)
           | (Some lss, p2) \<Rightarrow>
               (case simple_args name lss of
                  None \<Rightarrow> fail p2
                | Some (hs, vs) \<Rightarrow>
                    (Some (Simple \<lparr>stest = name,
                       spart = (if name = TAddress then Some prt else None),
                       sop = Some opr, sneg = False, sheaders = hs, svalues = vs\<rparr>), p2))))"

lemma left_parseSimpleTest: "left (snd (parseSimpleTest name p)) \<le> left (skip p)"
  using left_annot_loop [of None NoPart "skip p"]
  by (auto simp: parseSimpleTest_def parseTestAnnotations_def split: prod.splits option.splits)
    (metis left_lists_loop le_trans snd_conv)+

definition simple_name :: "string \<Rightarrow> sieve_test option" where
  "simple_name v =
     (if v = ''header'' then Some THeader else if v = ''address'' then Some TAddress
      else if v = ''exists'' then Some TExists else None)"

text \<open>
  \<open>parseTest\<close> and the loop over the children of \<open>allof\<close>/\<open>anyof\<close>, with fuel; the outer \<open>None\<close>
  means that the fuel ran out.
\<close>

fun parseTest :: "nat \<Rightarrow> nat \<Rightarrow> parser \<Rightarrow> (test_node option \<times> parser) option"
  and parseChildren ::
    "nat \<Rightarrow> nat \<Rightarrow> test_node list \<Rightarrow> parser \<Rightarrow> (test_node list option \<times> parser) option" where
  "parseTest 0 neg p = None"
| "parseTest (Suc f) neg p =
     (case peek p of
        None \<Rightarrow> Some (fail p)
      | Some t \<Rightarrow>
          if t = Tok Punct ''('' then
            (case parseTest f neg (skip p) of
               None \<Rightarrow> None
             | Some (None, p1) \<Rightarrow> Some (None, p1)
             | Some (Some n, p1) \<Rightarrow>
                 (case expectPunct '')'' p1 of (ok, p2) \<Rightarrow> Some (if ok then Some n else None, p2)))
          else if tk t \<noteq> Word then Some (fail p)
          else if tv t = ''true'' then Some (Some TrueNode, skip p)
          else
            (case simple_name (tv t) of
               Some name \<Rightarrow> Some (parseSimpleTest name p)
             | None \<Rightarrow>
                 if tv t \<noteq> ''allof'' \<and> tv t \<noteq> ''anyof'' \<and> tv t \<noteq> ''not'' then Some (fail p)
                 else if tv t = ''not'' then
                   (if neg > 0 then Some (fail (skip p))
                    else
                      (case parseTest f (Suc neg) (skip p) of
                         None \<Rightarrow> None
                       | Some (Some (Simple s), p1) \<Rightarrow> Some (Some (Simple (s\<lparr>sneg := True\<rparr>)), p1)
                       | Some (_, p1) \<Rightarrow> Some (fail p1)))
                 else
                   (case expectPunct ''('' (skip p) of
                      (False, p1) \<Rightarrow> Some (None, p1)
                    | (True, p1) \<Rightarrow>
                        (case parseChildren f neg [] p1 of
                           None \<Rightarrow> None
                         | Some (None, p2) \<Rightarrow> Some (None, p2)
                         | Some (Some children, p2) \<Rightarrow>
                             (case expectPunct '')'' p2 of
                                (ok, p3) \<Rightarrow>
                                  Some (if ok then Some (Group (if tv t = ''allof'' then All else Any)
                                                  children)
                                        else None, p3))))))"
| "parseChildren 0 neg acc p = None"
| "parseChildren (Suc f) neg acc p =
     (case parseTest f neg p of
        None \<Rightarrow> None
      | Some (None, p1) \<Rightarrow> Some (None, p1)
      | Some (Some c, p1) \<Rightarrow>
          if peek p1 = Some (Tok Punct '','') then parseChildren f neg (acc @ [c]) (skip p1)
          else Some (Some (acc @ [c]), p1))"

declare parseTest.simps(2) [simp del] parseChildren.simps(2) [simp del]

text \<open>
  Fuel \<open>2 * left p + 1\<close> is always enough (\<open>parseTest_fuel\<close> below), so the last branch of
  \<open>parseTestEntry\<close> is never taken.
\<close>

definition parseTestEntry :: "parser \<Rightarrow> test_node option \<times> parser" where
  "parseTestEntry p =
     (case peek p of
        None \<Rightarrow> fail p
      | Some t \<Rightarrow>
          if tk t \<noteq> Word then fail p
          else (case parseTest (2 * left p + 1) 0 p of Some r \<Rightarrow> r | None \<Rightarrow> fail p))"

text \<open>The turns of \<open>parseTest\<close>, by the token in front.\<close>

lemma parseTest_none: "peek p = None \<Longrightarrow> parseTest (Suc f) neg p = Some (fail p)"
  by (simp add: parseTest.simps(2))

lemma parseTest_paren:
  "peek p = Some (Tok Punct ''('') \<Longrightarrow> parseTest (Suc f) neg p =
     (case parseTest f neg (skip p) of
        None \<Rightarrow> None
      | Some (None, p1) \<Rightarrow> Some (None, p1)
      | Some (Some n, p1) \<Rightarrow>
          (case expectPunct '')'' p1 of (ok, p2) \<Rightarrow> Some (if ok then Some n else None, p2)))"
  by (simp add: parseTest.simps(2))

lemma parseTest_not_word:
  "peek p = Some t \<Longrightarrow> t \<noteq> Tok Punct ''('' \<Longrightarrow> tk t \<noteq> Word \<Longrightarrow>
     parseTest (Suc f) neg p = Some (fail p)"
  by (simp add: parseTest.simps(2))

lemma parseTest_true:
  "peek p = Some (Tok Word ''true'') \<Longrightarrow> parseTest (Suc f) neg p = Some (Some TrueNode, skip p)"
  by (simp add: parseTest.simps(2))

lemma simple_name_not_true: "simple_name w = Some n \<Longrightarrow> w \<noteq> ''true''"
  by (auto simp: simple_name_def)

lemma parseTest_simple:
  "peek p = Some (Tok Word w) \<Longrightarrow> simple_name w = Some n \<Longrightarrow>
     parseTest (Suc f) neg p = Some (parseSimpleTest n p)"
  using simple_name_not_true [of w n] by (simp add: parseTest.simps(2))

lemma parseTest_unsupported:
  "peek p = Some (Tok Word w) \<Longrightarrow> simple_name w = None \<Longrightarrow>
     w \<notin> {''true'', ''allof'', ''anyof'', ''not''} \<Longrightarrow> parseTest (Suc f) neg p = Some (fail p)"
  by (simp add: parseTest.simps(2))

lemma parseTest_not:
  "peek p = Some (Tok Word ''not'') \<Longrightarrow> parseTest (Suc f) neg p =
     (if neg > 0 then Some (fail (skip p))
      else
        (case parseTest f (Suc neg) (skip p) of
           None \<Rightarrow> None
         | Some (Some (Simple s), p1) \<Rightarrow> Some (Some (Simple (s\<lparr>sneg := True\<rparr>)), p1)
         | Some (_, p1) \<Rightarrow> Some (fail p1)))"
  by (simp add: parseTest.simps(2) simple_name_def)

definition group_name :: "group_kind \<Rightarrow> string" where
  "group_name k = (case k of All \<Rightarrow> ''allof'' | Any \<Rightarrow> ''anyof'')"

lemma parseTest_group:
  "peek p = Some (Tok Word (group_name k)) \<Longrightarrow> parseTest (Suc f) neg p =
     (case expectPunct ''('' (skip p) of
        (False, p1) \<Rightarrow> Some (None, p1)
      | (True, p1) \<Rightarrow>
          (case parseChildren f neg [] p1 of
             None \<Rightarrow> None
           | Some (None, p2) \<Rightarrow> Some (None, p2)
           | Some (Some children, p2) \<Rightarrow>
               (case expectPunct '')'' p2 of
                  (ok, p3) \<Rightarrow> Some (if ok then Some (Group k children) else None, p3))))"
  by (induct k) (simp_all add: parseTest.simps(2) simple_name_def group_name_def)

lemma test_token_cases:
  obtains (none) "peek p = None"
    | (paren) "peek p = Some (Tok Punct ''('')"
    | (not_word) t where "peek p = Some t" "t \<noteq> Tok Punct ''(''" "tk t \<noteq> Word"
    | (true) "peek p = Some (Tok Word ''true'')"
    | (simple) w n where "peek p = Some (Tok Word w)" "simple_name w = Some n"
    | (unsupported) w where "peek p = Some (Tok Word w)" "simple_name w = None"
        "w \<notin> {''true'', ''allof'', ''anyof'', ''not''}"
    | (neg) "peek p = Some (Tok Word ''not'')"
    | (group) k where "peek p = Some (Tok Word (group_name k))"
proof (cases "peek p")
  case None
  then show thesis by (rule none)
next
  case (Some t)
  show thesis
  proof (cases "tk t = Word")
    case False
    with Some show thesis by (cases "t = Tok Punct ''(''") (auto intro: paren not_word)
  next
    case True
    then obtain w where t: "t = Tok Word w" by (cases t) auto
    show thesis
    proof (cases "simple_name w")
      case None
      show thesis
      proof (cases "w \<in> {''true'', ''allof'', ''anyof'', ''not''}")
        case True
        then consider "w = ''true''" | "w = group_name All" | "w = group_name Any" | "w = ''not''"
          by (auto simp: group_name_def)
        then show thesis using Some t true neg group by cases simp_all
      next
        case False
        with Some t None show thesis by (simp add: unsupported)
      qed
    next
      case (Some n)
      with \<open>peek p = Some t\<close> t show thesis by (simp add: simple)
    qed
  qed
qed

lemma expectPunct_le: "expectPunct s q = (b, q') \<Longrightarrow> left q' \<le> left q"
  by (metis left_expectPunct snd_conv)

lemma skip_leD: "n \<le> left (skip p) \<Longrightarrow> n \<le> left p"
  by (rule le_trans [OF _ left_skip_le])

lemma fail_le: "fail q = (x, q') \<Longrightarrow> left q' \<le> left q"
  by (auto simp: fail_def)

lemma parse_left:
  "parseTest f neg p = Some (r, p') \<Longrightarrow> left p' \<le> left p"
  "parseChildren f neg acc p = Some (rs, p') \<Longrightarrow> left p' \<le> left p"
proof (induction f arbitrary: neg p r p' acc rs)
  case (Suc f)
  {
    case 1
    show ?case
    proof (cases p rule: test_token_cases)
      case none
      with 1 show ?thesis by (simp add: parseTest_none fail_le)
    next
      case paren
      with 1 show ?thesis
        by (auto simp: parseTest_paren split: option.splits prod.splits
            dest!: Suc.IH(1) expectPunct_le intro: le_trans left_skip_le)
    next
      case not_word
      with 1 show ?thesis by (simp add: parseTest_not_word fail_le)
    next
      case true
      with 1 show ?thesis by (auto simp: parseTest_true)
    next
      case (simple w n)
      with 1 show ?thesis
        using le_trans [OF left_parseSimpleTest [of n p] left_skip_le [of p]]
        by (simp add: parseTest_simple)
    next
      case unsupported
      with 1 show ?thesis by (simp add: parseTest_unsupported fail_le)
    next
      case neg
      with 1 show ?thesis
        by (auto simp: parseTest_not split: option.splits prod.splits if_splits test_node.splits
            dest!: Suc.IH(1) fail_le intro: le_trans left_skip_le)
    next
      case (group k)
      with 1 show ?thesis
        by (auto simp: parseTest_group split: option.splits prod.splits bool.splits
            dest!: Suc.IH(2) expectPunct_le) (use left_skip_le [of p] in linarith)+
    qed
  next
    case 2
    then show ?case
      by (auto simp: parseChildren.simps(2) split: option.splits prod.splits if_splits
          dest!: Suc.IH skip_leD)
  }
qed simp_all

text \<open>Enough fuel: the two functions always return within \<open>2 * left p + 1\<close> calls.\<close>

lemma parse_fuel:
  "2 * left p + 1 \<le> f \<Longrightarrow> \<exists>r p'. parseTest f neg p = Some (r, p')"
  "2 * left p + 2 \<le> f \<Longrightarrow> \<exists>r p'. parseChildren f neg acc p = Some (r, p')"
proof (induction f arbitrary: neg p acc)
  case (Suc f)
  {
    case 1
    have sub: "\<exists>r p'. parseTest f n (skip p) = Some (r, p')" if "peek p = Some t" for n t
      using Suc.IH(1) [of "skip p"] left_skip_less [OF that] 1 by simp
    show ?case
    proof (cases p rule: test_token_cases)
      case none
      then show ?thesis by (simp add: parseTest_none fail_def)
    next
      case paren
      obtain r p1 where "parseTest f neg (skip p) = Some (r, p1)"
        using sub [OF paren] by blast
      with paren show ?thesis
        by (cases r) (auto simp: parseTest_paren split: prod.splits)
    next
      case not_word
      then show ?thesis by (simp add: parseTest_not_word fail_def)
    next
      case true
      then show ?thesis by (simp add: parseTest_true)
    next
      case (simple w n)
      then show ?thesis by (cases "parseSimpleTest n p") (simp add: parseTest_simple)
    next
      case unsupported
      then show ?thesis by (simp add: parseTest_unsupported fail_def)
    next
      case neg
      obtain r p1 where "parseTest f (Suc 0) (skip p) = Some (r, p1)"
        using sub [OF neg] by blast
      with neg show ?thesis
        by (auto simp: parseTest_not fail_def split: option.splits test_node.splits)
    next
      case (group k)
      show ?thesis
      proof (cases "expectPunct ''('' (skip p)")
        case (Pair ok p1)
        show ?thesis
        proof (cases ok)
          case True
          have "left p1 < left (skip p)"
            using expectPunct_less [of "''(''" "skip p"] Pair True by simp
          then obtain rs p2 where ch: "parseChildren f neg [] p1 = Some (rs, p2)"
            using Suc.IH(2) [of p1] left_skip_less [OF group] 1 by fastforce
          obtain ok2 p3 where "expectPunct '')'' p2 = (ok2, p3)" by fastforce
          with ch Pair True group show ?thesis
            by (cases rs) (simp_all add: parseTest_group)
        next
          case False
          with Pair group show ?thesis by (simp add: parseTest_group)
        qed
      qed
    qed
  next
    case 2
    obtain r p1 where t: "parseTest f neg p = Some (r, p1)"
      using Suc.IH(1) [of p] 2 by fastforce
    show ?case
    proof (cases "r \<noteq> None \<and> peek p1 = Some (Tok Punct '','')")
      case True
      then have "left (skip p1) < left p"
        using left_skip_less parse_left(1) [OF t] by fastforce
      then have "\<exists>rs p'. parseChildren f neg (acc @ [the r]) (skip p1) = Some (rs, p')"
        using Suc.IH(2) [of "skip p1"] 2 by simp
      with t True show ?thesis by (auto simp: parseChildren.simps(2))
    next
      case False
      with t show ?thesis by (auto simp: parseChildren.simps(2) split: option.splits)
    qed
  }
qed simp_all

lemma left_parseTestEntry: "left (snd (parseTestEntry p)) \<le> left p"
proof -
  obtain r p' where "parseTest (2 * left p + 1) 0 p = Some (r, p')"
    using parse_fuel(1) [of p "2 * left p + 1" 0] by blast
  then show ?thesis
    using parse_left(1) by (auto simp: parseTestEntry_def split: option.split)
qed

section \<open>Commands\<close>

function args_loop ::
    "string list \<Rightarrow> string list \<Rightarrow> parser \<Rightarrow> (string list \<times> string list) option \<times> parser" where
  "args_loop annots strs p =
     (case peek p of
        None \<Rightarrow> fail p
      | Some t \<Rightarrow>
          if tk t = Annot then args_loop (annots @ [tv t]) strs (skip p)
          else if starts_list t then
            (case parseStringList p of
               (None, p1) \<Rightarrow> (None, p1)
             | (Some s, p1) \<Rightarrow> args_loop annots (strs @ s) p1)
          else if t = Tok Punct '';'' then (Some (annots, strs), skip p)
          else fail p)"
  by pat_completeness auto
termination
  by (relation "measure (\<lambda>(_, _, p). left p)")
    (auto simp: left_skip_less, metis fst_conv left_parseStringList_less snd_conv)

declare args_loop.simps [simp del]

lemma left_args_loop: "left (snd (args_loop annots strs p)) \<le> left p"
proof (induction annots strs p rule: args_loop.induct)
  case (1 annots strs p)
  show ?case
  proof (cases "peek p")
    case None
    then show ?thesis by (subst args_loop.simps) simp
  next
    case (Some t)
    obtain r p1 where ps: "parseStringList p = (r, p1)" by fastforce
    have le: "left p1 \<le> left p" using left_parseStringList_le [of p] ps by simp
    show ?thesis
    proof (cases "tk t = Annot \<or> \<not> starts_list t")
      case True
      with Some "1.IH"(1) [OF Some] show ?thesis
        by (subst args_loop.simps) (auto intro: skip_leD)
    next
      case False
      then have "tk t \<noteq> Annot" "starts_list t" by auto
      note ih = "1.IH"(2) [OF Some this]
      with Some ps le \<open>tk t \<noteq> Annot\<close> \<open>starts_list t\<close> show ?thesis
        by (subst args_loop.simps) (cases r, auto intro: le_trans)
    qed
  qed
qed

text \<open>\<open>f.replace(/^\\+/, '\')\<close>: a run of backslashes at the start becomes one.\<close>

definition one_backslash :: "string \<Rightarrow> string" where
  "one_backslash f =
     (if f \<noteq> [] \<and> hd f = bslash then bslash # dropWhile (\<lambda>c. c = bslash) f else f)"

definition blank_action :: "string \<Rightarrow> action_type \<Rightarrow> sieve_action" where
  "blank_action i ty = \<lparr>act_id = i, atype = ty, mailbox = None, copy = None, address = None,
     rtext = None, flag = None\<rparr>"

text \<open>
  The switch at the end of \<open>parseCommand\<close>: the action but for its id, or \<open>None\<close> where the
  source sets \<open>error\<close>.
\<close>

definition command_action :: "string \<Rightarrow> bool \<Rightarrow> string list \<Rightarrow> (string \<Rightarrow> sieve_action) option" where
  "command_action name cp strs =
     (if name = ''fileinto'' then
        (if strs = [] then None
         else Some (\<lambda>i. (blank_action i Fileinto)\<lparr>mailbox := Some (join '','' strs), copy := Some cp\<rparr>))
      else if name = ''redirect'' then
        (case strs of [s] \<Rightarrow> Some (\<lambda>i. (blank_action i Redirect)\<lparr>address := Some s\<rparr>) | _ \<Rightarrow> None)
      else if name = ''reject'' \<or> name = ''ereject'' then
        (case strs of [s] \<Rightarrow> Some (\<lambda>i. (blank_action i Reject)\<lparr>rtext := Some s\<rparr>) | _ \<Rightarrow> None)
      else if name = ''discard'' then Some (\<lambda>i. blank_action i Discard)
      else if name = ''keep'' then Some (\<lambda>i. blank_action i Keep)
      else if name = ''stop'' then Some (\<lambda>i. blank_action i Stop)
      else if name = ''setflag'' \<or> name = ''addflag'' \<or> name = ''removeflag'' then
        (if strs = [] then None
         else Some (\<lambda>i. (blank_action i
                (if name = ''setflag'' then Setflag else if name = ''addflag'' then Addflag
                 else Removeflag))
              \<lparr>flag := Some (join '','' (map one_backslash strs))\<rparr>))
      else None)"

definition parseCommand :: "(nat \<Rightarrow> string) \<Rightarrow> parser \<Rightarrow> sieve_action option \<times> parser" where
  "parseCommand u p =
     (case next_tok p of
        (None, p1) \<Rightarrow> fail p1
      | (Some nameTok, p1) \<Rightarrow>
          if tk nameTok \<noteq> Word then fail p1
          else
            (case args_loop [] [] p1 of
               (None, p2) \<Rightarrow> (None, p2)
             | (Some (annots, strs), p2) \<Rightarrow>
                 if list_ex (\<lambda>a. a \<noteq> '':copy'') annots then fail p2
                 else
                   (case command_action (tv nameTok) ('':copy'' \<in> set annots) strs of
                      None \<Rightarrow> fail p2
                    | Some mk \<Rightarrow> (case uid u p2 of (i, p3) \<Rightarrow> (Some (mk i), p3)))))"

lemma left_parseCommand_skip: "left (snd (parseCommand u p)) \<le> left (skip p)"
proof -
  have "left p2 \<le> left (skip p)" if "args_loop [] [] (skip p) = (x, p2)" for x p2
    using left_args_loop [of "[]" "[]" "skip p"] that by simp
  then show ?thesis
    by (auto simp: parseCommand_def next_tok_def fail_def uid_def split: option.splits prod.splits)
qed

text \<open>A block: its actions and the flag \<open>nested\<close>.  The loop only runs while \<open>error\<close> is unset.\<close>

function block_loop ::
    "(nat \<Rightarrow> string) \<Rightarrow> sieve_action list \<Rightarrow> parser \<Rightarrow> (sieve_action list \<times> bool) option \<times> parser" where
  "block_loop u acts p =
     (if perror p then (None, p)
      else
        (case peek p of
           None \<Rightarrow> (None, p)
         | Some t \<Rightarrow>
             if t = Tok Punct ''}'' then (Some (acts, False), skip p)
             else if tk t = Word \<and> tv t \<in> {''if'', ''elsif'', ''else''} then (Some (acts, True), p)
             else if tk t \<noteq> Word then fail p
             else
               (case parseCommand u p of
                  (None, p1) \<Rightarrow> (None, p1)
                | (Some cmd, p1) \<Rightarrow> block_loop u (acts @ [cmd]) p1)))"
  by pat_completeness auto
termination
  by (relation "measure (\<lambda>(_, _, p). left p)")
    (auto, metis left_parseCommand_skip left_skip_less le_less_trans snd_conv)

declare block_loop.simps [simp del]

definition parseBlock ::
    "(nat \<Rightarrow> string) \<Rightarrow> parser \<Rightarrow> (sieve_action list \<times> bool) option \<times> parser" where
  "parseBlock u p =
     (case expectPunct ''{'' p of
        (False, p1) \<Rightarrow> (None, p1)
      | (True, p1) \<Rightarrow> block_loop u [] p1)"

lemma left_block_loop: "left (snd (block_loop u acts p)) \<le> left p"
proof (induction u acts p rule: block_loop.induct)
  case (1 u acts p)
  obtain r p1 where pc: "parseCommand u p = (r, p1)" by fastforce
  then have le: "left p1 \<le> left p"
    using left_parseCommand_skip [of u p] skip_leD by fastforce
  show ?case
  proof (cases "peek p")
    case None
    then show ?thesis by (subst block_loop.simps) simp
  next
    case (Some t)
    note ih = "1.IH" [OF _ Some]
    show ?thesis
      using Some pc le ih
      by (subst block_loop.simps) (cases r, auto intro: le_trans)
  qed
qed

lemma left_parseBlock: "left (snd (parseBlock u p)) \<le> left p"
  by (auto simp: parseBlock_def split: prod.splits bool.splits
      dest!: expectPunct_le intro: le_trans [OF left_block_loop])

section \<open>From test trees to conditions\<close>

text \<open>
  \<open>simpleToConditions\<close> draws one id for \<open>base\<close> (which every condition overwrites) and one per
  condition.  \<open>d\<close> is the number of ids drawn so far.
\<close>

definition simpleToConditions ::
    "(nat \<Rightarrow> string) \<Rightarrow> nat \<Rightarrow> simple_test \<Rightarrow> sieve_condition list \<times> nat" where
  "simpleToConditions u d s =
     (let vals = (if stest s = TExists then [[]] else svalues s)
      in (map (\<lambda>(k, v). \<lparr>cond_id = u (d + 1 + k), test = stest s,
              part = (case spart s of None \<Rightarrow> NoPart | Some x \<Rightarrow> x),
              cop = (case sop s of None \<Rightarrow> Is | Some x \<Rightarrow> x),
              negated = sneg s, hdr = join '','' (sheaders s), val = v\<rparr>) (enumerate 0 vals),
          d + 1 + length vals))"

type_synonym flat = "rule_join \<times> sieve_condition list"

text \<open>One turn of the loop over the children: what the child adds, or \<open>None\<close> for \<open>return null\<close>.\<close>

definition child_conds :: "group_kind \<Rightarrow> nat \<Rightarrow> flat \<Rightarrow> sieve_condition list option" where
  "child_conds k n f =
     (case f of (j, cs) \<Rightarrow>
        if length cs > 1 \<and> j = Allof then None
        else if k = Any then (if j = Allof then Some cs else if n = 1 then Some cs else None)
        else if length cs \<noteq> 1 then None else Some [hd cs])"

fun flattenTest :: "(nat \<Rightarrow> string) \<Rightarrow> nat \<Rightarrow> test_node \<Rightarrow> flat option \<times> nat"
  and flattenChildren ::
    "(nat \<Rightarrow> string) \<Rightarrow> nat \<Rightarrow> group_kind \<Rightarrow> nat \<Rightarrow> sieve_condition list \<Rightarrow> test_node list
     \<Rightarrow> flat option \<times> nat" where
  "flattenTest u d TrueNode =
     (Some (Allof, [\<lparr>cond_id = u d, test = TTrue, part = NoPart, cop = Is, negated = False,
                     hdr = [], val = []\<rparr>]), Suc d)"
| "flattenTest u d (Simple s) =
     (case simpleToConditions u d s of
        (conds, d1) \<Rightarrow> (Some (if length conds > 1 then Anyof else Allof, conds), d1))"
| "flattenTest u d (Group k children) = flattenChildren u d k (length children) [] children"
| "flattenChildren u d k n acc [] =
     (Some (if k = All then Allof else Anyof, acc), d)"
| "flattenChildren u d k n acc (c # cs) =
     (case flattenTest u d c of
        (None, d1) \<Rightarrow> (None, d1)
      | (Some f, d1) \<Rightarrow>
          (case child_conds k n f of
             None \<Rightarrow> (None, d1)
           | Some new \<Rightarrow> flattenChildren u d1 k n (acc @ new) cs))"

section \<open>Rule names\<close>

text \<open>
  The match of the name pattern behind \<open>rule:\<close>, with the backtracking of the engine: the
  group takes the text up to the next closing bracket; where that is empty, the optional
  opening bracket and then the white space are given back.
\<close>

definition rule_name_at :: "string \<Rightarrow> string option" where
  "rule_name_at s =
     (let ws = takeWhile is_ws s;
          r = dropWhile is_ws s;
          nm = (\<lambda>x. takeWhile (\<lambda>c. c \<noteq> CHR '']'') x)
      in if r \<noteq> [] \<and> hd r = CHR ''['' \<and> nm (tl r) \<noteq> [] then Some (nm (tl r))
         else if nm r \<noteq> [] then Some (nm r)
         else if ws \<noteq> [] then Some [last ws]
         else None)"

fun rule_name :: "string \<Rightarrow> string option" where
  "rule_name [] = None"
| "rule_name (c # cs) =
     (if prefix ''rule:'' (to_lower (c # cs)) \<and> rule_name_at (drop 5 (c # cs)) \<noteq> None
      then rule_name_at (drop 5 (c # cs))
      else rule_name cs)"

section \<open>The main loop\<close>

definition block_ok :: "(sieve_action list \<times> bool) \<Rightarrow> parser \<Rightarrow> bool" where
  "block_ok blk p \<longleftrightarrow>
     \<not> (case peek p of Some t \<Rightarrow> tk t = Word \<and> tv t \<in> {''elsif'', ''else''} | None \<Rightarrow> False)
     \<and> \<not> snd blk"

text \<open>
  The branch of the loop for \<open>if\<close>, from behind the keyword: the new rule, or \<open>None\<close> for \<open>break\<close>.
\<close>

definition parseIf ::
    "(nat \<Rightarrow> string) \<Rightarrow> string \<Rightarrow> parser \<Rightarrow> sieve_rule option \<times> parser" where
  "parseIf u name p =
     (case parseTestEntry p of
        (None, p1) \<Rightarrow> (None, p1)
      | (Some expr, p1) \<Rightarrow>
          (case parseBlock u p1 of
             (None, p2) \<Rightarrow> (None, p2)
           | (Some blk, p2) \<Rightarrow>
               if \<not> block_ok blk p2 then fail p2
               else
                 (case flattenTest u (draws p2) expr of
                    (None, d) \<Rightarrow> fail (p2\<lparr>draws := d\<rparr>)
                  | (Some (j, conds), d) \<Rightarrow>
                      (case uid u (p2\<lparr>draws := d\<rparr>) of
                         (i, p3) \<Rightarrow>
                           (Some \<lparr>rule_id = i, rname = name, enabled = True, conditionJoin = j,
                              conditions = conds, actions = fst blk\<rparr>, p3)))))"

definition unconditional :: "(nat \<Rightarrow> string) \<Rightarrow> parser \<Rightarrow> sieve_rule option \<times> parser" where
  "unconditional u p =
     (case parseCommand u p of
        (None, p1) \<Rightarrow> (None, p1)
      | (Some cmd, p1) \<Rightarrow>
          (case uid u p1 of
             (i, p2) \<Rightarrow>
               (Some \<lparr>rule_id = i, rname = ''Unconditional actions'', enabled = True,
                  conditionJoin = Allof, conditions = [], actions = [cmd]\<rparr>, p2)))"

lemma left_parseIf: "left (snd (parseIf u name p)) \<le> left p"
proof -
  obtain e p1 where e: "parseTestEntry p = (e, p1)" by fastforce
  obtain b p2 where b: "parseBlock u p1 = (b, p2)" by fastforce
  have "left p1 \<le> left p" "left p2 \<le> left p1"
    using left_parseTestEntry [of p] left_parseBlock [of u p1] e b by simp_all
  then show ?thesis
    by (simp add: parseIf_def e b fail_def uid_def split: option.split prod.split)
qed

lemma left_unconditional: "peek p = Some t \<Longrightarrow> left (snd (unconditional u p)) < left p"
  using left_parseCommand_skip [of u p] left_skip_less [of p t]
  by (auto simp: unconditional_def uid_def split: option.split prod.split)

lemma left_skip_lt_trans: "left p1 < n \<Longrightarrow> left (skip p1) < n"
  by (rule le_less_trans [OF left_skip_le])

lemma parseStringList_shrinks:
  "(r, p1) = parseStringList (skip p) \<Longrightarrow> peek p = Some t \<Longrightarrow> left p1 < left p"
  by (metis left_parseStringList_le left_skip_less le_less_trans snd_conv)

lemma parseIf_shrinks:
  "(r, p1) = parseIf u name (skip p) \<Longrightarrow> peek p = Some t \<Longrightarrow> left p1 < left p"
  by (metis left_parseIf left_skip_less le_less_trans snd_conv)

lemma unconditional_shrinks:
  "(r, p1) = unconditional u p \<Longrightarrow> peek p = Some t \<Longrightarrow> left p1 < left p"
  by (metis left_unconditional snd_conv)

text \<open>
  \<open>parse_loop u rules lst p\<close> is the loop of \<open>parse\<close> with the rules found so far and
  \<open>lastComment\<close>; a \<open>break\<close> returns the current state.
\<close>

function parse_loop ::
    "(nat \<Rightarrow> string) \<Rightarrow> sieve_rule list \<Rightarrow> string \<Rightarrow> parser \<Rightarrow> sieve_rule list \<times> parser" where
  "parse_loop u rules lst p =
     (if toks p = [] \<or> perror p then (rules, p)
      else
        (case peek p of
           None \<Rightarrow> (rules, p)
         | Some t \<Rightarrow>
             if tk (hd (toks p)) = Comment then
               parse_loop u rules
                 (if starts_with (tv (hd (toks p))) ''rule:'' then tv (hd (toks p)) else lst)
                 (p\<lparr>toks := tl (toks p)\<rparr>)
             else if t = Tok Word ''require'' then
               (case parseStringList (skip p) of
                  (None, p1) \<Rightarrow> (rules, p1)
                | (Some _, p1) \<Rightarrow>
                    parse_loop u rules lst (if peek p1 = Some (Tok Punct '';'') then skip p1 else p1))
             else if t = Tok Word ''if'' then
               (case parseIf u (case rule_name lst of
                                  Some nm \<Rightarrow> trim nm
                                | None \<Rightarrow> ''Rule '' @ nat_str (length rules + 1)) (skip p) of
                  (None, p1) \<Rightarrow> (rules, p1)
                | (Some r, p1) \<Rightarrow> parse_loop u (rules @ [r]) [] p1)
             else if tk t = Word then
               (case unconditional u p of
                  (None, p1) \<Rightarrow> (rules, p1)
                | (Some r, p1) \<Rightarrow> parse_loop u (rules @ [r]) lst p1)
             else (rules, p\<lparr>perror := True\<rparr>)))"
  by pat_completeness auto
termination
proof (relation "measure (\<lambda>(_, _, _, p). left p)", goal_cases)
  case (2 u rules lst p t)
  then show ?case by (simp add: left_def)
qed (auto dest: parseStringList_shrinks parseIf_shrinks unconditional_shrinks left_skip_less
      intro!: left_skip_lt_trans)

declare parse_loop.simps [simp del]

definition parse :: "(nat \<Rightarrow> string) \<Rightarrow> parser \<Rightarrow> sieve_rule list option" where
  "parse u p = (case parse_loop u [] [] p of (rules, p') \<Rightarrow> if perror p' then None else Some rules)"

text \<open>The test for a line that starts with \<open>if\<close> on the source text, in any case.\<close>

definition if_at :: "string \<Rightarrow> bool" where
  "if_at s =
     (let r = to_lower (dropWhile is_ws s)
      in prefix ''if'' r \<and> length r > 2 \<and> is_ws (r ! 2))"

fun mentions_if_from :: "string \<Rightarrow> bool" where
  "mentions_if_from [] = False"
| "mentions_if_from (c # cs) = ((c = nl \<and> if_at cs) \<or> mentions_if_from cs)"

definition mentions_if :: "string \<Rightarrow> bool" where
  "mentions_if s \<longleftrightarrow> if_at s \<or> mentions_if_from s"

definition init_parser :: "tok list \<Rightarrow> parser" where
  "init_parser ts = \<lparr>toks = ts, perror = False, draws = 0\<rparr>"

definition sieveToRules :: "(nat \<Rightarrow> string) \<Rightarrow> string \<Rightarrow> sieve_rule list option" where
  "sieveToRules u sieve =
     (case tokenize sieve of
        None \<Rightarrow> None
      | Some ts \<Rightarrow>
          if ts = [] then None
          else
            (case parse u (init_parser ts) of
               None \<Rightarrow> None
             | Some rules \<Rightarrow> if rules = [] \<and> mentions_if sieve then None else Some rules))"

end
