(* ===== verification/SieveRoundTrip.thy ===== *)
theory SieveRoundTrip
  imports SieveParse
begin

text \<open>
  The generator and the parser agree: the script generated from canonical rules is read back
  as the same rules, up to the ids the parser draws.  The proof goes through the tokens of a
  generated script: first the lexer is shown to yield them piece by piece, then the parser is
  run on them.
\<close>

section \<open>Canonical rules\<close>

definition canon_list :: "string \<Rightarrow> bool" where
  "canon_list s \<longleftrightarrow> splitList (Some s) \<noteq> [] \<and> join '','' (splitList (Some s)) = s"

definition canon_cond :: "sieve_condition \<Rightarrow> bool" where
  "canon_cond c \<longleftrightarrow>
     (case test c of
        TTrue \<Rightarrow> \<not> negated c \<and> part c = NoPart \<and> cop c = Is \<and> hdr c = [] \<and> val c = []
      | TExists \<Rightarrow> part c = NoPart \<and> cop c = Is \<and> val c = [] \<and> canon_list (hdr c)
      | TAddress \<Rightarrow> hdr c = [] \<or> canon_list (hdr c)
      | THeader \<Rightarrow> part c = NoPart \<and> canon_list (hdr c))"

definition canon_opt :: "string option \<Rightarrow> bool" where
  "canon_opt so \<longleftrightarrow> (case so of None \<Rightarrow> False | Some s \<Rightarrow> canon_list s)"

definition canon_action :: "sieve_action \<Rightarrow> bool" where
  "canon_action a \<longleftrightarrow>
     (atype a = Fileinto \<longrightarrow> canon_opt (mailbox a)) \<and> (atype a = Fileinto \<longleftrightarrow> mailbox a \<noteq> None)
     \<and> (atype a = Fileinto \<longleftrightarrow> copy a \<noteq> None)
     \<and> (atype a = Redirect \<longleftrightarrow> address a \<noteq> None) \<and> address a \<noteq> Some []
     \<and> (atype a = Reject \<longleftrightarrow> rtext a \<noteq> None) \<and> rtext a \<noteq> Some []
     \<and> (atype a \<in> {Setflag, Addflag, Removeflag} \<longleftrightarrow> flag a \<noteq> None)
     \<and> (flag a \<noteq> None \<longrightarrow> canon_opt (flag a)
          \<and> list_all (\<lambda>f. one_backslash f = f) (splitList (flag a)))"

definition canon_name :: "string \<Rightarrow> bool" where
  "canon_name n \<longleftrightarrow> n \<noteq> [] \<and> trim n = n \<and> CHR '']'' \<notin> set n \<and> nl \<notin> set n"

definition canon_rule :: "sieve_rule \<Rightarrow> bool" where
  "canon_rule r \<longleftrightarrow>
     enabled r \<and> canon_name (rname r)
     \<and> conditions r \<noteq> [] \<and> list_all canon_cond (conditions r)
     \<and> (length (conditions r) = 1 \<longrightarrow> conditionJoin r = Allof)
     \<and> list_all canon_action (actions r)
     \<and> (list_ex is_terminal (actions r) \<longrightarrow> list_ex (\<lambda>a. atype a = Stop) (actions r))"

text \<open>Rules without their ids.\<close>

definition strip_cond :: "sieve_condition \<Rightarrow> sieve_condition" where
  "strip_cond c = c\<lparr>cond_id := []\<rparr>"

definition strip_action :: "sieve_action \<Rightarrow> sieve_action" where
  "strip_action a = a\<lparr>act_id := []\<rparr>"

definition strip_rule :: "sieve_rule \<Rightarrow> sieve_rule" where
  "strip_rule r = r\<lparr>rule_id := [], conditions := map strip_cond (conditions r),
     actions := map strip_action (actions r)\<rparr>"

section \<open>Tokens of generated text\<close>

fun sep_toks :: "string list \<Rightarrow> tok list" where
  "sep_toks [] = []"
| "sep_toks [x] = [Tok Quoted x]"
| "sep_toks (x # y # ys) = Tok Quoted x # Tok Punct '','' # sep_toks (y # ys)"

definition list_toks :: "string list \<Rightarrow> tok list" where
  "list_toks hs =
     (case hs of [x] \<Rightarrow> [Tok Quoted x]
      | _ \<Rightarrow> Tok Punct ''['' # sep_toks hs @ [Tok Punct '']''])"

definition core_toks :: "sieve_condition \<Rightarrow> tok list" where
  "core_toks c =
     (let headers = splitList (Some (hdr c))
      in case test c of
           TTrue \<Rightarrow> [Tok Word ''true'']
         | TExists \<Rightarrow> Tok Word ''exists'' # list_toks headers
         | TAddress \<Rightarrow>
             Tok Word ''address''
             # (if part c \<noteq> NoPart then [Tok Annot ('':'' @ part_str (part c))] else [])
             @ [Tok Annot ('':'' @ op_str (cop c))]
             @ (if headers \<noteq> [] then list_toks headers else []) @ [Tok Quoted (val c)]
         | THeader \<Rightarrow>
             Tok Word ''header'' # Tok Annot ('':'' @ op_str (cop c)) # list_toks headers
             @ [Tok Quoted (val c)])"

definition cond_toks :: "sieve_condition \<Rightarrow> tok list" where
  "cond_toks c = (if negated c then [Tok Word ''not''] else []) @ core_toks c"

definition action_toks :: "sieve_action \<Rightarrow> tok list" where
  "action_toks a =
     Tok Word (action_str (atype a))
     # (case atype a of
          Fileinto \<Rightarrow> (if copy a = Some True then [Tok Annot '':copy''] else [])
                      @ list_toks (splitList (mailbox a))
        | Redirect \<Rightarrow> [Tok Quoted (opt_string (address a))]
        | Reject \<Rightarrow> [Tok Quoted (or_else (opt_string (rtext a)) ''Rejected'')]
        | Discard \<Rightarrow> [] | Keep \<Rightarrow> [] | Stop \<Rightarrow> []
        | _ \<Rightarrow> list_toks (splitList (flag a)))"

lemma lexes_word_lit: "is_word w \<Longrightarrow> lexes s ts \<Longrightarrow> lexes (w @ '' '' @ s) (Tok Word w # ts)"
  using lexes_append [OF lexes_word_space] by fastforce

lemma lexes_Cons_piece: "lexes [c] ts \<Longrightarrow> lexes s ts' \<Longrightarrow> lexes (c # s) (ts @ ts')"
  using lexes_append [of "[c]" ts s ts'] by simp

lemma lexes_cons:
  "lexes s ts \<Longrightarrow> lexes (CHR '' '' # s) ts"
  "lexes s ts \<Longrightarrow> lexes (nl # s) ts"
  "c \<in> set ''}(),;[]'' \<Longrightarrow> lexes s ts \<Longrightarrow> lexes (c # s) (Tok Punct [c] # ts)"
  using lexes_Cons_piece [OF lexes_space] lexes_Cons_piece [OF lexes_nl]
    lexes_Cons_piece [OF lexes_punct] by fastforce+

lemma lexes_quoted_append: "lexes s ts \<Longrightarrow> lexes (quoted x @ s) (Tok Quoted x # ts)"
  using lexes_append [OF lexes_quoted] by fastforce

lemma lexes_sep_toks: "lexes (join '','' (map quoted hs)) (sep_toks hs)"
  by (induction hs rule: sep_toks.induct)
    (auto intro!: lexes_quoted lexes_quoted_append lexes_cons)

lemma lexes_list: "lexes (quoteListOrOne hs) (list_toks hs)"
proof -
  have "lexes (''['' @ join '','' (map quoted hs) @ '']'')
      (Tok Punct ''['' # sep_toks hs @ [Tok Punct '']''])"
    using lexes_cons(3) [of "CHR ''[''"] lexes_append [OF lexes_sep_toks lexes_puncts(7)]
    by fastforce
  then show ?thesis
    by (auto simp: quoteListOrOne_def list_toks_def lexes_quoted split: list.split)
qed

lemma lexes_annot_space:
  assumes "w \<noteq> []" "list_all is_name_char w" "to_lower w = w" "lexes s ts"
  shows "lexes (CHR '':'' # w @ CHR '' '' # s) (Tok Annot (CHR '':'' # w) # ts)"
  using lexesd_lexes [OF lexesd_annot [OF assms(1-3)] lexes_cons(1) [OF assms(4)]]
  by (simp add: is_name_char_def js_defs)

lemma op_str_name:
  "op_str x \<noteq> []" "list_all is_name_char (op_str x)" "to_lower (op_str x) = op_str x"
  by (cases x; simp add: is_name_char_def to_lower_def js_defs)+

lemma part_str_name:
  "x \<noteq> NoPart \<Longrightarrow> part_str x \<noteq> []" "list_all is_name_char (part_str x)"
  "to_lower (part_str x) = part_str x"
  by (cases x; simp add: is_name_char_def to_lower_def js_defs)+

lemma is_word_keywords:
  "is_word ''true''" "is_word ''exists''" "is_word ''address''" "is_word ''header''"
  "is_word ''not''" "is_word ''if''" "is_word ''require''" "is_word ''allof''"
  "is_word ''anyof''" "is_word ''redirect''" "is_word ''reject''"
  by (simp_all add: is_word_def is_name_char_def is_name_start_def to_lower_def js_defs)

lemma is_word_action: "is_word (action_str x)"
  by (cases x; simp add: is_word_def is_name_char_def is_name_start_def to_lower_def js_defs)

lemma is_word_join: "is_word (join_str j)"
  by (cases j; simp add: is_word_keywords)

lemmas is_word_lits = is_word_keywords is_word_action is_word_join

lemma lexes_op:
  "lexes s ts \<Longrightarrow>
     lexes (CHR '':'' # op_str x @ CHR '' '' # s) (Tok Annot (CHR '':'' # op_str x) # ts)"
  by (rule lexes_annot_space [OF op_str_name])

lemma lexes_part:
  "lexes s ts \<Longrightarrow> x \<noteq> NoPart \<Longrightarrow>
     lexes (CHR '':'' # part_str x @ CHR '' '' # s) (Tok Annot (CHR '':'' # part_str x) # ts)"
  by (rule lexes_annot_space) (simp_all add: part_str_name)

lemmas lexes_kw =
  lexes_word_lit [OF is_word_lits(2), simplified] lexes_word_lit [OF is_word_lits(3), simplified]
  lexes_word_lit [OF is_word_lits(4), simplified] lexes_word_lit [OF is_word_lits(5), simplified]
  lexes_word_lit [OF is_word_lits(6), simplified] lexes_word_lit [OF is_word_lits(7), simplified]
  lexes_word_lit [OF is_word_lits(10), simplified] lexes_word_lit [OF is_word_lits(11), simplified]

text \<open>Each condition is a text with the tokens \<open>cond_toks\<close>, closed by whatever follows a name.\<close>

lemma canon_list_split: "canon_list s \<Longrightarrow> splitList (Some s) \<noteq> []"
  by (simp add: canon_list_def)

lemma conditionTest_lexes:
  assumes "canon_cond c"
  shows "\<exists>s. conditionTest c = Some s \<and> s \<noteq> [] \<and> lexesd s (cond_toks c)"
proof -
  let ?hs = "splitList (Some (hdr c))"
  have core: "\<exists>s. s \<noteq> [] \<and> lexesd s (core_toks c)
      \<and> conditionTest c = Some (if negated c then ''not '' @ s else s)"
  proof (cases "test c")
    case TTrue
    then show ?thesis
      using lexesd_word [OF is_word_lits(1)]
      by (auto simp: conditionTest_def core_toks_def)
  next
    case TExists
    with assms have "?hs \<noteq> []" by (simp add: canon_cond_def canon_list_split)
    with TExists show ?thesis
      using lexes_lexesd [OF lexes_kw(1) [OF lexes_list [of ?hs]]]
      by (auto simp: conditionTest_def core_toks_def Let_def)
  next
    case THeader
    with assms have "?hs \<noteq> []" by (simp add: canon_cond_def canon_list_split)
    have "lexes (quoteListOrOne ?hs @ CHR '' '' # quoted (val c)) (list_toks ?hs @ [Tok Quoted (val c)])"
      by (rule lexes_append [OF lexes_list lexes_cons(1) [OF lexes_quoted]])
    from lexes_lexesd [OF lexes_kw(3) [OF lexes_op [OF this]]] THeader \<open>?hs \<noteq> []\<close> show ?thesis
      by (auto simp: conditionTest_def core_toks_def Let_def)
  next
    case TAddress
    have tail: "lexes ((if ?hs \<noteq> [] then quoteListOrOne ?hs @ '' '' else []) @ quoted (val c))
        ((if ?hs \<noteq> [] then list_toks ?hs else []) @ [Tok Quoted (val c)])"
      using lexes_append [OF lexes_list lexes_cons(1) [OF lexes_quoted], of ?hs "val c"]
      by (simp add: lexes_quoted)
    note mid = lexes_op [OF tail, of "cop c"]
    have "lexes (''address '' @ (if part c \<noteq> NoPart then '':'' @ part_str (part c) @ '' '' else [])
        @ '':'' @ op_str (cop c) @ '' ''
        @ (if ?hs \<noteq> [] then quoteListOrOne ?hs @ '' '' else []) @ quoted (val c)) (core_toks c)"
      using lexes_kw(2) [OF mid] lexes_kw(2) [OF lexes_part [OF mid, of "part c"]] TAddress
      by (cases "part c = NoPart") (simp_all add: core_toks_def Let_def)
    from lexes_lexesd [OF this] TAddress show ?thesis
      by (auto simp: conditionTest_def Let_def)
  qed
  then obtain s where s: "s \<noteq> []" "lexesd s (core_toks c)"
    "conditionTest c = Some (if negated c then ''not '' @ s else s)" by blast
  show ?thesis
    using s lexes_lexesd_append [OF lexes_word_space [OF is_word_lits(5)] s(2)]
    by (cases "negated c") (simp_all add: cond_toks_def)
qed

lemma canon_opt_split: "canon_opt so \<Longrightarrow> splitList so \<noteq> []"
  by (auto simp: canon_opt_def canon_list_split split: option.splits)

lemma lexes_copy: "lexes s ts \<Longrightarrow> lexes ('':copy '' @ s) (Tok Annot '':copy'' # ts)"
  using lexes_annot_space [of "''copy''" s ts]
  by (simp add: is_name_char_def to_lower_def js_defs)

lemma actionToSieve_lexes:
  assumes "canon_action a"
  shows "\<exists>s. actionToSieve a = Some s \<and> s \<noteq> [] \<and> is_name_start (hd s) \<and> lexesd s (action_toks a)"
proof -
  have hd: "is_name_start (hd (action_str x @ t))" "action_str x \<noteq> []" for x t
    by (cases x; simp add: is_name_start_def js_defs)+
  consider (f) "atype a = Fileinto" | (r) "atype a = Redirect" | (j) "atype a = Reject"
    | (w) "atype a \<in> {Discard, Keep, Stop}" | (g) "atype a \<in> {Setflag, Addflag, Removeflag}"
    by (cases "atype a") auto
  then show ?thesis
  proof cases
    case f
    with assms have ne: "splitList (mailbox a) \<noteq> []"
      by (simp add: canon_action_def canon_opt_split)
    note li = lexes_list [of "splitList (mailbox a)"]
    show ?thesis
      using f ne hd(1) [of Fileinto] lexes_lexesd [OF lexes_word_lit [OF is_word_lits(12) li, of Fileinto]]
        lexes_lexesd [OF lexes_word_lit [OF is_word_lits(12) lexes_copy [OF li], of Fileinto]]
      by (auto simp: actionToSieve_def action_toks_def Let_def)
  next
    case r
    with assms have "opt_string (address a) \<noteq> []"
      by (auto simp: canon_action_def)
    with r show ?thesis
      using hd(1) [of Redirect] lexes_lexesd [OF lexes_kw(7) [OF lexes_quoted]]
      by (auto simp: actionToSieve_def action_toks_def)
  next
    case j
    then show ?thesis
      using hd(1) [of Reject] lexes_lexesd [OF lexes_kw(8) [OF lexes_quoted]]
      by (auto simp: actionToSieve_def action_toks_def)
  next
    case w
    then show ?thesis
      using lexesd_word [OF is_word_lits(12) [of "atype a"]]
      by (auto simp: actionToSieve_def action_toks_def is_name_start_def js_defs)
  next
    case g
    with assms have ne: "splitList (flag a) \<noteq> []"
      by (auto simp: canon_action_def canon_opt_split)
    show ?thesis
      using g ne hd [of "atype a"]
        lexes_lexesd [OF lexes_word_lit [OF is_word_lits(12) lexes_list], of "atype a" "splitList (flag a)"]
      by (auto simp: actionToSieve_def action_toks_def Let_def)
  qed
qed

section \<open>Tokens of blocks and rules\<close>

definition acts_toks :: "sieve_action list \<Rightarrow> tok list" where
  "acts_toks acts = concat (map (\<lambda>a. action_toks a @ [Tok Punct '';'']) acts)"

fun conds_toks :: "sieve_condition list \<Rightarrow> tok list" where
  "conds_toks [] = []"
| "conds_toks [c] = cond_toks c"
| "conds_toks (c # d # cs) = cond_toks c @ Tok Punct '','' # conds_toks (d # cs)"

definition expr_toks :: "sieve_rule \<Rightarrow> tok list" where
  "expr_toks r =
     (if length (conditions r) = 1 then cond_toks (hd (conditions r))
      else Tok Word (join_str (conditionJoin r)) # Tok Punct ''(''
        # conds_toks (conditions r) @ [Tok Punct '')''])"

definition rule_toks :: "sieve_rule \<Rightarrow> tok list" where
  "rule_toks r =
     Tok Comment (''rule:['' @ rname r @ '']'') # Tok Word ''if'' # expr_toks r
     @ Tok Punct ''{'' # acts_toks (actions r) @ [Tok Punct ''}'']"

definition action_line :: "sieve_action \<Rightarrow> string" where
  "action_line a = (case actionToSieve a of None \<Rightarrow> [] | Some s \<Rightarrow> ''  '' @ s @ '';'' @ [nl])"

lemma lexes_action_line:
  assumes "canon_action a"
  shows "lexes (action_line a) (action_toks a @ [Tok Punct '';''])"
    and "\<exists>c t. action_line a = CHR '' '' # CHR '' '' # c # t \<and> is_name_start c"
proof -
  from actionToSieve_lexes [OF assms] obtain s where s: "actionToSieve a = Some s" "s \<noteq> []"
    "is_name_start (hd s)" "lexesd s (action_toks a)" by blast
  have "lexes (CHR '';'' # [nl]) [Tok Punct '';'']"
    using lexes_cons(3) [OF _ lexes_nl, of "CHR '';''"] by simp
  from lexesd_lexes [OF s(4) this] s(1)
  show "lexes (action_line a) (action_toks a @ [Tok Punct '';''])"
    by (simp add: action_line_def lexes_cons(1) is_name_char_def js_defs)
  from s(1-3) show "\<exists>c t. action_line a = CHR '' '' # CHR '' '' # c # t \<and> is_name_start c"
    by (cases s) (simp_all add: action_line_def)
qed

lemma lexes_action_lines:
  "list_all canon_action acts \<Longrightarrow> lexes (concat (map action_line acts)) (acts_toks acts)"
  unfolding acts_toks_def by (rule lexes_concat) (simp add: list_all_iff lexes_action_line)

lemma not_literal_len:
  "is_name_start c \<Longrightarrow> \<not> literal_len (take e (nl # CHR '' '' # CHR '' '' # c # t))"
  "\<not> literal_len [nl]"
proof -
  assume c: "is_name_start c"
  have ws: "is_ws nl" "is_ws CHR '' ''" by (simp_all add: js_defs)
  have "\<not> is_digit c" "\<not> is_ws c"
    using c by (auto simp: is_name_start_def js_defs)
  moreover have "e = 0 \<or> e = 1 \<or> e = 2 \<or> e = 3 \<or> (\<exists>k. e = Suc (Suc (Suc (Suc k))))"
    by presburger
  ultimately show "\<not> literal_len (take e (nl # CHR '' '' # CHR '' '' # c # t))"
    using ws by (auto simp: literal_len_def numeral_eq_Suc)
qed (simp add: literal_len_def js_defs)

lemma lexes_block:
  assumes "list_all canon_action acts"
  shows "lexes (''{'' @ [nl] @ concat (map action_line acts) @ ''}'')
    (Tok Punct ''{'' # acts_toks acts @ [Tok Punct ''}''])"
proof (rule lexesI)
  fix r
  let ?body = "nl # concat (map action_line acts) @ ''}''"
  have body: "lexes ?body (acts_toks acts @ [Tok Punct ''}''])"
    using lexes_cons(2) [OF lexes_append [OF lexes_action_lines [OF assms] lexes_puncts(1)]] by simp
  have nl: "\<not> literal_len (take e (?body @ r))" if "index_of ''}'' (?body @ r) = Some e" for e
  proof (cases acts)
    case Nil
    with that show ?thesis by (auto simp: not_literal_len(2))
  next
    case (Cons a as)
    with assms have "canon_action a" by simp
    from lexes_action_line(2) [OF this] obtain c t
      where "action_line a = CHR '' '' # CHR '' '' # c # t" "is_name_start c" by blast
    then show ?thesis using not_literal_len(1) [of c] by (simp add: Cons)
  qed
  then have "lex_step CHR ''{'' (?body @ r) = Emit (Tok Punct ''{'') (?body @ r)"
    by (simp add: lex_step_def js_defs split: option.split del: index_of.simps append.simps)
  then show "tokenize ((''{'' @ [nl] @ concat (map action_line acts) @ ''}'') @ r) =
      map_option (\<lambda>x. (Tok Punct ''{'' # acts_toks acts @ [Tok Punct ''}'']) @ x) (tokenize r)"
    using lexesD [OF body, of r] by (simp add: option.map_comp comp_def)
qed

lemma lexesd_conds:
  assumes "list_all canon_cond cs" "cs \<noteq> []"
  shows "lexesd (join '', '' (map (\<lambda>c. the (conditionTest c)) cs)) (conds_toks cs)"
  using assms
proof (induction cs rule: conds_toks.induct)
  case (2 c)
  then show ?case using conditionTest_lexes [of c] by fastforce
next
  case (3 c d cs)
  from "3.prems" obtain s where s: "conditionTest c = Some s" "lexesd s (cond_toks c)"
    using conditionTest_lexes [of c] by auto
  have "lexesd ('', '' @ join '', '' (map (\<lambda>c. the (conditionTest c)) (d # cs)))
      (Tok Punct '','' # conds_toks (d # cs))"
    using lexes_lexesd_append [OF lexes_cons(3) [OF _ lexes_space, of "CHR '',''"] "3.IH"] "3.prems"
    by simp
  then show ?case
    using lexesd_lexesd [OF s(2), of "CHR '',''"] s(1)
    by (simp add: is_name_char_def js_defs)
qed simp

lemma canon_tests:
  assumes "list_all canon_cond cs"
  shows "None \<notin> set (map conditionTest cs)"
    and "filter (\<lambda>t. t \<noteq> []) (map the (map conditionTest cs)) = map (\<lambda>c. the (conditionTest c)) cs"
proof -
  have c: "conditionTest c \<noteq> None \<and> the (conditionTest c) \<noteq> []" if "c \<in> set cs" for c
    using conditionTest_lexes [of c] assms that by (auto simp: list_all_iff)
  show "None \<notin> set (map conditionTest cs)" using c by force
  show "filter (\<lambda>t. t \<noteq> []) (map the (map conditionTest cs)) = map (\<lambda>c. the (conditionTest c)) cs"
    using c by (auto simp: filter_id_conv)
qed

lemma lexes_rule_comment:
  assumes "canon_name n"
  shows "lexes (''# rule:['' @ n @ '']'' @ [nl]) [Tok Comment (''rule:['' @ n @ '']'')]"
proof -
  have "nl \<notin> set ('' rule:['' @ n @ '']'')" using assms by (simp add: canon_name_def)
  moreover have "trim ('' rule:['' @ n @ '']'') = ''rule:['' @ n @ '']''"
    by (simp add: trim_def trim_start_def trim_end_def js_defs)
  ultimately show ?thesis using lexes_comment [of "'' rule:['' @ n @ '']''"] by simp
qed

lemma rule_body_canon:
  "list_ex is_terminal (actions r) \<longrightarrow> list_ex (\<lambda>a. atype a = Stop) (actions r) \<Longrightarrow>
     rule_body r = concat (map action_line (actions r))"
  by (auto simp: rule_body_def action_line_def [abs_def])

lemma lexes_rule:
  assumes "canon_rule r"
  shows "lexes (rule_text r) (rule_toks r)"
proof -
  let ?cs = "conditions r" and ?ts = "map (\<lambda>c. the (conditionTest c)) (conditions r)"
  let ?expr = "if length ?ts = 1 then hd ?ts else join_str (conditionJoin r) @ '' ('' @ join '', '' ?ts @ '')''"
  from assms have cs: "list_all canon_cond ?cs" "?cs \<noteq> []" and n: "canon_name (rname r)"
    and acts: "list_all canon_action (actions r)"
    and body: "rule_body r = concat (map action_line (actions r))"
    by (auto simp: canon_rule_def rule_body_canon)
  have text_eq: "rule_text r = (''# rule:['' @ rname r @ '']'' @ [nl]) @ (''if '' @ ?expr @ CHR '' ''
      # (''{'' @ [nl] @ concat (map action_line (actions r)) @ ''}'') @ [nl, nl])"
    using cs(2) canon_tests [OF cs(1)] body
    by (simp add: rule_text_def Let_def)
  have expr: "lexesd ?expr (expr_toks r)"
  proof (cases "length ?cs = 1")
    case True
    then obtain c where "?cs = [c]" by (cases ?cs) auto
    with lexesd_conds [OF cs] show ?thesis by (simp add: expr_toks_def)
  next
    case False
    have "lexes (join '', '' ?ts @ '')'') (conds_toks ?cs @ [Tok Punct '')''])"
      using lexesd_lexes [OF lexesd_conds [OF cs] lexes_puncts(3)] by (simp add: is_name_char_def js_defs)
    then have "lexes (join_str (conditionJoin r) @ '' ('' @ join '', '' ?ts @ '')'') (expr_toks r)"
      using lexes_word_lit [OF is_word_lits(13) lexes_cons(3) [of "CHR ''(''"]] False
      by (simp add: expr_toks_def)
    with False lexes_lexesd show ?thesis by simp
  qed
  have "lexes (?expr @ CHR '' '' # (''{'' @ [nl] @ concat (map action_line (actions r)) @ ''}'') @ [nl, nl])
      (expr_toks r @ Tok Punct ''{'' # acts_toks (actions r) @ [Tok Punct ''}''])"
    using lexesd_lexes [OF expr lexes_cons(1) [OF lexes_append [OF lexes_block [OF acts]
            lexes_cons(2) [OF lexes_nl]]]]
    by (simp add: is_name_char_def js_defs)
  from lexes_append [OF lexes_rule_comment [OF n] lexes_kw(5) [OF this]] show ?thesis
    unfolding text_eq rule_toks_def by (simp del: if_split)
qed

section \<open>Tokens of a whole script\<close>

definition req_list :: "sieve_rule list \<Rightarrow> string list" where
  "req_list rs =
     filter (\<lambda>e. e \<in> set (fold actionRequires (concat (map actions rs)) [])) require_order"

definition script_toks :: "sieve_rule list \<Rightarrow> tok list" where
  "script_toks rs =
     Tok Comment ''Generated by e2Mail Sieve Rule Builder''
     # (if req_list rs \<noteq> [] then Tok Word ''require'' # Tok Punct ''[''
           # sep_toks (req_list rs) @ [Tok Punct '']'', Tok Punct '';'']
        else [])
     @ (if rs = [] then [Tok Comment ''No rules defined''] else concat (map rule_toks rs))"

lemma req_quoted:
  "map (\<lambda>r. [dquote] @ r @ [dquote]) (req_list rs) = map quoted (req_list rs)"
  by (auto simp: req_list_def require_order_def quoted_def esc_Cons)

lemma lexes_require:
  "lexes (require_line rs)
     (if req_list rs \<noteq> [] then Tok Word ''require'' # Tok Punct ''[''
        # sep_toks (req_list rs) @ [Tok Punct '']'', Tok Punct '';''] else [])"
proof (cases "req_list rs = []")
  case True
  then show ?thesis by (simp add: require_line_def req_list_def)
next
  case False
  have "lexes (''];'' @ [nl]) [Tok Punct '']'', Tok Punct '';'']"
    using lexes_cons(3) [OF _ lexes_cons(3) [OF _ lexes_nl], of "CHR '']''" "CHR '';''"] by simp
  from lexes_kw(6) [OF lexes_cons(3) [OF _ lexes_append [OF lexes_sep_toks this], of "CHR ''[''"]]
  have "lexes (''require ['' @ join '','' (map quoted (req_list rs)) @ ''];'' @ [nl])
      (Tok Word ''require'' # Tok Punct ''[''
        # sep_toks (req_list rs) @ [Tok Punct '']'', Tok Punct '';''])"
    by simp
  moreover have "require_line rs = ''require ['' @ join '','' (map quoted (req_list rs)) @ ''];'' @ [nl]"
    unfolding req_quoted [symmetric]
    using False by (simp add: require_line_def req_list_def Let_def)
  ultimately show ?thesis using False by simp
qed

lemma tokenize_script:
  assumes "list_all canon_rule rs"
  shows "tokenize (rulesToSieve rs) = Some (script_toks rs)"
proof -
  have en: "filter enabled rs = rs"
    using assms by (simp add: filter_id_conv list_all_iff canon_rule_def)
  have "nl \<notin> set '' Generated by e2Mail Sieve Rule Builder''" by simp
  from lexes_comment [OF this]
  have hd: "lexes (''# Generated by e2Mail Sieve Rule Builder'' @ [nl])
      [Tok Comment ''Generated by e2Mail Sieve Rule Builder'']"
    by (simp add: trim_def trim_start_def trim_end_def js_defs)
  have "nl \<notin> set '' No rules defined''" by simp
  from lexes_comment [OF this] have none: "lexes (''# No rules defined'' @ [nl]) [Tok Comment ''No rules defined'']"
    by (simp add: trim_def trim_start_def trim_end_def js_defs)
  have rules: "lexes (concat (map rule_text rs)) (concat (map rule_toks rs))"
    using assms by (intro lexes_concat lexes_rule) (simp add: list_all_iff)
  have "lexes (rulesToSieve rs) (script_toks rs)"
    using lexes_append [OF hd lexes_append [OF lexes_require [of rs] lexes_cons(2) [OF none]]]
      lexes_append [OF hd lexes_append [OF lexes_require [of rs] lexes_cons(2) [OF rules]]]
    by (auto simp: rulesToSieve_def script_toks_def en)
  then show ?thesis by (rule lexes_tokenize)
qed

end
