(* ===== verification/SieveReparse.thy ===== *)
theory SieveReparse
  imports SieveRoundTrip
begin

text \<open>
  The parser run on the tokens of a generated script, the second half of the round trip, and
  the round trip itself.
\<close>

section \<open>The parser in front of a token\<close>

definition pst :: "tok list \<Rightarrow> nat \<Rightarrow> parser" where
  "pst ts d = \<lparr>toks = ts, perror = False, draws = d\<rparr>"

lemma peek_pst [simp]: "tk t \<noteq> Comment \<Longrightarrow> peek (pst (t # ts) d) = Some t"
  by (simp add: peek_def pst_def is_comment_def)

lemma skip_pst [simp]: "tk t \<noteq> Comment \<Longrightarrow> skip (pst (t # ts) d) = pst ts d"
  by (simp add: skip_def pst_def is_comment_def)

lemma peek_pst_Nil [simp]: "peek (pst [] d) = None"
  by (simp add: peek_def pst_def)

lemma peek_pst_comment: "tk t = Comment \<Longrightarrow> peek (pst (t # ts) d) = peek (pst ts d)"
  by (simp add: peek_def pst_def is_comment_def)

lemma pst_sel [simp]: "toks (pst ts d) = ts" "perror (pst ts d) = False" "draws (pst ts d) = d"
  by (simp_all add: pst_def)

lemma pst_upd [simp]:
  "(pst ts d)\<lparr>toks := ts'\<rparr> = pst ts' d" "(pst ts d)\<lparr>draws := d'\<rparr> = pst ts d'"
  by (simp_all add: pst_def)

lemma expectPunct_pst [simp]: "expectPunct s (pst (Tok Punct s # ts) d) = (True, pst ts d)"
  by (simp add: expectPunct_def)

lemma uid_pst [simp]: "uid u (pst ts d) = (u d, pst ts (Suc d))"
  by (simp add: uid_def)

lemma init_parser_pst: "init_parser ts = pst ts 0"
  by (simp add: init_parser_def pst_def)

lemma left_pst: "left (pst ts d) = length ts"
  by (simp add: left_def)

section \<open>Lists and tests\<close>

lemma list_loop_sep:
  "hs \<noteq> [] \<Longrightarrow> list_loop acc (pst (sep_toks hs @ Tok Punct '']'' # r) d) = (Some (acc @ hs), pst r d)"
proof (induction hs arbitrary: acc rule: sep_toks.induct)
  case (2 x)
  show ?case by (subst list_loop.simps) (simp add: Let_def)
next
  case (3 x y ys)
  then show ?case by (subst list_loop.simps) (simp add: Let_def)
qed simp

lemma parseStringList_toks:
  "hs \<noteq> [] \<Longrightarrow> parseStringList (pst (list_toks hs @ r) d) = (Some hs, pst r d)"
  using list_loop_sep [of hs "[]" r d]
  by (auto simp: list_toks_def parseStringList_def split: list.split)

lemma list_toks_start: "hs \<noteq> [] \<Longrightarrow> \<exists>t ts. list_toks hs = t # ts \<and> starts_list t \<and> tk t \<noteq> Comment"
  by (auto simp: list_toks_def starts_list_def split: list.split)

definition no_list :: "tok list \<Rightarrow> bool" where
  "no_list r \<longleftrightarrow> (case r of [] \<Rightarrow> True | t # _ \<Rightarrow> \<not> starts_list t \<and> tk t \<noteq> Comment)"

lemma lists_loop_end: "no_list r \<Longrightarrow> lists_loop acc (pst r d) = (Some acc, pst r d)"
  by (subst lists_loop.simps) (auto simp: no_list_def split: list.splits)

lemma lists_loop_step:
  assumes "hs \<noteq> []"
  shows "lists_loop acc (pst (list_toks hs @ r) d) = lists_loop (acc @ [hs]) (pst r d)"
proof -
  obtain t ts where t: "list_toks hs = t # ts" "starts_list t" "tk t \<noteq> Comment"
    using list_toks_start [OF assms] by blast
  have "parseStringList (pst (t # ts @ r) d) = (Some hs, pst r d)"
    using parseStringList_toks [OF assms, of r d] t(1) by simp
  with t show ?thesis by (subst lists_loop.simps) simp
qed

lemma lists_loop_quoted:
  "no_list r \<Longrightarrow> lists_loop acc (pst (Tok Quoted v # r) d) = (Some (acc @ [[v]]), pst r d)"
  using lists_loop_step [of "[v]" acc r d] by (simp add: list_toks_def lists_loop_end)

lemma op_of_annot_str [simp]: "op_of_annot (CHR '':'' # op_str x) = Some x"
  by (cases x) (simp_all add: op_of_annot_def)

lemma part_of_annot_str:
  "x \<noteq> NoPart \<Longrightarrow> op_of_annot (CHR '':'' # part_str x) = None
     \<and> part_of_annot (CHR '':'' # part_str x) = Some x"
  by (cases x) (simp_all add: op_of_annot_def part_of_annot_def)

definition no_annot :: "tok list \<Rightarrow> bool" where
  "no_annot r \<longleftrightarrow> (case r of [] \<Rightarrow> True | t # _ \<Rightarrow> tk t \<noteq> Annot \<and> tk t \<noteq> Comment)"

lemma annot_loop_end:
  "no_annot r \<Longrightarrow>
     annot_loop opr prt (pst r d) = (Some (case opr of None \<Rightarrow> Is | Some x \<Rightarrow> x, prt), pst r d)"
  by (subst annot_loop.simps) (auto simp: no_annot_def split: list.splits)

lemma annot_loop_op:
  "annot_loop None prt (pst (Tok Annot (CHR '':'' # op_str x) # r) d) = annot_loop (Some x) prt (pst r d)"
  by (subst annot_loop.simps) (simp add: Let_def)

lemma annot_loop_part:
  "x \<noteq> NoPart \<Longrightarrow>
     annot_loop opr NoPart (pst (Tok Annot (CHR '':'' # part_str x) # r) d) = annot_loop opr x (pst r d)"
  by (subst annot_loop.simps) (simp add: Let_def part_of_annot_str)

lemma no_annot_lists [simp]:
  "hs \<noteq> [] \<Longrightarrow> no_annot (list_toks hs @ r)" "no_annot (Tok Quoted v # r)"
  by (auto simp: list_toks_def no_annot_def split: list.split)

text \<open>The tree of a generated condition.\<close>

definition cond_node :: "sieve_condition \<Rightarrow> test_node" where
  "cond_node c =
     (if test c = TTrue then TrueNode
      else Simple \<lparr>stest = test c, spart = (if test c = TAddress then Some (part c) else None),
             sop = Some (cop c), sneg = negated c, sheaders = splitList (Some (hdr c)),
             svalues = (if test c = TExists then [] else [val c])\<rparr>)"

lemma parseSimpleTest_toks:
  assumes "canon_cond c" "test c \<noteq> TTrue" "no_list r" "no_annot r"
  shows "parseSimpleTest (test c) (pst (core_toks c @ r) d)
    = (Some (cond_node (c\<lparr>negated := False\<rparr>)), pst r d)"
proof -
  let ?hs = "splitList (Some (hdr c))"
  note ev = parseSimpleTest_def parseTestAnnotations_def core_toks_def cond_node_def simple_args_def
    annot_loop_op annot_loop_part annot_loop_end lists_loop_step lists_loop_quoted lists_loop_end
    canon_cond_def canon_list_split
  show ?thesis
  proof (cases "test c")
    case TTrue
    with assms show ?thesis by simp
  next
    case TExists
    with assms show ?thesis by (simp add: ev)
  next
    case THeader
    with assms show ?thesis by (simp add: ev)
  next
    case TAddress
    with assms show ?thesis
      by (cases "part c = NoPart"; cases "?hs = []") (simp_all add: ev Let_def)
  qed
qed

lemma core_toks_word:
  "test c \<noteq> TTrue \<Longrightarrow> \<exists>w ts. core_toks c = Tok Word w # ts \<and> simple_name w = Some (test c)"
  by (cases "test c") (simp_all add: core_toks_def simple_name_def Let_def)

lemma parseTest_core:
  assumes "canon_cond c" "no_list r" "no_annot r"
  shows "parseTest (Suc f) n (pst (core_toks c @ r) d)
    = Some (Some (cond_node (c\<lparr>negated := False\<rparr>)), pst r d)"
proof (cases "test c = TTrue")
  case True
  then have toks: "core_toks c = [Tok Word ''true'']" by (simp add: core_toks_def)
  show ?thesis using True by (simp add: toks parseTest_true cond_node_def)
next
  case False
  from core_toks_word [OF this] obtain w ts
    where w: "core_toks c = Tok Word w # ts" "simple_name w = Some (test c)" by blast
  then have "peek (pst (core_toks c @ r) d) = Some (Tok Word w)" by simp
  from parseTest_simple [OF this w(2)] show ?thesis
    using parseSimpleTest_toks [OF assms(1) False assms(2,3)] by simp
qed

lemma parseTest_cond:
  assumes "canon_cond c" "no_list r" "no_annot r"
  shows "parseTest (Suc (Suc f)) 0 (pst (cond_toks c @ r) d) = Some (Some (cond_node c), pst r d)"
proof (cases "negated c")
  case True
  with assms(1) have "test c \<noteq> TTrue" by (auto simp: canon_cond_def)
  have "peek (pst (Tok Word ''not'' # core_toks c @ r) d) = Some (Tok Word ''not'')" by simp
  from parseTest_not [OF this] show ?thesis
    using parseTest_core [OF assms, of f "Suc 0" d] True \<open>test c \<noteq> TTrue\<close>
    by (simp add: cond_toks_def cond_node_def)
next
  case False
  then have "c\<lparr>negated := False\<rparr> = c" by simp
  with parseTest_core [OF assms, of "Suc f" 0 d] False show ?thesis
    by (simp add: cond_toks_def)
qed

lemma no_list_punct [simp]:
  "s \<noteq> ''['' \<Longrightarrow> no_list (Tok Punct s # r)" "no_annot (Tok Punct s # r)"
  by (simp_all add: no_list_def no_annot_def starts_list_def)

lemma parseChildren_conds:
  assumes "list_all canon_cond cs" "cs \<noteq> []" "length cs + 2 \<le> f"
  shows "parseChildren f 0 acc (pst (conds_toks cs @ Tok Punct '')'' # r) d)
    = Some (Some (acc @ map cond_node cs), pst (Tok Punct '')'' # r) d)"
  using assms
proof (induction cs arbitrary: f acc rule: conds_toks.induct)
  case (2 c)
  then have f: "f = Suc (Suc (Suc (f - 3)))" by simp
  from 2 parseTest_cond [of c "Tok Punct '')'' # r" "f - 3" d] show ?case
    by (subst f) (simp add: parseChildren.simps(2))
next
  case (3 c c' cs)
  then have f: "f = Suc (Suc (Suc (f - 3)))" by simp
  have t: "parseTest (Suc (Suc (f - 3))) 0 (pst (cond_toks c @ Tok Punct '','' # conds_toks (c' # cs)
      @ Tok Punct '')'' # r) d) = Some (Some (cond_node c),
      pst (Tok Punct '','' # conds_toks (c' # cs) @ Tok Punct '')'' # r) d)"
    using 3 by (intro parseTest_cond) simp_all
  from "3.IH" [of "Suc (Suc (f - 3))" "acc @ [cond_node c]"] "3.prems" t show ?case
    by (subst f) (simp add: parseChildren.simps(2))
qed simp

definition rule_node :: "sieve_rule \<Rightarrow> test_node" where
  "rule_node r =
     (if length (conditions r) = 1 then cond_node (hd (conditions r))
      else Group (if conditionJoin r = Allof then All else Any) (map cond_node (conditions r)))"

lemma length_conds_toks: "length cs \<le> Suc (length (conds_toks cs))"
proof (induction cs rule: conds_toks.induct)
  case (3 c d cs)
  then show ?case by simp
qed simp_all

lemma parseTest_expr:
  assumes "canon_rule r" "2 * length (expr_toks r @ Tok Punct ''{'' # q) + 1 \<le> f"
  shows "parseTest f 0 (pst (expr_toks r @ Tok Punct ''{'' # q) d)
    = Some (Some (rule_node r), pst (Tok Punct ''{'' # q) d)"
proof (cases "length (conditions r) = 1")
  case True
  then obtain c where c: "conditions r = [c]" by (cases "conditions r") auto
  from assms(2) have f: "f = Suc (Suc (f - 2))" by simp
  from assms(1) c parseTest_cond [of c "Tok Punct ''{'' # q" "f - 2" d] show ?thesis
    by (subst f) (simp add: canon_rule_def expr_toks_def rule_node_def)
next
  case False
  let ?k = "if conditionJoin r = Allof then All else Any"
  have w: "join_str (conditionJoin r) = group_name ?k"
    by (cases "conditionJoin r") (simp_all add: group_name_def)
  from assms(1) have cs: "list_all canon_cond (conditions r)" "conditions r \<noteq> []"
    by (auto simp: canon_rule_def)
  have toks: "expr_toks r = Tok Word (group_name ?k) # Tok Punct ''('' # conds_toks (conditions r)
      @ [Tok Punct '')'']"
    using False w by (simp add: expr_toks_def)
  from assms(2) obtain g where f: "f = Suc g" by (cases f) auto
  have "length (conditions r) + 2 \<le> g"
    using assms(2) length_conds_toks [of "conditions r"] by (simp add: toks f)
  from parseChildren_conds [OF cs this, of "[]" "Tok Punct ''{'' # q" d]
    parseTest_group [of "pst (expr_toks r @ Tok Punct ''{'' # q) d" ?k g 0]
  show ?thesis using False by (simp add: toks f rule_node_def)
qed

lemma cond_toks_word: "\<exists>w ts. cond_toks c = Tok Word w # ts"
  by (cases "test c"; simp add: cond_toks_def core_toks_def Let_def)

lemma expr_toks_word: "canon_rule r \<Longrightarrow> \<exists>w ts. expr_toks r = Tok Word w # ts"
  using cond_toks_word by (auto simp: expr_toks_def)

lemma parseTestEntry_expr:
  assumes "canon_rule r"
  shows "parseTestEntry (pst (expr_toks r @ Tok Punct ''{'' # q) d)
    = (Some (rule_node r), pst (Tok Punct ''{'' # q) d)"
proof -
  obtain w ts where w: "expr_toks r = Tok Word w # ts" using expr_toks_word [OF assms] by blast
  have "peek (pst (expr_toks r @ Tok Punct ''{'' # q) d) = Some (Tok Word w)" by (simp add: w)
  with parseTest_expr [OF assms, of q _ d] show ?thesis
    by (simp add: parseTestEntry_def left_pst)
qed

section \<open>Actions and blocks\<close>

lemma args_loop_end: "args_loop an st (pst (Tok Punct '';'' # r) d) = (Some (an, st), pst r d)"
  by (subst args_loop.simps) (simp add: starts_list_def)

lemma args_loop_annot:
  "args_loop an st (pst (Tok Annot v # r) d) = args_loop (an @ [v]) st (pst r d)"
  by (subst args_loop.simps) simp

lemma args_loop_list:
  assumes "hs \<noteq> []"
  shows "args_loop an st (pst (list_toks hs @ r) d) = args_loop an (st @ hs) (pst r d)"
proof -
  obtain t ts where t: "list_toks hs = t # ts" "starts_list t" "tk t \<noteq> Comment"
    using list_toks_start [OF assms] by blast
  have "parseStringList (pst (t # ts @ r) d) = (Some hs, pst r d)"
    using parseStringList_toks [OF assms, of r d] t(1) by simp
  moreover have "tk t \<noteq> Annot" using t(2) by (auto simp: starts_list_def)
  ultimately show ?thesis using t by (subst args_loop.simps) simp
qed

lemma args_loop_quoted:
  "args_loop an st (pst (Tok Quoted v # r) d) = args_loop an (st @ [v]) (pst r d)"
  using args_loop_list [of "[v]" an st r d] by (simp add: list_toks_def)

lemma canon_opt_join: "canon_opt so \<Longrightarrow> so = Some (join '','' (splitList so))"
  by (auto simp: canon_opt_def canon_list_def split: option.splits)

lemma action_eqI:
  "atype a = ty \<Longrightarrow> mailbox a = m \<Longrightarrow> copy a = cp \<Longrightarrow> address a = ad \<Longrightarrow> rtext a = tx \<Longrightarrow> flag a = fl
   \<Longrightarrow> \<lparr>act_id = i, atype = ty, mailbox = m, copy = cp, address = ad, rtext = tx, flag = fl\<rparr>
     = a\<lparr>act_id := i\<rparr>"
  by simp

lemma canon_action_none:
  assumes "canon_action a"
  shows "atype a \<noteq> Fileinto \<Longrightarrow> mailbox a = None" "atype a \<noteq> Fileinto \<Longrightarrow> copy a = None"
    "atype a \<noteq> Redirect \<Longrightarrow> address a = None" "atype a \<noteq> Reject \<Longrightarrow> rtext a = None"
    "atype a \<notin> {Setflag, Addflag, Removeflag} \<Longrightarrow> flag a = None"
  using assms by (simp_all add: canon_action_def)

lemma parseCommand_args:
  assumes "args_loop [] [] (pst q d) = (Some (an, st), pst r d)"
    and "list_all (\<lambda>x. x = '':copy'') an"
    and "command_action w (an \<noteq> []) st = Some mk"
  shows "parseCommand u (pst (Tok Word w # q) d) = (Some (mk (u d)), pst r (Suc d))"
proof -
  have "('':copy'' \<in> set an) = (an \<noteq> [])" "\<not> list_ex (\<lambda>a. a \<noteq> '':copy'') an"
    using assms(2) by (cases an; auto simp: list_all_iff list_ex_iff)+
  with assms(1,3) show ?thesis by (simp add: parseCommand_def next_tok_def)
qed

lemma parseCommand_toks:
  assumes "canon_action a"
  shows "parseCommand u (pst (action_toks a @ Tok Punct '';'' # r) d)
    = (Some (a\<lparr>act_id := u d\<rparr>), pst r (Suc d))"
proof -
  note cmd = command_action_def blank_action_def
  note lps = args_loop_end args_loop_annot args_loop_list args_loop_quoted
  consider (f) "atype a = Fileinto" | (r) "atype a = Redirect" | (j) "atype a = Reject"
    | (w) "atype a \<in> {Discard, Keep, Stop}" | (g) "atype a \<in> {Setflag, Addflag, Removeflag}"
    by (cases "atype a") auto
  then show ?thesis
  proof cases
    case f
    with assms have m: "canon_opt (mailbox a)" "copy a \<noteq> None" "address a = None" "rtext a = None"
      "flag a = None" by (auto simp: canon_action_def)
    let ?an = "if copy a = Some True then ['':copy''] else []"
    have toks: "action_toks a = Tok Word ''fileinto'' # (if copy a = Some True then [Tok Annot '':copy''] else [])
        @ list_toks (splitList (mailbox a))" using f by (simp add: action_toks_def)
    have "parseCommand u (pst (action_toks a @ Tok Punct '';'' # r) d)
      = (Some ((blank_action (u d) Fileinto)\<lparr>mailbox := Some (join '','' (splitList (mailbox a))),
           copy := Some (?an \<noteq> [])\<rparr>), pst r (Suc d))"
      unfolding toks append_Cons
      by (rule parseCommand_args [where an = ?an and st = "splitList (mailbox a)"])
        (use canon_opt_split [OF m(1)] in \<open>simp_all add: lps command_action_def\<close>)
    then show ?thesis
      using canon_opt_join [OF m(1)] m f
      by (cases "copy a") (auto simp: blank_action_def intro!: action_eqI)
  next
    case r
    with assms obtain x where x: "address a = Some x" "mailbox a = None" "copy a = None"
      "rtext a = None" "flag a = None" by (auto simp: canon_action_def)
    have toks: "action_toks a = [Tok Word ''redirect'', Tok Quoted x]"
      using r x(1) by (simp add: action_toks_def)
    have cm: "command_action ''redirect'' False [x]
        = Some (\<lambda>i. (blank_action i Redirect)\<lparr>address := Some x\<rparr>)" by (simp add: command_action_def)
    have "parseCommand u (pst (action_toks a @ Tok Punct '';'' # r) d)
        = (Some ((blank_action (u d) Redirect)\<lparr>address := Some x\<rparr>), pst r (Suc d))"
      unfolding toks append_Cons append_Nil
      by (rule parseCommand_args [where an = "[]" and st = "[x]"]) (simp_all add: lps cm)
    then show ?thesis using x r by (simp add: blank_action_def action_eqI)
  next
    case j
    with assms obtain x where x: "rtext a = Some x" "x \<noteq> []" "mailbox a = None" "copy a = None"
      "address a = None" "flag a = None" by (auto simp: canon_action_def)
    have toks: "action_toks a = [Tok Word ''reject'', Tok Quoted x]"
      using j x(1,2) by (simp add: action_toks_def or_else_def)
    have cm: "command_action ''reject'' False [x]
        = Some (\<lambda>i. (blank_action i Reject)\<lparr>rtext := Some x\<rparr>)" by (simp add: command_action_def)
    have "parseCommand u (pst (action_toks a @ Tok Punct '';'' # r) d)
        = (Some ((blank_action (u d) Reject)\<lparr>rtext := Some x\<rparr>), pst r (Suc d))"
      unfolding toks append_Cons append_Nil
      by (rule parseCommand_args [where an = "[]" and st = "[x]"]) (simp_all add: lps cm)
    then show ?thesis using x j by (simp add: blank_action_def action_eqI)
  next
    case w
    then have "atype a \<noteq> Fileinto" "atype a \<noteq> Redirect" "atype a \<noteq> Reject"
      "atype a \<notin> {Setflag, Addflag, Removeflag}" by auto
    from canon_action_none [OF assms] this have x: "address a = None" "rtext a = None"
      "mailbox a = None" "copy a = None" "flag a = None" by blast+
    have toks: "action_toks a = [Tok Word (action_str (atype a))]"
      using w by (auto simp: action_toks_def)
    have cm: "command_action (action_str (atype a)) False [] = Some (\<lambda>i. blank_action i (atype a))"
      using w by (auto simp: command_action_def)
    show ?thesis
      using x parseCommand_args [of "Tok Punct '';'' # r" d "[]" "[]" r _ _ u] cm
      by (simp add: toks lps blank_action_def action_eqI)
  next
    case g
    with assms have x: "address a = None" "rtext a = None" "mailbox a = None" "copy a = None"
      "canon_opt (flag a)" "list_all (\<lambda>f. one_backslash f = f) (splitList (flag a))"
      by (auto simp: canon_action_def)
    let ?fs = "splitList (flag a)"
    have ob: "map one_backslash ?fs = ?fs" using x(6) by (simp add: list_all_iff map_idI)
    have ne: "?fs \<noteq> []" by (rule canon_opt_split [OF x(5)])
    have toks: "action_toks a = Tok Word (action_str (atype a)) # list_toks ?fs"
      using g by (auto simp: action_toks_def)
    have cm: "command_action (action_str (atype a)) False ?fs
        = Some (\<lambda>i. (blank_action i (atype a))\<lparr>flag := Some (join '','' ?fs)\<rparr>)"
      using g ne ob by (auto simp: command_action_def)
    have "args_loop [] [] (pst (list_toks ?fs @ Tok Punct '';'' # r) d) = (Some ([], ?fs), pst r d)"
      using ne by (simp add: lps)
    from parseCommand_args [OF this, of "action_str (atype a)"] cm
    show ?thesis
      using x canon_opt_join [OF x(5)]
      by (simp add: toks blank_action_def action_eqI)
  qed
qed

lemma action_toks_head:
  "\<exists>w ts. action_toks a = Tok Word w # ts \<and> w \<notin> {''if'', ''elsif'', ''else''}"
  by (cases "atype a") (simp_all add: action_toks_def)

lemma strip_action_id [simp]: "strip_action (a\<lparr>act_id := i\<rparr>) = strip_action a"
  by (simp add: strip_action_def)

lemma block_loop_toks:
  "list_all canon_action acts \<Longrightarrow>
     \<exists>acts'. block_loop u acc (pst (acts_toks acts @ Tok Punct ''}'' # r) d)
         = (Some (acc @ acts', False), pst r (d + length acts))
       \<and> map strip_action acts' = map strip_action acts"
proof (induction acts arbitrary: acc d)
  case Nil
  show ?case by (subst block_loop.simps) (simp add: acts_toks_def)
next
  case (Cons a acts)
  let ?rest = "acts_toks acts @ Tok Punct ''}'' # r"
  from Cons.prems have a: "canon_action a" and as: "list_all canon_action acts" by simp_all
  have toks: "acts_toks (a # acts) @ Tok Punct ''}'' # r = action_toks a @ Tok Punct '';'' # ?rest"
    by (simp add: acts_toks_def)
  obtain w ts where w: "action_toks a = Tok Word w # ts" "w \<notin> {''if'', ''elsif'', ''else''}"
    using action_toks_head by blast
  have pc: "parseCommand u (pst (Tok Word w # ts @ Tok Punct '';'' # ?rest) d)
      = (Some (a\<lparr>act_id := u d\<rparr>), pst ?rest (Suc d))"
    using parseCommand_toks [OF a, of u ?rest d] w(1) by simp
  have "block_loop u acc (pst (action_toks a @ Tok Punct '';'' # ?rest) d)
      = block_loop u (acc @ [a\<lparr>act_id := u d\<rparr>]) (pst ?rest (Suc d))"
    using w pc by (subst block_loop.simps) simp
  moreover obtain acts' where "block_loop u (acc @ [a\<lparr>act_id := u d\<rparr>]) (pst ?rest (Suc d))
      = (Some ((acc @ [a\<lparr>act_id := u d\<rparr>]) @ acts', False), pst r (Suc d + length acts))"
    "map strip_action acts' = map strip_action acts"
    using Cons.IH [OF as] by blast
  ultimately show ?case
    unfolding toks by (intro exI [of _ "a\<lparr>act_id := u d\<rparr> # acts'"]) simp
qed

section \<open>Conditions and rules\<close>

lemma strip_cond_id [simp]: "strip_cond (c\<lparr>cond_id := i\<rparr>) = strip_cond c"
  by (simp add: strip_cond_def)

lemma cond_eqI:
  "test c = t \<Longrightarrow> part c = pt \<Longrightarrow> cop c = op \<Longrightarrow> negated c = n \<Longrightarrow> hdr c = h \<Longrightarrow> val c = v
   \<Longrightarrow> \<lparr>cond_id = i, test = t, part = pt, cop = op, negated = n, hdr = h, val = v\<rparr> = c\<lparr>cond_id := i\<rparr>"
  by simp

lemma flatten_cond:
  assumes "canon_cond c"
  shows "\<exists>i d'. flattenTest u d (cond_node c) = (Some (Allof, [c\<lparr>cond_id := i\<rparr>]), d')"
proof (cases "test c")
  case TTrue
  with assms have "c\<lparr>cond_id := u d\<rparr> = \<lparr>cond_id = u d, test = TTrue, part = NoPart, cop = Is,
      negated = False, hdr = [], val = []\<rparr>"
    by (simp add: canon_cond_def)
  with TTrue show ?thesis
    by (intro exI [of _ "u d"] exI [of _ "Suc d"]) (simp add: cond_node_def)
next
  case TExists
  with assms show ?thesis
    by (auto simp: cond_node_def simpleToConditions_def canon_cond_def canon_list_def
        intro!: exI cond_eqI)
next
  case THeader
  with assms show ?thesis
    by (auto simp: cond_node_def simpleToConditions_def canon_cond_def canon_list_def
        intro!: exI cond_eqI)
next
  case TAddress
  with assms have "join '','' (splitList (Some (hdr c))) = hdr c"
    by (auto simp: canon_cond_def canon_list_def splitList_def)
  with TAddress show ?thesis
    by (auto simp: cond_node_def simpleToConditions_def intro!: exI cond_eqI)
qed

lemma flatten_conds:
  "list_all canon_cond cs \<Longrightarrow>
     \<exists>cs' d'. flattenChildren u d k n acc (map cond_node cs)
         = (Some (if k = All then Allof else Anyof, acc @ cs'), d')
       \<and> map strip_cond cs' = map strip_cond cs"
proof (induction cs arbitrary: acc d)
  case (Cons c cs)
  obtain i d1 where c: "flattenTest u d (cond_node c) = (Some (Allof, [c\<lparr>cond_id := i\<rparr>]), d1)"
    using flatten_cond [of c u d] Cons.prems by auto
  obtain cs' d' where cs: "flattenChildren u d1 k n (acc @ [c\<lparr>cond_id := i\<rparr>]) (map cond_node cs)
      = (Some (if k = All then Allof else Anyof, (acc @ [c\<lparr>cond_id := i\<rparr>]) @ cs'), d')"
    "map strip_cond cs' = map strip_cond cs"
    using Cons.IH [of d1 "acc @ [c\<lparr>cond_id := i\<rparr>]"] Cons.prems by auto
  have "child_conds k n (Allof, [c\<lparr>cond_id := i\<rparr>]) = Some [c\<lparr>cond_id := i\<rparr>]"
    by (cases k) (simp_all add: child_conds_def)
  with c cs show ?case by (intro exI [of _ "c\<lparr>cond_id := i\<rparr> # cs'"]) simp
qed simp

lemma flatten_rule:
  assumes "canon_rule r"
  shows "\<exists>cs' d'. flattenTest u d (rule_node r) = (Some (conditionJoin r, cs'), d')
    \<and> map strip_cond cs' = map strip_cond (conditions r)"
proof (cases "length (conditions r) = 1")
  case True
  then obtain c where c: "conditions r = [c]" by (cases "conditions r") auto
  with assms have "canon_cond c" "conditionJoin r = Allof" by (simp_all add: canon_rule_def)
  with flatten_cond [of c u d] c show ?thesis by (auto simp: rule_node_def)
next
  case False
  let ?k = "if conditionJoin r = Allof then All else Any"
  have "list_all canon_cond (conditions r)" using assms by (simp add: canon_rule_def)
  from flatten_conds [OF this, of u d ?k "length (conditions r)" "[]"]
  have "\<exists>cs' d'. flattenTest u d (rule_node r) = (Some (if ?k = All then Allof else Anyof, cs'), d')
    \<and> map strip_cond cs' = map strip_cond (conditions r)"
    using False by (simp add: rule_node_def)
  moreover have "(if ?k = All then Allof else Anyof) = conditionJoin r"
    by (cases "conditionJoin r") simp_all
  ultimately show ?thesis by (simp only:)
qed

text \<open>What may follow a rule: the end of the script, or the comment of the next rule.\<close>

definition after_rule :: "tok list \<Rightarrow> bool" where
  "after_rule q \<longleftrightarrow> (\<forall>d. \<not> (case peek (pst q d) of
     Some t \<Rightarrow> tk t = Word \<and> tv t \<in> {''elsif'', ''else''} | None \<Rightarrow> False))"

lemma parseIf_toks:
  assumes "canon_rule r" "after_rule q"
  shows "\<exists>r' d'. parseIf u (rname r) (pst (expr_toks r @ Tok Punct ''{''
        # acts_toks (actions r) @ Tok Punct ''}'' # q) d) = (Some r', pst q d')
    \<and> strip_rule r' = strip_rule r"
proof -
  from assms(1) have acts: "list_all canon_action (actions r)" and en: "enabled r"
    by (simp_all add: canon_rule_def)
  let ?q1 = "acts_toks (actions r) @ Tok Punct ''}'' # q"
  obtain acts' where b: "block_loop u [] (pst ?q1 d) = (Some (acts', False), pst q (d + length (actions r)))"
    "map strip_action acts' = map strip_action (actions r)"
    using block_loop_toks [OF acts, of u "[]" q d] by auto
  obtain cs' d1 where f: "flattenTest u (d + length (actions r)) (rule_node r)
      = (Some (conditionJoin r, cs'), d1)" "map strip_cond cs' = map strip_cond (conditions r)"
    using flatten_rule [OF assms(1)] by blast
  have ok: "block_ok (acts', False) (pst q (d + length (actions r)))"
    using assms(2) by (simp add: block_ok_def after_rule_def)
  show ?thesis
    using parseTestEntry_expr [OF assms(1), of ?q1 d] b f ok en
    by (auto simp: parseIf_def parseBlock_def strip_rule_def)
qed

lemma rule_name_comment:
  assumes "canon_name n"
  shows "rule_name (''rule:['' @ n @ '']'') = Some n"
proof -
  have "takeWhile (\<lambda>c. c \<noteq> CHR '']'') (n @ '']'') = n"
    using assms by (auto simp: canon_name_def takeWhile_append)
  with assms have "rule_name_at (''['' @ n @ '']'') = Some n"
    by (simp add: rule_name_at_def Let_def canon_name_def js_defs)
  then show ?thesis by (simp add: to_lower_def js_defs)
qed

lemma after_rule_rules: "list_all canon_rule rs \<Longrightarrow> after_rule (concat (map rule_toks rs))"
  by (cases rs) (simp_all add: after_rule_def rule_toks_def peek_pst_comment)

lemma parse_loop_rules:
  "list_all canon_rule rs \<Longrightarrow>
     \<exists>rs' d'. parse_loop u acc lst (pst (concat (map rule_toks rs)) d) = (acc @ rs', pst [] d')
       \<and> map strip_rule rs' = map strip_rule rs"
proof (induction rs arbitrary: acc lst d)
  case Nil
  show ?case by (subst parse_loop.simps) auto
next
  case (Cons r rs)
  let ?q = "concat (map rule_toks rs)"
  let ?c = "''rule:['' @ rname r @ '']''"
  let ?body = "expr_toks r @ Tok Punct ''{'' # acts_toks (actions r) @ Tok Punct ''}'' # ?q"
  from Cons.prems have r: "canon_rule r" and rs: "list_all canon_rule rs" by simp_all
  have name: "trim (rname r) = rname r" "rule_name ?c = Some (rname r)"
    using r rule_name_comment by (auto simp: canon_rule_def canon_name_def)
  obtain r' d1 where i: "parseIf u (rname r) (pst ?body d) = (Some r', pst ?q d1)"
    "strip_rule r' = strip_rule r"
    using parseIf_toks [OF r after_rule_rules [OF rs]] by blast
  have toks: "concat (map rule_toks (r # rs)) = Tok Comment ?c # Tok Word ''if'' # ?body"
    by (simp add: rule_toks_def)
  have "parse_loop u acc lst (pst (Tok Comment ?c # Tok Word ''if'' # ?body) d)
      = parse_loop u acc ?c (pst (Tok Word ''if'' # ?body) d)"
    by (subst parse_loop.simps) (simp add: starts_with_def peek_pst_comment)
  also have "\<dots> = parse_loop u (acc @ [r']) [] (pst ?q d1)"
    using i(1) name
    by (subst parse_loop.simps) (simp del: rule_name.simps append_Cons)
  finally have step: "parse_loop u acc lst (pst (concat (map rule_toks (r # rs))) d)
      = parse_loop u (acc @ [r']) [] (pst ?q d1)" unfolding toks .
  obtain rs' d' where "parse_loop u (acc @ [r']) [] (pst ?q d1) = ((acc @ [r']) @ rs', pst [] d')"
    "map strip_rule rs' = map strip_rule rs"
    using Cons.IH [OF rs] by blast
  with step i(2) show ?case by (intro exI [of _ "r' # rs'"] exI [of _ d']) simp
qed

section \<open>The round trip\<close>

lemma parse_script:
  assumes "list_all canon_rule rs"
  shows "\<exists>rs'. parse u (pst (script_toks rs) d) = Some rs' \<and> map strip_rule rs' = map strip_rule rs"
proof -
  let ?tail = "if rs = [] then [Tok Comment ''No rules defined''] else concat (map rule_toks rs)"
  have tail: "\<exists>rs' q d'. parse_loop u [] [] (pst ?tail d) = (rs', pst q d')
      \<and> map strip_rule rs' = map strip_rule rs" for d
  proof (cases "rs = []")
    case True
    then show ?thesis by (subst parse_loop.simps) (auto simp: peek_pst_comment)
  next
    case False
    with parse_loop_rules [OF assms, of u "[]" "[]" d] show ?thesis by auto
  qed
  have tail_pk: "peek (pst ?tail d) \<noteq> Some (Tok Punct '';'')" for d
    by (cases rs) (simp_all add: peek_pst_comment rule_toks_def)
  have req: "parse_loop u [] [] (pst (Tok Word ''require'' # Tok Punct ''[''
        # sep_toks (req_list rs) @ Tok Punct '']'' # Tok Punct '';'' # ?tail) d)
      = parse_loop u [] [] (pst ?tail d)" if "req_list rs \<noteq> []"
    using list_loop_sep [OF that, of "[]" "Tok Punct '';'' # ?tail" d]
    by (subst parse_loop.simps) (simp add: parseStringList_def)
  have hd: "parse_loop u [] [] (pst (script_toks rs) d)
      = parse_loop u [] [] (pst (tl (script_toks rs)) d)" if "rs \<noteq> [] \<or> req_list rs \<noteq> []"
    using that
    by (subst parse_loop.simps)
      (cases rs, auto simp: script_toks_def starts_with_def peek_pst_comment rule_toks_def)
  have "\<exists>rs' q d'. parse_loop u [] [] (pst (script_toks rs) d) = (rs', pst q d')
      \<and> map strip_rule rs' = map strip_rule rs"
  proof (cases "req_list rs = []")
    case True
    show ?thesis
    proof (cases "rs = []")
      case True
      then show ?thesis
        by (subst parse_loop.simps) (auto simp: script_toks_def req_list_def require_order_def peek_pst_comment)
    next
      case False
      with hd tail [of d] True show ?thesis by (simp add: script_toks_def)
    qed
  next
    case False
    with hd tail [of d] req show ?thesis by (simp add: script_toks_def)
  qed
  then show ?thesis by (auto simp: parse_def)
qed

lemma script_toks_nonempty: "script_toks rs \<noteq> []"
  by (simp add: script_toks_def)

lemma mentions_if_empty: "\<not> mentions_if (rulesToSieve [])"
  by code_simp

lemma sieve_reads_back:
  assumes "list_all canon_rule rs"
  shows "\<exists>rs'. sieveToRules u (rulesToSieve rs) = Some rs' \<and> map strip_rule rs' = map strip_rule rs"
proof -
  obtain rs' where rs': "parse u (pst (script_toks rs) 0) = Some rs'"
    "map strip_rule rs' = map strip_rule rs"
    using parse_script [OF assms] by blast
  have "\<not> mentions_if (rulesToSieve rs)" if "rs' = []"
    using that rs'(2) mentions_if_empty by simp
  with rs' tokenize_script [OF assms] script_toks_nonempty [of rs] show ?thesis
    by (simp add: sieveToRules_def init_parser_pst)
qed

text \<open>The text of a script does not depend on the ids of the rules.\<close>

lemma conditionTest_strip: "conditionTest (strip_cond c) = conditionTest c"
  by (cases "test c") (simp_all add: conditionTest_def strip_cond_def Let_def)

lemma actionToSieve_strip: "actionToSieve (strip_action a) = actionToSieve a"
  by (cases "atype a") (simp_all add: actionToSieve_def strip_action_def Let_def)

lemma actionRequires_strip: "actionRequires (strip_action a) = actionRequires a"
  by (rule ext) (simp add: actionRequires_def strip_action_def)

lemma strip_action_atype: "atype (strip_action a) = atype a"
  by (simp add: strip_action_def)

lemma rule_text_strip: "rule_text (strip_rule r) = rule_text r"
proof -
  have "map conditionTest (map strip_cond cs) = map conditionTest cs" for cs
    by (simp add: conditionTest_strip)
  moreover have "rule_body (strip_rule r) = rule_body r"
    by (simp add: rule_body_def strip_rule_def actionToSieve_strip comp_def list_ex_iff
        is_terminal_def strip_action_atype)
  ultimately show ?thesis
    by (simp add: rule_text_def strip_rule_def Let_def comp_def conditionTest_strip)
qed

lemma fold_requires_strip:
  "fold actionRequires (map strip_action as) req = fold actionRequires as req"
  by (induction as arbitrary: req) (simp_all add: actionRequires_strip)

lemma rulesToSieve_strip: "rulesToSieve (map strip_rule rs) = rulesToSieve rs"
proof -
  have en: "filter enabled (map strip_rule rs) = map strip_rule (filter enabled rs)"
    by (simp add: filter_map comp_def strip_rule_def)
  have acts: "concat (map actions (map strip_rule xs)) = map strip_action (concat (map actions xs))" for xs
    by (induction xs) (simp_all add: strip_rule_def)
  have "require_line (map strip_rule xs) = require_line xs" for xs
    unfolding require_line_def acts fold_requires_strip ..
  then show ?thesis
    by (simp add: rulesToSieve_def en rule_text_strip comp_def Let_def)
qed

lemma rulesToSieve_cong: "map strip_rule rs = map strip_rule rs' \<Longrightarrow> rulesToSieve rs = rulesToSieve rs'"
  by (metis rulesToSieve_strip)

end
