(* ===== verification/SieveProps.thy ===== *)
theory SieveProps
  imports SieveReparse
begin

text \<open>
  The contract of the rule editor with the generator and the parser, the meaning of test trees
  and of flat rules, and the properties of the Sieve component.
\<close>

section \<open>The codec interface\<close>

text \<open>
  What the settings page relies on when it saves visual rules as a script and loads them
  again: printing canonical rules and reading the text back gives the same rules up to data
  that the text does not show, and the text shows nothing else.
\<close>

locale rule_codec =
  fixes pr :: "'a list \<Rightarrow> string"
    and ps :: "string \<Rightarrow> 'a list option"
    and canon :: "'a \<Rightarrow> bool"
    and view :: "'a \<Rightarrow> 'b"
  assumes reads_back:
      "list_all canon rs \<Longrightarrow> \<exists>rs'. ps (pr rs) = Some rs' \<and> map view rs' = map view rs"
    and pr_view: "map view rs = map view rs' \<Longrightarrow> pr rs = pr rs'"
begin

lemma reprint: "list_all canon rs \<Longrightarrow> ps (pr rs) = Some rs' \<Longrightarrow> pr rs' = pr rs"
  using reads_back [of rs] pr_view [of rs' rs] by auto

lemma pr_injective:
  "list_all canon rs \<Longrightarrow> list_all canon rs' \<Longrightarrow> pr rs = pr rs' \<Longrightarrow> map view rs = map view rs'"
  using reads_back [of rs] reads_back [of rs'] by auto

text \<open>Loading and saving any number of times without an edit leaves the script as it is.\<close>

primrec reload :: "nat \<Rightarrow> string \<Rightarrow> string option" where
  "reload 0 s = Some s"
| "reload (Suc n) s = (case ps s of None \<Rightarrow> None | Some rs \<Rightarrow> reload n (pr rs))"

lemma reload_stable: "list_all canon rs \<Longrightarrow> reload n (pr rs) = Some (pr rs)"
proof (induction n)
  case (Suc n)
  obtain rs' where "ps (pr rs) = Some rs'" using reads_back [OF Suc.prems] by blast
  with reprint [OF Suc.prems this] Suc show ?case by simp
qed simp

end

interpretation sieve: rule_codec rulesToSieve "sieveToRules u" canon_rule strip_rule for u
  by unfold_locales (auto intro: sieve_reads_back rulesToSieve_cong)

section \<open>The meaning of tests\<close>

text \<open>
  \<open>m t pt op hs v\<close> says whether a message passes the test \<open>t\<close> of the header list \<open>hs\<close> (written
  with commas) against the single key \<open>v\<close>.  A test with several keys passes when one key does.
\<close>

type_synonym matcher = "sieve_test \<Rightarrow> address_part \<Rightarrow> cond_op \<Rightarrow> string \<Rightarrow> string \<Rightarrow> bool"

definition simple_holds :: "matcher \<Rightarrow> simple_test \<Rightarrow> bool" where
  "simple_holds m s =
     (sneg s \<noteq>
       (let t = m (stest s) (case spart s of None \<Rightarrow> NoPart | Some x \<Rightarrow> x)
                  (case sop s of None \<Rightarrow> Is | Some x \<Rightarrow> x) (join '','' (sheaders s))
        in if stest s = TExists then t [] else list_ex t (svalues s)))"

fun node_holds :: "matcher \<Rightarrow> test_node \<Rightarrow> bool" where
  "node_holds m TrueNode = True"
| "node_holds m (Simple s) = simple_holds m s"
| "node_holds m (Group All ns) = list_all (node_holds m) ns"
| "node_holds m (Group Any ns) = list_ex (node_holds m) ns"

definition cond_holds :: "matcher \<Rightarrow> sieve_condition \<Rightarrow> bool" where
  "cond_holds m c =
     (negated c \<noteq> (test c = TTrue \<or> m (test c) (part c) (cop c) (hdr c) (val c)))"

definition flat_holds :: "matcher \<Rightarrow> flat \<Rightarrow> bool" where
  "flat_holds m f =
     (case fst f of Allof \<Rightarrow> list_all (cond_holds m) (snd f) | Anyof \<Rightarrow> list_ex (cond_holds m) (snd f))"

text \<open>What the parser guarantees of a tree, and the trees without a negated test of several keys.\<close>

fun node_wf :: "test_node \<Rightarrow> bool" where
  "node_wf TrueNode = True"
| "node_wf (Simple s) = (stest s \<noteq> TTrue \<and> (stest s = TExists \<or> svalues s \<noteq> []))"
| "node_wf (Group k ns) = (ns \<noteq> [] \<and> list_all node_wf ns)"

fun neg_single :: "test_node \<Rightarrow> bool" where
  "neg_single TrueNode = True"
| "neg_single (Simple s) = (sneg s \<longrightarrow> stest s = TExists \<or> length (svalues s) = 1)"
| "neg_single (Group k ns) = list_all neg_single ns"

lemma simple_args_wf:
  "simple_args n lss = Some (hs, vs) \<Longrightarrow> n = TExists \<or> vs \<noteq> []"
  by (auto simp: simple_args_def split: sieve_test.splits list.splits if_splits)

lemma simple_name_not_TTrue: "simple_name w = Some n \<Longrightarrow> n \<noteq> TTrue"
  by (auto simp: simple_name_def split: if_splits)

lemma parseSimpleTest_wf:
  "parseSimpleTest n p = (Some node, p') \<Longrightarrow> n \<noteq> TTrue \<Longrightarrow> node_wf node"
  by (auto simp: parseSimpleTest_def fail_def dest: simple_args_wf
      split: option.splits prod.splits)

lemma parse_wf:
  "parseTest f n p = Some (Some node, p') \<Longrightarrow> node_wf node"
  "parseChildren f n acc p = Some (Some ns, p') \<Longrightarrow> list_all node_wf acc
     \<Longrightarrow> ns \<noteq> [] \<and> list_all node_wf ns"
proof (induction f arbitrary: n p node p' acc ns)
  case (Suc f)
  {
    case 1
    show ?case
    proof (cases p rule: test_token_cases)
      case none
      with 1 show ?thesis by (simp add: parseTest_none fail_def)
    next
      case paren
      with 1 show ?thesis
        by (auto simp: parseTest_paren dest: Suc.IH(1) split: option.splits prod.splits if_splits)
    next
      case not_word
      with 1 show ?thesis by (simp add: parseTest_not_word fail_def)
    next
      case true
      with 1 show ?thesis by (auto simp: parseTest_true)
    next
      case (simple w k)
      with 1 show ?thesis
        by (auto simp: parseTest_simple intro: parseSimpleTest_wf dest: simple_name_not_TTrue)
    next
      case unsupported
      with 1 show ?thesis by (simp add: parseTest_unsupported fail_def)
    next
      case neg
      with 1 show ?thesis
        by (auto simp: parseTest_not fail_def dest!: Suc.IH(1)
            split: option.splits prod.splits if_splits test_node.splits)
    next
      case (group k)
      with 1 show ?thesis
        by (auto simp: parseTest_group dest!: Suc.IH(2)
            split: option.splits prod.splits bool.splits if_splits)
    qed
  next
    case 2
    note prems = 2
    then obtain c q where c: "parseTest f n p = Some (Some c, q)"
      and rest: "(if peek q = Some (Tok Punct '','') then parseChildren f n (acc @ [c]) (skip q)
           else Some (Some (acc @ [c]), q)) = Some (Some ns, p')"
      by (auto simp: parseChildren.simps(2) split: option.splits prod.splits)
    have acc: "list_all node_wf (acc @ [c])" using Suc.IH(1) [OF c] prems(2) by simp
    show ?case
    proof (cases "peek q = Some (Tok Punct '','')")
      case True
      with rest have "parseChildren f n (acc @ [c]) (skip q) = Some (Some ns, p')" by simp
      from Suc.IH(2) [OF this acc] show ?thesis .
    next
      case False
      with rest acc show ?thesis by auto
    qed
  }
qed simp_all

lemma simple_flat:
  assumes "simpleToConditions u d s = (cs, d')" "node_wf (Simple s)" "neg_single (Simple s)"
  shows "cs \<noteq> []"
    and "flat_holds m (if length cs > 1 then Anyof else Allof, cs) = simple_holds m s"
proof -
  let ?vals = "if stest s = TExists then [[]] else svalues s"
  let ?mk = "\<lambda>k v. \<lparr>cond_id = u (d + 1 + k), test = stest s,
      part = (case spart s of None \<Rightarrow> NoPart | Some x \<Rightarrow> x), cop = (case sop s of None \<Rightarrow> Is | Some x \<Rightarrow> x),
      negated = sneg s, hdr = join '','' (sheaders s), val = v\<rparr>"
  let ?t = "m (stest s) (case spart s of None \<Rightarrow> NoPart | Some x \<Rightarrow> x)
      (case sop s of None \<Rightarrow> Is | Some x \<Rightarrow> x) (join '','' (sheaders s))"
  have cs: "cs = map (\<lambda>(k, v). ?mk k v) (enumerate 0 ?vals)"
    using assms(1) by (auto simp: simpleToConditions_def Let_def)
  have ne: "?vals \<noteq> []" using assms(2) by auto
  then show "cs \<noteq> []" by (simp add: cs enumerate_eq_zip)
  have "map (cond_holds m) cs = map (\<lambda>v. sneg s \<noteq> ?t v) ?vals"
    unfolding cs using assms(2)
    by (rule_tac nth_equalityI) (auto simp: cond_holds_def nth_enumerate_eq)
  moreover have "list_ex (cond_holds m) cs = list_ex id (map (cond_holds m) cs)"
    and "list_all (cond_holds m) cs = list_all id (map (cond_holds m) cs)"
    by (auto simp: list_ex_iff list_all_iff)
  ultimately have ex: "list_ex (cond_holds m) cs = list_ex (\<lambda>v. sneg s \<noteq> ?t v) ?vals"
    and all: "list_all (cond_holds m) cs = list_all (\<lambda>v. sneg s \<noteq> ?t v) ?vals"
    by (auto simp: list_ex_iff list_all_iff)
  have len: "length cs = length ?vals" by (simp add: cs)
  show "flat_holds m (if length cs > 1 then Anyof else Allof, cs) = simple_holds m s"
  proof (cases "length ?vals = 1")
    case True
    then obtain v where "?vals = [v]" by (cases ?vals) auto
    with len all show ?thesis
      by (auto simp: flat_holds_def simple_holds_def Let_def split: if_splits)
  next
    case False
    then have "\<not> sneg s" "stest s \<noteq> TExists" using assms(3) by (auto split: if_splits)
    moreover have "length cs > 1" using False ne len by (cases ?vals) auto
    ultimately show ?thesis using ex by (simp add: flat_holds_def simple_holds_def Let_def)
  qed
qed

lemma child_conds_sound:
  assumes "child_conds k n f = Some new" "snd f \<noteq> []"
  shows "new \<noteq> []"
    and "k = Any \<Longrightarrow> list_ex (cond_holds m) new = flat_holds m f"
    and "k = All \<Longrightarrow> list_all (cond_holds m) new = flat_holds m f"
  using assms
  by (cases f; cases "fst f"; cases "snd f"; cases "tl (snd f)";
      auto simp: child_conds_def flat_holds_def split: if_splits)+

lemma flatten_sound:
  "flattenTest u d node = (Some f, d') \<Longrightarrow> node_wf node \<Longrightarrow> neg_single node
    \<Longrightarrow> snd f \<noteq> [] \<and> flat_holds m f = node_holds m node"
  "flattenChildren u d k n acc ns = (Some f, d') \<Longrightarrow> list_all node_wf ns \<Longrightarrow> list_all neg_single ns
    \<Longrightarrow> (acc \<noteq> [] \<or> ns \<noteq> [] \<longrightarrow> snd f \<noteq> [])
      \<and> (k = All \<longrightarrow> flat_holds m f = (list_all (cond_holds m) acc \<and> list_all (node_holds m) ns))
      \<and> (k = Any \<longrightarrow> flat_holds m f = (list_ex (cond_holds m) acc \<or> list_ex (node_holds m) ns))"
proof (induction u d node and u d k n acc ns arbitrary: f d' and f d'
    rule: flattenTest_flattenChildren.induct)
  case (2 u d s)
  then show ?case
    using simple_flat [of u d s] by (auto split: prod.splits)
next
  case (3 u d k children)
  then show ?case by (cases k) auto
next
  case (5 u d k n acc c cs)
  obtain r d1 where r: "flattenTest u d c = (r, d1)" by fastforce
  with "5.prems" obtain fc where fc: "r = Some fc" by (cases r) auto
  with r "5.prems" obtain new where new: "child_conds k n fc = Some new"
    and rest: "flattenChildren u d1 k n (acc @ new) cs = (Some f, d')"
    by (auto split: option.splits)
  have c: "snd fc \<noteq> [] \<and> flat_holds m fc = node_holds m c"
    using "5.IH"(1) [of fc d1] r fc "5.prems" by simp
  note ih = "5.IH"(2) [OF r [symmetric] fc new rest]
  have ne: "snd fc \<noteq> []" using c by blast
  note new_sound = child_conds_sound(1) [OF new ne] child_conds_sound(2,3) [OF new ne, where m = m]
  from new_sound c ih "5.prems" show ?case
    by (cases k) auto
qed (auto simp: flat_holds_def cond_holds_def)

section \<open>Properties\<close>

text \<open>C1: a script generated from canonical rules parses back to the same rules, up to the ids
  that the parser draws at random.\<close>

theorem sieve_round_trip:
  assumes "list_all canon_rule rs"
  shows "\<exists>rs'. sieveToRules u (rulesToSieve rs) = Some rs' \<and> map strip_rule rs' = map strip_rule rs"
  by (rule sieve.reads_back [OF assms])

definition example_rule :: sieve_rule where
  "example_rule = \<lparr>rule_id = ''r1'', rname = ''flag and move'', enabled = True,
     conditionJoin = Anyof,
     conditions =
       [\<lparr>cond_id = ''c1'', test = TAddress, part = Domain, cop = Contains, negated = False,
          hdr = ''from,sender'', val = ''spam.example''\<rparr>,
        \<lparr>cond_id = ''c2'', test = THeader, part = NoPart, cop = Is, negated = True,
          hdr = ''Subject'', val = [dquote, bslash]\<rparr>],
     actions =
       [(blank_action ''a1'' Setflag)\<lparr>flag := Some (bslash # ''Seen'')\<rparr>,
        (blank_action ''a2'' Fileinto)\<lparr>mailbox := Some ''Junk,Old'', copy := Some True\<rparr>,
        blank_action ''a3'' Stop]\<rparr>"

lemma example_rule_canon: "list_all canon_rule [example_rule]"
  by code_simp

theorem sieve_round_trip_witness:
  "\<exists>rs'. sieveToRules nat_str (rulesToSieve [example_rule]) = Some rs'
     \<and> map strip_rule rs' = map strip_rule [example_rule]"
  by (rule sieve_round_trip [OF example_rule_canon])

text \<open>Opening a generated script in the visual editor and saving it again, any number of
  times, reproduces the script character by character.\<close>

theorem sieve_reload_stable:
  assumes "list_all canon_rule rs" and "sieveToRules u (rulesToSieve rs) = Some rs'"
  shows "rulesToSieve rs' = rulesToSieve rs"
  using assms by (rule sieve.reprint)

theorem sieve_reload_stable_witness:
  "\<exists>rs'. sieveToRules nat_str (rulesToSieve [example_rule]) = Some rs'
     \<and> rulesToSieve rs' = rulesToSieve [example_rule]"
proof -
  obtain rs' where "sieveToRules nat_str (rulesToSieve [example_rule]) = Some rs'"
    using sieve_reads_back [OF example_rule_canon] by blast
  with sieve_reload_stable [OF example_rule_canon this] show ?thesis by blast
qed

text \<open>Two canonical rule sets with the same script are the same rules: nothing that the
  editor shows is lost in the text.\<close>

theorem sieve_text_determines_rules:
  assumes "list_all canon_rule rs" and "list_all canon_rule rs'"
    and "rulesToSieve rs = rulesToSieve rs'"
  shows "map strip_rule rs = map strip_rule rs'"
  using assms by (rule sieve.pr_injective)

theorem sieve_text_determines_rules_witness:
  "map strip_rule [example_rule] = map strip_rule [example_rule\<lparr>rule_id := ''other''\<rparr>]"
proof -
  have "list_all canon_rule [example_rule\<lparr>rule_id := ''other''\<rparr>]" by code_simp
  moreover have "rulesToSieve [example_rule] = rulesToSieve [example_rule\<lparr>rule_id := ''other''\<rparr>]"
    by (rule rulesToSieve_cong) (simp add: strip_rule_def)
  ultimately show ?thesis
    using sieve_text_determines_rules [OF example_rule_canon] by blast
qed

text \<open>C2: the tree of a parsed test and the flat conditions made from it mean the same for every
  message, unless a negated test lists several keys.\<close>

theorem flatten_preserves_meaning:
  assumes "parseTest f n p = Some (Some node, p')" and "neg_single node"
    and "flattenTest u d node = (Some flat, d')"
  shows "flat_holds m flat = node_holds m node"
  using flatten_sound(1) [OF assms(3) parse_wf(1) [OF assms(1)] assms(2)] by blast

definition example_test :: "tok list" where
  "example_test =
     [Tok Word ''anyof'', Tok Punct ''('', Tok Word ''true'', Tok Punct '','', Tok Word ''not'',
      Tok Word ''exists'', Tok Quoted ''List-Id'', Tok Punct '')'']"

theorem flatten_preserves_meaning_witness:
  "\<exists>node flat. parseTest 20 0 (init_parser example_test) = Some (Some node, init_parser [])
     \<and> flat_holds (\<lambda>_ _ _ _ _. False) flat = node_holds (\<lambda>_ _ _ _ _. False) node"
proof -
  let ?node = "Group Any [TrueNode, Simple \<lparr>stest = TExists, spart = None, sop = Some Is,
      sneg = True, sheaders = [''List-Id''], svalues = []\<rparr>]"
  have p: "parseTest 20 0 (init_parser example_test) = Some (Some ?node, init_parser [])"
    by code_simp
  have f: "\<exists>flat d'. flattenTest nat_str 0 ?node = (Some flat, d')"
    by (simp add: simpleToConditions_def child_conds_def)
  then show ?thesis
    using p flatten_preserves_meaning [OF p] by fastforce
qed

text \<open>A negated test that lists two keys changes its meaning: the source text passes when
  neither key matches, the conditions shown in the editor pass when one of them does not.\<close>

theorem negated_list_changes_meaning:
  "\<exists>flat d'. flattenTest u d (Simple \<lparr>stest = THeader, spart = None, sop = Some x, sneg = True,
       sheaders = [h], svalues = [v, w]\<rparr>) = (Some flat, d')
     \<and> flat_holds m flat = (\<not> (m THeader NoPart x h v \<and> m THeader NoPart x h w))
     \<and> node_holds m (Simple \<lparr>stest = THeader, spart = None, sop = Some x, sneg = True,
         sheaders = [h], svalues = [v, w]\<rparr>)
       = (\<not> (m THeader NoPart x h v \<or> m THeader NoPart x h w))"
  by (auto simp: simpleToConditions_def flat_holds_def cond_holds_def simple_holds_def Let_def)

text \<open>C3: the parser of tests always returns within the fuel that \<open>parseTestEntry\<close> gives it, so
  the model never stops early.\<close>

theorem parseTest_terminates: "\<exists>r p'. parseTest (2 * left p + 1) neg p = Some (r, p')"
  by (rule parse_fuel(1)) simp

text \<open>A folder whose name has a comma is read as one mailbox and written back as several, so
  saving the script files the mail into other folders.\<close>

theorem comma_folder_is_split:
  assumes "CHR '','' \<in> set box" and "trim box = box"
  shows "\<exists>a. fst (parseCommand u (init_parser [Tok Word ''fileinto'', Tok Quoted box,
        Tok Punct '';''])) = Some a
      \<and> actionToSieve a \<noteq> Some (''fileinto '' @ quoted box)"
proof -
  let ?a = "(blank_action (u 0) Fileinto)\<lparr>mailbox := Some box, copy := Some False\<rparr>"
  have "parseCommand u (init_parser [Tok Word ''fileinto'', Tok Quoted box, Tok Punct '';''])
      = (Some ?a, pst [] 1)"
    using parseCommand_args [of "[Tok Quoted box, Tok Punct '';'']" 0 "[]" "[box]" "[]" "''fileinto''" _ u]
    by (simp add: init_parser_pst args_loop_quoted args_loop_end command_action_def)
  moreover have "splitList (Some box) \<noteq> [box]"
    using splitList_pieces [of box "Some box"] assms(1) by auto
  moreover have "quoteListOrOne hs \<noteq> quoted box" if "hs \<noteq> [box]" for hs
  proof
    assume q: "quoteListOrOne hs = quoted box"
    then have "\<exists>x. hs = [x]"
      by (auto simp: quoteListOrOne_def quoted_def split: list.splits)
    then obtain x where x: "hs = [x]" "esc x = esc box"
      using q by (auto simp: quoteListOrOne_def quoted_def)
    have "scan_quoted (esc x @ dquote # []) = scan_quoted (esc box @ dquote # [])"
      using x(2) by simp
    with that x(1) show False by (simp only: scan_quoted_esc) simp
  qed
  ultimately show ?thesis
    by (auto simp: actionToSieve_def blank_action_def Let_def)
qed

theorem comma_folder_is_split_witness:
  "\<exists>a. fst (parseCommand nat_str (init_parser [Tok Word ''fileinto'', Tok Quoted ''Bills, paid'',
        Tok Punct '';''])) = Some a
      \<and> actionToSieve a \<noteq> Some (''fileinto '' @ quoted ''Bills, paid'')"
proof -
  have "CHR '','' \<in> set ''Bills, paid''" by simp
  moreover have "trim ''Bills, paid'' = ''Bills, paid''" by code_simp
  ultimately show ?thesis by (rule comma_folder_is_split)
qed

end
