(* ===== verification/ApiTypes.thy ===== *)
theory ApiTypes
  imports Prelude
begin

text \<open>
  The data that the frontend exchanges with its server: \<open>frontend/src/types/api.ts\<close> and the
  input types of the API modules.  An optional property is an option; a property that may be
  \<open>null\<close> is an option as well.  Dates are the strings of the source; uids, ports, counts and
  sizes are non-negative numbers.
\<close>

record email_address =
  ename :: string
  eaddress :: string

record attachment_info =
  att_id :: string
  filename :: string
  contentType :: string
  att_size :: nat
  contentId :: "string option"
  isInline :: bool

record message_summary =
  ms_uid :: nat
  ms_messageId :: string
  ms_subject :: string
  ms_date :: string
  ms_from :: "email_address list"
  ms_to :: "email_address list"
  ms_flags :: "string list"
  ms_unread :: bool
  ms_starred :: bool
  ms_hasAttachment :: bool
  ms_size :: nat
  ms_snippet :: "string option"
  ms_threadId :: "string option"
  ms_folder :: "string option"

record parsed_message =
  pm_uid :: nat
  pm_messageId :: string
  pm_subject :: string
  pm_date :: string
  pm_from :: "email_address list"
  pm_to :: "email_address list"
  pm_cc :: "email_address list"
  pm_bcc :: "email_address list"
  pm_replyTo :: "email_address list"
  pm_flags :: "string list"
  pm_unread :: bool
  pm_starred :: bool
  pm_answered :: bool
  pm_textBody :: string
  pm_htmlBody :: string
  pm_attachments :: "attachment_info list"
  pm_size :: nat

record folder_info =
  fi_name :: string
  fi_delimiter :: string
  fi_attributes :: "string list"
  fi_totalCount :: nat
  fi_unreadCount :: nat
  fi_specialUse :: "string option"
  fi_subscribed :: bool

record thread_summary =
  th_threadId :: string
  th_subject :: string
  th_date :: string
  th_senders :: "string list"
  th_messageCount :: nat
  th_unreadCount :: nat
  th_starred :: bool
  th_hasAttachment :: bool
  th_messages :: "message_summary list"

datatype list_mode = Messages | Threads

record message_list_result =
  ml_folder :: string
  ml_mode :: "list_mode option"
  ml_total :: nat
  ml_page :: nat
  ml_limit :: nat
  ml_totalPages :: nat
  ml_messages :: "message_summary list"
  ml_threads :: "thread_summary list option"

record account =
  acc_id :: string
  acc_label :: string
  acc_email :: string
  acc_imapHost :: string
  acc_imapPort :: nat
  acc_imapUseTls :: bool
  acc_imapAllowInsecureTls :: bool
  acc_smtpHost :: string
  acc_smtpPort :: nat
  acc_smtpUseTls :: bool
  acc_smtpAllowInsecureTls :: bool
  acc_sieveHost :: string
  acc_sievePort :: nat
  acc_sieveUseTls :: bool
  acc_sieveAllowInsecureTls :: bool
  acc_username :: string
  acc_isDefault :: bool
  acc_sortOrder :: nat
  acc_createdAt :: string
  acc_updatedAt :: string

record session =
  s_id :: string
  s_email :: string
  s_username :: string
  s_accounts :: "account list"
  s_createdAt :: string
  s_lastActiveAt :: string

record login_request =
  lr_email :: string
  lr_username :: "string option"
  lr_password :: string
  lr_imapHost :: string
  lr_imapPort :: "nat option"
  lr_imapUseTls :: "bool option"
  lr_imapAllowInsecureTls :: "bool option"
  lr_smtpHost :: string
  lr_smtpPort :: "nat option"
  lr_smtpUseTls :: "bool option"
  lr_smtpAllowInsecureTls :: "bool option"

record login_response =
  rs_token :: "string option"
  rs_session :: "session option"
  rs_requires2fa :: "bool option"
  rs_challenge :: "string option"
  rs_methods :: "string list option"

record verify_2fa_request =
  v_challenge :: string
  v_code :: string

text \<open>A file of the browser: its name, its media type and its content as code units.\<close>

record upload_file =
  f_name :: string
  f_type :: string
  f_data :: string

record outgoing_message =
  om_from :: "string option"
  om_to :: "string list"
  om_cc :: "string list option"
  om_bcc :: "string list option"
  om_subject :: string
  om_inReplyTo :: "string option"
  om_references :: "string option"
  om_textBody :: "string option"
  om_htmlBody :: "string option"
  om_attachments :: "upload_file list option"

record mailbox_event =
  ev_type :: string
  ev_accountId :: "string option"
  ev_mailbox :: string
  ev_totalCount :: "nat option"
  ev_timestamp :: string

record 'a standard_response =
  success :: bool
  sdata :: "'a option"
  serror :: "string option"

record account_input =
  ai_label :: string
  ai_email :: string
  ai_imapHost :: string
  ai_imapPort :: nat
  ai_imapUseTls :: bool
  ai_imapAllowInsecureTls :: "bool option"
  ai_smtpHost :: string
  ai_smtpPort :: nat
  ai_smtpUseTls :: bool
  ai_smtpAllowInsecureTls :: "bool option"
  ai_sieveHost :: "string option"
  ai_sievePort :: "nat option"
  ai_sieveUseTls :: "bool option"
  ai_sieveAllowInsecureTls :: "bool option"
  ai_username :: string
  ai_password :: "string option"

record contact =
  c_id :: string
  c_email :: string
  c_displayName :: string
  c_givenName :: "string option"
  c_familyName :: "string option"
  c_hasAvatar :: bool
  c_note :: "string option"
  c_source :: "string option"
  c_createdAt :: string
  c_updatedAt :: string

record onboarding_status =
  o_twoFAEnabled :: bool
  o_pgpEnabled :: bool
  o_require2FA :: bool
  o_requirePGP :: bool
  o_completed :: bool

record pgp_key_pair =
  kp_keyId :: string
  kp_fingerprint :: string
  kp_userId :: string
  kp_publicKeyArmored :: string
  kp_privateKeyArmored :: string
  kp_createdAt :: string

record pgp_contact_key =
  ck_email :: string
  ck_name :: "string option"
  ck_publicKeyArmored :: string
  ck_fingerprint :: string
  ck_keyId :: "string option"

record parsed_key_info =
  ki_email :: string
  ki_name :: string
  ki_keyId :: string
  ki_fingerprint :: string
  ki_armoredKey :: string
  ki_isPrivate :: bool

record cloud_keyring_payload =
  cl_email :: string
  cl_publicKeyArmored :: string
  cl_encryptedPrivateKeyArmored :: string
  cl_fingerprint :: string
  cl_keyId :: string
  cl_updatedAt :: string

end
