(* ===== verification/Http.thy ===== *)
theory Http
  imports ApiTypes
begin

text \<open>
  The transport of the frontend: the URL encoders of the language, and \<open>request\<close> of
  \<open>frontend/src/api/client.ts\<close>.  The outcome of \<open>fetch\<close> is an argument; a response that is JSON
  carries a \<open>StandardResponse\<close>, which is the type the source gives it.
\<close>

section \<open>JSON bodies\<close>

datatype json =
    JBool bool
  | JNum nat
  | JStr string
  | JArr "json list"
  | JObj "(string \<times> json) list"

text \<open>\<open>JSON.stringify\<close> leaves out a property whose value is \<open>undefined\<close>.\<close>

definition obj :: "(string \<times> json option) list \<Rightarrow> json" where
  "obj fs = JObj (map (\<lambda>(k, v). (k, the v)) (filter (\<lambda>(k, v). v \<noteq> None) fs))"

datatype form_value = FText string | FFile upload_file

datatype req_body = NoBody | JsonBody json | FormBody "(string \<times> form_value) list"

section \<open>Percent encoding\<close>

definition hex_digit :: "nat \<Rightarrow> char" where
  "hex_digit n = char_of (if n < 10 then 48 + n else 55 + n)"

definition is_hex :: "char \<Rightarrow> bool" where
  "is_hex c \<longleftrightarrow> is_digit c \<or> in_range 65 70 c \<or> in_range 97 102 c"

definition hex_val :: "char \<Rightarrow> nat" where
  "hex_val c =
     (if is_digit c then code c - 48 else if in_range 65 70 c then code c - 55 else code c - 87)"

definition pct :: "nat \<Rightarrow> string" where
  "pct b = [CHR ''%'', hex_digit (b div 16), hex_digit (b mod 16)]"

text \<open>The UTF-8 bytes of one code unit below 256.\<close>

definition utf8 :: "char \<Rightarrow> nat list" where
  "utf8 c = (if code c < 128 then [code c] else [192 + code c div 64, 128 + code c mod 64])"

definition uri_plain :: "char \<Rightarrow> bool" where
  "uri_plain c \<longleftrightarrow> is_alpha c \<or> is_digit c \<or> c \<in> set ''-_.!~*()'' \<or> c = squote"

definition form_plain :: "char \<Rightarrow> bool" where
  "form_plain c \<longleftrightarrow> is_alpha c \<or> is_digit c \<or> c \<in> set ''*-._''"

definition uri_char :: "char \<Rightarrow> string" where
  "uri_char c = (if uri_plain c then [c] else concat (map pct (utf8 c)))"

definition form_char :: "char \<Rightarrow> string" where
  "form_char c =
     (if c = CHR '' '' then ''+'' else if form_plain c then [c] else concat (map pct (utf8 c)))"

definition encodeURIComponent :: "string \<Rightarrow> string" where
  "encodeURIComponent s = concat (map uri_char s)"

definition form_encode :: "string \<Rightarrow> string" where
  "form_encode s = concat (map form_char s)"

text \<open>\<open>new URLSearchParams\<close>, \<open>params.set\<close> and \<open>params.toString()\<close>.\<close>

type_synonym params = "(string \<times> string) list"

definition param_set :: "string \<Rightarrow> string \<Rightarrow> params \<Rightarrow> params" where
  "param_set k v ps =
     (if k \<in> fst ` set ps then
        takeWhile (\<lambda>p. fst p \<noteq> k) ps
        @ (k, v) # filter (\<lambda>p. fst p \<noteq> k) (dropWhile (\<lambda>p. fst p \<noteq> k) ps)
      else ps @ [(k, v)])"

definition params_str :: "params \<Rightarrow> string" where
  "params_str ps = join ''&'' (map (\<lambda>(k, v). form_encode k @ ''='' @ form_encode v) ps)"

section \<open>Decoding, as a server does it\<close>

fun bytes_of :: "string \<Rightarrow> nat list" where
  "bytes_of [] = []"
| "bytes_of (c # cs) =
     (if c = CHR ''%'' then
        (case cs of
           a # b # r \<Rightarrow>
             if is_hex a \<and> is_hex b then (16 * hex_val a + hex_val b) # bytes_of r
             else code c # bytes_of cs
         | _ \<Rightarrow> code c # bytes_of cs)
      else if c = CHR ''+'' then 32 # bytes_of cs
      else code c # bytes_of cs)"

fun utf8_decode :: "nat list \<Rightarrow> string" where
  "utf8_decode [] = []"
| "utf8_decode [b] = [char_of b]"
| "utf8_decode (b # b' # bs) =
     (if b < 128 then char_of b # utf8_decode (b' # bs)
      else char_of ((b - 192) * 64 + (b' - 128)) # utf8_decode bs)"

definition url_decode :: "string \<Rightarrow> string" where
  "url_decode s = utf8_decode (bytes_of s)"

definition parse_pair :: "string \<Rightarrow> string \<times> string" where
  "parse_pair s =
     (url_decode (takeWhile (\<lambda>c. c \<noteq> CHR ''='') s),
      url_decode (tl (dropWhile (\<lambda>c. c \<noteq> CHR ''='') s)))"

definition parse_query :: "string \<Rightarrow> params" where
  "parse_query s = map parse_pair (split_on CHR ''&'' s)"

lemma code_less: "code c < 256"
  by (cases c) (simp add: code_def)

lemma char_of_code [simp]: "char_of (code c) = c"
  by (simp add: code_def)

lemma hex_digit_code: "n < 16 \<Longrightarrow> code (hex_digit n) = (if n < 10 then 48 + n else 55 + n)"
  by (simp add: hex_digit_def code_char_of)

lemma is_hex_digit [simp]: "n < 16 \<Longrightarrow> is_hex (hex_digit n)"
  by (simp add: is_hex_def is_digit_def in_range_def hex_digit_code)

lemma hex_val_digit [simp]: "n < 16 \<Longrightarrow> hex_val (hex_digit n) = n"
  by (simp add: hex_val_def is_digit_def in_range_def hex_digit_code)

lemma bytes_of_pct: "b < 256 \<Longrightarrow> bytes_of (pct b @ r) = b # bytes_of r"
  by (simp add: pct_def less_mult_imp_div_less)

lemma utf8_bytes: "b \<in> set (utf8 c) \<Longrightarrow> b < 256"
  using code_less [of c] by (auto simp: utf8_def split: if_splits)

lemma bytes_of_pcts:
  "\<forall>b \<in> set bs. b < 256 \<Longrightarrow> bytes_of (concat (map pct bs) @ r) = bs @ bytes_of r"
  by (induction bs) (simp_all add: bytes_of_pct)

lemma plain_ascii: "is_alpha c \<or> is_digit c \<Longrightarrow> code c < 128"
  by (auto simp: is_alpha_def is_digit_def in_range_def)

lemma uri_plain_utf8: "uri_plain c \<Longrightarrow> utf8 c = [code c] \<and> c \<noteq> CHR ''%'' \<and> c \<noteq> CHR ''+''"
  using plain_ascii [of c]
  by (auto simp: uri_plain_def utf8_def code_def is_alpha_def is_digit_def in_range_def)

lemma form_plain_utf8: "form_plain c \<Longrightarrow> utf8 c = [code c] \<and> c \<noteq> CHR ''%'' \<and> c \<noteq> CHR ''+''"
  using plain_ascii [of c]
  by (auto simp: form_plain_def utf8_def code_def is_alpha_def is_digit_def in_range_def)

lemma bytes_of_uri_char: "bytes_of (uri_char c @ r) = utf8 c @ bytes_of r"
  using uri_plain_utf8 [of c] by (auto simp: uri_char_def bytes_of_pcts utf8_bytes)

lemma bytes_of_form_char: "bytes_of (form_char c @ r) = utf8 c @ bytes_of r"
  using form_plain_utf8 [of c]
  by (auto simp: form_char_def bytes_of_pcts utf8_bytes) (simp add: utf8_def code_def)

lemma bytes_of_uri: "bytes_of (encodeURIComponent s) = concat (map utf8 s)"
  using bytes_of_uri_char by (induction s) (auto simp: encodeURIComponent_def)

lemma bytes_of_form: "bytes_of (form_encode s) = concat (map utf8 s)"
  using bytes_of_form_char by (induction s) (auto simp: form_encode_def)

lemma utf8_decode_ascii: "b < 128 \<Longrightarrow> utf8_decode (b # bs) = char_of b # utf8_decode bs"
  by (cases bs) auto

lemma utf8_decode_char: "utf8_decode (utf8 c @ bs) = c # utf8_decode bs"
  using code_less [of c] by (simp add: utf8_def utf8_decode_ascii)

lemma utf8_decode_encode: "utf8_decode (concat (map utf8 s)) = s"
  by (induction s) (simp_all add: utf8_decode_char)

lemma url_decode_uri [simp]: "url_decode (encodeURIComponent s) = s"
  by (simp add: url_decode_def bytes_of_uri utf8_decode_encode)

lemma url_decode_form [simp]: "url_decode (form_encode s) = s"
  by (simp add: url_decode_def bytes_of_form utf8_decode_encode)

section \<open>The separators of a URL never occur in an encoded value\<close>

definition reserved :: "char \<Rightarrow> bool" where
  "reserved c \<longleftrightarrow> c \<in> set ''/?#&='' \<or> c = bslash"

lemma hex_digit_plain: "n < 16 \<Longrightarrow> \<not> reserved (hex_digit n)"
proof
  assume n: "n < 16" and r: "reserved (hex_digit n)"
  have "is_hex (hex_digit n)" using n by simp
  then show False
    using r by (auto simp: reserved_def is_hex_def is_digit_def in_range_def code_def)
qed

lemma pct_plain: "b < 256 \<Longrightarrow> x \<in> set (pct b) \<Longrightarrow> \<not> reserved x"
  by (auto simp: pct_def less_mult_imp_div_less hex_digit_plain) (simp add: reserved_def)

lemma plain_not_reserved: "uri_plain c \<Longrightarrow> \<not> reserved c" "form_plain c \<Longrightarrow> \<not> reserved c"
  by (auto simp: reserved_def uri_plain_def form_plain_def is_alpha_def is_digit_def in_range_def
      code_def)

lemma uri_not_reserved: "x \<in> set (encodeURIComponent s) \<Longrightarrow> \<not> reserved x"
  by (auto simp: encodeURIComponent_def uri_char_def plain_not_reserved split: if_splits
      dest: pct_plain [OF utf8_bytes])

lemma form_not_reserved: "x \<in> set (form_encode s) \<Longrightarrow> \<not> reserved x"
proof -
  have plus: "\<not> reserved CHR ''+''" by (simp add: reserved_def)
  show "x \<in> set (form_encode s) \<Longrightarrow> \<not> reserved x"
    by (auto simp: form_encode_def form_char_def plain_not_reserved plus split: if_splits
        dest: pct_plain [OF utf8_bytes])
qed

lemma reserved_chars:
  "reserved CHR ''&''" "reserved CHR ''=''" "reserved CHR ''/''" "reserved CHR ''?''" "reserved CHR ''#''"
  by (simp_all add: reserved_def)

lemma takeWhile_append_sep:
  "d \<notin> set k \<Longrightarrow> takeWhile (\<lambda>c. c \<noteq> d) (k @ d # v) = k \<and> dropWhile (\<lambda>c. c \<noteq> d) (k @ d # v) = d # v"
  by (induction k) auto

lemma parse_pair_encoded:
  assumes "\<And>x. x \<in> set k \<Longrightarrow> \<not> reserved x"
  shows "parse_pair (k @ ''='' @ v) = (url_decode k, url_decode v)"
proof -
  have "CHR ''='' \<notin> set k" using assms reserved_chars(2) by blast
  from takeWhile_append_sep [OF this, of v] show ?thesis by (simp add: parse_pair_def)
qed

lemma parse_query_params: "ps \<noteq> [] \<Longrightarrow> parse_query (params_str ps) = ps"
proof -
  assume ne: "ps \<noteq> []"
  let ?f = "\<lambda>(k, v). form_encode k @ ''='' @ form_encode v"
  have "CHR ''&'' \<notin> set x" if "x \<in> set (map ?f ps)" for x
    using that form_not_reserved reserved_chars(1) by auto
  with ne have "split_on CHR ''&'' (params_str ps) = map ?f ps"
    by (simp add: params_str_def split_on_join)
  moreover have "parse_pair (?f p) = p" for p
    using parse_pair_encoded [of "form_encode (fst p)" "form_encode (snd p)"] form_not_reserved
    by (cases p) simp
  ultimately show ?thesis by (simp add: parse_query_def o_def case_prod_unfold)
qed

section \<open>Messages and errors\<close>

text \<open>A text of the interface: a literal, or a translation key with its variables.\<close>

datatype message = Raw string | Tr string "(string \<times> message) list"

text \<open>\<open>e.message || t(key)\<close>\<close>

definition message_or :: "string \<Rightarrow> message \<Rightarrow> message" where
  "message_or key m = (if m = Raw [] then Tr key [] else m)"

record api_error =
  emessage :: message
  estatus :: "nat option"

text \<open>\<open>String(err?.message || err)\<close>: without a message it is the name of the error class.\<close>

definition error_text :: "api_error \<Rightarrow> message" where
  "error_text e = (if emessage e = Raw [] then Raw ''ApiError'' else emessage e)"

section \<open>The client\<close>

record http_options =
  omethod :: "string option"
  obody :: req_body
  oheaders :: "(string \<times> string) list"

record http_request =
  url :: string
  rmethod :: string
  rheaders :: "(string \<times> string) list"
  credentials :: string
  rbody :: req_body

datatype 'a resp_body = Standard "'a standard_response" | NotJson string

record 'a response =
  rstatus :: nat
  rstatusText :: string
  rtextbody :: "'a resp_body"

datatype 'a fetch_outcome = NetError string | Response "'a response"

definition get_options :: http_options where
  "get_options = \<lparr>omethod = None, obody = NoBody, oheaders = []\<rparr>"

definition with_body :: "string \<Rightarrow> req_body \<Rightarrow> http_options" where
  "with_body m b = \<lparr>omethod = Some m, obody = b, oheaders = []\<rparr>"

definition API_BASE :: string where
  "API_BASE = ''/api''"

definition is_form :: "req_body \<Rightarrow> bool" where
  "is_form b = (case b of FormBody _ \<Rightarrow> True | _ \<Rightarrow> False)"

definition has_header :: "string \<Rightarrow> (string \<times> string) list \<Rightarrow> bool" where
  "has_header n hs = list_ex (\<lambda>(k, _). to_lower k = to_lower n) hs"

text \<open>The request that \<open>request\<close> hands to \<open>fetch\<close>.\<close>

definition build_request :: "string \<Rightarrow> http_options \<Rightarrow> http_request" where
  "build_request endpoint opts =
     \<lparr>url = API_BASE @ endpoint,
      rmethod = (case omethod opts of None \<Rightarrow> ''GET'' | Some m \<Rightarrow> m),
      rheaders =
        (if \<not> has_header ''Content-Type'' (oheaders opts) \<and> \<not> is_form (obody opts)
         then oheaders opts @ [(''Content-Type'', ''application/json'')] else oheaders opts),
      credentials = ''same-origin'', rbody = obody opts\<rparr>"

text \<open>Whether a response makes the client announce that the session is gone.\<close>

definition announces_unauthorized :: "string \<Rightarrow> string \<Rightarrow> nat \<Rightarrow> bool" where
  "announces_unauthorized pathname endpoint stat \<longleftrightarrow>
     stat = 401
     \<and> \<not> starts_with endpoint ''/2fa/''
     \<and> \<not> starts_with endpoint ''/auth/logout''
     \<and> \<not> starts_with endpoint ''/auth/change-password''
     \<and> \<not> starts_with endpoint ''/auth/me''
     \<and> \<not> contains pathname ''/login''"

text \<open>
  \<open>request\<close>: the result (an error or the data, which may be \<open>undefined\<close>) and whether the event
  \<open>auth:unauthorized\<close> was dispatched.
\<close>

definition request ::
    "string \<Rightarrow> string \<Rightarrow> 'a fetch_outcome \<Rightarrow> (api_error + 'a option) \<times> bool" where
  "request pathname endpoint fetched =
     (case fetched of
        NetError detail \<Rightarrow>
          (Inl \<lparr>emessage = Tr ''api.unreachable''
                  [(''detail'', if detail \<noteq> [] then Raw detail else Tr ''api.networkTimeout'' [])],
                estatus = None\<rparr>, False)
      | Response r \<Rightarrow>
          (case rtextbody r of
             NotJson raw \<Rightarrow>
               Inl \<lparr>emessage = Tr ''api.badGateway''
                      [(''status'', Raw (nat_str (rstatus r))), (''statusText'', Raw (rstatusText r)),
                       (''body'', Raw (take 120 raw))],
                    estatus = Some (rstatus r)\<rparr>
           | Standard d \<Rightarrow>
               if \<not> success d then
                 Inl \<lparr>emessage =
                        (if truthy_opt (serror d) then Raw (opt_string (serror d))
                         else Tr ''api.requestFailed'' [(''status'', Raw (nat_str (rstatus r)))]),
                      estatus = Some (rstatus r)\<rparr>
               else Inr (sdata d),
           announces_unauthorized pathname endpoint (rstatus r)))"

lemma request_ok_iff:
  "fst (request pn ep fo) = Inr x \<longleftrightarrow>
     (\<exists>r d. fo = Response r \<and> rtextbody r = Standard d \<and> success d \<and> sdata d = x)"
  by (auto simp: request_def split: fetch_outcome.split resp_body.split)

lemma request_announces_iff:
  "snd (request pn ep fo) \<longleftrightarrow>
     (\<exists>r. fo = Response r \<and> announces_unauthorized pn ep (rstatus r))"
  by (auto simp: request_def split: fetch_outcome.split)

end
