(* ===== verification/Api.thy ===== *)
theory Api
  imports Http
begin

text \<open>
  The API modules of \<open>frontend/src/api\<close>.  A function of these modules that returns
  \<open>request(endpoint, options)\<close> is the pair of both; the client turns the pair into a request
  and the outcome into a result.
\<close>

type_synonym call = "string \<times> http_options"

abbreviation json_body :: "string \<Rightarrow> (string \<times> json option) list \<Rightarrow> http_options" where
  "json_body m fs \<equiv> with_body m (JsonBody (obj fs))"

abbreviation jstr :: "string \<Rightarrow> json option" where "jstr s \<equiv> Some (JStr s)"
abbreviation jstr_opt :: "string option \<Rightarrow> json option" where "jstr_opt so \<equiv> map_option JStr so"
abbreviation jbool_opt :: "bool option \<Rightarrow> json option" where "jbool_opt bo \<equiv> map_option JBool bo"
abbreviation jnum_opt :: "nat option \<Rightarrow> json option" where "jnum_opt no \<equiv> map_option JNum no"
abbreviation jstrs :: "string list \<Rightarrow> json" where "jstrs ss \<equiv> JArr (map JStr ss)"
abbreviation juids :: "nat list \<Rightarrow> json" where "juids ns \<equiv> JArr (map JNum ns)"

section \<open>Mail\<close>

definition accountParam :: "string option \<Rightarrow> string" where
  "accountParam account =
     (if truthy_opt account then ''?account='' @ encodeURIComponent (opt_string account) else [])"

definition account_qs :: "string option \<Rightarrow> string" where
  "account_qs account =
     (if truthy_opt account then ''&account='' @ encodeURIComponent (opt_string account) else [])"

fun replace_first :: "char \<Rightarrow> char \<Rightarrow> string \<Rightarrow> string" where
  "replace_first a b [] = []"
| "replace_first a b (c # cs) = (if c = a then b # cs else c # replace_first a b cs)"

definition getFolders :: "string option \<Rightarrow> call" where
  "getFolders account =
     (''/mail/folders?x=1'' @ replace_first CHR ''?'' CHR ''&'' (accountParam account), get_options)"

definition setFolderSubscription :: "string \<Rightarrow> bool \<Rightarrow> string option \<Rightarrow> call" where
  "setFolderSubscription nm subscribed account =
     (''/mail/folders/subscribe'' @ accountParam account,
      json_body ''POST'' [(''name'', jstr nm), (''subscribed'', Some (JBool subscribed))])"

definition message_params ::
    "string \<Rightarrow> nat \<Rightarrow> nat \<Rightarrow> string \<Rightarrow> string option \<Rightarrow> bool \<Rightarrow> params" where
  "message_params folder page limit query account thread =
     (let ps = [(''folder'', folder), (''page'', nat_str page), (''limit'', nat_str limit)];
          ps = (if query \<noteq> [] then param_set ''q'' query ps else ps);
          ps = (if truthy_opt account then param_set ''account'' (opt_string account) ps else ps)
      in if thread then param_set ''thread'' ''1'' ps else ps)"

definition getMessages ::
    "string \<Rightarrow> nat \<Rightarrow> nat \<Rightarrow> string \<Rightarrow> string option \<Rightarrow> bool \<Rightarrow> call" where
  "getMessages folder page limit query account thread =
     (''/mail/messages?'' @ params_str (message_params folder page limit query account thread),
      get_options)"

definition unread_params :: "nat \<Rightarrow> nat \<Rightarrow> string option \<Rightarrow> params" where
  "unread_params page limit account =
     (let ps = [(''page'', nat_str page), (''limit'', nat_str limit)]
      in if truthy_opt account then param_set ''account'' (opt_string account) ps else ps)"

definition getUnread :: "nat \<Rightarrow> nat \<Rightarrow> string option \<Rightarrow> call" where
  "getUnread page limit account =
     (''/mail/unread?'' @ params_str (unread_params page limit account), get_options)"

definition getMessageDetail :: "nat \<Rightarrow> string \<Rightarrow> string option \<Rightarrow> call" where
  "getMessageDetail uid folder account =
     (''/mail/messages/'' @ nat_str uid @ ''?folder='' @ encodeURIComponent folder @ account_qs account,
      get_options)"

definition getAttachmentUrl :: "nat \<Rightarrow> string \<Rightarrow> string \<Rightarrow> string option \<Rightarrow> string" where
  "getAttachmentUrl uid attId folder account =
     ''/api/mail/messages/'' @ nat_str uid @ ''/attachments/'' @ encodeURIComponent attId
     @ ''?folder='' @ encodeURIComponent folder @ account_qs account"

definition rawMessageUrl :: "nat \<Rightarrow> string \<Rightarrow> string option \<Rightarrow> string" where
  "rawMessageUrl uid folder account =
     ''/api/mail/messages/'' @ nat_str uid @ ''/raw?folder='' @ encodeURIComponent folder
     @ account_qs account"

text \<open>A plain \<open>fetch\<close>: the status and the text; \<open>res.ok\<close> is a status from 200 to 299.\<close>

definition res_ok :: "nat \<Rightarrow> bool" where
  "res_ok s \<longleftrightarrow> 200 \<le> s \<and> s \<le> 299"

definition getRawMessage :: "nat \<times> string \<Rightarrow> message + string" where
  "getRawMessage res =
     (case res of (stat, body) \<Rightarrow>
        if res_ok stat then Inr body
        else Inl (Tr ''api.rawMailFailed'' [(''status'', Raw (nat_str stat))]))"

datatype flag_op = FAdd | FRemove | FSet

fun flag_op_str :: "flag_op \<Rightarrow> string" where
  "flag_op_str FAdd = ''add''"
| "flag_op_str FRemove = ''remove''"
| "flag_op_str FSet = ''set''"

definition setFlags ::
    "string \<Rightarrow> nat list \<Rightarrow> string list \<Rightarrow> flag_op \<Rightarrow> string option \<Rightarrow> call" where
  "setFlags folder uids flags opr account =
     (''/mail/messages/flags'' @ accountParam account,
      json_body ''POST'' [(''folder'', jstr folder), (''uids'', Some (juids uids)),
        (''flags'', Some (jstrs flags)), (''op'', jstr (flag_op_str opr))])"

definition moveMessages :: "string \<Rightarrow> nat list \<Rightarrow> string \<Rightarrow> string option \<Rightarrow> call" where
  "moveMessages folder uids destFolder account =
     (''/mail/messages/move'' @ accountParam account,
      json_body ''POST'' [(''folder'', jstr folder), (''uids'', Some (juids uids)),
        (''destFolder'', jstr destFolder)])"

definition deleteMessages :: "string \<Rightarrow> nat list \<Rightarrow> bool \<Rightarrow> string option \<Rightarrow> call" where
  "deleteMessages folder uids permanent account =
     (''/mail/messages/delete'' @ accountParam account,
      json_body ''POST'' [(''folder'', jstr folder), (''uids'', Some (juids uids)),
        (''permanent'', Some (JBool permanent))])"

definition emptyFolder :: "string \<Rightarrow> string option \<Rightarrow> call" where
  "emptyFolder folder account =
     (''/mail/messages/empty'' @ accountParam account, json_body ''POST'' [(''folder'', jstr folder)])"

text \<open>The two encodings of an outgoing message: a form when it has attachments, else JSON.\<close>

definition form_text_if :: "string \<Rightarrow> string option \<Rightarrow> (string \<times> form_value) list" where
  "form_text_if k so = (if truthy_opt so then [(k, FText (opt_string so))] else [])"

definition form_list_if :: "string \<Rightarrow> string list option \<Rightarrow> (string \<times> form_value) list" where
  "form_list_if k so = (case so of None \<Rightarrow> [] | Some xs \<Rightarrow> [(k, FText (join '','' xs))])"

definition outgoing_form ::
    "outgoing_message \<Rightarrow> string option \<Rightarrow> upload_file list \<Rightarrow> (string \<times> form_value) list" where
  "outgoing_form msg account files =
     form_text_if ''from'' (om_from msg)
     @ [(''to'', FText (join '','' (om_to msg)))]
     @ form_list_if ''cc'' (om_cc msg)
     @ form_list_if ''bcc'' (om_bcc msg)
     @ [(''subject'', FText (om_subject msg))]
     @ form_text_if ''inReplyTo'' (om_inReplyTo msg)
     @ form_text_if ''references'' (om_references msg)
     @ form_text_if ''textBody'' (om_textBody msg)
     @ form_text_if ''htmlBody'' (om_htmlBody msg)
     @ form_text_if ''account'' account
     @ map (\<lambda>f. (''attachments'', FFile f)) files"

definition outgoing_json :: "outgoing_message \<Rightarrow> json" where
  "outgoing_json msg = obj
     [(''from'', jstr_opt (om_from msg)), (''to'', Some (jstrs (om_to msg))),
      (''cc'', map_option jstrs (om_cc msg)), (''bcc'', map_option jstrs (om_bcc msg)),
      (''subject'', jstr (om_subject msg)), (''inReplyTo'', jstr_opt (om_inReplyTo msg)),
      (''references'', jstr_opt (om_references msg)), (''textBody'', jstr_opt (om_textBody msg)),
      (''htmlBody'', jstr_opt (om_htmlBody msg)),
      (''attachments'', map_option (\<lambda>fs. JArr (map (\<lambda>_. JObj []) fs)) (om_attachments msg))]"

definition postOutgoing :: "string \<Rightarrow> outgoing_message \<Rightarrow> string option \<Rightarrow> call" where
  "postOutgoing path msg account =
     (case om_attachments msg of
        Some (f # fs) \<Rightarrow> (path, with_body ''POST'' (FormBody (outgoing_form msg account (f # fs))))
      | _ \<Rightarrow> (path, with_body ''POST'' (JsonBody (outgoing_json msg))))"

definition sendMessage :: "outgoing_message \<Rightarrow> string option \<Rightarrow> call" where
  "sendMessage msg account = postOutgoing (''/mail/send'' @ accountParam account) msg account"

definition saveDraft :: "outgoing_message \<Rightarrow> string option \<Rightarrow> call" where
  "saveDraft msg account = postOutgoing (''/mail/drafts'' @ accountParam account) msg account"

section \<open>Authentication and second factors\<close>

definition auth_login :: "login_request \<Rightarrow> call" where
  "auth_login r =
     (''/auth/login'', json_body ''POST''
        [(''email'', jstr (lr_email r)), (''username'', jstr_opt (lr_username r)),
         (''password'', jstr (lr_password r)), (''imapHost'', jstr (lr_imapHost r)),
         (''imapPort'', jnum_opt (lr_imapPort r)), (''imapUseTls'', jbool_opt (lr_imapUseTls r)),
         (''imapAllowInsecureTls'', jbool_opt (lr_imapAllowInsecureTls r)),
         (''smtpHost'', jstr (lr_smtpHost r)), (''smtpPort'', jnum_opt (lr_smtpPort r)),
         (''smtpUseTls'', jbool_opt (lr_smtpUseTls r)),
         (''smtpAllowInsecureTls'', jbool_opt (lr_smtpAllowInsecureTls r))])"

definition auth_verify2fa :: "verify_2fa_request \<Rightarrow> call" where
  "auth_verify2fa r =
     (''/auth/verify-2fa'',
      json_body ''POST'' [(''challenge'', jstr (v_challenge r)), (''code'', jstr (v_code r))])"

definition auth_logout :: call where
  "auth_logout = (''/auth/logout'', with_body ''POST'' NoBody)"

definition auth_getMe :: call where
  "auth_getMe = (''/auth/me'', get_options)"

definition changePassword :: "string \<Rightarrow> string \<Rightarrow> string \<Rightarrow> string option \<Rightarrow> call" where
  "changePassword oldPassword newPassword confirmPassword account =
     (''/auth/change-password'', json_body ''POST''
        [(''oldPassword'', jstr oldPassword), (''newPassword'', jstr newPassword),
         (''confirmPassword'', jstr confirmPassword),
         (''account'', if truthy_opt account then jstr_opt account else None)])"

definition twofa_getStatus :: call where
  "twofa_getStatus = (''/2fa/status'', get_options)"

definition twofa_setup :: "string option \<Rightarrow> call" where
  "twofa_setup secret =
     (''/2fa/setup'',
      with_body ''POST''
        (if truthy_opt secret then JsonBody (obj [(''secret'', jstr_opt secret)]) else NoBody))"

definition twofa_enable :: "string \<Rightarrow> string \<Rightarrow> call" where
  "twofa_enable secret cod =
     (''/2fa/enable'', json_body ''POST'' [(''secret'', jstr secret), (''code'', jstr cod)])"

definition twofa_disable :: "string \<Rightarrow> call" where
  "twofa_disable cod = (''/2fa/disable'', json_body ''POST'' [(''code'', jstr cod)])"

definition regenerateBackupCodes :: "string \<Rightarrow> call" where
  "regenerateBackupCodes cod =
     (''/2fa/regenerate-backup-codes'', json_body ''POST'' [(''code'', jstr cod)])"

definition webauthn_list :: call where
  "webauthn_list = (''/2fa/webauthn'', get_options)"

definition registerBegin :: call where
  "registerBegin = (''/2fa/webauthn/register/begin'', with_body ''POST'' NoBody)"

definition registerFinish :: "string \<Rightarrow> json \<Rightarrow> string option \<Rightarrow> call" where
  "registerFinish challenge credential nm =
     (''/2fa/webauthn/register/finish?''
        @ params_str (if truthy_opt nm then param_set ''name'' (opt_string nm) [(''challenge'', challenge)]
                      else [(''challenge'', challenge)]),
      with_body ''POST'' (JsonBody credential))"

definition webauthn_rename :: "string \<Rightarrow> string \<Rightarrow> call" where
  "webauthn_rename i nm =
     (''/2fa/webauthn/'' @ encodeURIComponent i, json_body ''PATCH'' [(''name'', jstr nm)])"

definition webauthn_remove :: "string \<Rightarrow> call" where
  "webauthn_remove i = (''/2fa/webauthn/'' @ encodeURIComponent i, with_body ''DELETE'' NoBody)"

definition loginBegin :: "string \<Rightarrow> call" where
  "loginBegin pendingChallenge =
     (''/auth/webauthn/begin'', json_body ''POST'' [(''challenge'', jstr pendingChallenge)])"

definition loginVerify :: "string \<Rightarrow> json \<Rightarrow> call" where
  "loginVerify ceremonyChallenge assertion =
     (''/auth/webauthn/verify?challenge='' @ encodeURIComponent ceremonyChallenge,
      with_body ''POST'' (JsonBody assertion))"

section \<open>Accounts, preferences and onboarding\<close>

definition account_json :: "account_input \<Rightarrow> json" where
  "account_json a = obj
     [(''label'', jstr (ai_label a)), (''email'', jstr (ai_email a)),
      (''imapHost'', jstr (ai_imapHost a)), (''imapPort'', Some (JNum (ai_imapPort a))),
      (''imapUseTls'', Some (JBool (ai_imapUseTls a))),
      (''imapAllowInsecureTls'', jbool_opt (ai_imapAllowInsecureTls a)),
      (''smtpHost'', jstr (ai_smtpHost a)), (''smtpPort'', Some (JNum (ai_smtpPort a))),
      (''smtpUseTls'', Some (JBool (ai_smtpUseTls a))),
      (''smtpAllowInsecureTls'', jbool_opt (ai_smtpAllowInsecureTls a)),
      (''sieveHost'', jstr_opt (ai_sieveHost a)), (''sievePort'', jnum_opt (ai_sievePort a)),
      (''sieveUseTls'', jbool_opt (ai_sieveUseTls a)),
      (''sieveAllowInsecureTls'', jbool_opt (ai_sieveAllowInsecureTls a)),
      (''username'', jstr (ai_username a)), (''password'', jstr_opt (ai_password a))]"

definition accounts_list :: call where
  "accounts_list = (''/accounts'', get_options)"

definition accounts_create :: "account_input \<Rightarrow> call" where
  "accounts_create a = (''/accounts'', with_body ''POST'' (JsonBody (account_json a)))"

definition accounts_update :: "string \<Rightarrow> account_input \<Rightarrow> call" where
  "accounts_update i a = (''/accounts/'' @ i, with_body ''PUT'' (JsonBody (account_json a)))"

definition accounts_remove :: "string \<Rightarrow> call" where
  "accounts_remove i = (''/accounts/'' @ i, with_body ''DELETE'' NoBody)"

definition accounts_setDefault :: "string \<Rightarrow> call" where
  "accounts_setDefault i = (''/accounts/'' @ i @ ''/default'', with_body ''POST'' NoBody)"

definition getFolderPrefs :: "string \<Rightarrow> call" where
  "getFolderPrefs i = (''/accounts/'' @ i @ ''/folders/prefs'', get_options)"

definition setFolderPref :: "string \<Rightarrow> string \<Rightarrow> bool \<Rightarrow> call" where
  "setFolderPref i folder visible =
     (''/accounts/'' @ i @ ''/folders/prefs'',
      json_body ''PUT'' [(''folder'', jstr folder), (''visible'', Some (JBool visible))])"

definition getFolderOrder :: "string \<Rightarrow> call" where
  "getFolderOrder i = (''/accounts/'' @ i @ ''/folders/order'', get_options)"

definition setFolderOrder :: "string \<Rightarrow> string list \<Rightarrow> call" where
  "setFolderOrder i order =
     (''/accounts/'' @ i @ ''/folders/order'', json_body ''PUT'' [(''order'', Some (jstrs order))])"

definition accounts_test :: "account_input \<Rightarrow> call" where
  "accounts_test a = (''/accounts/test'', with_body ''POST'' (JsonBody (account_json a)))"

definition prefs_get :: "string \<Rightarrow> call" where
  "prefs_get k = (''/prefs/'' @ encodeURIComponent k, get_options)"

definition prefs_set :: "string \<Rightarrow> string \<Rightarrow> call" where
  "prefs_set k v = (''/prefs/'' @ encodeURIComponent k, json_body ''PUT'' [(''value'', jstr v)])"

definition onboarding_get :: call where
  "onboarding_get = (''/onboarding/status'', get_options)"

definition ensureJunkFolder :: "string \<Rightarrow> call" where
  "ensureJunkFolder i = (''/accounts/'' @ i @ ''/ensure-junk-folder'', with_body ''POST'' NoBody)"

section \<open>Contacts\<close>

text \<open>\<open>if (limit)\<close> and \<open>if (offset)\<close> leave out 0 as well as \<open>undefined\<close>.\<close>

definition contact_params :: "string option \<Rightarrow> nat option \<Rightarrow> nat option \<Rightarrow> params" where
  "contact_params q limit offset =
     (let num = (\<lambda>k no ps. case no of Some n \<Rightarrow> if n \<noteq> 0 then param_set k (nat_str n) ps else ps
                                     | None \<Rightarrow> ps)
      in num ''offset'' offset (num ''limit'' limit
           (if truthy_opt q then param_set ''q'' (opt_string q) [] else [])))"

definition contacts_list :: "string option \<Rightarrow> nat option \<Rightarrow> nat option \<Rightarrow> call" where
  "contacts_list q limit offset =
     (''/contacts/''
        @ (let s = params_str (contact_params q limit offset) in if s \<noteq> [] then ''?'' @ s else []),
      get_options)"

definition contacts_get :: "string \<Rightarrow> call" where
  "contacts_get i = (''/contacts/'' @ encodeURIComponent i, get_options)"

record contact_input =
  ci_email :: "string option"
  ci_displayName :: "string option"
  ci_note :: "string option"
  ci_givenName :: "string option"
  ci_familyName :: "string option"
  ci_source :: "string option"

definition contact_json :: "contact_input \<Rightarrow> json" where
  "contact_json c = obj
     [(''email'', jstr_opt (ci_email c)), (''displayName'', jstr_opt (ci_displayName c)),
      (''note'', jstr_opt (ci_note c)), (''givenName'', jstr_opt (ci_givenName c)),
      (''familyName'', jstr_opt (ci_familyName c)), (''source'', jstr_opt (ci_source c))]"

definition contacts_create :: "contact_input \<Rightarrow> call" where
  "contacts_create c = (''/contacts/'', with_body ''POST'' (JsonBody (contact_json c)))"

definition contacts_update :: "string \<Rightarrow> contact_input \<Rightarrow> call" where
  "contacts_update i c =
     (''/contacts/'' @ encodeURIComponent i, with_body ''PUT'' (JsonBody (contact_json c)))"

definition contacts_remove :: "string \<Rightarrow> call" where
  "contacts_remove i = (''/contacts/'' @ encodeURIComponent i, with_body ''DELETE'' NoBody)"

definition contacts_fromEmail :: "string \<Rightarrow> string option \<Rightarrow> string option \<Rightarrow> call" where
  "contacts_fromEmail em displayName note =
     (''/contacts/from-email'', json_body ''POST''
        [(''email'', jstr em), (''displayName'', jstr_opt displayName), (''note'', jstr_opt note)])"

text \<open>\<open>None\<close>: no request is made, and the result is the empty object.\<close>

definition contacts_resolve :: "string list \<Rightarrow> call option" where
  "contacts_resolve emails =
     (if emails = [] then None
      else Some (''/contacts/resolve?emails='' @ encodeURIComponent (join '','' emails), get_options))"

definition getAvatarUrl :: "string \<Rightarrow> string" where
  "getAvatarUrl i = ''/api/contacts/'' @ encodeURIComponent i @ ''/avatar''"

text \<open>
  The avatar operations call \<open>fetch\<close> themselves.  The outcome is \<open>None\<close> for a network error,
  else the status and the payload.
\<close>

definition fetchAvatarBlob :: "(nat \<times> 'blob) option \<Rightarrow> 'blob option" where
  "fetchAvatarBlob res =
     (case res of None \<Rightarrow> None | Some (stat, blob) \<Rightarrow> if res_ok stat then Some blob else None)"

definition upload_result :: "string \<Rightarrow> nat \<times> string \<times> 'a \<Rightarrow> string + 'a" where
  "upload_result what res =
     (case res of (stat, body, payload) \<Rightarrow>
        if res_ok stat then Inr payload
        else Inl (or_else body (what @ '' failed: '' @ nat_str stat)))"

definition upload_request :: "string \<Rightarrow> string \<Rightarrow> upload_file \<Rightarrow> http_request" where
  "upload_request m u f =
     \<lparr>url = u, rmethod = m, rheaders = [], credentials = ''same-origin'',
      rbody = FormBody [(''file'', FFile f)]\<rparr>"

definition uploadAvatar ::
    "string \<Rightarrow> upload_file \<Rightarrow> nat \<times> string \<times> 'a \<Rightarrow> http_request \<times> (string + 'a)" where
  "uploadAvatar i f res = (upload_request ''PUT'' (getAvatarUrl i) f, upload_result ''upload'' res)"

definition deleteAvatar :: "string \<Rightarrow> call" where
  "deleteAvatar i = (''/contacts/'' @ encodeURIComponent i @ ''/avatar'', with_body ''DELETE'' NoBody)"

datatype import_mode = SkipExisting | Overwrite

definition import_mode_str :: "import_mode \<Rightarrow> string" where
  "import_mode_str m = (case m of SkipExisting \<Rightarrow> ''skip'' | Overwrite \<Rightarrow> ''overwrite'')"

definition importContacts ::
    "upload_file \<Rightarrow> import_mode \<Rightarrow> nat \<times> string \<times> 'a \<Rightarrow> http_request \<times> (string + 'a)" where
  "importContacts f m res =
     (upload_request ''POST'' (''/api/contacts/import?mode='' @ import_mode_str m) f,
      upload_result ''import'' res)"

datatype export_format = Csv | Vcf

text \<open>The URL that is fetched and, on success, the name of the file that is saved.\<close>

definition exportContacts :: "export_format \<Rightarrow> nat \<Rightarrow> string \<times> (string + string)" where
  "exportContacts fmt stat =
     (''/api/contacts/export?format='' @ (if fmt = Vcf then ''vcf'' else ''csv''),
      if res_ok stat then Inr (if fmt = Vcf then ''contacts.vcf'' else ''contacts.csv'')
      else Inl (''export failed: '' @ nat_str stat))"

section \<open>Sieve scripts\<close>

definition sieve_call :: "string \<Rightarrow> string option \<Rightarrow> http_options \<Rightarrow> call" where
  "sieve_call path accountId opts = (path @ accountParam accountId, opts)"

definition sieve_capability :: "string option \<Rightarrow> call" where
  "sieve_capability a = sieve_call ''/sieve/capability'' a get_options"

definition sieve_list :: "string option \<Rightarrow> call" where
  "sieve_list a = sieve_call ''/sieve/scripts'' a get_options"

definition sieve_get :: "string \<Rightarrow> string option \<Rightarrow> call" where
  "sieve_get nm a = sieve_call (''/sieve/scripts/'' @ encodeURIComponent nm) a get_options"

definition sieve_put :: "string \<Rightarrow> string \<Rightarrow> string option \<Rightarrow> call" where
  "sieve_put nm content a =
     sieve_call (''/sieve/scripts/'' @ encodeURIComponent nm) a
       (json_body ''PUT'' [(''content'', jstr content)])"

definition sieve_remove :: "string \<Rightarrow> string option \<Rightarrow> call" where
  "sieve_remove nm a =
     sieve_call (''/sieve/scripts/'' @ encodeURIComponent nm) a (with_body ''DELETE'' NoBody)"

definition sieve_activate :: "string \<Rightarrow> string option \<Rightarrow> call" where
  "sieve_activate nm a =
     sieve_call (''/sieve/scripts/'' @ encodeURIComponent nm @ ''/activate'') a (with_body ''POST'' NoBody)"

definition sieve_deactivate :: "string option \<Rightarrow> call" where
  "sieve_deactivate a = sieve_call ''/sieve/scripts/deactivate'' a (with_body ''POST'' NoBody)"

definition sieve_check :: "string \<Rightarrow> string option \<Rightarrow> call" where
  "sieve_check content a =
     sieve_call ''/sieve/check'' a (json_body ''POST'' [(''content'', jstr content)])"

end
