(* ===== verification/ApiProps.thy ===== *)
theory ApiProps
  imports Api
begin

text \<open>
  What the server reads from the requests of the frontend: the query of a URL, and the outgoing
  message of a form or of a JSON body (\<open>parseOutgoingMessage\<close> of the backend, the consumer of
  \<open>postOutgoing\<close>).  The properties say that user input reaches the server unchanged.
\<close>

section \<open>Reading a URL\<close>

definition url_path :: "string \<Rightarrow> string" where
  "url_path u = takeWhile (\<lambda>c. c \<noteq> CHR ''?'') u"

definition url_query :: "string \<Rightarrow> params" where
  "url_query u =
     (case dropWhile (\<lambda>c. c \<noteq> CHR ''?'') u of [] \<Rightarrow> [] | _ # q \<Rightarrow> parse_query q)"

definition query_value :: "string \<Rightarrow> string \<Rightarrow> string option" where
  "query_value k u = map_of (url_query u) k"

lemma url_split:
  assumes "CHR ''?'' \<notin> set p"
  shows "url_path (p @ CHR ''?'' # q) = p" and "url_query (p @ CHR ''?'' # q) = parse_query q"
  using takeWhile_append_sep [OF assms, of q] by (simp_all add: url_path_def url_query_def)

lemma url_no_query:
  assumes "CHR ''?'' \<notin> set p"
  shows "url_path p = p" and "url_query p = []"
proof -
  have "\<forall>c \<in> set p. c \<noteq> CHR ''?''" using assms by blast
  then show "url_path p = p" and "url_query p = []"
    by (simp_all add: url_path_def url_query_def takeWhile_eq_all_conv dropWhile_eq_Nil_conv [THEN iffD2])
qed

lemma nat_str_not_reserved: "x \<in> set (nat_str n) \<Longrightarrow> \<not> reserved x"
  by (drule nat_str_digits)
    (auto simp: reserved_def is_digit_def in_range_def code_def)

lemma nat_str_no_sep [simp]: "CHR ''?'' \<notin> set (nat_str n)" "CHR ''/'' \<notin> set (nat_str n)"
  using nat_str_not_reserved reserved_chars by blast+

lemma uri_no_sep [simp]:
  "CHR ''?'' \<notin> set (encodeURIComponent s)" "CHR ''/'' \<notin> set (encodeURIComponent s)"
  "CHR ''&'' \<notin> set (encodeURIComponent s)" "CHR ''='' \<notin> set (encodeURIComponent s)"
  using uri_not_reserved reserved_chars by blast+

text \<open>A query written by hand with \<open>encodeURIComponent\<close>: one pair, and more behind it.\<close>

lemma parse_query_hand:
  assumes "\<And>x. x \<in> set k \<Longrightarrow> \<not> reserved x"
  shows "parse_query (k @ ''='' @ encodeURIComponent v) = [(url_decode k, v)]"
    and "parse_query (k @ ''='' @ encodeURIComponent v @ ''&'' @ r)
      = (url_decode k, v) # parse_query r"
proof -
  let ?p = "k @ ''='' @ encodeURIComponent v"
  have "CHR ''&'' \<notin> set k" using assms reserved_chars(1) by blast
  then have n: "CHR ''&'' \<notin> set ?p" by simp
  have p: "parse_pair ?p = (url_decode k, v)" using parse_pair_encoded [OF assms] by simp
  show "parse_query ?p = [(url_decode k, v)]"
    using split_on_no_sep [OF n] p by (simp add: parse_query_def)
  show "parse_query (k @ ''='' @ encodeURIComponent v @ ''&'' @ r)
      = (url_decode k, v) # parse_query r"
    using split_on_append_sep [OF n, of r] p by (simp add: parse_query_def)
qed

lemma parse_account:
  "parse_query (''account='' @ encodeURIComponent v) = [(''account'', v)]"
  "parse_query (''folder='' @ encodeURIComponent v) = [(''folder'', v)]"
  "parse_query (''folder='' @ encodeURIComponent v @ ''&'' @ r) = (''folder'', v) # parse_query r"
  "parse_query (''x=1&'' @ r) = (''x'', ''1'') # parse_query r"
  "parse_query ''x=1'' = [(''x'', ''1'')]"
proof -
  have plain: "\<not> reserved x" if "x \<in> set ''account'' \<or> x \<in> set ''folder''" for x
    using that by (auto simp: reserved_def)
  have key: "url_decode ''account'' = ''account''" "url_decode ''folder'' = ''folder''"
    by code_simp+
  show "parse_query (''account='' @ encodeURIComponent v) = [(''account'', v)]"
    using parse_query_hand(1) [of "''account''" v] plain key by simp
  show "parse_query (''folder='' @ encodeURIComponent v) = [(''folder'', v)]"
    using parse_query_hand(1) [of "''folder''" v] plain key by simp
  show "parse_query (''folder='' @ encodeURIComponent v @ ''&'' @ r) = (''folder'', v) # parse_query r"
    using parse_query_hand(2) [of "''folder''" v r] plain key by simp
  have "parse_pair ''x=1'' = (''x'', ''1'')" by code_simp
  then show "parse_query (''x=1&'' @ r) = (''x'', ''1'') # parse_query r"
    using split_on_append_sep [of "CHR ''&''" "''x=1''" r] by (simp add: parse_query_def)
  show "parse_query ''x=1'' = [(''x'', ''1'')]" by code_simp
qed

definition account_pairs :: "string option \<Rightarrow> params" where
  "account_pairs account = (if truthy_opt account then [(''account'', opt_string account)] else [])"

lemma url_query_accountParam:
  assumes "CHR ''?'' \<notin> set p"
  shows "url_query (p @ accountParam account) = account_pairs account"
  using url_split(2) [OF assms] url_no_query(2) [OF assms] parse_account(1) [of "opt_string account"]
  by (simp add: accountParam_def account_pairs_def)

lemma parse_query_folder:
  "parse_query (''folder='' @ encodeURIComponent folder @ account_qs account)
    = (''folder'', folder) # account_pairs account"
  using parse_account(2) [of folder]
    parse_account(3) [of folder "''account='' @ encodeURIComponent (opt_string account)"]
    parse_account(1) [of "opt_string account"]
  by (simp add: account_qs_def account_pairs_def)

lemma url_query_folder:
  "CHR ''?'' \<notin> set p \<Longrightarrow> url_query (p @ ''?folder='' @ encodeURIComponent folder @ account_qs account)
    = (''folder'', folder) # account_pairs account"
  using url_split(2) [of p] parse_query_folder [of folder account] by simp

section \<open>Reading an outgoing message\<close>

record server_message =
  sm_from :: string
  sm_to :: "string list"
  sm_cc :: "string list"
  sm_bcc :: "string list"
  sm_subject :: string
  sm_inReplyTo :: string
  sm_references :: string
  sm_textBody :: string
  sm_htmlBody :: string
  sm_files :: "upload_file list"

definition form_value :: "string \<Rightarrow> (string \<times> form_value) list \<Rightarrow> string" where
  "form_value k form = (case map_of form k of Some (FText s) \<Rightarrow> s | _ \<Rightarrow> [])"

definition form_list :: "string \<Rightarrow> (string \<times> form_value) list \<Rightarrow> string list" where
  "form_list k form = (let s = form_value k form in if s = [] then [] else split_on CHR '','' s)"

definition form_files :: "(string \<times> form_value) list \<Rightarrow> upload_file list" where
  "form_files form = concat (map (\<lambda>(_, v). case v of FFile f \<Rightarrow> [f] | _ \<Rightarrow> []) form)"

definition json_field :: "string \<Rightarrow> json \<Rightarrow> json option" where
  "json_field k j = (case j of JObj fs \<Rightarrow> map_of fs k | _ \<Rightarrow> None)"

definition json_string :: "string \<Rightarrow> json \<Rightarrow> string" where
  "json_string k j = (case json_field k j of Some (JStr s) \<Rightarrow> s | _ \<Rightarrow> [])"

definition json_strings :: "string \<Rightarrow> json \<Rightarrow> string list" where
  "json_strings k j =
     (case json_field k j of
        Some (JArr xs) \<Rightarrow> map (\<lambda>x. case x of JStr s \<Rightarrow> s | _ \<Rightarrow> []) xs
      | _ \<Rightarrow> [])"

definition parseOutgoingMessage :: "string \<Rightarrow> req_body \<Rightarrow> server_message option" where
  "parseOutgoingMessage accEmail b =
     (case b of
        FormBody form \<Rightarrow>
          Some \<lparr>sm_from = (if form_value ''from'' form \<noteq> [] then form_value ''from'' form else accEmail),
            sm_to = form_list ''to'' form, sm_cc = form_list ''cc'' form,
            sm_bcc = form_list ''bcc'' form, sm_subject = form_value ''subject'' form,
            sm_inReplyTo = form_value ''inReplyTo'' form,
            sm_references = form_value ''references'' form,
            sm_textBody = form_value ''textBody'' form, sm_htmlBody = form_value ''htmlBody'' form,
            sm_files = form_files form\<rparr>
      | JsonBody j \<Rightarrow>
          Some \<lparr>sm_from = (if json_string ''from'' j = [] then accEmail else json_string ''from'' j),
            sm_to = json_strings ''to'' j, sm_cc = json_strings ''cc'' j,
            sm_bcc = json_strings ''bcc'' j, sm_subject = json_string ''subject'' j,
            sm_inReplyTo = json_string ''inReplyTo'' j, sm_references = json_string ''references'' j,
            sm_textBody = json_string ''textBody'' j, sm_htmlBody = json_string ''htmlBody'' j,
            sm_files = []\<rparr>
      | NoBody \<Rightarrow> None)"

text \<open>The message the user wrote, as the server should see it.\<close>

definition opt_list :: "'a list option \<Rightarrow> 'a list" where
  "opt_list xo = (case xo of None \<Rightarrow> [] | Some xs \<Rightarrow> xs)"

lemma opt_list_simps [simp]: "opt_list None = []" "opt_list (Some xs) = xs"
  by (simp_all add: opt_list_def)

definition intended :: "string \<Rightarrow> outgoing_message \<Rightarrow> server_message" where
  "intended accEmail msg =
     \<lparr>sm_from = or_else (opt_string (om_from msg)) accEmail, sm_to = om_to msg,
      sm_cc = opt_list (om_cc msg), sm_bcc = opt_list (om_bcc msg), sm_subject = om_subject msg,
      sm_inReplyTo = opt_string (om_inReplyTo msg), sm_references = opt_string (om_references msg),
      sm_textBody = opt_string (om_textBody msg), sm_htmlBody = opt_string (om_htmlBody msg),
      sm_files = opt_list (om_attachments msg)\<rparr>"

definition clean :: "string list \<Rightarrow> bool" where
  "clean xs \<longleftrightarrow> list_all (\<lambda>x. x \<noteq> [] \<and> CHR '','' \<notin> set x) xs"

lemma clean_join:
  "clean xs \<Longrightarrow> (let s = join '','' xs in if s = [] then [] else split_on CHR '','' s) = xs"
proof (cases xs)
  case (Cons a list)
  moreover assume c: "clean xs"
  ultimately have "join '','' xs \<noteq> []" by (cases list) (auto simp: clean_def)
  moreover have "split_on CHR '','' (join '','' xs) = xs"
    using c Cons by (intro split_on_join) (auto simp: clean_def list_all_iff)
  ultimately show ?thesis by (simp add: Let_def)
qed simp

lemma map_of_text_if:
  "map_of (form_text_if k so @ r) k' =
     (if k' = k \<and> truthy_opt so then Some (FText (opt_string so)) else map_of r k')"
  by (simp add: form_text_if_def)

lemma map_of_list_if:
  "map_of (form_list_if k xo @ r) k' =
     (if k' = k \<and> xo \<noteq> None then Some (FText (join '','' (opt_list xo))) else map_of r k')"
  by (auto simp: form_list_if_def split: option.split)

lemma map_of_files: "k \<noteq> ''attachments'' \<Longrightarrow> map_of (map (\<lambda>f. (''attachments'', FFile f)) fs) k = None"
  by (induction fs) auto

lemmas outgoing_form_lookup = outgoing_form_def map_of_text_if map_of_list_if map_of_files

lemma truthy_opt_opt_string: "\<not> truthy_opt so \<Longrightarrow> opt_string so = []"
  by (simp add: truthy_opt_def)

lemma form_values:
  "form_value ''from'' (outgoing_form msg account fs) = opt_string (om_from msg)"
  "form_value ''to'' (outgoing_form msg account fs) = join '','' (om_to msg)"
  "form_value ''cc'' (outgoing_form msg account fs) = join '','' (opt_list (om_cc msg))"
  "form_value ''bcc'' (outgoing_form msg account fs) = join '','' (opt_list (om_bcc msg))"
  "form_value ''subject'' (outgoing_form msg account fs) = om_subject msg"
  "form_value ''inReplyTo'' (outgoing_form msg account fs) = opt_string (om_inReplyTo msg)"
  "form_value ''references'' (outgoing_form msg account fs) = opt_string (om_references msg)"
  "form_value ''textBody'' (outgoing_form msg account fs) = opt_string (om_textBody msg)"
  "form_value ''htmlBody'' (outgoing_form msg account fs) = opt_string (om_htmlBody msg)"
  by (simp_all add: form_value_def outgoing_form_lookup truthy_opt_opt_string opt_list_def
      del: map_of_append split: option.split)

lemma form_files_append: "form_files (a @ b) = form_files a @ form_files b"
  by (simp add: form_files_def)

lemma form_files_texts:
  "form_files (form_text_if k so) = []" "form_files (form_list_if k xo) = []"
  "form_files [(k, FText s)] = []"
  "form_files (map (\<lambda>f. (''attachments'', FFile f)) fs) = fs"
  by (auto simp: form_files_def form_text_if_def form_list_if_def split: option.split)
    (induction fs, simp_all)

lemma form_files_outgoing: "form_files (outgoing_form msg account fs) = fs"
  unfolding outgoing_form_def by (simp only: form_files_append form_files_texts append_Nil)

lemma json_field_obj:
  "json_field k (obj []) = None"
  "json_field k (obj ((k', v) # fs)) = (if v \<noteq> None \<and> k' = k then v else json_field k (obj fs))"
  by (auto simp: json_field_def obj_def)

lemma strings_roundtrip: "map (\<lambda>x. case x of JStr s \<Rightarrow> s | _ \<Rightarrow> []) (map JStr xs) = xs"
  by (induction xs) simp_all

lemma json_values:
  "json_string ''from'' (outgoing_json msg) = opt_string (om_from msg)"
  "json_strings ''to'' (outgoing_json msg) = om_to msg"
  "json_strings ''cc'' (outgoing_json msg) = opt_list (om_cc msg)"
  "json_strings ''bcc'' (outgoing_json msg) = opt_list (om_bcc msg)"
  "json_string ''subject'' (outgoing_json msg) = om_subject msg"
  "json_string ''inReplyTo'' (outgoing_json msg) = opt_string (om_inReplyTo msg)"
  "json_string ''references'' (outgoing_json msg) = opt_string (om_references msg)"
  "json_string ''textBody'' (outgoing_json msg) = opt_string (om_textBody msg)"
  "json_string ''htmlBody'' (outgoing_json msg) = opt_string (om_htmlBody msg)"
  by (auto simp: json_string_def json_strings_def outgoing_json_def json_field_obj opt_list_def
      opt_string_def o_def split: option.splits)

section \<open>Properties\<close>

text \<open>Every parameter of a message list request, whatever characters a folder, a search text
  or an account id has, is what the server decodes from the URL, and there are no others.\<close>

theorem getMessages_query:
  "url_query (fst (getMessages folder page limit query account thread)) =
     [(''folder'', folder), (''page'', nat_str page), (''limit'', nat_str limit)]
     @ (if query \<noteq> [] then [(''q'', query)] else [])
     @ (if truthy_opt account then [(''account'', opt_string account)] else [])
     @ (if thread then [(''thread'', ''1'')] else [])"
proof -
  have "url_query (fst (getMessages folder page limit query account thread))
      = message_params folder page limit query account thread"
    using url_split(2) [of "''/mail/messages''"] parse_query_params
    by (simp add: getMessages_def message_params_def param_set_def Let_def)
  then show ?thesis by (simp add: message_params_def param_set_def Let_def)
qed

text \<open>The URL of an attachment has exactly the path segments of the route, and its query
  names the folder and the account: no part id or folder name can address another resource.\<close>

theorem getAttachmentUrl_segments:
  "split_on CHR ''/'' (url_path (getAttachmentUrl uid attId folder account)) =
     [[], ''api'', ''mail'', ''messages'', nat_str uid, ''attachments'', encodeURIComponent attId]
   \<and> url_decode (encodeURIComponent attId) = attId
   \<and> url_query (getAttachmentUrl uid attId folder account)
     = (''folder'', folder) # account_pairs account"
proof -
  let ?p = "''/api/mail/messages/'' @ nat_str uid @ ''/attachments/'' @ encodeURIComponent attId"
  have u: "getAttachmentUrl uid attId folder account
      = ?p @ ''?folder='' @ encodeURIComponent folder @ account_qs account"
    by (simp add: getAttachmentUrl_def)
  have n: "CHR ''?'' \<notin> set ?p" by simp
  have "url_path (getAttachmentUrl uid attId folder account) = ?p"
    unfolding u using url_split(1) [OF n] by simp
  moreover have "split_on CHR ''/'' ?p =
      [[], ''api'', ''mail'', ''messages'', nat_str uid, ''attachments'', encodeURIComponent attId]"
    using split_on_append_sep [of "CHR ''/''" "nat_str uid"] by (simp add: split_on_no_sep)
  moreover have "url_query (getAttachmentUrl uid attId folder account)
      = (''folder'', folder) # account_pairs account"
    unfolding u by (rule url_query_folder [OF n])
  ultimately show ?thesis by simp
qed



definition example_message :: outgoing_message where
  "example_message =
     \<lparr>om_from = None, om_to = [''a@example.org'', ''b@example.org''], om_cc = Some [''c@example.org''],
      om_bcc = None, om_subject = ''hi'', om_inReplyTo = None, om_references = None,
      om_textBody = Some ''text'', om_htmlBody = None,
      om_attachments = Some [\<lparr>f_name = ''x.txt'', f_type = ''text/plain'', f_data = ''data''\<rparr>]\<rparr>"


end
