(* ===== verification/Machine.thy ===== *)
theory Machine
  imports Prelude
begin

text \<open>
  The contract that the stores and the event handlers of the frontend share: a state, events
  that change it one after the other (JavaScript runs one handler to its end before the next),
  and an invariant that every event keeps.  A component interprets \<open>safe_machine\<close> on its own
  initial state, step function and invariant and gets the facts about all its histories.
\<close>

locale machine =
  fixes init :: 's
    and step :: "'e \<Rightarrow> 's \<Rightarrow> 's"
begin

inductive reachable :: "'s \<Rightarrow> bool" where
  start: "reachable init"
| step: "reachable s \<Longrightarrow> reachable (step e s)"

lemma reachable_fold: "reachable s \<Longrightarrow> reachable (fold step es s)"
  by (induction es arbitrary: s) (auto intro: reachable.step)

lemma reachable_history: "reachable s \<Longrightarrow> \<exists>es. s = fold step es init"
proof (induction rule: reachable.induct)
  case start
  have "init = fold step [] init" by simp
  then show ?case by blast
next
  case (step s e)
  then obtain es where "s = fold step es init" by blast
  then have "step e s = fold step (es @ [e]) init" by simp
  then show ?case by blast
qed

lemma reachable_iff: "reachable s \<longleftrightarrow> (\<exists>es. s = fold step es init)"
  using reachable_history reachable_fold [OF start] by blast

end

locale safe_machine = machine init step
  for init :: 's and step :: "'e \<Rightarrow> 's \<Rightarrow> 's" +
  fixes inv :: "'s \<Rightarrow> bool"
  assumes inv_init: "inv init"
    and inv_step: "inv s \<Longrightarrow> inv (step e s)"
begin

lemma inv_fold: "inv s \<Longrightarrow> inv (fold step es s)"
  by (induction es arbitrary: s) (auto intro: inv_step)

lemma inv_history: "inv (fold step es init)"
  by (rule inv_fold [OF inv_init])

lemma inv_reachable: "reachable s \<Longrightarrow> inv s"
  by (induction rule: reachable.induct) (auto intro: inv_init inv_step)

end

text \<open>
  A machine whose states are described by a simpler one: the abstraction of a history is the
  history of the abstraction.
\<close>

locale refining_machine = machine init step
  for init :: 's and step :: "'e \<Rightarrow> 's \<Rightarrow> 's" +
  fixes abs :: "'s \<Rightarrow> 'a"
    and astep :: "'e \<Rightarrow> 'a \<Rightarrow> 'a"
  assumes commutes: "abs (step e s) = astep e (abs s)"
begin

lemma abs_fold: "abs (fold step es s) = fold astep es (abs s)"
  by (induction es arbitrary: s) (simp_all add: commutes)

lemma abs_history: "abs (fold step es init) = fold astep es (abs init)"
  by (rule abs_fold)

end

end
