(* ===== verification/Stores.thy ===== *)
theory Stores
  imports Machine Api
begin

text \<open>
  The stores of \<open>frontend/src/stores\<close> and the hook \<open>useActiveAccount\<close>.  A setter is a function
  on the state record of its store; \<open>localStorage\<close> and the preferences sent to the server are
  part of \<open>browser\<close>.  Every store is a machine whose events are the calls of its setters.
\<close>

section \<open>The mail store\<close>

datatype settings_section = Security | PgpKeys | Accounts | SieveRules | Contacts | Appearance
datatype theme_pref = Light | Dark | System
datatype app_view = MailView | SettingsView

text \<open>\<open>Partial<OutgoingMessage>\<close>.\<close>

record partial_message =
  d_from :: "string option"
  d_to :: "string list option"
  d_cc :: "string list option"
  d_bcc :: "string list option"
  d_subject :: "string option"
  d_inReplyTo :: "string option"
  d_references :: "string option"
  d_textBody :: "string option"
  d_htmlBody :: "string option"
  d_attachments :: "upload_file list option"

record mail_state =
  currentFolder :: string
  activeAccountId :: "string option"
  selectedUID :: "nat option"
  selectedFolder :: "string option"
  searchQuery :: string
  searchInput :: string
  unreadView :: bool
  page :: nat
  limit :: nat
  isComposerOpen :: bool
  composerDraft :: "partial_message option"
  composerKey :: nat
  isSidebarOpen :: bool
  view :: app_view
  settingsSection :: settings_section
  inboxUnread :: nat
  listMode :: list_mode
  theme :: theme_pref

record browser =
  localStorage :: "string \<Rightarrow> string option"
  sentPrefs :: "call list"

definition set_item :: "string \<Rightarrow> string \<Rightarrow> browser \<Rightarrow> browser" where
  "set_item k v b = b\<lparr>localStorage := (localStorage b)(k \<mapsto> v)\<rparr>"

definition send_pref :: "string \<Rightarrow> string \<Rightarrow> browser \<Rightarrow> browser" where
  "send_pref k v b = b\<lparr>sentPrefs := sentPrefs b @ [prefs_set k v]\<rparr>"

definition mode_str :: "list_mode \<Rightarrow> string" where
  "mode_str m = (case m of Messages \<Rightarrow> ''messages'' | Threads \<Rightarrow> ''threads'')"

definition theme_str :: "theme_pref \<Rightarrow> string" where
  "theme_str t = (case t of Light \<Rightarrow> ''light'' | Dark \<Rightarrow> ''dark'' | System \<Rightarrow> ''system'')"

definition stored_mode :: "browser \<Rightarrow> list_mode" where
  "stored_mode b = (if localStorage b ''e2Mail_list_mode'' = Some ''threads'' then Threads else Messages)"

definition stored_theme :: "browser \<Rightarrow> theme_pref" where
  "stored_theme b =
     (case localStorage b ''e2Mail_theme'' of
        None \<Rightarrow> System
      | Some s \<Rightarrow> if s = ''light'' then Light else if s = ''dark'' then Dark else System)"

definition init_mail :: "browser \<Rightarrow> mail_state" where
  "init_mail b =
     \<lparr>currentFolder = ''INBOX'', activeAccountId = None, selectedUID = None, selectedFolder = None,
      searchQuery = [], searchInput = [], unreadView = False, page = 1, limit = 50,
      isComposerOpen = False, composerDraft = None, composerKey = 0, isSidebarOpen = False,
      view = MailView, settingsSection = Security, inboxUnread = 0,
      listMode = stored_mode b, theme = stored_theme b\<rparr>"

definition setCurrentFolder :: "string \<Rightarrow> mail_state \<Rightarrow> mail_state" where
  "setCurrentFolder folder s =
     s\<lparr>currentFolder := folder, selectedUID := None, selectedFolder := None, page := 1,
       isSidebarOpen := False, unreadView := False, view := MailView\<rparr>"

definition setActiveAccountId :: "string option \<Rightarrow> mail_state \<Rightarrow> mail_state" where
  "setActiveAccountId i s =
     s\<lparr>activeAccountId := i, currentFolder := ''INBOX'', selectedUID := None, selectedFolder := None,
       page := 1, inboxUnread := 0, unreadView := False, view := MailView\<rparr>"

definition setSelectedUID :: "nat option \<Rightarrow> mail_state \<Rightarrow> mail_state" where
  "setSelectedUID uid s =
     s\<lparr>selectedUID := uid, selectedFolder := (if uid = None then None else selectedFolder s)\<rparr>"

definition setSelectedFolder :: "string option \<Rightarrow> mail_state \<Rightarrow> mail_state" where
  "setSelectedFolder folder s = s\<lparr>selectedFolder := folder\<rparr>"

definition setSearchQuery :: "string \<Rightarrow> mail_state \<Rightarrow> mail_state" where
  "setSearchQuery q s = s\<lparr>searchQuery := q, page := 1, selectedUID := None, selectedFolder := None\<rparr>"

definition setSearchInput :: "string \<Rightarrow> mail_state \<Rightarrow> mail_state" where
  "setSearchInput i s = s\<lparr>searchInput := i\<rparr>"

definition clearSearch :: "mail_state \<Rightarrow> mail_state" where
  "clearSearch s =
     s\<lparr>searchInput := [], searchQuery := [], page := 1, selectedUID := None, selectedFolder := None\<rparr>"

definition setUnreadView :: "bool \<Rightarrow> mail_state \<Rightarrow> mail_state" where
  "setUnreadView f s =
     s\<lparr>unreadView := f, page := 1, selectedUID := None, selectedFolder := None, view := MailView\<rparr>"

definition setPage :: "nat \<Rightarrow> mail_state \<Rightarrow> mail_state" where
  "setPage n s = s\<lparr>page := n\<rparr>"

definition openComposer :: "partial_message \<Rightarrow> mail_state \<Rightarrow> mail_state" where
  "openComposer d s =
     s\<lparr>isComposerOpen := True, composerDraft := Some d, composerKey := composerKey s + 1,
       view := MailView\<rparr>"

definition closeComposer :: "mail_state \<Rightarrow> mail_state" where
  "closeComposer s = s\<lparr>isComposerOpen := False, composerDraft := None\<rparr>"

definition setSidebarOpen :: "bool \<Rightarrow> mail_state \<Rightarrow> mail_state" where
  "setSidebarOpen b s = s\<lparr>isSidebarOpen := b\<rparr>"

definition toggleSidebar :: "mail_state \<Rightarrow> mail_state" where
  "toggleSidebar s = s\<lparr>isSidebarOpen := \<not> isSidebarOpen s\<rparr>"

definition setView :: "app_view \<Rightarrow> mail_state \<Rightarrow> mail_state" where
  "setView v s = s\<lparr>view := v, isSidebarOpen := False\<rparr>"

definition openSettings :: "settings_section option \<Rightarrow> mail_state \<Rightarrow> mail_state" where
  "openSettings sec s =
     s\<lparr>view := SettingsView, settingsSection := (case sec of None \<Rightarrow> Security | Some x \<Rightarrow> x),
       isSidebarOpen := False\<rparr>"

definition setSettingsSection :: "settings_section \<Rightarrow> mail_state \<Rightarrow> mail_state" where
  "setSettingsSection sec s = s\<lparr>settingsSection := sec\<rparr>"

definition setInboxUnread :: "nat \<Rightarrow> mail_state \<Rightarrow> mail_state" where
  "setInboxUnread n s = s\<lparr>inboxUnread := n\<rparr>"

definition setListMode :: "list_mode \<Rightarrow> mail_state \<times> browser \<Rightarrow> mail_state \<times> browser" where
  "setListMode m w =
     (case w of (s, b) \<Rightarrow>
        (s\<lparr>listMode := m, page := 1, selectedUID := None, selectedFolder := None\<rparr>,
         send_pref ''listMode'' (mode_str m) (set_item ''e2Mail_list_mode'' (mode_str m) b)))"

definition setTheme :: "theme_pref \<Rightarrow> mail_state \<times> browser \<Rightarrow> mail_state \<times> browser" where
  "setTheme t w =
     (case w of (s, b) \<Rightarrow>
        (s\<lparr>theme := t\<rparr>, send_pref ''theme'' (theme_str t) (set_item ''e2Mail_theme'' (theme_str t) b)))"

lemmas mail_setters =
  setCurrentFolder_def setActiveAccountId_def setSelectedUID_def setSelectedFolder_def
  setSearchQuery_def setSearchInput_def clearSearch_def setUnreadView_def setPage_def
  openComposer_def closeComposer_def setSidebarOpen_def toggleSidebar_def setView_def
  openSettings_def setSettingsSection_def setInboxUnread_def setListMode_def setTheme_def

datatype mail_event =
    SetCurrentFolder string
  | SetActiveAccountId "string option"
  | SetSelectedUID "nat option"
  | SetSelectedFolder "string option"
  | SetSearchQuery string
  | SetSearchInput string
  | ClearSearch
  | SetUnreadView bool
  | SetPage nat
  | OpenComposer partial_message
  | CloseComposer
  | SetSidebarOpen bool
  | ToggleSidebar
  | SetView app_view
  | OpenSettings "settings_section option"
  | SetSettingsSection settings_section
  | SetInboxUnread nat
  | SetListMode list_mode
  | SetTheme theme_pref

fun mail_step :: "mail_event \<Rightarrow> mail_state \<times> browser \<Rightarrow> mail_state \<times> browser" where
  "mail_step (SetCurrentFolder f) w = apfst (setCurrentFolder f) w"
| "mail_step (SetActiveAccountId i) w = apfst (setActiveAccountId i) w"
| "mail_step (SetSelectedUID u) w = apfst (setSelectedUID u) w"
| "mail_step (SetSelectedFolder f) w = apfst (setSelectedFolder f) w"
| "mail_step (SetSearchQuery q) w = apfst (setSearchQuery q) w"
| "mail_step (SetSearchInput i) w = apfst (setSearchInput i) w"
| "mail_step ClearSearch w = apfst clearSearch w"
| "mail_step (SetUnreadView f) w = apfst (setUnreadView f) w"
| "mail_step (SetPage n) w = apfst (setPage n) w"
| "mail_step (OpenComposer d) w = apfst (openComposer d) w"
| "mail_step CloseComposer w = apfst closeComposer w"
| "mail_step (SetSidebarOpen b) w = apfst (setSidebarOpen b) w"
| "mail_step ToggleSidebar w = apfst toggleSidebar w"
| "mail_step (SetView v) w = apfst (setView v) w"
| "mail_step (OpenSettings s) w = apfst (openSettings s) w"
| "mail_step (SetSettingsSection s) w = apfst (setSettingsSection s) w"
| "mail_step (SetInboxUnread n) w = apfst (setInboxUnread n) w"
| "mail_step (SetListMode m) w = setListMode m w"
| "mail_step (SetTheme t) w = setTheme t w"

text \<open>What every history keeps: a draft exactly while the composer is open, and the two settings
  that survive a reload equal to what the next start of the store would read.\<close>

definition mail_inv :: "mail_state \<times> browser \<Rightarrow> bool" where
  "mail_inv w \<longleftrightarrow>
     (isComposerOpen (fst w) \<longleftrightarrow> composerDraft (fst w) \<noteq> None)
     \<and> listMode (fst w) = stored_mode (snd w) \<and> theme (fst w) = stored_theme (snd w)"

lemma mail_inv_step: "mail_inv w \<Longrightarrow> mail_inv (mail_step e w)"
  by (cases w; cases e)
    (auto simp: mail_inv_def mail_setters set_item_def send_pref_def stored_mode_def
      stored_theme_def mode_str_def theme_str_def split: list_mode.splits theme_pref.splits)

interpretation mail_store: safe_machine "(init_mail b, b)" mail_step mail_inv for b
proof
  show "mail_inv (init_mail b, b)" by (simp add: mail_inv_def init_mail_def)
qed (rule mail_inv_step)

fun composer_count :: "mail_event \<Rightarrow> nat \<Rightarrow> nat" where
  "composer_count (OpenComposer d) n = n + 1"
| "composer_count _ n = n"

interpretation composer_keys:
  refining_machine "(init_mail b, b)" mail_step "\<lambda>w. composerKey (fst w)" composer_count for b
proof
  show "composerKey (fst (mail_step e s)) = composer_count e (composerKey (fst s))" for e s
    by (cases s; cases e) (simp_all add: mail_setters)
qed

text \<open>The fields that decide which list is shown.\<close>

definition list_context :: "mail_state \<Rightarrow> string \<times> string option \<times> string \<times> bool \<times> list_mode" where
  "list_context s = (currentFolder s, activeAccountId s, searchQuery s, unreadView s, listMode s)"

lemma context_change:
  "list_context (fst (mail_step e w)) \<noteq> list_context (fst w) \<Longrightarrow>
     page (fst (mail_step e w)) = 1 \<and> selectedUID (fst (mail_step e w)) = None
     \<and> selectedFolder (fst (mail_step e w)) = None"
  by (cases w; cases e) (auto simp: list_context_def mail_setters)

section \<open>The active account\<close>

definition default_account :: "account list \<Rightarrow> account" where
  "default_account accounts =
     (case find acc_isDefault accounts of Some a \<Rightarrow> a | None \<Rightarrow> hd accounts)"

text \<open>The effect of \<open>useActiveAccount\<close>, run after each render that changed its inputs.\<close>

definition account_effect :: "account list \<Rightarrow> mail_state \<Rightarrow> mail_state" where
  "account_effect accounts s =
     (if accounts = [] then s
      else if list_ex (\<lambda>a. Some (acc_id a) = activeAccountId s) accounts then s
      else setActiveAccountId (Some (acc_id (default_account accounts))) s)"

definition useActiveAccount :: "account list \<Rightarrow> mail_state \<Rightarrow> account option" where
  "useActiveAccount accounts s =
     (if \<not> truthy_opt (activeAccountId s) then None
      else find (\<lambda>a. Some (acc_id a) = activeAccountId s) accounts)"

lemma default_account_in: "accounts \<noteq> [] \<Longrightarrow> default_account accounts \<in> set accounts"
  by (auto simp: default_account_def split: option.split dest: find_Some_set)

lemma account_effect_exists:
  "accounts \<noteq> [] \<Longrightarrow> \<exists>a \<in> set accounts. activeAccountId (account_effect accounts s) = Some (acc_id a)"
  by (auto simp: account_effect_def list_ex_iff setActiveAccountId_def dest: default_account_in)
    (metis)

lemma account_effect_idem: "account_effect accounts (account_effect accounts s) = account_effect accounts s"
proof (cases "accounts = []")
  case False
  then obtain a where "a \<in> set accounts" "activeAccountId (account_effect accounts s) = Some (acc_id a)"
    using account_effect_exists by blast
  then show ?thesis by (auto simp: account_effect_def [of accounts "account_effect accounts s"] list_ex_iff)
qed (simp add: account_effect_def)

section \<open>The authentication store\<close>

record auth_state =
  asession :: "session option"
  isAuthenticated :: bool
  isLoading :: bool

definition init_auth :: auth_state where
  "init_auth = \<lparr>asession = None, isAuthenticated = False, isLoading = True\<rparr>"

record login_result =
  lg_challenge :: "string option"
  lg_methods :: "string list option"

definition applyLogin :: "login_response \<Rightarrow> auth_state \<Rightarrow> auth_state" where
  "applyLogin res s = s\<lparr>asession := rs_session res, isAuthenticated := True, isLoading := False\<rparr>"

text \<open>\<open>Inl\<close> is a rejected promise: the error of the API call.\<close>

definition login ::
    "api_error + login_response \<Rightarrow> auth_state \<Rightarrow> (api_error + login_result option) \<times> auth_state" where
  "login res s =
     (case res of
        Inl e \<Rightarrow> (Inl e, s)
      | Inr r \<Rightarrow>
          if rs_requires2fa r = Some True then
            (Inr (Some \<lparr>lg_challenge = rs_challenge r, lg_methods = rs_methods r\<rparr>), s)
          else (Inr None, applyLogin r s))"

definition second_factor ::
    "api_error + login_response \<Rightarrow> auth_state \<Rightarrow> (api_error + unit) \<times> auth_state" where
  "second_factor res s =
     (case res of Inl e \<Rightarrow> (Inl e, s) | Inr r \<Rightarrow> (Inr (), applyLogin r s))"

definition verify2fa ::
    "api_error + login_response \<Rightarrow> auth_state \<Rightarrow> (api_error + unit) \<times> auth_state" where
  "verify2fa res s = second_factor res s"

definition loginWithWebAuthn ::
    "api_error + login_response \<Rightarrow> auth_state \<Rightarrow> (api_error + unit) \<times> auth_state" where
  "loginWithWebAuthn res s = second_factor res s"

text \<open>\<open>logout\<close> also clears the private key in memory, whether or not the server answered.\<close>

definition logout ::
    "api_error + unit \<Rightarrow> auth_state \<times> pgp_key_pair option \<Rightarrow> auth_state \<times> pgp_key_pair option" where
  "logout res w =
     ((fst w)\<lparr>asession := None, isAuthenticated := False, isLoading := False\<rparr>, None)"

definition initAuth :: "api_error + session \<Rightarrow> auth_state \<Rightarrow> auth_state" where
  "initAuth res s =
     (case res of
        Inr x \<Rightarrow> s\<lparr>asession := Some x, isAuthenticated := True, isLoading := False\<rparr>
      | Inl _ \<Rightarrow> s\<lparr>asession := None, isAuthenticated := False, isLoading := False\<rparr>)"

lemmas auth_setters =
  applyLogin_def login_def second_factor_def verify2fa_def loginWithWebAuthn_def logout_def
  initAuth_def

section \<open>The key store\<close>

record pgp_store =
  version :: nat
  hasKey :: bool

definition init_pgp :: "pgp_key_pair option \<Rightarrow> pgp_store" where
  "init_pgp mem = \<lparr>version = 0, hasKey = (mem \<noteq> None)\<rparr>"

definition pgp_refresh :: "pgp_key_pair option \<Rightarrow> pgp_store \<Rightarrow> pgp_store" where
  "pgp_refresh mem s = s\<lparr>version := version s + 1, hasKey := (mem \<noteq> None)\<rparr>"

section \<open>The toast store\<close>

text \<open>
  The timers of the browser are part of the state: \<open>pending\<close> holds the identifiers and deadlines
  of the timers that were set and neither cleared nor fired; all have the callback that resets
  the message.  Identifiers start at 1, so \<open>if (timer)\<close> tests for \<open>null\<close>.
\<close>

datatype toast_type = ErrorToast | SuccessToast | InfoToast

record toast_state =
  tmessage :: "string option"
  ttype :: toast_type
  timer :: "nat option"
  pending :: "(nat \<times> nat) list"
  clock :: nat
  next_id :: nat

definition init_toast :: toast_state where
  "init_toast = \<lparr>tmessage = None, ttype = InfoToast, timer = None, pending = [], clock = 0, next_id = 1\<rparr>"

definition clear_timer :: "toast_state \<Rightarrow> toast_state" where
  "clear_timer s =
     (case timer s of
        None \<Rightarrow> s
      | Some i \<Rightarrow> s\<lparr>pending := filter (\<lambda>(j, _). j \<noteq> i) (pending s)\<rparr>)"

definition toast_show :: "string \<Rightarrow> toast_type \<Rightarrow> toast_state \<Rightarrow> toast_state" where
  "toast_show m ty s =
     (let s = clear_timer s
      in s\<lparr>tmessage := Some m, ttype := ty, timer := Some (next_id s),
           pending := pending s @ [(next_id s, clock s + 4000)], next_id := next_id s + 1\<rparr>)"

definition toast_clear :: "toast_state \<Rightarrow> toast_state" where
  "toast_clear s = (clear_timer s)\<lparr>tmessage := None\<rparr>"

text \<open>The exported helper \<open>toast\<close>, with its default type.\<close>

definition toast :: "string \<Rightarrow> toast_type option \<Rightarrow> toast_state \<Rightarrow> toast_state" where
  "toast m ty s = toast_show m (case ty of None \<Rightarrow> ErrorToast | Some x \<Rightarrow> x) s"

text \<open>Time passes: every timer that is due runs its callback.\<close>

definition elapse :: "nat \<Rightarrow> toast_state \<Rightarrow> toast_state" where
  "elapse d s =
     (let now = clock s + d
      in s\<lparr>clock := now, pending := filter (\<lambda>(_, t). now < t) (pending s),
           tmessage := (if list_ex (\<lambda>(_, t). t \<le> now) (pending s) then None else tmessage s)\<rparr>)"

datatype toast_event = Show string toast_type | Clear | Elapse nat

fun toast_step :: "toast_event \<Rightarrow> toast_state \<Rightarrow> toast_state" where
  "toast_step (Show m ty) s = toast_show m ty s"
| "toast_step Clear s = toast_clear s"
| "toast_step (Elapse d) s = elapse d s"

text \<open>There is at most the timer of the message that is shown, and there is one while one is.\<close>

definition toast_inv :: "toast_state \<Rightarrow> bool" where
  "toast_inv s \<longleftrightarrow>
     (case tmessage s of
        None \<Rightarrow> pending s = []
      | Some _ \<Rightarrow> \<exists>i d. timer s = Some i \<and> pending s = [(i, d)] \<and> clock s < d \<and> d \<le> clock s + 4000)"

lemma clear_timer_pending: "toast_inv s \<Longrightarrow> pending (clear_timer s) = []"
  by (auto simp: toast_inv_def clear_timer_def split: option.splits)

lemma clear_timer_simps [simp]:
  "clock (clear_timer s) = clock s" "next_id (clear_timer s) = next_id s"
  by (simp_all add: clear_timer_def split: option.split)

lemma toast_inv_step: "toast_inv s \<Longrightarrow> toast_inv (toast_step e s)"
proof (cases e)
  case (Show m ty)
  then show "toast_inv s \<Longrightarrow> ?thesis"
    by (simp add: toast_show_def Let_def clear_timer_pending) (simp add: toast_inv_def)
next
  case Clear
  then show "toast_inv s \<Longrightarrow> ?thesis"
    by (simp add: toast_clear_def clear_timer_pending toast_inv_def)
next
  case (Elapse d)
  then show "toast_inv s \<Longrightarrow> ?thesis"
    by (auto simp: elapse_def Let_def toast_inv_def split: option.splits)
qed

interpretation toasts: safe_machine init_toast toast_step toast_inv
proof
  show "toast_inv init_toast" by (simp add: toast_inv_def init_toast_def)
qed (rule toast_inv_step)

lemma due_split:
  "n1 \<le> n2 \<Longrightarrow> list_ex (\<lambda>(_, t). t \<le> n2) xs
     = (list_ex (\<lambda>(_, t). t \<le> n1) xs \<or> list_ex (\<lambda>(_, t). t \<le> n2) (filter (\<lambda>(_, t). n1 < t) xs))"
  for n1 :: nat
  by (induction xs) auto

lemma not_due_filter:
  "n1 \<le> n2 \<Longrightarrow> filter (\<lambda>(_, t). n2 < t) (filter (\<lambda>(_, t). n1 < t) xs) = filter (\<lambda>(_, t). n2 < t) xs"
  for n1 :: nat
  by (induction xs) auto

lemma elapse_0_add: "elapse d2 (elapse d1 s) = elapse (d1 + d2) s"
  using due_split [of "clock s + d1" "clock s + (d1 + d2)" "pending s"]
    not_due_filter [of "clock s + d1" "clock s + (d1 + d2)" "pending s"]
  by (simp add: elapse_def Let_def add.assoc)

lemma fold_elapse: "ds \<noteq> [] \<Longrightarrow> fold elapse ds s = elapse (sum_list ds) s"
proof (induction ds arbitrary: s)
  case (Cons d ds)
  then show ?case by (cases "ds = []") (simp_all add: elapse_0_add)
qed simp

lemma show_elapse:
  "toast_inv s \<Longrightarrow> tmessage (elapse d (toast_show m ty s)) = (if d < 4000 then Some m else None)"
  by (simp add: elapse_def toast_show_def Let_def clear_timer_pending)

section \<open>Properties\<close>

text \<open>Whatever setter changes the list that is shown (the folder, the account, the search, the
  unread view or the grouping) also goes back to the first page and drops the selection, so no
  message of the old list stays open.\<close>

theorem context_change_resets:
  assumes "list_context (fst (mail_step e w)) \<noteq> list_context (fst w)"
  shows "page (fst (mail_step e w)) = 1 \<and> selectedUID (fst (mail_step e w)) = None
    \<and> selectedFolder (fst (mail_step e w)) = None"
  using assms by (rule context_change)

definition empty_browser :: browser where
  "empty_browser = \<lparr>localStorage = (\<lambda>_. None), sentPrefs = []\<rparr>"

theorem context_change_resets_witness:
  "selectedUID (fst (mail_step (SetListMode Threads)
     (mail_step (SetSelectedUID (Some 7)) (init_mail empty_browser, empty_browser)))) = None"
  by (rule context_change_resets [THEN conjunct2, THEN conjunct1])
    (simp add: list_context_def mail_setters init_mail_def stored_mode_def empty_browser_def)

text \<open>C8: in every history of the store, a draft is held exactly while the composer is open, the
  key that remounts the composer counts how often it was opened, and a reload of the page
  would restore the list mode and the theme.\<close>

theorem mail_store_history:
  "case fold mail_step es (init_mail b, b) of (s, b') \<Rightarrow>
     (isComposerOpen s \<longleftrightarrow> composerDraft s \<noteq> None)
     \<and> composerKey s = fold composer_count es 0
     \<and> listMode (init_mail b') = listMode s \<and> theme (init_mail b') = theme s"
  using mail_store.inv_history [of es b] composer_keys.abs_history [of es b]
  by (simp add: mail_inv_def init_mail_def case_prod_unfold)

text \<open>The hook of the active account settles after one effect on an account of the session: the
  current one if it still exists, else the default one.\<close>

theorem active_account_settles:
  assumes "accounts \<noteq> []" and "list_all (\<lambda>a. acc_id a \<noteq> []) accounts"
  shows "(\<exists>a \<in> set accounts. useActiveAccount accounts (account_effect accounts s) = Some a)
    \<and> account_effect accounts (account_effect accounts s) = account_effect accounts s
    \<and> (useActiveAccount accounts s \<noteq> None \<longrightarrow> account_effect accounts s = s)"
proof -
  obtain a where a: "a \<in> set accounts"
      "activeAccountId (account_effect accounts s) = Some (acc_id a)"
    using account_effect_exists [OF assms(1)] by blast
  have "find (\<lambda>b. Some (acc_id b) = Some (acc_id a)) accounts \<noteq> None"
    using a(1) by (auto simp: find_None_iff)
  then obtain b where "find (\<lambda>b. Some (acc_id b) = Some (acc_id a)) accounts = Some b" by blast
  moreover from this have "b \<in> set accounts" by (blast dest: find_Some_set)
  ultimately have "\<exists>b \<in> set accounts. useActiveAccount accounts (account_effect accounts s) = Some b"
    using a assms(2) by (auto simp: useActiveAccount_def truthy_opt_def list_all_iff)
  moreover have "account_effect accounts s = s" if "useActiveAccount accounts s \<noteq> None"
    using that by (auto simp: useActiveAccount_def account_effect_def list_ex_iff
        split: if_splits dest: find_Some_set)
  ultimately show ?thesis using account_effect_idem by blast
qed

definition example_account :: account where
  "example_account =
     \<lparr>acc_id = ''acc1'', acc_label = ''Work'', acc_email = ''me@example.org'',
      acc_imapHost = ''imap.example.org'', acc_imapPort = 993, acc_imapUseTls = True,
      acc_imapAllowInsecureTls = False, acc_smtpHost = ''smtp.example.org'', acc_smtpPort = 465,
      acc_smtpUseTls = True, acc_smtpAllowInsecureTls = False, acc_sieveHost = [], acc_sievePort = 4190,
      acc_sieveUseTls = True, acc_sieveAllowInsecureTls = False, acc_username = ''me'',
      acc_isDefault = True, acc_sortOrder = 0, acc_createdAt = [], acc_updatedAt = []\<rparr>"

theorem active_account_settles_witness:
  "account_effect [example_account] (account_effect [example_account] (init_mail empty_browser))
     = account_effect [example_account] (init_mail empty_browser)"
  using active_account_settles [of "[example_account]" "init_mail empty_browser"]
  by (simp add: example_account_def)

text \<open>After any history of toasts, a new toast is visible for four seconds, however the time is
  cut into turns of the event loop, and then disappears: the timer of an older toast never
  cuts it short.\<close>

theorem toast_visible_four_seconds:
  "tmessage (fold elapse (d # ds) (toast_show m ty (fold toast_step es init_toast)))
     = (if d + sum_list ds < 4000 then Some m else None)"
  using show_elapse [OF toasts.inv_history, of "d + sum_list ds" m ty es] fold_elapse [of "d # ds"]
  by simp

end
