(* ===== verification/LocalSearch.thy ===== *)
theory LocalSearch
  imports ApiTypes
begin

text \<open>
  The local preview filter of \<open>frontend/src/components/layout/MessageList.tsx\<close>: the query
  tokenizer, \<open>containsAddr\<close>, \<open>matchesLocalQuery\<close> and \<open>matchesLocalThread\<close>.

  The tokenizer repeats one regular expression over the query.  Its first group (letters or
  hyphens up to a colon) is optional and is given up when no value follows; a value is a
  double-quoted text with escapes, a single-quoted text, or a run without white space, in this
  order.  A position with white space never matches and every other position does, so each
  turn skips white space and takes one match.
\<close>

section \<open>The tokenizer\<close>

text \<open>
  The value of a double-quoted text from behind its opening quote: the text with its closing
  quote, and the rest.  A backslash takes the next character, which may not end the line.
\<close>

fun scan_dq :: "string \<Rightarrow> (string \<times> string) option" where
  "scan_dq [] = None"
| "scan_dq (c # cs) =
     (if c = dquote then Some ([c], cs)
      else if c = bslash then
        (case cs of
           [] \<Rightarrow> None
         | d # ds \<Rightarrow>
             if d = nl \<or> d = cr then None
             else map_option (\<lambda>(s, r). (c # d # s, r)) (scan_dq ds))
      else map_option (\<lambda>(s, r). (c # s, r)) (scan_dq cs))"

definition scan_sq :: "string \<Rightarrow> (string \<times> string) option" where
  "scan_sq cs =
     (case dropWhile (\<lambda>c. c \<noteq> squote) cs of
        [] \<Rightarrow> None
      | _ # r \<Rightarrow> Some (takeWhile (\<lambda>c. c \<noteq> squote) cs @ [squote], r))"

definition bare_value :: "string \<Rightarrow> (string \<times> string) option" where
  "bare_value s =
     (let v = takeWhile (\<lambda>c. \<not> is_ws c) s
      in if v = [] then None else Some (v, dropWhile (\<lambda>c. \<not> is_ws c) s))"

definition value_match :: "string \<Rightarrow> (string \<times> string) option" where
  "value_match s =
     (case s of
        [] \<Rightarrow> None
      | c # cs \<Rightarrow>
          (case (if c = dquote then scan_dq cs else if c = squote then scan_sq cs else None) of
             Some (v, r) \<Rightarrow> Some (c # v, r)
           | None \<Rightarrow> bare_value s))"

definition is_op_char :: "char \<Rightarrow> bool" where
  "is_op_char c \<longleftrightarrow> is_alpha c \<or> c = CHR ''-''"

text \<open>One match: the operator with its colon (empty when the group did not take part), the value
  and the rest of the query.\<close>

definition query_match :: "string \<Rightarrow> (string \<times> string \<times> string) option" where
  "query_match s =
     (let opr = takeWhile is_op_char s;
          plain = map_option (\<lambda>(v, r). ([], v, r)) (value_match s)
      in case dropWhile is_op_char s of
           c # r \<Rightarrow>
             if opr \<noteq> [] \<and> c = CHR '':'' then
               (case value_match r of
                  Some (v, r') \<Rightarrow> Some (opr @ [c], v, r')
                | None \<Rightarrow> plain)
             else plain
         | [] \<Rightarrow> plain)"

definition is_quote :: "char \<Rightarrow> bool" where
  "is_quote c \<longleftrightarrow> c = dquote \<or> c = squote"

definition strip_quotes :: "string \<Rightarrow> string" where
  "strip_quotes s =
     (let s1 = (if s \<noteq> [] \<and> is_quote (hd s) then tl s else s)
      in if s1 \<noteq> [] \<and> is_quote (last s1) then butlast s1 else s1)"

record local_token =
  top :: string
  tval :: string

lemma scan_dq_length: "scan_dq s = Some (v, r) \<Longrightarrow> length r < length s"
  by (induction s arbitrary: v r rule: scan_dq.induct)
    (fastforce split: if_splits list.splits)+

lemma scan_sq_length: "scan_sq s = Some (v, r) \<Longrightarrow> length r < length s"
  using length_dropWhile_le [of "\<lambda>c. c \<noteq> squote" s]
  by (auto simp: scan_sq_def split: list.splits)

lemma bare_value_length:
  assumes "bare_value s = Some (v, r)"
  shows "length r < length s"
proof -
  have "v \<noteq> []" "v = takeWhile (\<lambda>c. \<not> is_ws c) s" "r = dropWhile (\<lambda>c. \<not> is_ws c) s"
    using assms by (auto simp: bare_value_def Let_def split: if_splits)
  then have "length s = length v + length r"
    by (metis length_append takeWhile_dropWhile_id)
  with \<open>v \<noteq> []\<close> show ?thesis by simp
qed

lemma value_match_length: "value_match s = Some (v, r) \<Longrightarrow> length r < length s"
  by (auto simp: value_match_def split: list.splits option.splits if_splits
      dest: scan_dq_length scan_sq_length bare_value_length)

lemma query_match_length: "query_match s = Some (opr, v, r) \<Longrightarrow> length r < length s"
  using length_dropWhile_le [of is_op_char s]
  by (auto simp: query_match_def Let_def split: list.splits option.splits if_splits
      dest!: value_match_length)

lemma query_match_shorter:
  assumes "query_match (dropWhile is_ws q) = Some (opr, v, r)"
  shows "length r < length q"
  using query_match_length [OF assms] length_dropWhile_le [of is_ws q] by linarith

function tokenizeLocalQuery :: "string \<Rightarrow> local_token list" where
  "tokenizeLocalQuery q =
     (case query_match (dropWhile is_ws q) of
        None \<Rightarrow> []
      | Some (opr, v, r) \<Rightarrow>
          (let val = strip_quotes v
           in if val \<noteq> [] then \<lparr>top = to_lower opr, tval = val\<rparr> # tokenizeLocalQuery r
              else tokenizeLocalQuery r))"
  by pat_completeness auto
termination
  by (relation "measure length") (auto intro: query_match_shorter)

declare tokenizeLocalQuery.simps [simp del]

section \<open>The filter\<close>

definition containsAddr :: "email_address list \<Rightarrow> string \<Rightarrow> bool" where
  "containsAddr addrs needle =
     (let n = to_lower needle
      in list_ex (\<lambda>e. contains (to_lower (eaddress e)) n \<or> contains (to_lower (ename e)) n) addrs)"

definition known_ops :: "string list" where
  "known_ops = [''from'', ''to'', ''subject'', ''cc'', ''bcc'', ''body'', ''text'', ''is'', ''has'']"

definition haystack :: "message_summary \<Rightarrow> string" where
  "haystack msg = to_lower (join '' ''
     ([ms_subject msg, opt_string (ms_snippet msg)]
      @ concat (map (\<lambda>f. [ename f, eaddress f]) (ms_from msg))
      @ concat (map (\<lambda>f. [ename f, eaddress f]) (ms_to msg))))"

definition in_preview :: "message_summary \<Rightarrow> string \<Rightarrow> bool" where
  "in_preview msg v \<longleftrightarrow>
     contains (to_lower (opt_string (ms_snippet msg))) v \<or> contains (to_lower (ms_subject msg)) v"

text \<open>The \<open>switch\<close> of the loop: \<open>False\<close> is \<open>return false\<close>.\<close>

definition token_passes :: "message_summary \<Rightarrow> local_token \<Rightarrow> bool" where
  "token_passes msg tok =
     (let v = to_lower (tval tok); opr = top tok
      in if opr = ''from'' then containsAddr (ms_from msg) (tval tok)
         else if opr = ''to'' then containsAddr (ms_to msg) (tval tok)
         else if opr = ''subject'' then contains (to_lower (ms_subject msg)) v
         else if opr = ''body'' \<or> opr = ''text'' then in_preview msg v
         else if opr = ''is'' then
           \<not> (v = ''unread'' \<and> \<not> ms_unread msg) \<and> \<not> (v = ''read'' \<and> ms_unread msg)
           \<and> \<not> (v = ''starred'' \<and> \<not> ms_starred msg)
         else if opr = ''has'' then \<not> (v = ''attachment'' \<and> \<not> ms_hasAttachment msg)
         else opr \<in> set known_ops \<or> in_preview msg v)"

definition matchesLocalQuery :: "message_summary \<Rightarrow> string \<Rightarrow> bool" where
  "matchesLocalQuery msg query =
     (let tokens = tokenizeLocalQuery query
      in if tokens = [] then True
         else
           (let plains = filter (\<lambda>t. top t = []) tokens
            in (plains = [] \<or> list_all (\<lambda>t. contains (haystack msg) (to_lower (tval t))) plains)
               \<and> list_all (token_passes msg) tokens))"

definition thread_as_message :: "thread_summary \<Rightarrow> message_summary" where
  "thread_as_message th =
     \<lparr>ms_uid = 0, ms_messageId = [], ms_subject = th_subject th, ms_date = th_date th, ms_from = [],
      ms_to = [], ms_flags = [], ms_unread = th_unreadCount th > 0, ms_starred = th_starred th,
      ms_hasAttachment = th_hasAttachment th, ms_size = 0,
      ms_snippet = Some (case th_messages th of [] \<Rightarrow> [] | m # _ \<Rightarrow> opt_string (ms_snippet m)),
      ms_threadId = None, ms_folder = None\<rparr>"

definition matchesLocalThread :: "thread_summary \<Rightarrow> string \<Rightarrow> bool" where
  "matchesLocalThread th query =
     (if th_messages th \<noteq> [] then list_ex (\<lambda>m. matchesLocalQuery m query) (th_messages th)
      else matchesLocalQuery (thread_as_message th) query)"

section \<open>What the operators do\<close>

lemma query_match_op: "query_match s = Some (opr, v, r) \<Longrightarrow> opr = [] \<or> last opr = CHR '':''"
  by (auto simp: query_match_def Let_def split: list.splits option.splits if_splits)

lemma token_ops: "t \<in> set (tokenizeLocalQuery q) \<Longrightarrow> top t = [] \<or> last (top t) = CHR '':''"
proof (induction q arbitrary: t rule: tokenizeLocalQuery.induct)
  case (1 q)
  show ?case
  proof (cases "query_match (dropWhile is_ws q)")
    case None
    then show ?thesis using "1.prems" by (simp add: tokenizeLocalQuery.simps [of q])
  next
    case (Some a)
    then obtain opr v r where a: "query_match (dropWhile is_ws q) = Some (opr, v, r)"
      by (cases a) auto
    have colon: "to_lower opr = [] \<or> last (to_lower opr) = CHR '':''"
      using query_match_op [OF a]
      by (cases "opr = []") (simp_all add: to_lower_def last_map lower_char_def in_range_def code_def)
    have ih: "top t = [] \<or> last (top t) = CHR '':''" if "t \<in> set (tokenizeLocalQuery r)"
      using "1.IH" [OF a refl refl refl] that by blast
    show ?thesis
      using "1.prems" colon ih
      by (auto simp: tokenizeLocalQuery.simps [of q] a Let_def split: if_splits)
  qed
qed

lemma token_passes_eq:
  assumes "top t = [] \<or> last (top t) = CHR '':''"
  shows "token_passes msg t = in_preview msg (to_lower (tval t))"
proof -
  have "top t \<notin> {''from'', ''to'', ''subject'', ''cc'', ''bcc'', ''body'', ''text'', ''is'', ''has''}"
    using assms by auto
  then show ?thesis by (simp add: token_passes_def Let_def known_ops_def)
qed

lemma contains_join:
  assumes "x \<in> set xs" and "contains x v"
  shows "contains (join sep xs) v"
proof -
  have "sublist x (join sep xs)"
    using assms(1)
  proof (induction sep xs rule: join.induct)
    case (3 sep y z zs)
    have "sublist (join sep (z # zs)) (y @ sep @ join sep (z # zs))"
      using sublist_append_leftI [of "join sep (z # zs)" "y @ sep"] by simp
    with 3 show ?case by (auto intro: sublist_order.order.trans)
  qed auto
  with assms(2) show ?thesis
    unfolding contains_sublist by (rule sublist_order.order.trans)
qed

lemma to_lower_join: "to_lower (join sep xs) = join (to_lower sep) (map to_lower xs)"
  by (induction sep xs rule: join.induct) auto

lemma preview_in_haystack: "in_preview msg v \<Longrightarrow> contains (haystack msg) v"
  unfolding haystack_def to_lower_join in_preview_def
  by (elim disjE; rule contains_join; assumption?) auto

lemma matches_eq:
  "matchesLocalQuery msg query =
     list_all (\<lambda>t. in_preview msg (to_lower (tval t))) (tokenizeLocalQuery query)"
  using token_passes_eq [OF token_ops] preview_in_haystack
  by (auto simp: matchesLocalQuery_def Let_def list_all_iff)

section \<open>Properties\<close>

text \<open>The local preview keeps a message exactly when every search term occurs in its subject or
  its snippet.  The operators have no effect: the tokenizer leaves their colon in place, so
  \<open>from:\<close>, \<open>is:\<close> and the others all reach the branch for unknown operators, and the sender and the
  flags of a message are never looked at.\<close>

theorem local_filter_reads_preview_only:
  "matchesLocalQuery msg query \<longleftrightarrow>
     (\<forall>t \<in> set (tokenizeLocalQuery query).
        contains (to_lower (opt_string (ms_snippet msg))) (to_lower (tval t))
        \<or> contains (to_lower (ms_subject msg)) (to_lower (tval t)))"
  by (simp add: matches_eq in_preview_def list_all_iff)

definition example_summary :: message_summary where
  "example_summary =
     \<lparr>ms_uid = 5, ms_messageId = ''<1@x>'', ms_subject = ''Lunch'', ms_date = ''2024-01-02T03:04:05Z'',
      ms_from = [\<lparr>ename = ''Alice'', eaddress = ''alice@example.org''\<rparr>], ms_to = [], ms_flags = [],
      ms_unread = True, ms_starred = False, ms_hasAttachment = False, ms_size = 10,
      ms_snippet = Some ''at noon?'', ms_threadId = None, ms_folder = Some ''INBOX''\<rparr>"

theorem local_filter_reads_preview_only_witness:
  "\<not> matchesLocalQuery example_summary ''from:alice''
     \<and> matchesLocalQuery example_summary ''from:noon is:lunch''"
proof -
  have t1: "tokenizeLocalQuery ''from:alice'' = [\<lparr>top = ''from:'', tval = ''alice''\<rparr>]" by code_simp
  have t2: "tokenizeLocalQuery ''from:noon is:lunch''
      = [\<lparr>top = ''from:'', tval = ''noon''\<rparr>, \<lparr>top = ''is:'', tval = ''lunch''\<rparr>]" by code_simp
  have "\<not> contains (to_lower ''at noon?'') (to_lower ''alice'')"
    "\<not> contains (to_lower ''Lunch'') (to_lower ''alice'')"
    "contains (to_lower ''at noon?'') (to_lower ''noon'')"
    "contains (to_lower ''Lunch'') (to_lower ''lunch'')" by code_simp+
  then show ?thesis
    by (simp add: local_filter_reads_preview_only t1 t2 example_summary_def)
qed

end
