(* ===== verification/Swipe.thy ===== *)
theory Swipe
  imports Machine
begin

text \<open>
  The swipe-to-reveal state machine of the rows of \<open>MessageList.tsx\<close>.  The source has it twice,
  for message rows (keyed by uid) and for thread rows (keyed by thread id), with the same
  code; the model has one polymorphic copy and two instances.  Coordinates are integers.
\<close>

record 'k swipe_start =
  sx :: int
  sy :: int
  skey :: 'k
  horizontal :: "bool option"
  sbase :: int

record 'k swipe =
  sstart :: "'k swipe_start option"
  offset :: int
  swiped :: "'k option"
  dragging :: "'k option"

definition REVEAL_W :: int where "REVEAL_W = 160"
definition REVEAL_HALF :: int where "REVEAL_HALF = REVEAL_W div 2"

definition init_swipe :: "'k swipe" where
  "init_swipe = \<lparr>sstart = None, offset = 0, swiped = None, dragging = None\<rparr>"

definition clamp :: "int \<Rightarrow> int" where
  "clamp x = max (- REVEAL_W) (min REVEAL_W x)"

definition close_swipe :: "'k swipe \<Rightarrow> 'k swipe" where
  "close_swipe s = s\<lparr>offset := 0, swiped := None\<rparr>"

definition touch_start :: "bool \<Rightarrow> 'k \<Rightarrow> int \<Rightarrow> int \<Rightarrow> 'k swipe \<Rightarrow> 'k swipe" where
  "touch_start multi k x y s =
     (if multi then s
      else s\<lparr>sstart := Some \<lparr>sx = x, sy = y, skey = k, horizontal = None,
               sbase = (if swiped s = Some k then offset s else 0)\<rparr>,
             dragging := Some k\<rparr>)"

definition decide_direction :: "int \<Rightarrow> int \<Rightarrow> 'k swipe_start \<Rightarrow> 'k swipe_start" where
  "decide_direction dx dy st =
     (if horizontal st = None \<and> (\<bar>dx\<bar> > 12 \<or> \<bar>dy\<bar> > 12)
      then st\<lparr>horizontal := Some (\<bar>dx\<bar> > \<bar>dy\<bar>)\<rparr> else st)"

definition touch_move :: "'k \<Rightarrow> int \<Rightarrow> int \<Rightarrow> 'k swipe \<Rightarrow> 'k swipe" where
  "touch_move k x y s =
     (case sstart s of
        None \<Rightarrow> s
      | Some st \<Rightarrow>
          if skey st \<noteq> k then s
          else
            (let dx = x - sx st; dy = y - sy st; st' = decide_direction dx dy st
             in if horizontal st' = Some True
                then s\<lparr>sstart := Some st', offset := clamp (sbase st' + dx)\<rparr>
                else s\<lparr>sstart := Some st'\<rparr>))"

definition touch_end :: "bool \<Rightarrow> 'k \<Rightarrow> int \<Rightarrow> 'k swipe \<Rightarrow> 'k swipe" where
  "touch_end multi k x s =
     (let s' = s\<lparr>sstart := None, dragging := None\<rparr>
      in case sstart s of
           None \<Rightarrow> s'
         | Some st \<Rightarrow>
             if skey st \<noteq> k then s'
             else if horizontal st \<noteq> Some True \<or> multi then close_swipe s'
             else
               (let final = clamp (sbase st + (x - sx st))
                in if final > - REVEAL_HALF \<and> final < REVEAL_HALF then close_swipe s'
                   else s'\<lparr>swiped := Some k,
                           offset := (if final \<le> - REVEAL_HALF then - REVEAL_W else REVEAL_W)\<rparr>))"

text \<open>The horizontal position at which row \<open>k\<close> is drawn.\<close>

definition translate_x :: "'k swipe \<Rightarrow> 'k \<Rightarrow> int" where
  "translate_x s k =
     (if dragging s = Some k \<or> (swiped s = Some k \<and> dragging s = None) then offset s else 0)"

text \<open>The two instances of the source.\<close>

definition handleTouchStart :: "bool \<Rightarrow> nat \<Rightarrow> int \<Rightarrow> int \<Rightarrow> nat swipe \<Rightarrow> nat swipe" where
  "handleTouchStart = touch_start"

definition handleTouchMove :: "nat \<Rightarrow> int \<Rightarrow> int \<Rightarrow> nat swipe \<Rightarrow> nat swipe" where
  "handleTouchMove = touch_move"

definition handleTouchEnd :: "bool \<Rightarrow> nat \<Rightarrow> int \<Rightarrow> nat swipe \<Rightarrow> nat swipe" where
  "handleTouchEnd = touch_end"

definition handleThreadTouchStart ::
    "bool \<Rightarrow> string \<Rightarrow> int \<Rightarrow> int \<Rightarrow> string swipe \<Rightarrow> string swipe" where
  "handleThreadTouchStart = touch_start"

definition handleThreadTouchMove :: "string \<Rightarrow> int \<Rightarrow> int \<Rightarrow> string swipe \<Rightarrow> string swipe" where
  "handleThreadTouchMove = touch_move"

definition handleThreadTouchEnd :: "bool \<Rightarrow> string \<Rightarrow> int \<Rightarrow> string swipe \<Rightarrow> string swipe" where
  "handleThreadTouchEnd = touch_end"

section \<open>One finger at a time\<close>

text \<open>A gesture of one finger on one row: where it starts, the points it moves through and the
  point at which it is lifted, with the multi-select mode at start and end.\<close>

record 'k gesture =
  grow :: 'k
  gstart :: "int \<times> int"
  gmoves :: "(int \<times> int) list"
  gend :: int
  gmulti_start :: bool
  gmulti_end :: bool

definition run_gesture :: "'k gesture \<Rightarrow> 'k swipe \<Rightarrow> 'k swipe" where
  "run_gesture g s =
     touch_end (gmulti_end g) (grow g) (gend g)
       (fold (\<lambda>(x, y). touch_move (grow g) x y) (gmoves g)
         (touch_start (gmulti_start g) (grow g) (fst (gstart g)) (snd (gstart g)) s))"

datatype 'k swipe_event = Gesture "'k gesture" | CloseSwipe

fun swipe_step :: "'k swipe_event \<Rightarrow> 'k swipe \<Rightarrow> 'k swipe" where
  "swipe_step (Gesture g) s = run_gesture g s"
| "swipe_step CloseSwipe s = close_swipe s"

text \<open>At rest: no finger is down, and the offset is the full width exactly when a row is revealed.\<close>

definition at_rest :: "'k swipe \<Rightarrow> bool" where
  "at_rest s \<longleftrightarrow>
     sstart s = None \<and> dragging s = None
     \<and> (if swiped s = None then offset s = 0 else offset s = REVEAL_W \<or> offset s = - REVEAL_W)"

text \<open>During a gesture on row \<open>k\<close>.\<close>

definition in_gesture :: "'k \<Rightarrow> int \<Rightarrow> 'k swipe \<Rightarrow> bool" where
  "in_gesture k x0 s \<longleftrightarrow>
     (\<exists>st. sstart s = Some st \<and> skey st = k \<and> sx st = x0) \<and> \<bar>offset s\<bar> \<le> REVEAL_W"

lemma reveal_consts [simp]: "REVEAL_W = 160" "REVEAL_HALF = 80"
  by (simp_all add: REVEAL_W_def REVEAL_HALF_def)

lemma clamp_bound [simp]: "\<bar>clamp x\<bar> \<le> 160"
  by (simp add: clamp_def)

lemma decide_fields [simp]:
  "skey (decide_direction dx dy st) = skey st" "sx (decide_direction dx dy st) = sx st"
  "sy (decide_direction dx dy st) = sy st" "sbase (decide_direction dx dy st) = sbase st"
  by (simp_all add: decide_direction_def)

lemma move_in_gesture: "in_gesture k x0 s \<Longrightarrow> in_gesture k x0 (touch_move k x y s)"
  by (auto simp: in_gesture_def touch_move_def Let_def)

lemma moves_in_gesture:
  "in_gesture k x0 s \<Longrightarrow> in_gesture k x0 (fold (\<lambda>(x, y). touch_move k x y) ms s)"
  by (induction ms arbitrary: s) (auto intro: move_in_gesture)

lemma moves_idle: "sstart s = None \<Longrightarrow> fold (\<lambda>(x, y). touch_move k x y) ms s = s"
  by (induction ms) (auto simp: touch_move_def)

lemma at_rest_close: "at_rest (close_swipe (s\<lparr>sstart := None, dragging := None\<rparr>))"
  by (simp add: at_rest_def close_swipe_def)

lemma end_at_rest:
  assumes "in_gesture k x0 s"
  shows "at_rest (touch_end multi k x s)"
proof -
  obtain st where st: "sstart s = Some st" "skey st = k" using assms by (auto simp: in_gesture_def)
  let ?final = "clamp (sbase st + (x - sx st))"
  consider "horizontal st \<noteq> Some True \<or> multi"
    | "horizontal st = Some True" "\<not> multi" "?final > - 80 \<and> ?final < 80"
    | "horizontal st = Some True" "\<not> multi" "\<not> (?final > - 80 \<and> ?final < 80)"
    by blast
  then show ?thesis
  proof cases
    case 3
    with st show ?thesis by (simp add: touch_end_def at_rest_def Let_def)
  qed (use st in \<open>auto simp: touch_end_def Let_def at_rest_close\<close>)
qed

lemma gesture_at_rest:
  assumes "at_rest s"
  shows "at_rest (run_gesture g s)"
proof (cases "gmulti_start g")
  case True
  have "sstart s = None" "dragging s = None" using assms by (simp_all add: at_rest_def)
  then have "run_gesture g s = s"
    using True by (simp add: run_gesture_def touch_start_def moves_idle touch_end_def Let_def)
  with assms show ?thesis by simp
next
  case False
  have "in_gesture (grow g) (fst (gstart g))
      (touch_start (gmulti_start g) (grow g) (fst (gstart g)) (snd (gstart g)) s)"
    using assms False by (auto simp: touch_start_def in_gesture_def at_rest_def split: if_splits)
  then show ?thesis
    unfolding run_gesture_def by (intro end_at_rest moves_in_gesture)
qed

interpretation swipes: safe_machine init_swipe swipe_step at_rest
proof
  show "at_rest init_swipe" by (simp add: at_rest_def init_swipe_def)
next
  fix s :: "'a swipe" and e
  assume "at_rest s"
  then show "at_rest (swipe_step e s)"
  proof (cases e)
    case CloseSwipe
    with \<open>at_rest s\<close> show ?thesis by (simp add: at_rest_def close_swipe_def)
  qed (simp add: gesture_at_rest)
qed

lemma at_rest_translate:
  "at_rest s \<Longrightarrow> translate_x s k \<in> {-160, 0, 160} \<and> (translate_x s k \<noteq> 0 \<longleftrightarrow> swiped s = Some k)"
  by (auto simp: at_rest_def translate_x_def split: if_splits)

section \<open>Properties\<close>

text \<open>After any sequence of one-finger gestures, every row of messages is drawn either in place
  or fully revealed to one side, at most one row is revealed, and it is the one the state
  names; the same holds for rows of threads.\<close>

theorem rows_come_to_rest:
  "translate_x (fold swipe_step es init_swipe) k \<in> {-160, 0, 160}
   \<and> (translate_x (fold swipe_step es init_swipe) k \<noteq> 0
       \<longleftrightarrow> swiped (fold swipe_step es init_swipe) = Some k)
   \<and> dragging (fold swipe_step es init_swipe) = None"
  using at_rest_translate [OF swipes.inv_history] swipes.inv_history [of es]
  by (simp add: at_rest_def)

text \<open>Two fingers break this: while the row \<open>a\<close> is revealed and one finger drags it, a second
  finger that touches row \<open>b\<close> makes the release of the first one leave \<open>a\<close> where it was
  dragged to, neither closed nor revealed.\<close>

theorem second_finger_leaves_row_halfway:
  assumes "a \<noteq> b"
  shows "translate_x
     (handleTouchEnd False a 230
       (handleTouchStart False b 50 90
         (handleTouchMove a 230 20
           (handleTouchStart False a 300 20
             \<lparr>sstart = None, offset = 160, swiped = Some a, dragging = None\<rparr>)))) a = 90"
  using assms
  by (simp add: handleTouchEnd_def handleTouchStart_def handleTouchMove_def touch_end_def
      touch_start_def touch_move_def decide_direction_def clamp_def translate_x_def Let_def)

theorem second_finger_leaves_row_halfway_witness:
  "translate_x
     (handleTouchEnd False 1 230
       (handleTouchStart False 2 50 90
         (handleTouchMove 1 230 20
           (handleTouchStart False 1 300 20
             \<lparr>sstart = None, offset = 160, swiped = Some 1, dragging = None\<rparr>)))) 1 = 90"
  by (rule second_finger_leaves_row_halfway) simp

end
