(* ===== verification/MessageList.thy ===== *)
theory MessageList
  imports LocalSearch Swipe Stores
begin

text \<open>
  The component \<open>MessageList\<close> of \<open>frontend/src/components/layout/MessageList.tsx\<close>: what it shows,
  the selection of many messages, clicks, long presses, the operations on messages and the
  choice of the next message after a removal.

  \<open>list_env\<close> holds what a render reads from its queries; \<open>ml_state\<close> is the local state of the
  component; the store is the \<open>mail_state\<close> of \<open>Stores\<close>.  The value of a date string is the
  parameter \<open>dv\<close> (\<open>None\<close> for an invalid date, which compares as \<open>false\<close>).
\<close>

type_synonym date_value = "string \<Rightarrow> int option"

record list_env =
  env_accountId :: "string option"
  env_data :: "message_list_result option"
  env_isLoading :: bool
  env_isFetching :: bool
  env_folders :: "folder_info list"

record ml_state =
  selectedUIDs :: "nat list"
  isMultiSelect :: bool
  multiRef :: bool
  rowSwipe :: "nat swipe"
  threadSwipe :: "string swipe"
  expandedThreads :: "string set"
  lastClickedIndex :: int
  pointerDownTime :: nat
  longPressIndex :: int
  longPressTimer :: bool
  swipeError :: "message option"
  autoSelectedCtx :: "string option"

definition init_ml :: ml_state where
  "init_ml =
     \<lparr>selectedUIDs = [], isMultiSelect = False, multiRef = False, rowSwipe = init_swipe,
      threadSwipe = init_swipe, expandedThreads = {}, lastClickedIndex = -1, pointerDownTime = 0,
      longPressIndex = -1, longPressTimer = False, swipeError = None, autoSelectedCtx = None\<rparr>"

section \<open>What is shown\<close>

definition isUnreadView :: "mail_state \<Rightarrow> bool" where
  "isUnreadView s = unreadView s"

definition threadMode :: "mail_state \<Rightarrow> bool" where
  "threadMode s \<longleftrightarrow> listMode s = Threads \<and> \<not> isUnreadView s"

definition env_messages :: "list_env \<Rightarrow> message_summary list" where
  "env_messages env = (case env_data env of None \<Rightarrow> [] | Some d \<Rightarrow> ml_messages d)"

definition env_threads :: "list_env \<Rightarrow> thread_summary list" where
  "env_threads env =
     (case env_data env of
        None \<Rightarrow> []
      | Some d \<Rightarrow> (case ml_threads d of None \<Rightarrow> [] | Some ts \<Rightarrow> ts))"

text \<open>\<open>data?.totalPages || 1\<close>: 0 counts as missing.\<close>

definition env_totalPages :: "list_env \<Rightarrow> nat" where
  "env_totalPages env =
     (case env_data env of None \<Rightarrow> 1 | Some d \<Rightarrow> if ml_totalPages d = 0 then 1 else ml_totalPages d)"

definition inputTrim :: "mail_state \<Rightarrow> string" where
  "inputTrim s = trim (searchInput s)"

definition isFreshForInput :: "list_env \<Rightarrow> mail_state \<Rightarrow> bool" where
  "isFreshForInput env s \<longleftrightarrow> inputTrim s = searchQuery s \<and> \<not> env_isFetching env"

definition applyLocalPreview :: "list_env \<Rightarrow> mail_state \<Rightarrow> bool" where
  "applyLocalPreview env s =
     (if isUnreadView s then inputTrim s \<noteq> [] else \<not> isFreshForInput env s)"

definition displayMessages :: "list_env \<Rightarrow> mail_state \<Rightarrow> message_summary list" where
  "displayMessages env s =
     (if \<not> applyLocalPreview env s \<or> inputTrim s = [] then env_messages env
      else filter (\<lambda>m. matchesLocalQuery m (inputTrim s)) (env_messages env))"

definition displayThreads :: "list_env \<Rightarrow> mail_state \<Rightarrow> thread_summary list" where
  "displayThreads env s =
     (if \<not> applyLocalPreview env s \<or> inputTrim s = [] then env_threads env
      else filter (\<lambda>t. matchesLocalThread t (inputTrim s)) (env_threads env))"

definition resultCount :: "list_env \<Rightarrow> mail_state \<Rightarrow> nat" where
  "resultCount env s =
     (if applyLocalPreview env s then
        (if threadMode s then length (displayThreads env s) else length (displayMessages env s))
      else (case env_data env of None \<Rightarrow> 0 | Some d \<Rightarrow> ml_total d))"

text \<open>The request of the list, or \<open>None\<close> while the query is disabled.\<close>

definition list_query :: "list_env \<Rightarrow> mail_state \<Rightarrow> call option" where
  "list_query env s =
     (if \<not> truthy_opt (env_accountId env) then None
      else if unreadView s then Some (getUnread (page s) (limit s) (env_accountId env))
      else Some (getMessages (currentFolder s) (page s) (limit s) (searchQuery s) (env_accountId env)
                   (listMode s = Threads)))"

definition first_from :: "message_summary \<Rightarrow> string" where
  "first_from m = (case ms_from m of [] \<Rightarrow> [] | a # _ \<Rightarrow> trim (to_lower (eaddress a)))"

text \<open>A JavaScript \<open>Set\<close> of numbers or strings, in insertion order.\<close>

definition js_add :: "'a \<Rightarrow> 'a list \<Rightarrow> 'a list" where
  "js_add x xs = (if x \<in> set xs then xs else xs @ [x])"

definition js_set :: "'a list \<Rightarrow> 'a list" where
  "js_set xs = fold js_add xs []"

definition senderEmails :: "list_env \<Rightarrow> string list" where
  "senderEmails env =
     take 100 (js_set (filter (\<lambda>e. e \<noteq> [])
       (map first_from (env_messages env @ concat (map th_messages (env_threads env))))))"

section \<open>Thread rows\<close>

text \<open>\<open>reduce((a, b) => date a >= date b ? a : b, ms[0])\<close>, and \<open>undefined\<close> for no messages.\<close>

definition date_ge :: "date_value \<Rightarrow> message_summary \<Rightarrow> message_summary \<Rightarrow> bool" where
  "date_ge dv a b \<longleftrightarrow>
     (case (dv (ms_date a), dv (ms_date b)) of (Some x, Some y) \<Rightarrow> x \<ge> y | _ \<Rightarrow> False)"

definition newest :: "date_value \<Rightarrow> message_summary list \<Rightarrow> message_summary option" where
  "newest dv ms =
     (case ms of
        [] \<Rightarrow> None
      | m # _ \<Rightarrow> Some (fold (\<lambda>b a. if date_ge dv a b then a else b) ms m))"

definition memberUIDs :: "thread_summary \<Rightarrow> nat list" where
  "memberUIDs th = map ms_uid (th_messages th)"

definition allChecked :: "nat list \<Rightarrow> thread_summary \<Rightarrow> bool" where
  "allChecked sel th \<longleftrightarrow> memberUIDs th \<noteq> [] \<and> list_all (\<lambda>u. u \<in> set sel) (memberUIDs th)"

definition sender_name ::
    "(string \<Rightarrow> contact option) \<Rightarrow> message_summary \<Rightarrow> string \<Rightarrow> string" where
  "sender_name contactMap m a =
     (let dn = (case contactMap (to_lower a) of None \<Rightarrow> [] | Some c \<Rightarrow> c_displayName c);
          byName = (case find (\<lambda>f. to_lower (eaddress f) = to_lower a) (ms_from m) of
                      None \<Rightarrow> [] | Some f \<Rightarrow> ename f)
      in or_else dn (or_else byName (hd (split_on CHR ''@'' a))))"

definition senderLabel ::
    "(string \<Rightarrow> contact option) \<Rightarrow> message_summary \<Rightarrow> string list \<Rightarrow> string" where
  "senderLabel contactMap m addrs =
     join '', '' (map (sender_name contactMap m) (take 2 addrs))
     @ (if length addrs > 2 then '' +'' @ nat_str (length addrs - 2) else [])"

text \<open>The name on a message row and on a row inside an expanded thread.\<close>

definition row_name :: "(string \<Rightarrow> contact option) \<Rightarrow> message_summary \<Rightarrow> message" where
  "row_name contactMap m =
     (case ms_from m of
        [] \<Rightarrow> Tr ''mailList.unknownSender'' []
      | f # _ \<Rightarrow>
          (let c = (if eaddress f = [] then None else contactMap (to_lower (eaddress f)));
               dn = (case c of None \<Rightarrow> [] | Some c \<Rightarrow> c_displayName c);
               nm = or_else dn (or_else (ename f) (eaddress f))
           in if nm = [] then Tr ''mailList.unknownSender'' [] else Raw nm))"

definition member_name :: "message_summary \<Rightarrow> string" where
  "member_name m =
     (case ms_from m of
        [] \<Rightarrow> ''?''
      | f # _ \<Rightarrow> or_else (ename f) (or_else (hd (split_on CHR ''@'' (eaddress f))) ''?''))"

definition toggleThread :: "string \<Rightarrow> ml_state \<Rightarrow> ml_state" where
  "toggleThread i ml =
     ml\<lparr>expandedThreads :=
          (if i \<in> expandedThreads ml then expandedThreads ml - {i} else insert i (expandedThreads ml))\<rparr>"

section \<open>Folders of messages\<close>

definition folderByUID :: "list_env \<Rightarrow> nat \<Rightarrow> string option" where
  "folderByUID env =
     map_of (rev (map (\<lambda>m. (ms_uid m, opt_string (ms_folder m)))
       (filter (\<lambda>m. ms_uid m \<noteq> 0 \<and> truthy_opt (ms_folder m)) (env_messages env))))"

definition folderForUID :: "list_env \<Rightarrow> mail_state \<Rightarrow> nat \<Rightarrow> string" where
  "folderForUID env s uid =
     (if isUnreadView s then
        (case folderByUID env uid of
           Some f \<Rightarrow> if f \<noteq> [] then f else currentFolder s
         | None \<Rightarrow> currentFolder s)
      else currentFolder s)"

text \<open>A \<open>Map\<close> from folder to uids, in insertion order.\<close>

fun add_to_group :: "string \<Rightarrow> nat \<Rightarrow> (string \<times> nat list) list \<Rightarrow> (string \<times> nat list) list" where
  "add_to_group f u [] = [(f, [u])]"
| "add_to_group f u ((g, us) # gs) =
     (if g = f then (g, us @ [u]) # gs else (g, us) # add_to_group f u gs)"

definition groupUidsByFolder ::
    "list_env \<Rightarrow> mail_state \<Rightarrow> nat list \<Rightarrow> (string \<times> nat list) list" where
  "groupUidsByFolder env s uids =
     fold (\<lambda>u gs. if folderForUID env s u = [] then gs else add_to_group (folderForUID env s u) u gs)
       uids []"

section \<open>Operations on messages\<close>

text \<open>The requests of the three mutations; \<open>onSuccess\<close> follows when all of them succeed.\<close>

definition flag_requests ::
    "list_env \<Rightarrow> mail_state \<Rightarrow> nat list \<Rightarrow> string list \<Rightarrow> flag_op \<Rightarrow> call list" where
  "flag_requests env s uids flags opr =
     map (\<lambda>(f, us). setFlags f us flags opr (env_accountId env)) (groupUidsByFolder env s uids)"

definition delete_requests :: "list_env \<Rightarrow> mail_state \<Rightarrow> nat list \<Rightarrow> call list" where
  "delete_requests env s uids =
     map (\<lambda>(f, us). deleteMessages f us False (env_accountId env)) (groupUidsByFolder env s uids)"

definition move_requests :: "list_env \<Rightarrow> mail_state \<Rightarrow> nat list \<Rightarrow> string \<Rightarrow> call list" where
  "move_requests env s uids dest =
     map (\<lambda>(f, us). moveMessages f us dest (env_accountId env)) (groupUidsByFolder env s uids)"

definition toggleStar :: "list_env \<Rightarrow> mail_state \<Rightarrow> message_summary \<Rightarrow> call list" where
  "toggleStar env s m =
     flag_requests env s [ms_uid m] [bslash # ''Flagged''] (if ms_starred m then FRemove else FAdd)"

definition junkFolder :: "list_env \<Rightarrow> string option" where
  "junkFolder env =
     (case find (\<lambda>f. fi_specialUse f = Some ''junk'' \<or> fi_specialUse f = Some ''spam'') (env_folders env) of
        Some f \<Rightarrow> Some (fi_name f)
      | None \<Rightarrow>
          map_option fi_name (find (\<lambda>f. contains (to_lower (fi_name f)) ''junk''
                                    \<or> contains (to_lower (fi_name f)) ''spam'') (env_folders env)))"

subsection \<open>The next message after a removal\<close>

definition index_where :: "('a \<Rightarrow> bool) \<Rightarrow> 'a list \<Rightarrow> nat option" where
  "index_where P xs = (if list_ex P xs then Some (length (takeWhile (\<lambda>x. \<not> P x) xs)) else None)"

text \<open>The two loops: forward from behind \<open>i\<close>, then backward from before \<open>i\<close>.\<close>

definition next_kept :: "('a \<Rightarrow> bool) \<Rightarrow> nat \<Rightarrow> 'a list \<Rightarrow> 'a option" where
  "next_kept keep i xs = find keep (drop (i + 1) xs)"

definition prev_kept :: "('a \<Rightarrow> bool) \<Rightarrow> nat \<Rightarrow> 'a list \<Rightarrow> 'a option" where
  "prev_kept keep i xs = find keep (rev (take i xs))"

definition or_opt :: "'a option \<Rightarrow> 'a option \<Rightarrow> 'a option" where
  "or_opt x y = (case x of None \<Rightarrow> y | Some _ \<Rightarrow> x)"

definition reselect_unread :: "message_summary list \<Rightarrow> nat \<Rightarrow> nat list \<Rightarrow> message_summary option" where
  "reselect_unread ms sel removed =
     (let keep = (\<lambda>m. ms_uid m \<notin> set removed);
          realIdx = or_opt (index_where (\<lambda>m. ms_uid m = sel) ms) (index_where (\<lambda>m. \<not> keep m) ms)
      in or_opt (next_kept keep (case realIdx of None \<Rightarrow> 0 | Some i \<Rightarrow> i) ms)
          (or_opt (case realIdx of None \<Rightarrow> None | Some i \<Rightarrow> prev_kept keep i ms) (find keep ms)))"

text \<open>In the plain list \<open>idx\<close> may be -1: then the first loop starts at 0 and the second never runs.\<close>

definition reselect_flat :: "message_summary list \<Rightarrow> nat \<Rightarrow> nat list \<Rightarrow> message_summary option" where
  "reselect_flat ms sel removed =
     (let keep = (\<lambda>m. ms_uid m \<notin> set removed)
      in case index_where (\<lambda>m. ms_uid m = sel) ms of
           None \<Rightarrow> find keep ms
         | Some i \<Rightarrow> or_opt (next_kept keep i ms) (or_opt (prev_kept keep i ms) (find keep ms)))"

definition reselect_thread ::
    "date_value \<Rightarrow> thread_summary list \<Rightarrow> nat \<Rightarrow> nat list \<Rightarrow> message_summary option" where
  "reselect_thread dv ts sel removed =
     (let gone = (\<lambda>m. ms_uid m \<in> set removed);
          keep = (\<lambda>t. \<not> list_all gone (th_messages t))
      in case index_where (\<lambda>t. list_ex (\<lambda>m. ms_uid m = sel) (th_messages t)) ts of
           None \<Rightarrow> None
         | Some i \<Rightarrow>
             (let remain = filter (\<lambda>m. \<not> gone m) (th_messages (ts ! i))
              in if remain \<noteq> [] then newest dv remain
                 else
                   (case or_opt (next_kept keep i ts) (or_opt (prev_kept keep i ts) (find keep ts)) of
                      None \<Rightarrow> None
                    | Some t \<Rightarrow> newest dv (th_messages t))))"

definition reselectAfterRemoval ::
    "date_value \<Rightarrow> list_env \<Rightarrow> nat list \<Rightarrow> mail_state \<Rightarrow> mail_state" where
  "reselectAfterRemoval dv env removed s =
     (case selectedUID s of
        None \<Rightarrow> s
      | Some sel \<Rightarrow>
          if sel \<notin> set removed then s
          else if isUnreadView s then
            (case reselect_unread (displayMessages env s) sel removed of
               None \<Rightarrow> setSelectedUID None (setSelectedFolder None s)
             | Some m \<Rightarrow>
                 setSelectedUID (Some (ms_uid m))
                   (if truthy_opt (ms_folder m) then setSelectedFolder (ms_folder m) s else s))
          else
            (case (if threadMode s then reselect_thread dv (displayThreads env s) sel removed
                   else reselect_flat (displayMessages env s) sel removed) of
               None \<Rightarrow> setSelectedUID None (setSelectedFolder None s)
             | Some m \<Rightarrow> setSelectedUID (Some (ms_uid m)) (setSelectedFolder None s)))"

text \<open>\<open>onSuccess\<close> of the delete and move mutations, on the component and the store.\<close>

definition removal_success ::
    "date_value \<Rightarrow> list_env \<Rightarrow> nat list \<Rightarrow> ml_state \<times> mail_state \<Rightarrow> ml_state \<times> mail_state" where
  "removal_success dv env uids w =
     ((fst w)\<lparr>selectedUIDs := []\<rparr>, reselectAfterRemoval dv env uids (snd w))"

text \<open>\<open>onError\<close> of the move mutation.\<close>

definition move_error :: "message \<Rightarrow> ml_state \<Rightarrow> ml_state" where
  "move_error e ml =
     ml\<lparr>swipeError := Some (if e = Raw [] then Tr ''mailList.moveFailed'' [] else e)\<rparr>"

text \<open>The keys of the queries that a success invalidates.\<close>

definition invalidated :: "list_env \<Rightarrow> mail_state \<Rightarrow> string list list" where
  "invalidated env s =
     [[''messages'', opt_string (env_accountId env), currentFolder s],
      [''unread-aggregate'', opt_string (env_accountId env)],
      [''folders'', opt_string (env_accountId env)]]"

subsection \<open>The keyboard\<close>

record key_target =
  tagName :: string
  contentEditable :: bool

text \<open>The uids that the key handler deletes, or \<open>None\<close> where it returns early.\<close>

definition delete_key :: "string \<Rightarrow> key_target option \<Rightarrow> mail_state \<Rightarrow> nat list option" where
  "delete_key key target s =
     (if key \<noteq> ''Delete'' \<and> key \<noteq> ''Backspace'' then None
      else if (case target of
                 None \<Rightarrow> False
               | Some t \<Rightarrow> to_lower (tagName t) = ''input'' \<or> to_lower (tagName t) = ''textarea''
                            \<or> contentEditable t) then None
      else map_option (\<lambda>u. [u]) (selectedUID s))"

section \<open>Selecting many messages\<close>

definition selectUID :: "nat \<Rightarrow> ml_state \<Rightarrow> ml_state" where
  "selectUID u ml = ml\<lparr>selectedUIDs := js_add u (selectedUIDs ml)\<rparr>"

definition toggle_uid :: "nat \<Rightarrow> nat list \<Rightarrow> nat list" where
  "toggle_uid u xs = (if u \<in> set xs then filter (\<lambda>i. i \<noteq> u) xs else xs @ [u])"

definition toggleSelect :: "nat \<Rightarrow> ml_state \<Rightarrow> ml_state" where
  "toggleSelect u ml = ml\<lparr>selectedUIDs := toggle_uid u (selectedUIDs ml)\<rparr>"

definition toggleThreadSelect :: "nat list \<Rightarrow> bool \<Rightarrow> ml_state \<Rightarrow> ml_state" where
  "toggleThreadSelect uids checked ml =
     ml\<lparr>selectedUIDs :=
          fold (\<lambda>u xs. if checked then js_add u xs else filter (\<lambda>i. i \<noteq> u) xs) uids
            (js_set (selectedUIDs ml))\<rparr>"

definition handleSelectAll :: "list_env \<Rightarrow> mail_state \<Rightarrow> bool \<Rightarrow> ml_state \<Rightarrow> ml_state" where
  "handleSelectAll env s checked ml =
     (if checked then
        (if threadMode s then
           ml\<lparr>selectedUIDs := concat (map (\<lambda>t. map ms_uid (th_messages t)) (env_threads env))\<rparr>
         else if env_data env \<noteq> None then ml\<lparr>selectedUIDs := map ms_uid (env_messages env)\<rparr>
         else ml)
      else ml\<lparr>selectedUIDs := []\<rparr>)"

text \<open>The state of the box that selects all, and the button that leaves the multi-select mode.\<close>

definition allBoxChecked :: "list_env \<Rightarrow> mail_state \<Rightarrow> ml_state \<Rightarrow> bool" where
  "allBoxChecked env s ml =
     (if listMode s = Threads then
        displayThreads env s \<noteq> []
        \<and> list_all (\<lambda>t. list_all (\<lambda>m. ms_uid m \<in> set (selectedUIDs ml)) (th_messages t))
            (displayThreads env s)
      else displayMessages env s \<noteq> []
        \<and> length (selectedUIDs ml) = length (displayMessages env s))"

definition leaveMultiSelect :: "ml_state \<Rightarrow> ml_state" where
  "leaveMultiSelect ml = ml\<lparr>multiRef := False, isMultiSelect := False, selectedUIDs := []\<rparr>"

text \<open>\<open>messages[i]\<close> with a number that may be out of range.\<close>

definition nth_opt :: "'a list \<Rightarrow> int \<Rightarrow> 'a option" where
  "nth_opt xs i = (if 0 \<le> i \<and> i < int (length xs) then Some (xs ! nat i) else None)"

definition add_range :: "list_env \<Rightarrow> int \<Rightarrow> int \<Rightarrow> nat list \<Rightarrow> nat list" where
  "add_range env lo hi xs =
     fold (\<lambda>i ys. case nth_opt (env_messages env) i of None \<Rightarrow> ys | Some m \<Rightarrow> js_add (ms_uid m) ys)
       [lo..hi] (js_set xs)"

record click =
  now :: nat
  ctrlKey :: bool
  metaKey :: bool
  shiftKey :: bool

definition handleRowClick ::
    "list_env \<Rightarrow> message_summary \<Rightarrow> int \<Rightarrow> click \<Rightarrow> ml_state \<times> mail_state \<Rightarrow> ml_state \<times> mail_state" where
  "handleRowClick env m index e w =
     (case w of (ml, s) \<Rightarrow>
        if now e - pointerDownTime ml \<ge> 500 then (ml, s)
        else if swiped (rowSwipe ml) \<noteq> None then (ml\<lparr>rowSwipe := close_swipe (rowSwipe ml)\<rparr>, s)
        else if multiRef ml then (toggleSelect (ms_uid m) ml, s)
        else if ctrlKey e \<or> metaKey e then
          (toggleSelect (ms_uid m) (ml\<lparr>lastClickedIndex := index\<rparr>), s)
        else if shiftKey e then
          (let frm = (if lastClickedIndex ml \<ge> 0 then lastClickedIndex ml else index)
           in (ml\<lparr>selectedUIDs := add_range env (min frm index) (max frm index) (selectedUIDs ml)\<rparr>, s))
        else
          (ml\<lparr>lastClickedIndex := index\<rparr>,
           setSelectedUID (Some (ms_uid m))
             (setSelectedFolder
                (if isUnreadView s \<and> folderForUID env s (ms_uid m) \<noteq> []
                 then Some (folderForUID env s (ms_uid m)) else None) s)))"

text \<open>Opening a message of a thread row.\<close>

definition thread_open :: "nat \<Rightarrow> ml_state \<times> mail_state \<Rightarrow> ml_state \<times> mail_state" where
  "thread_open uid w =
     (case w of (ml, s) \<Rightarrow>
        if swiped (threadSwipe ml) \<noteq> None then (ml\<lparr>threadSwipe := close_swipe (threadSwipe ml)\<rparr>, s)
        else (ml, setSelectedUID (Some uid) s))"

definition cancelLongPress :: "ml_state \<Rightarrow> ml_state" where
  "cancelLongPress ml = ml\<lparr>longPressTimer := False, longPressIndex := -1\<rparr>"

definition handlePointerDown :: "list_env \<Rightarrow> nat \<Rightarrow> int \<Rightarrow> ml_state \<Rightarrow> ml_state" where
  "handlePointerDown env t index ml =
     (let ml = ml\<lparr>pointerDownTime := t\<rparr>
      in if multiRef ml then
           (let ml = ml\<lparr>isMultiSelect := True\<rparr>
            in case nth_opt (env_messages env) index of None \<Rightarrow> ml | Some m \<Rightarrow> selectUID (ms_uid m) ml)
         else (cancelLongPress ml)\<lparr>longPressIndex := index, longPressTimer := True\<rparr>)"

text \<open>The callback of the timer of 400 milliseconds that \<open>handlePointerDown index\<close> starts.\<close>

definition longPressFires :: "list_env \<Rightarrow> int \<Rightarrow> ml_state \<Rightarrow> ml_state" where
  "longPressFires env index ml =
     (let ml = ml\<lparr>longPressTimer := False, multiRef := True, isMultiSelect := True,
                 rowSwipe := close_swipe (rowSwipe ml), threadSwipe := close_swipe (threadSwipe ml)\<rparr>
      in case nth_opt (env_messages env) index of None \<Rightarrow> ml | Some m \<Rightarrow> selectUID (ms_uid m) ml)"

text \<open>The sweep: the uid of the row under the pointer, if there is one.\<close>

definition handleListPointerMove :: "nat option \<Rightarrow> ml_state \<Rightarrow> ml_state" where
  "handleListPointerMove row ml =
     (if \<not> multiRef ml then ml else case row of None \<Rightarrow> ml | Some u \<Rightarrow> selectUID u ml)"

section \<open>Effects\<close>

text \<open>The effect that closes revealed rows when the list context changes.\<close>

definition close_on_context :: "ml_state \<Rightarrow> ml_state" where
  "close_on_context ml =
     ml\<lparr>rowSwipe := close_swipe (rowSwipe ml), threadSwipe := close_swipe (threadSwipe ml)\<rparr>"

definition list_ctx :: "list_env \<Rightarrow> mail_state \<Rightarrow> string" where
  "list_ctx env s =
     opt_string (env_accountId env) @ ''|'' @ (if isUnreadView s then ''unread'' else currentFolder s)
     @ ''|'' @ mode_str (listMode s) @ ''|'' @ nat_str (page s) @ ''|'' @ searchQuery s"

definition autoSelect ::
    "date_value \<Rightarrow> bool \<Rightarrow> list_env \<Rightarrow> ml_state \<times> mail_state \<Rightarrow> ml_state \<times> mail_state" where
  "autoSelect dv wide env w =
     (case w of (ml, s) \<Rightarrow>
        if \<not> truthy_opt (env_accountId env) \<or> env_isLoading env \<or> env_isFetching env
           \<or> env_data env = None then w
        else if \<not> wide then w
        else if autoSelectedCtx ml = Some (list_ctx env s) then w
        else
          (let ml = ml\<lparr>autoSelectedCtx := Some (list_ctx env s)\<rparr>
           in if selectedUID s \<noteq> None then (ml, s)
              else if threadMode s then
                (case displayThreads env s of
                   [] \<Rightarrow> (ml, s)
                 | t # _ \<Rightarrow>
                     (case newest dv (th_messages t) of
                        None \<Rightarrow> (ml, s)
                      | Some m \<Rightarrow> (ml, setSelectedUID (Some (ms_uid m)) (setSelectedFolder None s))))
              else
                (case displayMessages env s of
                   [] \<Rightarrow> (ml, s)
                 | m # _ \<Rightarrow>
                     (ml, setSelectedUID (Some (ms_uid m))
                        (setSelectedFolder
                           (if isUnreadView s then Some (folderForUID env s (ms_uid m)) else None) s)))))"

end
