(* ===== verification/MessageListProps.thy ===== *)
theory MessageListProps
  imports MessageList
begin

text \<open>
  The properties of the message list: to which folder an operation goes, which message is shown
  after a removal, and what a selection of many messages refers to.
\<close>

section \<open>Grouping by folder\<close>

lemma distinct_single:
  assumes "distinct xs" and "set xs = {x}"
  shows "xs = [x]"
proof -
  have "length xs = Suc 0" using distinct_card [OF assms(1)] assms(2) by simp
  then obtain y where "xs = [y]" by (auto simp: length_Suc_conv)
  with assms(2) show ?thesis by simp
qed

lemma add_to_group_folders:
  "map fst (add_to_group f u gs) = (if f \<in> fst ` set gs then map fst gs else map fst gs @ [f])"
  by (induction f u gs rule: add_to_group.induct) auto

lemma add_to_group_lookup:
  "map_of (add_to_group f u gs) g =
     (if g = f then Some ((case map_of gs f of None \<Rightarrow> [] | Some us \<Rightarrow> us) @ [u]) else map_of gs g)"
  by (induction f u gs rule: add_to_group.induct) auto

definition grouping :: "(nat \<Rightarrow> string) \<Rightarrow> nat list \<Rightarrow> (string \<times> nat list) list \<Rightarrow> bool" where
  "grouping folder uids gs \<longleftrightarrow>
     distinct (map fst gs)
     \<and> (\<forall>f. map_of gs f = (let us = filter (\<lambda>u. folder u = f) uids
                            in if f = [] \<or> us = [] then None else Some us))"

lemma grouping_step:
  assumes "grouping folder us gs"
  shows "grouping folder (us @ [u]) (if folder u = [] then gs else add_to_group (folder u) u gs)"
proof (cases "folder u = []")
  case True
  with assms show ?thesis by (auto simp: grouping_def Let_def)
next
  case False
  with assms show ?thesis
    by (auto simp: grouping_def Let_def add_to_group_folders add_to_group_lookup)
qed

lemma grouping_fold:
  "grouping folder us gs \<Longrightarrow>
     grouping folder (us @ vs)
       (fold (\<lambda>u gs. if folder u = [] then gs else add_to_group (folder u) u gs) vs gs)"
proof (induction vs arbitrary: us gs)
  case (Cons v vs)
  from Cons.IH [OF grouping_step [OF Cons.prems, of v]] show ?case by simp
qed simp

lemma groupUids_grouping: "grouping (folderForUID env s) uids (groupUidsByFolder env s uids)"
proof -
  have "grouping (folderForUID env s) [] []" by (simp add: grouping_def)
  from grouping_fold [OF this, of uids] show ?thesis by (simp add: groupUidsByFolder_def)
qed

lemma grouping_mem:
  assumes "grouping folder uids gs"
  shows "(f, us) \<in> set gs \<longleftrightarrow> f \<noteq> [] \<and> us = filter (\<lambda>u. folder u = f) uids \<and> us \<noteq> []"
proof -
  have "(f, us) \<in> set gs \<longleftrightarrow> map_of gs f = Some us"
    using assms map_of_eq_Some_iff [of gs f us] by (auto simp: grouping_def)
  then show ?thesis using assms by (auto simp: grouping_def Let_def)
qed

section \<open>The folder of an unread message\<close>

lemma map_of_rev_unique:
  assumes "\<And>p q. p \<in> set xs \<Longrightarrow> q \<in> set xs \<Longrightarrow> fst p = fst q \<Longrightarrow> snd p = snd q"
    and "(k, v) \<in> set xs"
  shows "map_of (rev xs) k = Some v"
proof -
  obtain w where w: "map_of (rev xs) k = Some w"
    using assms(2) by (metis list.set_map map_of_eq_None_iff not_Some_eq set_rev fst_conv image_eqI)
  then have "(k, w) \<in> set xs" by (auto dest: map_of_SomeD)
  with assms w show ?thesis by fastforce
qed

text \<open>No two listed messages of different folders share a uid.\<close>

definition uids_unambiguous :: "message_summary list \<Rightarrow> bool" where
  "uids_unambiguous ms \<longleftrightarrow>
     (\<forall>m \<in> set ms. \<forall>m' \<in> set ms. ms_uid m = ms_uid m' \<longrightarrow> ms_folder m = ms_folder m')"

lemma folderForUID_unread:
  assumes "uids_unambiguous (env_messages env)" and "m \<in> set (env_messages env)"
    and "ms_uid m \<noteq> 0" and "truthy_opt (ms_folder m)" and "isUnreadView s"
  shows "folderForUID env s (ms_uid m) = opt_string (ms_folder m)"
proof -
  let ?xs = "map (\<lambda>m. (ms_uid m, opt_string (ms_folder m)))
       (filter (\<lambda>m. ms_uid m \<noteq> 0 \<and> truthy_opt (ms_folder m)) (env_messages env))"
  have mem: "(ms_uid m, opt_string (ms_folder m)) \<in> set ?xs" using assms(2-4) by auto
  have uni: "snd p = snd q" if "p \<in> set ?xs" "q \<in> set ?xs" "fst p = fst q" for p q
    using that assms(1) by (fastforce simp: uids_unambiguous_def)
  have "folderByUID env (ms_uid m) = Some (opt_string (ms_folder m))"
    unfolding folderByUID_def by (rule map_of_rev_unique [OF uni mem])
  with assms(4,5) show ?thesis by (simp add: folderForUID_def truthy_opt_def)
qed

section \<open>The next message\<close>

lemma find_keep: "find keep xs = Some x \<Longrightarrow> x \<in> set xs \<and> keep x"
  by (auto simp: find_Some_iff)

lemma or_opt_cases: "or_opt x y = Some z \<Longrightarrow> x = Some z \<or> y = Some z"
  by (auto simp: or_opt_def split: option.splits)

lemma or_opt_None [simp]: "or_opt x y = None \<longleftrightarrow> x = None \<and> y = None"
  by (auto simp: or_opt_def split: option.splits)

lemma next_prev_mem:
  "next_kept keep i xs = Some x \<Longrightarrow> x \<in> set xs \<and> keep x"
  "prev_kept keep i xs = Some x \<Longrightarrow> x \<in> set xs \<and> keep x"
  by (auto simp: next_kept_def prev_kept_def dest!: find_keep dest: in_set_dropD in_set_takeD)

lemma reselect_flat_mem:
  "reselect_flat ms sel removed = Some m \<Longrightarrow> m \<in> set ms \<and> ms_uid m \<notin> set removed"
  by (auto simp: reselect_flat_def Let_def split: option.splits
      dest!: or_opt_cases find_keep next_prev_mem)

lemma reselect_flat_None:
  "reselect_flat ms sel removed = None \<Longrightarrow> m \<in> set ms \<Longrightarrow> ms_uid m \<in> set removed"
  by (auto simp: reselect_flat_def Let_def find_None_iff split: option.splits)

lemma reselect_unread_mem:
  "reselect_unread ms sel removed = Some m \<Longrightarrow> m \<in> set ms \<and> ms_uid m \<notin> set removed"
  by (auto simp: reselect_unread_def Let_def split: option.splits
      dest!: or_opt_cases find_keep next_prev_mem)

lemma reselect_unread_None:
  "reselect_unread ms sel removed = None \<Longrightarrow> m \<in> set ms \<Longrightarrow> ms_uid m \<in> set removed"
  by (auto simp: reselect_unread_def Let_def find_None_iff)

lemma fold_pick: "fold (\<lambda>b a. if P a b then a else b) xs x \<in> insert x (set xs)"
proof (induction xs arbitrary: x)
  case (Cons a xs)
  show ?case using Cons.IH [of "if P x a then x else a"] by (auto split: if_splits)
qed simp

lemma newest_mem: "newest dv ms = Some m \<Longrightarrow> m \<in> set ms"
  using fold_pick [of "date_ge dv" ms "hd ms"]
  by (auto simp: newest_def split: list.splits)

lemma newest_None: "newest dv ms = None \<longleftrightarrow> ms = []"
  by (simp add: newest_def split: list.split)

section \<open>Properties\<close>


text \<open>In the list of unread messages of all folders, an operation on a message goes to the folder
  of that message, provided no two listed messages of different folders have the same uid.\<close>

theorem unread_operation_hits_own_folder:
  assumes "isUnreadView s" and "uids_unambiguous (env_messages env)"
    and "m \<in> set (env_messages env)" and "ms_uid m \<noteq> 0" and "truthy_opt (ms_folder m)"
  shows "delete_requests env s [ms_uid m]
    = [deleteMessages (opt_string (ms_folder m)) [ms_uid m] False (env_accountId env)]"
proof -
  have "folderForUID env s (ms_uid m) = opt_string (ms_folder m)"
    using assms by (intro folderForUID_unread)
  moreover have "opt_string (ms_folder m) \<noteq> []" using assms(5) by (simp add: truthy_opt_def)
  ultimately show ?thesis by (simp add: delete_requests_def groupUidsByFolder_def)
qed

definition unread_env :: "message_summary list \<Rightarrow> list_env" where
  "unread_env ms =
     \<lparr>env_accountId = Some ''acc1'',
      env_data = Some \<lparr>ml_folder = [], ml_mode = None, ml_total = length ms, ml_page = 1, ml_limit = 50,
        ml_totalPages = 1, ml_messages = ms, ml_threads = None\<rparr>,
      env_isLoading = False, env_isFetching = False, env_folders = []\<rparr>"

lemma unread_env_simps [simp]:
  "env_messages (unread_env ms) = ms" "env_accountId (unread_env ms) = Some ''acc1''"
  by (simp_all add: unread_env_def env_messages_def)

theorem unread_operation_hits_own_folder_witness:
  "delete_requests (unread_env [example_summary]) (setUnreadView True (init_mail empty_browser)) [5]
     = [deleteMessages ''INBOX'' [5] False (Some ''acc1'')]"
proof -
  have "delete_requests (unread_env [example_summary]) (setUnreadView True (init_mail empty_browser))
      [ms_uid example_summary]
    = [deleteMessages (opt_string (ms_folder example_summary)) [ms_uid example_summary] False
        (env_accountId (unread_env [example_summary]))]"
    by (rule unread_operation_hits_own_folder)
      (simp_all add: isUnreadView_def setUnreadView_def uids_unambiguous_def example_summary_def
        truthy_opt_def)
  then show ?thesis by (simp add: example_summary_def)
qed

text \<open>The proviso is needed, and nothing ensures it, since uids are only unique in a folder: when
  the unread list shows two messages with the same uid from two folders, deleting the first one
  deletes the other.\<close>

theorem unread_uid_collision_deletes_other_message:
  assumes "isUnreadView s" and "env_messages env = [m, m']" and "ms_uid m' = ms_uid m"
    and "ms_uid m \<noteq> 0" and "truthy_opt (ms_folder m')"
  shows "delete_requests env s [ms_uid m]
    = [deleteMessages (opt_string (ms_folder m')) [ms_uid m'] False (env_accountId env)]"
proof -
  have "folderByUID env (ms_uid m) = Some (opt_string (ms_folder m'))"
    using assms by (simp add: folderByUID_def)
  then have "folderForUID env s (ms_uid m) = opt_string (ms_folder m')"
    using assms by (simp add: folderForUID_def truthy_opt_def)
  then show ?thesis
    using assms by (simp add: delete_requests_def groupUidsByFolder_def truthy_opt_def)
qed

theorem unread_uid_collision_deletes_other_message_witness:
  "delete_requests (unread_env [example_summary, example_summary\<lparr>ms_folder := Some ''Archive''\<rparr>])
     (setUnreadView True (init_mail empty_browser)) [5]
     = [deleteMessages ''Archive'' [5] False (Some ''acc1'')]"
  using unread_uid_collision_deletes_other_message
    [of "setUnreadView True (init_mail empty_browser)"
      "unread_env [example_summary, example_summary\<lparr>ms_folder := Some ''Archive''\<rparr>]"
      example_summary "example_summary\<lparr>ms_folder := Some ''Archive''\<rparr>"]
  by (simp add: isUnreadView_def setUnreadView_def example_summary_def truthy_opt_def)



text \<open>In the thread list this fails: when all messages of the open thread are deleted together
  with the newest message of the next one, that deleted message is opened.\<close>

theorem thread_reselect_opens_deleted_message:
  assumes "ts = [t1, t2]" and "th_messages t1 = [a]" and "th_messages t2 = [b, c]"
    and "ms_uid b \<notin> {ms_uid a, ms_uid c}"
    and "dv (ms_date b) = Some x" and "dv (ms_date c) = Some y" and "x < y"
  shows "reselect_thread dv ts (ms_uid a) [ms_uid a, ms_uid c] = Some c"
  using assms
  by (simp add: reselect_thread_def index_where_def next_kept_def or_opt_def newest_def
      date_ge_def Let_def)

definition example_thread :: "message_summary list \<Rightarrow> thread_summary" where
  "example_thread ms =
     \<lparr>th_threadId = ''t'', th_subject = ''Lunch'', th_date = [], th_senders = [],
      th_messageCount = length ms, th_unreadCount = 0, th_starred = False, th_hasAttachment = False,
      th_messages = ms\<rparr>"

theorem thread_reselect_opens_deleted_message_witness:
  "reselect_thread (\<lambda>d. if d = ''new'' then Some 1 else Some 0)
     [example_thread [example_summary],
      example_thread [example_summary\<lparr>ms_uid := 6\<rparr>, example_summary\<lparr>ms_uid := 7, ms_date := ''new''\<rparr>]]
     5 [5, 7] = Some (example_summary\<lparr>ms_uid := 7, ms_date := ''new''\<rparr>)"
  using thread_reselect_opens_deleted_message
    [of _ "example_thread [example_summary]"
      "example_thread [example_summary\<lparr>ms_uid := 6\<rparr>, example_summary\<lparr>ms_uid := 7, ms_date := ''new''\<rparr>]"
      example_summary "example_summary\<lparr>ms_uid := 6\<rparr>" "example_summary\<lparr>ms_uid := 7, ms_date := ''new''\<rparr>"
      "\<lambda>d. if d = ''new'' then Some 1 else Some 0" 0 1]
  by (simp add: example_thread_def example_summary_def)

text \<open>A selection of many messages outlives the folder it was made in: after the user changes to
  another folder, deleting the selection deletes the messages of the new folder that happen to
  have the same uids.\<close>

theorem stale_selection_deletes_in_new_folder:
  assumes "uids \<noteq> []" and "folder \<noteq> []"
  shows "delete_requests env (setCurrentFolder folder s) uids
    = [deleteMessages folder uids False (env_accountId env)]"
proof -
  have f: "folderForUID env (setCurrentFolder folder s) = (\<lambda>_. folder)"
    by (rule ext) (simp add: folderForUID_def isUnreadView_def setCurrentFolder_def)
  have gr: "grouping (\<lambda>_. folder) uids (groupUidsByFolder env (setCurrentFolder folder s) uids)"
    using groupUids_grouping [of env "setCurrentFolder folder s" uids] by (simp add: f)
  let ?gs = "groupUidsByFolder env (setCurrentFolder folder s) uids"
  have mem: "p \<in> set ?gs \<longleftrightarrow> p = (folder, uids)" for p
    using grouping_mem [OF gr, of "fst p" "snd p"] assms
    by (cases p; cases "fst p = folder") auto
  have "distinct ?gs" using gr by (simp add: grouping_def distinct_map)
  then have "?gs = [(folder, uids)]"
    using mem by (intro distinct_single) auto
  then show ?thesis by (simp add: delete_requests_def)
qed

theorem stale_selection_deletes_in_new_folder_witness:
  "delete_requests (unread_env []) (setCurrentFolder ''Archive'' (init_mail empty_browser))
     (selectedUIDs (toggleSelect 5 init_ml))
   = [deleteMessages ''Archive'' [5] False (Some ''acc1'')]"
  using stale_selection_deletes_in_new_folder
    [of "[5]" "''Archive''" "unread_env []" "init_mail empty_browser"]
  by (simp add: toggleSelect_def toggle_uid_def init_ml_def)

text \<open>While the local filter hides messages, selecting a range from a row to itself selects the
  message at that position of the unfiltered list instead of the message on the row.\<close>

theorem filtered_range_selects_hidden_message:
  assumes "now e - pointerDownTime ml < 500" and "swiped (rowSwipe ml) = None" and "\<not> multiRef ml"
    and "shiftKey e" and "\<not> ctrlKey e" and "\<not> metaKey e"
    and "lastClickedIndex ml = -1" and "selectedUIDs ml = []"
    and "i < length (env_messages env)" and "m = displayMessages env s ! i"
  shows "selectedUIDs (fst (handleRowClick env m (int i) e (ml, s))) = [ms_uid (env_messages env ! i)]"
  using assms
  by (simp add: handleRowClick_def add_range_def nth_opt_def js_add_def js_set_def Let_def)

theorem filtered_range_selects_hidden_message_witness:
  "selectedUIDs (fst (handleRowClick
       (unread_env [example_summary\<lparr>ms_uid := 4, ms_subject := ''Invoice''\<rparr>, example_summary])
       example_summary 0 \<lparr>now = 100, ctrlKey = False, metaKey = False, shiftKey = True\<rparr>
       (init_ml, setSearchInput ''lunch'' (init_mail empty_browser)))) = [4]"
proof -
  let ?env = "unread_env [example_summary\<lparr>ms_uid := 4, ms_subject := ''Invoice''\<rparr>, example_summary]"
  let ?s = "setSearchInput ''lunch'' (init_mail empty_browser)"
  have "tokenizeLocalQuery ''lunch'' = [\<lparr>top = [], tval = ''lunch''\<rparr>]" "trim ''lunch'' = ''lunch''"
    "contains (to_lower ''Lunch'') (to_lower ''lunch'')"
    "\<not> contains (to_lower ''Invoice'') (to_lower ''lunch'')"
    "\<not> contains (to_lower ''at noon?'') (to_lower ''lunch'')" by code_simp+
  then have d: "displayMessages ?env ?s = [example_summary]"
    by (simp add: displayMessages_def applyLocalPreview_def isFreshForInput_def isUnreadView_def
        inputTrim_def setSearchInput_def init_mail_def matches_eq in_preview_def example_summary_def)
  show ?thesis
    using filtered_range_selects_hidden_message
      [of "\<lparr>now = 100, ctrlKey = False, metaKey = False, shiftKey = True\<rparr>" init_ml 0 ?env
        example_summary ?s]
    by (simp add: d init_ml_def init_swipe_def)
qed

end
