(* ===== verification/JsRegex.thy ===== *)
theory JsRegex
  imports Prelude
begin

text \<open>
  Regular expressions of the language, with the backtracking search of its specification: the
  matcher takes a continuation and tries the alternatives in order, so the match it finds and
  the text of its groups are those of \<open>exec\<close>.  A repetition never takes an empty turn.  The
  flag \<open>i\<close> is part of the character classes (\<open>lit\<close>, \<open>cls_i\<close>).
\<close>

section \<open>Expressions\<close>

datatype rx =
    Eps
  | Ch "char \<Rightarrow> bool"
  | Cat rx rx
  | Alt rx rx
  | Star rx
  | Lazy rx
  | Grp nat rx
  | Ahead rx
  | NotAhead rx
  | Bol bool
  | Eol

text \<open>A position: the character before it, the text from it on, and the groups.\<close>

type_synonym rx_pos = "char option \<times> string \<times> (nat \<Rightarrow> string option)"

definition rest_of :: "rx_pos \<Rightarrow> string" where
  "rest_of p = fst (snd p)"

definition groups_of :: "rx_pos \<Rightarrow> nat \<Rightarrow> string option" where
  "groups_of p = snd (snd p)"

definition set_group :: "nat \<Rightarrow> string \<Rightarrow> rx_pos \<Rightarrow> rx_pos" where
  "set_group i s p = (fst p, rest_of p, (groups_of p)(i \<mapsto> s))"

type_synonym 'a rx_cont = "rx_pos \<Rightarrow> 'a option"

definition or_try :: "'a option \<Rightarrow> 'a option \<Rightarrow> 'a option" where
  "or_try x y = (case x of None \<Rightarrow> y | Some _ \<Rightarrow> x)"

text \<open>The first argument bounds the number of turns; every turn consumes text, so the length of the
  text is enough.\<close>

primrec iter_greedy :: "nat \<Rightarrow> ('a rx_cont \<Rightarrow> 'a rx_cont) \<Rightarrow> 'a rx_cont \<Rightarrow> 'a rx_cont" where
  "iter_greedy 0 m k p = k p"
| "iter_greedy (Suc n) m k p =
     or_try
       (m (\<lambda>p'. if length (rest_of p') < length (rest_of p) then iter_greedy n m k p' else None) p)
       (k p)"

primrec iter_lazy :: "nat \<Rightarrow> ('a rx_cont \<Rightarrow> 'a rx_cont) \<Rightarrow> 'a rx_cont \<Rightarrow> 'a rx_cont" where
  "iter_lazy 0 m k p = k p"
| "iter_lazy (Suc n) m k p =
     or_try (k p)
       (m (\<lambda>p'. if length (rest_of p') < length (rest_of p) then iter_lazy n m k p' else None) p)"

text \<open>A look-ahead is decided on its own; it has no groups in the modelled code.\<close>

primrec rxm :: "rx \<Rightarrow> rx_pos rx_cont \<Rightarrow> rx_pos rx_cont" where
  "rxm Eps k p = k p"
| "rxm (Ch f) k p =
     (case rest_of p of [] \<Rightarrow> None | c # cs \<Rightarrow> if f c then k (Some c, cs, groups_of p) else None)"
| "rxm (Cat a b) k p = rxm a (rxm b k) p"
| "rxm (Alt a b) k p = or_try (rxm a k p) (rxm b k p)"
| "rxm (Star a) k p = iter_greedy (length (rest_of p)) (rxm a) k p"
| "rxm (Lazy a) k p = iter_lazy (length (rest_of p)) (rxm a) k p"
| "rxm (Grp i a) k p =
     rxm a (\<lambda>p'. k (set_group i (take (length (rest_of p) - length (rest_of p')) (rest_of p)) p')) p"
| "rxm (Ahead a) k p = (case rxm a Some p of None \<Rightarrow> None | Some _ \<Rightarrow> k p)"
| "rxm (NotAhead a) k p = (case rxm a Some p of None \<Rightarrow> k p | Some _ \<Rightarrow> None)"
| "rxm (Bol multi) k p =
     (if fst p = None \<or> (multi \<and> (fst p = Some nl \<or> fst p = Some cr)) then k p else None)"
| "rxm Eol k p = (if rest_of p = [] then k p else None)"

section \<open>Notations of the source\<close>

definition Opt :: "rx \<Rightarrow> rx" where "Opt a = Alt a Eps"
definition Plus :: "rx \<Rightarrow> rx" where "Plus a = Cat a (Star a)"

fun cat :: "rx list \<Rightarrow> rx" where
  "cat [] = Eps"
| "cat [a] = a"
| "cat (a # b # r) = Cat a (cat (b # r))"

definition cls :: "string \<Rightarrow> rx" where "cls s = Ch (\<lambda>c. c \<in> set s)"
definition ncls :: "string \<Rightarrow> rx" where "ncls s = Ch (\<lambda>c. c \<notin> set s)"

text \<open>A literal text, with or without regard to case.\<close>

definition lit_cs :: "string \<Rightarrow> rx" where
  "lit_cs s = cat (map (\<lambda>c. Ch (\<lambda>d. d = c)) s)"

definition lit :: "string \<Rightarrow> rx" where
  "lit s = cat (map (\<lambda>c. Ch (\<lambda>d. lower_char d = lower_char c)) s)"

definition ws :: rx where "ws = Ch is_ws"
definition non_ws :: rx where "non_ws = Ch (\<lambda>c. \<not> is_ws c)"
definition any :: rx where "any = Ch (\<lambda>_. True)"
text \<open>The word boundary \<open>\b\<close> where a word character stands before it.\<close>

definition word_end :: rx where "word_end = NotAhead (Ch is_word_char)"

definition newline :: rx where "newline = Cat (Opt (lit_cs [cr])) (lit_cs [nl])"

section \<open>Search and replacement\<close>

record rx_match =
  rm_before :: string
  rm_text :: string
  rm_groups :: "nat \<Rightarrow> string option"
  rm_after :: string

definition match_here :: "rx \<Rightarrow> char option \<Rightarrow> string \<Rightarrow> (string \<times> (nat \<Rightarrow> string option) \<times> string) option" where
  "match_here r prev s =
     (case rxm r Some (prev, s, \<lambda>_. None) of
        None \<Rightarrow> None
      | Some p \<Rightarrow> Some (take (length s - length (rest_of p)) s, groups_of p, rest_of p))"

text \<open>\<open>s.match(r)\<close> without the flag \<open>g\<close>: the first position at which the expression matches.\<close>

fun rx_search :: "rx \<Rightarrow> char option \<Rightarrow> string \<Rightarrow> rx_match option" where
  "rx_search r prev s =
     (case match_here r prev s of
        Some (t, g, rest) \<Rightarrow>
          Some \<lparr>rm_before = [], rm_text = t, rm_groups = g, rm_after = rest\<rparr>
      | None \<Rightarrow>
          (case s of
             [] \<Rightarrow> None
           | c # cs \<Rightarrow>
               map_option (\<lambda>m. m\<lparr>rm_before := c # rm_before m\<rparr>) (rx_search r (Some c) cs)))"

declare rx_search.simps [simp del]

definition rx_exec :: "rx \<Rightarrow> string \<Rightarrow> rx_match option" where
  "rx_exec r s = rx_search r None s"

definition rx_test :: "rx \<Rightarrow> string \<Rightarrow> bool" where
  "rx_test r s \<longleftrightarrow> rx_exec r s \<noteq> None"

text \<open>Group \<open>i\<close> of the first match.\<close>

definition rx_group :: "nat \<Rightarrow> rx \<Rightarrow> string \<Rightarrow> string option" where
  "rx_group i r s = (case rx_exec r s of None \<Rightarrow> None | Some m \<Rightarrow> rm_groups m i)"

text \<open>\<open>s.replace(r, f)\<close> without and with the flag \<open>g\<close>.\<close>

definition rx_replace1 :: "rx \<Rightarrow> (rx_match \<Rightarrow> string) \<Rightarrow> string \<Rightarrow> string" where
  "rx_replace1 r f s =
     (case rx_exec r s of None \<Rightarrow> s | Some m \<Rightarrow> rm_before m @ f m @ rm_after m)"

fun replace_from :: "nat \<Rightarrow> rx \<Rightarrow> (rx_match \<Rightarrow> string) \<Rightarrow> char option \<Rightarrow> string \<Rightarrow> string" where
  "replace_from 0 r f prev s = s"
| "replace_from (Suc n) r f prev s =
     (case match_here r prev s of
        Some (t, g, rest) \<Rightarrow>
          if t \<noteq> [] then
            f \<lparr>rm_before = [], rm_text = t, rm_groups = g, rm_after = rest\<rparr>
            @ replace_from n r f (Some (last t)) rest
          else
            f \<lparr>rm_before = [], rm_text = t, rm_groups = g, rm_after = rest\<rparr>
            @ (case s of [] \<Rightarrow> [] | c # cs \<Rightarrow> c # replace_from n r f (Some c) cs)
      | None \<Rightarrow> (case s of [] \<Rightarrow> [] | c # cs \<Rightarrow> c # replace_from n r f (Some c) cs))"

text \<open>Each turn consumes a character, so the length of the text plus one turn at its end is enough.\<close>

definition rx_replace :: "rx \<Rightarrow> (rx_match \<Rightarrow> string) \<Rightarrow> string \<Rightarrow> string" where
  "rx_replace r f s = replace_from (length s + 1) r f None s"

text \<open>The matches that repeated \<open>exec\<close> with the flag \<open>g\<close> finds, one after the other.\<close>

fun exec_all :: "nat \<Rightarrow> rx \<Rightarrow> char option \<Rightarrow> string \<Rightarrow> rx_match list" where
  "exec_all 0 r prev s = []"
| "exec_all (Suc n) r prev s =
     (case rx_search r prev s of
        None \<Rightarrow> []
      | Some m \<Rightarrow>
          m # (if rm_text m = [] then []
               else exec_all n r (Some (last (rm_text m))) (rm_after m)))"

definition rx_all :: "rx \<Rightarrow> string \<Rightarrow> rx_match list" where
  "rx_all r s = exec_all (length s + 1) r None s"

section \<open>Facts about the matcher\<close>

lemma pos_simps [simp]:
  "rest_of (c, s, g) = s" "groups_of (c, s, g) = g" "rest_of (set_group i t p) = rest_of p"
  "groups_of (set_group i t p) = (groups_of p)(i \<mapsto> t)" "fst (set_group i t p) = fst p"
  by (simp_all add: rest_of_def groups_of_def set_group_def)

lemma or_try_simps [simp]: "or_try None y = y" "or_try (Some x) y = Some x"
  by (simp_all add: or_try_def)

lemma or_try_Some: "or_try x y = Some z \<longleftrightarrow> x = Some z \<or> (x = None \<and> y = Some z)"
  by (cases x) auto

lemma match_here_Ch:
  "match_here (Ch f) prev [] = None"
  "match_here (Ch f) prev (c # cs) = (if f c then Some ([c], \<lambda>_. None, cs) else None)"
  by (simp_all add: match_here_def)

text \<open>Removing or replacing every character of a class is a map over the characters.\<close>

lemma replace_from_Ch:
  "length s < n \<Longrightarrow> (\<And>m m'. rm_text m = rm_text m' \<Longrightarrow> f m = f m') \<Longrightarrow>
     replace_from n (Ch g) f prev s
       = concat (map (\<lambda>c. if g c
           then f \<lparr>rm_before = [], rm_text = [c], rm_groups = \<lambda>_. None, rm_after = []\<rparr> else [c]) s)"
proof (induction n arbitrary: prev s)
  case (Suc n)
  show ?case
  proof (cases s)
    case (Cons c cs)
    have "replace_from n (Ch g) f (Some c) cs
       = concat (map (\<lambda>c. if g c
           then f \<lparr>rm_before = [], rm_text = [c], rm_groups = \<lambda>_. None, rm_after = []\<rparr> else [c]) cs)"
      using Suc.IH [OF _ Suc.prems(2)] Suc.prems(1) Cons by simp
    moreover have "f \<lparr>rm_before = [], rm_text = [c], rm_groups = \<lambda>_. None, rm_after = cs\<rparr>
        = f \<lparr>rm_before = [], rm_text = [c], rm_groups = \<lambda>_. None, rm_after = []\<rparr>"
      by (rule Suc.prems(2)) simp
    ultimately show ?thesis using Cons by (simp add: match_here_Ch)
  qed (simp add: match_here_Ch)
qed simp

lemma rx_remove_class: "rx_replace (Ch g) (\<lambda>_. []) s = filter (\<lambda>c. \<not> g c) s"
proof -
  have "concat (map (\<lambda>c. if g c then [] else [c]) s) = filter (\<lambda>c. \<not> g c) s"
    by (induction s) auto
  then show ?thesis by (simp add: rx_replace_def replace_from_Ch del: replace_from.simps)
qed

text \<open>The shortest text before a look-ahead: no earlier position satisfies it.\<close>

lemma rxm_any:
  "rxm any k p = (case rest_of p of [] \<Rightarrow> None | c # cs \<Rightarrow> k (Some c, cs, groups_of p))"
  by (simp add: any_def split: list.split)

lemma iter_lazy_any:
  assumes "iter_lazy n (rxm any) k (prev, s, g) = Some x"
  shows "\<exists>j \<le> length s. (\<exists>prev'. k (prev', drop j s, g) = Some x)
    \<and> (\<forall>i < j. \<exists>prev'. k (prev', drop i s, g) = None)"
  using assms
proof (induction n arbitrary: prev s)
  case 0
  then show ?case by (intro exI [of _ 0]) auto
next
  case (Suc n)
  show ?case
  proof (cases "k (prev, s, g)")
    case (Some y)
    with Suc.prems show ?thesis by (intro exI [of _ 0]) auto
  next
    case None
    let ?K = "\<lambda>p'. if length (rest_of p') < length s then iter_lazy n (rxm any) k p' else None"
    have "rxm any ?K (prev, s, g) = Some x"
      using Suc.prems None by (simp only: iter_lazy.simps pos_simps or_try_simps)
    moreover have "rxm any ?K (prev, s, g)
        = (case s of [] \<Rightarrow> None | c # cs \<Rightarrow> ?K (Some c, cs, g))"
      by (rule trans [OF rxm_any]) (simp only: pos_simps)
    ultimately have turn: "(case s of [] \<Rightarrow> None | c # cs \<Rightarrow> ?K (Some c, cs, g)) = Some x" by (simp only:)
    then obtain c cs where s: "s = c # cs" by (cases s) auto
    then have it: "iter_lazy n (rxm any) k (Some c, cs, g) = Some x"
      using turn by (simp only: list.case pos_simps list.size if_True less_Suc_eq simp_thms add_0_right add_Suc_right)
    from Suc.IH [OF it] obtain j where j: "j \<le> length cs"
      "\<exists>prev'. k (prev', drop j cs, g) = Some x" "\<forall>i < j. \<exists>prev'. k (prev', drop i cs, g) = None"
      by blast
    have "\<exists>prev'. k (prev', drop i s, g) = None" if "i < Suc j" for i
      using that None j(3) s by (cases i) auto
    then show ?thesis using j s by (intro exI [of _ "Suc j"]) auto
  qed
qed

end
