(* ===== verification/MailHtml.thy ===== *)
theory MailHtml
  imports Complex_Main JsRegex Api
begin

text \<open>
  The functions of \<open>frontend/src/components/mail/EmailFrame.tsx\<close> that turn a message into the
  document of its frame.  The sanitizer (DOMPurify) and the translations are the parameters
  \<open>sanitize\<close> and \<open>tr\<close>.  The fixed markup around the body and the fixed styles are not spelled
  out: a document is the policy flag, the styles of the mail and the body.
\<close>

section \<open>The policy of the frame\<close>

definition emailCspMeta :: "bool \<Rightarrow> string" where
  "emailCspMeta allowRemote =
     (let remote = (if allowRemote then '' https:'' else [])
      in ''<meta http-equiv='' @ [dquote] @ ''Content-Security-Policy'' @ [dquote] @ '' content='' @ [dquote]
         @ ''default-src '' @ [squote] @ ''none'' @ [squote] @ ''; img-src '' @ [squote] @ ''self'' @ [squote]
         @ '' data: blob:'' @ remote @ ''; media-src '' @ [squote] @ ''self'' @ [squote] @ '' data: blob:''
         @ remote @ ''; style-src '' @ [squote] @ ''unsafe-inline'' @ [squote] @ ''; font-src data:; connect-src ''
         @ [squote] @ ''none'' @ [squote] @ ''; frame-src '' @ [squote] @ ''none'' @ [squote] @ ''; form-action ''
         @ [squote] @ ''none'' @ [squote] @ ''; base-uri '' @ [squote] @ ''none'' @ [squote] @ [dquote] @ ''>'')"

definition quote_class :: rx where "quote_class = cls [dquote, squote]"

fun rx_alts :: "string list \<Rightarrow> rx" where
  "rx_alts [] = NotAhead Eps"
| "rx_alts [s] = lit s"
| "rx_alts (s # s' # ss) = Alt (lit s) (rx_alts (s' # ss))"

definition http_s :: rx where
  "http_s = cat [lit ''http'', Opt (lit ''s''), lit '':'']"

definition remote_tag :: rx where
  "remote_tag = cat
     [lit_cs ''<'',
      rx_alts [''img'', ''image'', ''video'', ''audio'', ''source'', ''input'', ''table'', ''thead'', ''tbody'',
        ''tfoot'', ''tr'', ''td'', ''th'', ''body'', ''svg''],
      word_end, Star (ncls [CHR ''>'']),
      rx_alts [''src'', ''srcset'', ''poster'', ''background'', ''href'', ''xlink:href''],
      Star ws, lit_cs ''='', Star ws, Opt quote_class, Star ws, http_s]"

definition remote_style :: rx where
  "remote_style = cat
     [lit ''style'', Star ws, lit_cs ''='', Star ws, quote_class, Star (ncls [dquote, squote]), lit ''url('',
      Star ws, Opt quote_class, Star ws, http_s]"

definition hasRemoteResources :: "string \<Rightarrow> bool" where
  "hasRemoteResources html \<longleftrightarrow> rx_test remote_tag html \<or> rx_test remote_style html"

section \<open>The size of the frame\<close>

definition WIDTH_EPS :: int where "WIDTH_EPS = 40"
definition WIDTH_MAX_FRAMES :: nat where "WIDTH_MAX_FRAMES = 8"
definition WIDTH_MIN_SCALE :: rat where "WIDTH_MIN_SCALE = 45 / 100"

text \<open>Widths are whole pixels; the quotient is exact where the program rounds it to a double.\<close>

definition computeFitScale :: "int \<Rightarrow> int \<Rightarrow> rat" where
  "computeFitScale paneW intrinsicW =
     (if paneW \<le> 0 \<or> intrinsicW \<le> 0 then 1
      else min 1 (max (of_int paneW / of_int intrinsicW) WIDTH_MIN_SCALE))"

text \<open>\<open>measureStable\<close>: \<open>f i\<close> is the size at the i-th frame.  The first argument of the loop is the number
  of frames that are left.\<close>

primrec measure_loop :: "nat \<Rightarrow> (nat \<Rightarrow> int \<times> int) \<Rightarrow> nat \<Rightarrow> int \<times> int \<Rightarrow> nat \<Rightarrow> int \<times> int" where
  "measure_loop 0 f i best same = best"
| "measure_loop (Suc n) f i best same =
     (if f i = best then
        (if same + 1 \<ge> 2 then best else measure_loop n f (i + 1) best (same + 1))
      else measure_loop n f (i + 1) (f i) 0)"

definition measureStable :: "(nat \<Rightarrow> int \<times> int) \<Rightarrow> int \<times> int" where
  "measureStable f = measure_loop WIDTH_MAX_FRAMES f 1 (f 0) 0"

text \<open>\<open>measureDoc\<close> past its guards: the width at full pane width decides between one pass and two; the
  result is the intrinsic width and the content height.\<close>

definition measureDoc :: "int \<Rightarrow> int \<Rightarrow> int \<Rightarrow> (nat \<Rightarrow> int \<times> int) \<Rightarrow> int \<times> int" where
  "measureDoc pw baseW rootH f =
     (if baseW \<le> pw + WIDTH_EPS then (pw, max rootH 160)
      else (case measureStable f of (w, h) \<Rightarrow> (w, max h 160)))"

definition isWideEmail :: "int \<Rightarrow> int \<Rightarrow> bool" where
  "isWideEmail paneW intrinsicW \<longleftrightarrow> intrinsicW > 0 \<and> paneW > 0 \<and> intrinsicW > paneW + WIDTH_EPS"

definition fitScale :: "int \<Rightarrow> int \<Rightarrow> rat" where
  "fitScale paneW intrinsicW =
     (if isWideEmail paneW intrinsicW then computeFitScale paneW intrinsicW else 1)"

definition frameH :: "int \<Rightarrow> int" where "frameH contentH = max contentH 320"

definition wrapper_height :: "int \<Rightarrow> int \<Rightarrow> int \<Rightarrow> int" where
  "wrapper_height paneW intrinsicW contentH =
     \<lceil>of_int (frameH contentH) * fitScale paneW intrinsicW\<rceil>"

section \<open>Styles\<close>

definition style_open :: rx where
  "style_open = cat [lit ''<style'', word_end, Star (ncls [CHR ''>'']), lit_cs ''>'']"

definition style_block :: rx where
  "style_block = cat [style_open, Lazy any, lit ''</style>'']"

definition remove_rx :: "rx \<Rightarrow> string \<Rightarrow> string" where
  "remove_rx r s = rx_replace r (\<lambda>_. []) s"

definition style_text :: "string \<Rightarrow> string" where
  "style_text m =
     (let a = rx_replace1 (Cat (Bol False) style_open) (\<lambda>_. []) m;
          b = rx_replace1 (cat [lit ''</style>'', Star ws, Eol]) (\<lambda>_. []) a;
          c = remove_rx (cat [lit ''@import'', Star (ncls [CHR '';'', CHR ''}'']), Opt (lit_cs '';'')]) b;
          d = rx_replace
                (cat [lit ''url('', Star ws, Opt quote_class, http_s, Star (ncls [CHR '')'', squote, dquote]),
                      Opt quote_class, Star ws, lit_cs '')'']) (\<lambda>_. ''none'') c;
          e = rx_replace (cat [lit ''expression'', Star ws, lit_cs ''('']) (\<lambda>_. ''expr('') d
      in e)"

definition style_inner :: "string \<Rightarrow> string" where
  "style_inner m = take 60000 (style_text m)"

definition style_pass :: "string \<Rightarrow> string list \<times> string" where
  "style_pass rest =
     (filter (\<lambda>b. trim b \<noteq> []) (map (\<lambda>m. style_inner (rm_text m)) (rx_all style_block rest)),
      remove_rx style_block rest)"

text \<open>The loops of the source run until nothing changes; a turn that changes the text shortens it.\<close>

primrec style_loop :: "nat \<Rightarrow> string list \<Rightarrow> string \<Rightarrow> string list \<times> string" where
  "style_loop 0 blocks rest = (blocks, rest)"
| "style_loop (Suc n) blocks rest =
     (case style_pass rest of
        (bs, rest') \<Rightarrow> if rest' = rest then (blocks @ bs, rest') else style_loop n (blocks @ bs) rest')"

primrec remove_until_stable :: "nat \<Rightarrow> rx \<Rightarrow> string \<Rightarrow> string" where
  "remove_until_stable 0 r s = s"
| "remove_until_stable (Suc n) r s =
     (let t = remove_rx r s in if t = s then t else remove_until_stable n r t)"

definition guard_css :: "string \<Rightarrow> string" where
  "guard_css css =
     (let a = remove_until_stable (length css + 1) (lit ''</style'') css;
          b = remove_until_stable (length a + 1) (lit ''<style'') a
      in take 60000 b)"

definition extractMailStyles :: "string \<Rightarrow> string \<times> string" where
  "extractMailStyles html =
     (case style_loop (length html + 1) [] html of
        (blocks, rest) \<Rightarrow> (guard_css (join [nl] blocks), rest))"

section \<open>Links\<close>

definition attr_value :: rx where
  "attr_value = Alt (cat [lit_cs [dquote], Star (ncls [dquote]), lit_cs [dquote]])
     (Alt (cat [lit_cs [squote], Star (ncls [squote]), lit_cs [squote]])
        (Plus (Ch (\<lambda>c. \<not> is_ws c \<and> c \<noteq> dquote \<and> c \<noteq> squote \<and> c \<noteq> CHR ''>''))))"

definition strip_attr :: "string \<Rightarrow> string \<Rightarrow> string" where
  "strip_attr name attrs = remove_rx (cat [Plus ws, lit (name @ ''=''), attr_value]) attrs"

text \<open>The back reference \<open>\1\<close> stands for the same quote; the text between has neither quote.\<close>

definition quoted_ref :: "rx \<Rightarrow> rx" where
  "quoted_ref r = Alt (cat [lit_cs [dquote], Grp 2 r, lit_cs [dquote]])
     (cat [lit_cs [squote], Grp 2 r, lit_cs [squote]])"

definition href_of :: "string \<Rightarrow> string option" where
  "href_of attrs =
     (case rx_group 2 (cat [ws, lit ''href='', quoted_ref (Star (ncls [dquote, squote]))]) attrs of
        Some h \<Rightarrow> Some h
      | None \<Rightarrow>
          rx_group 1 (cat [ws, lit ''href='',
            Grp 1 (Plus (Ch (\<lambda>c. \<not> is_ws c \<and> c \<noteq> dquote \<and> c \<noteq> squote \<and> c \<noteq> CHR ''>'')))]) attrs)"

definition app_scheme :: rx where
  "app_scheme = Cat (Bol False) (rx_alts [''mailto:'', ''tel:'', ''sms:'', ''callto:'', ''xmpp:''])"

definition target_blank :: string where
  "target_blank =
     '' target='' @ [dquote] @ ''_blank'' @ [dquote] @ '' rel='' @ [dquote] @ ''noopener noreferrer'' @ [dquote]"

definition new_tab_link :: "rx_match \<Rightarrow> string" where
  "new_tab_link m =
     (let attrs = opt_string (rm_groups m 1)
      in case href_of attrs of
           None \<Rightarrow> rm_text m
         | Some href \<Rightarrow>
             if rx_test app_scheme href then
               (if rx_test (Cat ws (lit ''target='')) attrs
                then ''<a'' @ strip_attr ''target'' attrs @ ''>'' else rm_text m)
             else ''<a'' @ strip_attr ''rel'' (strip_attr ''target'' attrs) @ target_blank @ ''>'')"

definition forceNewTabLinks :: "string \<Rightarrow> string" where
  "forceNewTabLinks html =
     rx_replace (cat [lit ''<a'', word_end, Grp 1 (Star (ncls [CHR ''>''])), lit_cs ''>'']) new_tab_link html"

section \<open>The document\<close>

text \<open>A bare fragment, or the page with its policy: \<open>Page allowRemote css body\<close> for HTML and
  \<open>TextPage allowRemote body\<close> for text.\<close>

datatype frame_doc = Fragment string | Page bool string string | TextPage bool string

definition escape_html :: "string \<Rightarrow> string" where
  "escape_html s =
     replace_char CHR ''>'' ''&gt;'' (replace_char CHR ''<'' ''&lt;'' (replace_char CHR ''&'' ''&amp;'' s))"

definition looks_like_html :: rx where
  "looks_like_html = cat
     [lit_cs ''<'', Star ws,
      Alt (rx_alts [''html'', ''body'', ''div'', ''p'', ''img'', ''a''])
        (Alt (Cat (lit ''h'') (Ch (in_range 49 54))) (rx_alts [''ul'', ''ol'', ''table'', ''br''])),
      Star (ncls [CHR ''>'']), lit_cs ''>'']"

definition template_img :: rx where
  "template_img = cat [lit ''<img'', Star (ncls [CHR ''>'']), lit ''Template_Bilingual'',
     Star (ncls [CHR ''>'']), lit_cs ''>'']"

definition pixel_img :: rx where
  "pixel_img = cat
     [lit ''<img'', Star (ncls [CHR ''>'']), lit ''width='', Opt quote_class, lit_cs ''1'', Opt quote_class,
      Star (ncls [CHR ''>'']), lit ''height='', Opt quote_class, lit_cs ''1'', Opt quote_class,
      Star (ncls [CHR ''>'']), lit_cs ''>'']"

definition link_style :: string where
  "link_style = ''color:#2563eb;text-decoration:underline;word-break:break-all;''"

definition quoted :: "string \<Rightarrow> string" where "quoted s = [dquote] @ s @ [dquote]"

definition link_to :: "string \<Rightarrow> string" where
  "link_to safeUrl =
     ''<a href='' @ quoted safeUrl @ '' target='' @ quoted ''_blank'' @ '' rel='' @ quoted ''noopener noreferrer''
     @ '' style='' @ quoted link_style @ ''>'' @ safeUrl @ ''</a>''"

definition soft_break :: rx where "soft_break = cat [lit_cs ''-'', Opt (lit_cs [cr]), lit_cs [nl]]"

definition scheme :: rx where "scheme = cat [lit ''http'', Opt (lit ''s''), lit ''://'']"

definition safe_url :: "string \<Rightarrow> string" where "safe_url u = replace_char dquote ''&quot;'' u"

definition bracket_link :: "rx_match \<Rightarrow> string" where
  "bracket_link m =
     (let cleanUrl = trim (remove_rx ws (remove_rx soft_break (opt_string (rm_groups m 1))))
      in if rx_test (Cat (Bol False) scheme) cleanUrl then ''['' @ link_to (safe_url cleanUrl) @ '']''
         else rm_text m)"

definition bracket_url :: rx where
  "bracket_url = cat [lit_cs ''['', Grp 1 (Cat scheme (Lazy any)), lit_cs '']'']"

text \<open>\<open>all\<close> is the text before this replacement, which the callback of the source searches.\<close>

definition bare_link :: "string \<Rightarrow> rx_match \<Rightarrow> string" where
  "bare_link all m =
     (let cleanUrl = trim (remove_rx soft_break (rm_text m))
      in if length cleanUrl < 10 then rm_text m
         else if contains all (''href='' @ quoted (safe_url cleanUrl)) then rm_text m
         else link_to (safe_url cleanUrl))"

definition bare_url :: rx where
  "bare_url = Cat scheme
     (Plus (Ch (\<lambda>c. \<not> is_ws c \<and> c \<notin> {CHR ''<'', CHR '']'', CHR '')'', dquote, squote})))"

definition linkify :: "string \<Rightarrow> string" where
  "linkify txt =
     (let a = rx_replace bracket_url bracket_link (escape_html txt)
      in replace_char nl ''<br/>'' (rx_replace bare_url (bare_link a) a))"

text \<open>The document of a decrypted text, with the flag that remote images were found (\<open>None\<close>: unchanged).\<close>

definition decrypted_doc ::
    "(string \<Rightarrow> string) \<Rightarrow> bool \<Rightarrow> string \<Rightarrow> frame_doc \<times> bool option" where
  "decrypted_doc sanitize allowRemoteImages content =
     (if rx_test looks_like_html content then
        (let html = remove_rx pixel_img (remove_rx template_img content)
         in case extractMailStyles html of
              (css, body) \<Rightarrow>
                (Page allowRemoteImages css (forceNewTabLinks (sanitize body)),
                 Some (hasRemoteResources html)))
      else (TextPage allowRemoteImages (linkify content), None))"

section \<open>Inline images and blocked images\<close>

text \<open>\<open>new RegExp("cid:" + id, "gi")\<close> for an id of plain characters and dots; \<open>None\<close> for an id with other
  characters that mean something in an expression, which the model does not cover.\<close>

definition rx_special :: "char \<Rightarrow> bool" where
  "rx_special c \<longleftrightarrow> c \<in> set ''*+?^${}()|[]'' \<or> c = bslash"

definition id_char :: "char \<Rightarrow> rx" where
  "id_char c = (if c = CHR ''.'' then ncls [nl, cr] else Ch (\<lambda>d. lower_char d = lower_char c))"

definition cidRegex :: "string \<Rightarrow> rx option" where
  "cidRegex i = (if list_ex rx_special i then None else Some (cat (lit ''cid:'' # map id_char i)))"

definition target_id :: "attachment_info \<Rightarrow> string" where
  "target_id att = (if truthy_opt (contentId att) then opt_string (contentId att) else att_id att)"

definition inline_attachment :: "nat \<Rightarrow> string \<Rightarrow> attachment_info \<Rightarrow> string option \<Rightarrow> string option" where
  "inline_attachment uid folder att content =
     (case content of
        None \<Rightarrow> None
      | Some s \<Rightarrow>
          if target_id att = [] then Some s
          else map_option (\<lambda>r. rx_replace r (\<lambda>_. getAttachmentUrl uid (target_id att) folder None) s)
                 (cidRegex (target_id att)))"

definition inline_attachments :: "nat \<Rightarrow> string \<Rightarrow> attachment_info list \<Rightarrow> string \<Rightarrow> string option" where
  "inline_attachments uid folder atts content = fold (inline_attachment uid folder) atts (Some content)"

definition relative_img :: rx where
  "relative_img = cat
     [lit ''<img'', Star (ncls [CHR ''>'']), ws, lit ''src='', quote_class,
      NotAhead (Alt http_s (rx_alts [''data:'', ''cid:'', ''about:'', ''blob:'', ''/''])),
      Plus (ncls [dquote, squote]), quote_class, Star (ncls [CHR ''>'']), lit_cs ''>'']"

definition blocked_src :: "rx_match \<Rightarrow> string" where
  "blocked_src m =
     '' data-blocked-src='' @ quoted (safe_url (opt_string (rm_groups m 2))) @ '' src='' @ quoted []"

definition block_image :: "string \<Rightarrow> rx_match \<Rightarrow> string" where
  "block_image alt m =
     (let tag = rm_text m
      in if \<not> rx_test (cat [ws, lit ''src='', quote_class, scheme]) tag then tag
         else
           (let next = rx_replace1
                  (cat [ws, lit ''src='', quoted_ref (Cat scheme (Plus (ncls [dquote, squote])))]) blocked_src tag
            in if rx_test (Cat ws (lit ''alt='')) next then next
               else rx_replace1 (cat [Star ws, Opt (lit_cs ''/''), lit_cs ''>'', Eol])
                      (\<lambda>_. '' alt='' @ quoted alt @ ''>'') next))"

definition img_tag :: rx where
  "img_tag = cat [lit ''<img'', word_end, Star (ncls [CHR ''>'']), lit_cs ''>'']"

text \<open>The document of a message that is not decrypted.\<close>

definition plain_style :: string where
  "plain_style = ''font-family: sans-serif; white-space: pre-wrap; line-height: 1.6; color: #1e293b; padding: 16px; box-sizing: border-box; max-width: 100%; overflow-wrap: break-word; word-break: break-word;''"

definition message_doc ::
    "(string \<Rightarrow> string) \<Rightarrow> (string \<Rightarrow> string) \<Rightarrow> bool \<Rightarrow> nat \<Rightarrow> string \<Rightarrow> attachment_info list \<Rightarrow> string \<Rightarrow> string
       \<Rightarrow> (frame_doc \<times> bool option) option" where
  "message_doc sanitize tr allowRemoteImages uid folder atts htmlBody textBody =
     (if htmlBody = [] \<and> textBody \<noteq> [] then
        Some (Fragment (''<div style='' @ quoted plain_style @ ''>''
          @ replace_char nl ''<br/>'' (escape_html textBody) @ ''</div>''), None)
      else if htmlBody = [] then
        Some (Fragment (''<div style='' @ quoted ''color: #64748b; font-style: italic;'' @ ''>''
          @ tr ''emailFrame.emptyBody'' @ ''</div>''), None)
      else
        map_option (\<lambda>content.
          (let content = remove_rx relative_img content;
               hasExternal = hasRemoteResources content;
               content =
                 (if \<not> allowRemoteImages \<and> hasExternal
                  then rx_replace img_tag (block_image (tr ''emailFrame.blockedImage'')) content else content)
           in case extractMailStyles content of
                (css, rest) \<Rightarrow>
                  (Page allowRemoteImages css (forceNewTabLinks (sanitize rest)), Some hasExternal)))
          (inline_attachments uid folder atts htmlBody))"

definition processedHtml ::
    "(string \<Rightarrow> string) \<Rightarrow> (string \<Rightarrow> string) \<Rightarrow> bool \<Rightarrow> string option \<Rightarrow> nat \<Rightarrow> string \<Rightarrow> attachment_info list
       \<Rightarrow> string \<Rightarrow> string \<Rightarrow> (frame_doc \<times> bool option) option" where
  "processedHtml sanitize tr allowRemoteImages decryptedContent uid folder atts htmlBody textBody =
     (case decryptedContent of
        Some c \<Rightarrow> Some (decrypted_doc sanitize allowRemoteImages c)
      | None \<Rightarrow> message_doc sanitize tr allowRemoteImages uid folder atts htmlBody textBody)"

end
