(* ===== verification/Mime.thy ===== *)
theory Mime
  imports JsRegex Http
begin

text \<open>
  \<open>extractTextFromMime\<close> of \<open>frontend/src/api/pgp.ts\<close>: it rebuilds the text of a decrypted MIME
  message from its parts.  \<open>td\<close> is the UTF-8 decoder of the browser (\<open>TextDecoder\<close>), a
  parameter because its result may leave the range of the characters of the model; a string of
  bytes is a string of characters.  The text that replaces a \<open>cid:\<close> reference is inserted as it
  is: the dollar patterns of a replacement string are not modelled, and neither a media type nor
  base64 has them.
\<close>

section \<open>Decoding a body\<close>

definition b64_val :: "char \<Rightarrow> nat option" where
  "b64_val c =
     (if in_range 65 90 c then Some (code c - 65)
      else if in_range 97 122 c then Some (code c - 71)
      else if is_digit c then Some (code c + 4)
      else if c = CHR ''+'' then Some 62 else if c = CHR ''/'' then Some 63 else None)"

fun b64_groups :: "nat list \<Rightarrow> string" where
  "b64_groups (a # b # c # d # r) =
     char_of (a * 4 + b div 16) # char_of ((b mod 16) * 16 + c div 4) # char_of ((c mod 4) * 64 + d)
     # b64_groups r"
| "b64_groups [a, b, c] = [char_of (a * 4 + b div 16), char_of ((b mod 16) * 16 + c div 4)]"
| "b64_groups [a, b] = [char_of (a * 4 + b div 16)]"
| "b64_groups _ = []"

definition strip_padding :: "string \<Rightarrow> string" where
  "strip_padding s =
     (if length s mod 4 \<noteq> 0 then s
      else if length s \<ge> 2 \<and> drop (length s - 2) s = ''=='' then take (length s - 2) s
      else if s \<noteq> [] \<and> last s = CHR ''='' then butlast s else s)"

text \<open>\<open>atob\<close>: \<open>None\<close> is the exception for text that is not base64.\<close>

definition atob :: "string \<Rightarrow> string option" where
  "atob s =
     (let t = strip_padding (filter (\<lambda>c. code c \<notin> {9, 10, 12, 13, 32}) s)
      in if length t mod 4 = 1 then None
         else if list_ex (\<lambda>c. b64_val c = None) t then None
         else Some (b64_groups (map (\<lambda>c. the (b64_val c)) t)))"

definition remove_ws :: "string \<Rightarrow> string" where
  "remove_ws s = rx_replace ws (\<lambda>_. []) s"

definition group1 :: "rx_match \<Rightarrow> string" where
  "group1 m = opt_string (rm_groups m 1)"

definition hex_class :: rx where
  "hex_class = Ch is_hex"

definition parse_hex2 :: "string \<Rightarrow> nat" where
  "parse_hex2 h = foldl (\<lambda>n c. 16 * n + hex_val c) 0 h"

definition qp_decode :: "string \<Rightarrow> string" where
  "qp_decode body =
     rx_replace (cat [lit_cs ''='', Grp 1 (cat [hex_class, hex_class])])
       (\<lambda>m. [char_of (parse_hex2 (group1 m))])
       (rx_replace (Cat (lit_cs ''='') newline) (\<lambda>_. []) body)"

definition decodeBody :: "(string \<Rightarrow> string) \<Rightarrow> string \<Rightarrow> string option \<Rightarrow> string" where
  "decodeBody td body encoding =
     (if \<not> truthy_opt encoding then body
      else
        (let enc = trim (to_lower (opt_string encoding))
         in if enc = ''base64'' then
              (case atob (remove_ws body) of None \<Rightarrow> body | Some bytes \<Rightarrow> td bytes)
            else if enc = ''quoted-printable'' \<or> enc = ''quotedprintable'' then qp_decode body
            else body))"

section \<open>Boundaries and headers\<close>

definition quote_ends :: rx where
  "quote_ends = Alt (Cat (Bol False) (cls [dquote, squote])) (Cat (cls [dquote, squote]) Eol)"

definition angle_ends :: rx where
  "angle_ends = Alt (Cat (Bol False) (lit_cs ''<'')) (Cat (lit_cs ''>'') Eol)"

definition boundary_of :: "string \<Rightarrow> string option" where
  "boundary_of s =
     (case or_try
         (rx_group 1 (cat [lit ''boundary='', lit_cs [dquote], Grp 1 (Plus (ncls [dquote])), lit_cs [dquote]]) s)
         (rx_group 1 (cat [lit ''boundary='', Grp 1 (Plus (Ch (\<lambda>c. \<not> is_ws c \<and> c \<noteq> CHR '';'')))]) s) of
        None \<Rightarrow> None
      | Some b \<Rightarrow> Some (trim (rx_replace quote_ends (\<lambda>_. []) b)))"

definition header_value :: "string \<Rightarrow> rx \<Rightarrow> string \<Rightarrow> string option" where
  "header_value nm v block = map_option trim (rx_group 1 (cat [lit nm, Star ws, v]) block)"

definition line_rest :: rx where
  "line_rest = Plus (ncls [cr, nl])"

definition content_type_of :: "string \<Rightarrow> string" where
  "content_type_of block =
     to_lower (opt_string (header_value ''Content-Type:''
       (cat [Grp 1 (Plus (ncls [cr, nl, CHR '';''])), Opt (cat [lit_cs '';'', Star (ncls [cr, nl])])]) block))"

definition encoding_of :: "string \<Rightarrow> string option" where
  "encoding_of block = header_value ''Content-Transfer-Encoding:'' (Grp 1 line_rest) block"

definition strip_angles :: "string \<Rightarrow> string" where
  "strip_angles s = rx_replace angle_ends (\<lambda>_. []) s"

definition cid_of :: "string \<Rightarrow> string option" where
  "cid_of block =
     map_option strip_angles (header_value ''Content-ID:''
       (cat [Opt (lit_cs ''<''), Grp 1 (Plus (ncls [CHR ''>'', cr, nl])), Opt (lit_cs ''>'')]) block)"

section \<open>The parts\<close>

text \<open>\<open>text.split(sep)\<close> for a separator that is not empty.\<close>

fun split_str :: "nat \<Rightarrow> string \<Rightarrow> string \<Rightarrow> string list" where
  "split_str 0 sep s = [s]"
| "split_str (Suc n) sep s =
     (case index_of sep s of
        None \<Rightarrow> [s]
      | Some k \<Rightarrow> take k s # split_str n sep (drop (k + length sep) s))"

definition split_text :: "string \<Rightarrow> string \<Rightarrow> string list" where
  "split_text sep s = split_str (length s) sep s"

record mime_state =
  imageMap :: "(string \<times> string) list"
  htmlBody :: "string option"
  plainBody :: "string option"

fun map_set :: "'k \<Rightarrow> 'v \<Rightarrow> ('k \<times> 'v) list \<Rightarrow> ('k \<times> 'v) list" where
  "map_set k v [] = [(k, v)]"
| "map_set k v ((k', v') # r) = (if k' = k then (k, v) # r else (k', v') # map_set k v r)"

definition two_newlines :: rx where
  "two_newlines = Cat newline newline"

text \<open>The header block and the body of a part, or \<open>None\<close> where the loop continues early.\<close>

definition split_part :: "string \<Rightarrow> (string \<times> string) option" where
  "split_part rawPart =
     (let part = trim rawPart
      in if part = [] \<or> part = ''--'' \<or> starts_with part ''This is an OpenPGP'' then None
         else
           (case rx_exec two_newlines part of
              None \<Rightarrow> None
            | Some m \<Rightarrow>
                (let body = trim (rx_replace1 (Cat (Bol False) two_newlines) (\<lambda>_. [])
                              (rm_text m @ rm_after m))
                 in if body = [] then None else Some (rm_before m, body))))"

definition inner_boundary :: "string \<Rightarrow> string option" where
  "inner_boundary block =
     (if starts_with (content_type_of block) ''multipart/''
      then (case boundary_of block of Some b \<Rightarrow> if b \<noteq> [] then Some b else None | None \<Rightarrow> None)
      else None)"

definition data_url :: "string \<Rightarrow> string \<Rightarrow> string" where
  "data_url ct b64 = ''data:'' @ ct @ '';base64,'' @ b64"

text \<open>A part that is not a nested multipart.\<close>

definition leaf_part :: "(string \<Rightarrow> string) \<Rightarrow> string \<Rightarrow> string \<Rightarrow> mime_state \<Rightarrow> mime_state" where
  "leaf_part td block body st =
     (let ct = content_type_of block
      in if starts_with ct ''image/'' then
           (case cid_of block of
              Some cid \<Rightarrow>
                if cid = [] then st
                else st\<lparr>imageMap :=
                       map_set (''<'' @ cid @ ''>'') (data_url ct (remove_ws body))
                         (map_set cid (data_url ct (remove_ws body)) (imageMap st))\<rparr>
            | None \<Rightarrow> st)
         else if ct = ''text/html'' \<and> \<not> truthy_opt (htmlBody st) then
           st\<lparr>htmlBody := Some (decodeBody td body (encoding_of block))\<rparr>
         else if ct = ''text/plain'' \<and> \<not> truthy_opt (plainBody st) then
           st\<lparr>plainBody := Some (decodeBody td body (encoding_of block))\<rparr>
         else st)"

text \<open>\<open>processParts\<close> with fuel for the depth of nesting; \<open>processParts_fuel\<close> shows that the length of
  the text is enough.\<close>

primrec processParts ::
    "nat \<Rightarrow> (string \<Rightarrow> string) \<Rightarrow> string \<Rightarrow> string \<Rightarrow> mime_state \<Rightarrow> mime_state" where
  "processParts 0 td s b st = st"
| "processParts (Suc n) td s b st =
     fold (\<lambda>rawPart st.
             case split_part rawPart of
               None \<Rightarrow> st
             | Some (block, body) \<Rightarrow>
                 (case inner_boundary block of
                    Some ib \<Rightarrow> processParts n td body ib st
                  | None \<Rightarrow> leaf_part td block body st))
       (split_text (''--'' @ b) s) st"

section \<open>The fallbacks\<close>

text \<open>The end of the image data: a boundary line, or what the source writes as \<open>\Z\<close>, which is the
  letter Z in this language (with the flag \<open>i\<close>, in either case).\<close>

definition image_end :: rx where
  "image_end = Alt (Cat newline (lit ''--'')) (Alt (Cat (lit [nl]) (lit ''--'')) (lit ''Z''))"

definition imgRegex :: rx where
  "imgRegex = cat
     [lit ''Content-Type:'', Star ws,
      Grp 1 (cat [lit ''image/'', Plus (ncls [cr, nl, CHR '';''])]),
      Lazy any, lit ''Content-ID:'', Star ws, Opt (lit ''<''),
      Grp 2 (Plus (ncls [CHR ''>'', cr, nl])), Opt (lit ''>''),
      Lazy any, newline, newline, Grp 3 (Lazy any), Ahead image_end]"

definition add_image :: "rx_match \<Rightarrow> (string \<times> string) list \<Rightarrow> (string \<times> string) list" where
  "add_image m imgs =
     (let ct = to_lower (trim (opt_string (rm_groups m 1)));
          cid = strip_angles (trim (opt_string (rm_groups m 2)));
          b64 = trim (remove_ws (opt_string (rm_groups m 3)))
      in if cid \<noteq> [] \<and> b64 \<noteq> [] \<and> cid \<notin> fst ` set imgs
         then imgs @ [(cid, data_url ct b64)] else imgs)"

definition fallback_images :: "string \<Rightarrow> (string \<times> string) list \<Rightarrow> (string \<times> string) list" where
  "fallback_images mimeText imgs =
     (if imgs \<noteq> [] then imgs else fold add_image (rx_all imgRegex mimeText) imgs)"

text \<open>The references to images in the HTML.\<close>

definition inline_image :: "string \<times> string \<Rightarrow> string \<Rightarrow> string" where
  "inline_image p html =
     (let clean = strip_angles (fst p)
      in rx_replace (lit (''cid:<'' @ clean @ ''>'')) (\<lambda>_. snd p)
           (rx_replace (lit (''cid:'' @ clean)) (\<lambda>_. snd p) html))"

text \<open>\<open>tryExtract\<close>: one match of the header expression, then the loop over all of them.\<close>

definition body_after :: "string \<Rightarrow> (nat \<times> string) option" where
  "body_after s =
     (case index_of [cr, nl, cr, nl] s of
        Some k \<Rightarrow> Some (k + 4, drop (k + 4) s)
      | None \<Rightarrow>
          (case index_of [nl, nl] s of
             Some k \<Rightarrow> Some (k + 2, drop (k + 2) s)
           | None \<Rightarrow> None))"

definition until_boundary :: "string \<Rightarrow> string \<Rightarrow> string" where
  "until_boundary boundary s =
     (case index_of ([cr, nl] @ ''--'' @ boundary) s of
        Some e \<Rightarrow> take e s
      | None \<Rightarrow>
          (case index_of ([nl] @ ''--'' @ boundary) s of Some e \<Rightarrow> take e s | None \<Rightarrow> s))"

definition extract_at :: "(string \<Rightarrow> string) \<Rightarrow> string \<Rightarrow> rx_match \<Rightarrow> string option" where
  "extract_at td boundary m =
     (let s = rm_text m @ rm_after m
      in case body_after s of
           None \<Rightarrow> None
         | Some (k, r) \<Rightarrow>
             (let body = trim (until_boundary boundary r);
                  decoded = decodeBody td body (encoding_of (take k s))
              in if body = [] \<or> decoded = [] then None else Some decoded))"

definition header_regex :: "string \<Rightarrow> rx" where
  "header_regex ty = cat [lit ''Content-Type:'', Star ws, lit ty, Star (ncls [cr, nl]), newline]"

fun first_some :: "('a \<Rightarrow> 'b option) \<Rightarrow> 'a list \<Rightarrow> 'b option" where
  "first_some f [] = None"
| "first_some f (x # xs) = or_try (f x) (first_some f xs)"

definition tryExtract :: "(string \<Rightarrow> string) \<Rightarrow> string \<Rightarrow> string \<Rightarrow> string \<Rightarrow> string option" where
  "tryExtract td boundary mimeText ty =
     first_some (extract_at td boundary) (rx_all (header_regex ty) mimeText)"

section \<open>The whole function\<close>

definition is_multipart :: "string \<Rightarrow> bool" where
  "is_multipart s \<longleftrightarrow>
     rx_test (cat [lit ''Content-Type:'', Star ws, lit ''multipart/'']) s \<and> rx_test (lit ''boundary='') s"

definition extractTextFromMime :: "(string \<Rightarrow> string) \<Rightarrow> string \<Rightarrow> string option" where
  "extractTextFromMime td mimeText =
     (if \<not> is_multipart mimeText then None
      else
        (case boundary_of mimeText of
           None \<Rightarrow> None
         | Some boundary \<Rightarrow>
             if boundary = [] then None
             else
               (let st = processParts (length mimeText + 1) td mimeText boundary
                           \<lparr>imageMap = [], htmlBody = None, plainBody = None\<rparr>;
                    imgs = fallback_images mimeText (imageMap st)
                in if truthy_opt (htmlBody st) then Some (fold inline_image imgs (opt_string (htmlBody st)))
                   else if truthy_opt (plainBody st) then plainBody st
                   else or_try (tryExtract td boundary mimeText ''text/html'')
                          (tryExtract td boundary mimeText ''text/plain''))))"

end
