(* ===== verification/Pgp.thy ===== *)
theory Pgp
  imports Mime Api Machine
begin

text \<open>
  \<open>pgpService\<close> of \<open>frontend/src/api/pgp.ts\<close>.  The library OpenPGP.js is the parameter \<open>lib\<close>: each of
  its functions gives a result or the message of the error it throws.  The server is the
  parameter \<open>sv\<close>: its answer to a request may depend on all requests sent so far, this one
  included.  The state is the key pair in memory and the list of the requests that were sent.
  The console is not modelled.
\<close>

section \<open>The library and the server\<close>

text \<open>A signature of a decrypted message: the id of its key, and how the promise \<open>verified\<close> settles
  (\<open>None\<close>: it is rejected).\<close>

type_synonym signature = "string \<times> bool option"

record ('k, 'm) openpgp =
  readKey :: "string \<Rightarrow> string + 'k"
  readKeys :: "string \<Rightarrow> string + 'k list"
  readBinaryKeys :: "nat list \<Rightarrow> string + 'k list"
  readPrivateKey :: "string \<Rightarrow> string + 'k"
  readBinaryPrivateKey :: "nat list \<Rightarrow> string + 'k"
  armor :: "'k \<Rightarrow> string + string"
  userIDs :: "'k \<Rightarrow> string list"
  keyIdHex :: "'k \<Rightarrow> string"
  fingerprintHex :: "'k \<Rightarrow> string"
  toPublic :: "'k \<Rightarrow> 'k"
  isDecrypted :: "'k \<Rightarrow> bool"
  decryptKey :: "'k \<Rightarrow> string \<Rightarrow> string + 'k"
  generateKeys :: "string \<Rightarrow> string \<Rightarrow> string option \<Rightarrow> string + string \<times> string"
  encryptText :: "string \<Rightarrow> 'k list \<Rightarrow> 'k option \<Rightarrow> string + string"
  encryptBytes :: "nat list \<Rightarrow> 'k list \<Rightarrow> 'k option \<Rightarrow> string + nat list"
  readMessage :: "string \<Rightarrow> string + 'm"
  decryptMessage :: "'m \<Rightarrow> 'k \<Rightarrow> 'k list option \<Rightarrow> string + string \<times> signature list"

record pgp_server =
  sv_unit :: "call list \<Rightarrow> api_error + unit"
  sv_bulk :: "call list \<Rightarrow> api_error + nat \<times> string list"
  sv_import :: "call list \<Rightarrow> api_error + nat \<times> string list \<times> nat"
  sv_keyring :: "call list \<Rightarrow> api_error + cloud_keyring_payload option"
  sv_contacts :: "call list \<Rightarrow> api_error + pgp_contact_key list"
  sv_contact :: "call list \<Rightarrow> api_error + pgp_contact_key"

record pgp_world =
  memoryKeyPair :: "pgp_key_pair option"
  sentCalls :: "call list"

text \<open>\<open>await request(...)\<close> and a request whose answer is not awaited.\<close>

definition send :: "call \<Rightarrow> pgp_world \<Rightarrow> pgp_world" where
  "send c w = w\<lparr>sentCalls := sentCalls w @ [c]\<rparr>"

definition thrown :: "message \<Rightarrow> api_error" where
  "thrown m = \<lparr>emessage = m, estatus = None\<rparr>"

definition of_lib :: "string + 'a \<Rightarrow> api_error + 'a" where
  "of_lib r = (case r of Inl e \<Rightarrow> Inl (thrown (Raw e)) | Inr x \<Rightarrow> Inr x)"

definition bindE :: "api_error + 'a \<Rightarrow> ('a \<Rightarrow> api_error + 'b) \<Rightarrow> api_error + 'b" where
  "bindE r f = (case r of Inl e \<Rightarrow> Inl e | Inr x \<Rightarrow> f x)"

lemma bindE_simps [simp]: "bindE (Inl e) f = Inl e" "bindE (Inr x) f = f x"
  by (simp_all add: bindE_def)

lemma bindE_Inr_iff: "bindE r f = Inr y \<longleftrightarrow> (\<exists>x. r = Inr x \<and> f x = Inr y)"
  by (cases r) simp_all

lemma of_lib_simps [simp]: "of_lib (Inl e) = Inl (thrown (Raw e))" "of_lib (Inr x) = Inr x"
  by (simp_all add: of_lib_def)

lemma of_lib_Inr_iff: "of_lib r = Inr y \<longleftrightarrow> r = Inr y"
  by (cases r) simp_all

lemma send_simps [simp]:
  "memoryKeyPair (send c w) = memoryKeyPair w" "sentCalls (send c w) = sentCalls w @ [c]"
  by (simp_all add: send_def)

section \<open>Reading keys\<close>

definition upper_char :: "char \<Rightarrow> char" where
  "upper_char c = (if in_range 97 122 c then char_of (code c - 32) else c)"

text \<open>\<open>toUpperCase\<close>, applied to hexadecimal text only.\<close>

definition to_upper :: "string \<Rightarrow> string" where
  "to_upper s = map upper_char s"

definition ascii_byte :: "nat \<Rightarrow> bool" where
  "ascii_byte b \<longleftrightarrow> \<not> (b = 0 \<or> (b < 32 \<and> b \<noteq> 9 \<and> b \<noteq> 10 \<and> b \<noteq> 13))"

definition isAsciiText :: "nat list \<Rightarrow> bool" where
  "isAsciiText bytes \<longleftrightarrow> list_all ascii_byte (take 256 bytes)"

text \<open>\<open>keys.map((k) => k.armor())\<close>: the first error is thrown.\<close>

fun collectE :: "(string + 'a) list \<Rightarrow> string + 'a list" where
  "collectE [] = Inr []"
| "collectE (Inl e # r) = Inl e"
| "collectE (Inr x # r) = (case collectE r of Inl e \<Rightarrow> Inl e | Inr xs \<Rightarrow> Inr (x # xs))"

definition fileToPublicKeyArmor ::
    "('k, 'm) openpgp \<Rightarrow> (nat list \<Rightarrow> string) \<Rightarrow> nat list \<Rightarrow> api_error + string" where
  "fileToPublicKeyArmor lib td bytes =
     (if isAsciiText bytes then Inr (td bytes)
      else bindE (of_lib (readBinaryKeys lib bytes)) (\<lambda>keys.
        if keys = [] then Inl (thrown (Raw ''binary key file contains no PGP keys''))
        else bindE (of_lib (collectE (map (armor lib) keys))) (\<lambda>as. Inr (join [nl] as))))"

definition fileToPrivateKeyArmor ::
    "('k, 'm) openpgp \<Rightarrow> (nat list \<Rightarrow> string) \<Rightarrow> nat list \<Rightarrow> api_error + string" where
  "fileToPrivateKeyArmor lib td bytes =
     (if isAsciiText bytes then Inr (td bytes)
      else bindE (of_lib (readBinaryPrivateKey lib bytes)) (\<lambda>key. of_lib (armor lib key)))"

definition angle_group :: rx where
  "angle_group = cat [lit_cs ''<'', Grp 1 (Plus (ncls [CHR ''>''])), lit_cs ''>'']"

definition angle_tag :: rx where
  "angle_tag = cat [lit_cs ''<'', Star (ncls [CHR ''>'']), lit_cs ''>'']"

definition remove_tags :: "string \<Rightarrow> string" where
  "remove_tags s = rx_replace angle_tag (\<lambda>_. []) s"

text \<open>\<open>do prev = tmp; tmp = tmp.replace(...) while (tmp !== prev)\<close>.  A turn that changes the text
  shortens it, so the length of the text bounds the turns (\<open>strip_tags_fixed\<close>).\<close>

primrec strip_tags :: "nat \<Rightarrow> string \<Rightarrow> string" where
  "strip_tags 0 s = s"
| "strip_tags (Suc n) s = (let t = remove_tags s in if t = s then t else strip_tags n t)"

definition first_string :: "string list \<Rightarrow> string" where
  "first_string ss = (case ss of [] \<Rightarrow> [] | s # _ \<Rightarrow> s)"

text \<open>The e-mail address and the name in a user id.\<close>

definition user_email_name :: "string \<Rightarrow> string \<times> string" where
  "user_email_name primaryUser =
     (case rx_group 1 angle_group primaryUser of
        Some e \<Rightarrow> (trim (to_lower e), trim (strip_tags (length primaryUser) primaryUser))
      | None \<Rightarrow>
          if contains primaryUser ''@'' then (to_lower (trim primaryUser), []) else ([], []))"

definition buildParsedKeyInfo :: "('k, 'm) openpgp \<Rightarrow> 'k \<Rightarrow> string \<Rightarrow> bool \<Rightarrow> parsed_key_info" where
  "buildParsedKeyInfo lib key armored isPrivate =
     (let (email, name) = user_email_name (first_string (userIDs lib key))
      in \<lparr>ki_email = email, ki_name = name, ki_keyId = to_upper (keyIdHex lib key),
          ki_fingerprint = to_upper (fingerprintHex lib key), ki_armoredKey = armored,
          ki_isPrivate = isPrivate\<rparr>)"

definition parseKeyInfo :: "('k, 'm) openpgp \<Rightarrow> string \<Rightarrow> api_error + parsed_key_info" where
  "parseKeyInfo lib armored0 =
     (let armored = trim armored0;
          isPrivate = rx_test (lit ''BEGIN PGP PRIVATE KEY BLOCK'') armored
      in bindE (of_lib (if isPrivate then readPrivateKey lib armored else readKey lib armored))
           (\<lambda>key. Inr (buildParsedKeyInfo lib key armored isPrivate)))"

definition parseMultipleKeys :: "('k, 'm) openpgp \<Rightarrow> string \<Rightarrow> api_error + parsed_key_info list" where
  "parseMultipleKeys lib armored0 =
     (let armored = trim armored0
      in if armored = [] then Inl (thrown (Tr ''pgp.noPgpBlock'' []))
         else
           (case readKeys lib armored of
              Inl _ \<Rightarrow> Inl (thrown (Tr ''pgp.noPgpBlock'' []))
            | Inr keys \<Rightarrow>
                Inr (concat (map (\<lambda>key.
                  case armor lib key of
                    Inl _ \<Rightarrow> []
                  | Inr a \<Rightarrow> [buildParsedKeyInfo lib key a False]) keys))))"

section \<open>Contacts\<close>

record bulk_result =
  bk_saved :: "pgp_contact_key list"
  bk_skipped :: "string list"
  bk_failed :: "(string \<times> message) list"

definition contact_of :: "parsed_key_info \<Rightarrow> pgp_contact_key" where
  "contact_of info =
     \<lparr>ck_email = trim (to_lower (ki_email info)), ck_name = Some (ki_name info),
      ck_publicKeyArmored = ki_armoredKey info, ck_fingerprint = ki_fingerprint info,
      ck_keyId = Some (ki_keyId info)\<rparr>"

fun bulk_loop ::
    "parsed_key_info list \<Rightarrow> pgp_contact_key list \<Rightarrow> (string \<times> message) list
       \<Rightarrow> pgp_contact_key list \<times> (string \<times> message) list" where
  "bulk_loop [] contacts failed = (contacts, failed)"
| "bulk_loop (info # infos) contacts failed =
     (if ki_isPrivate info then
        bulk_loop infos contacts (failed @ [(ki_email info, Tr ''pgp.privateNotContact'' [])])
      else if ki_email info = [] then
        bulk_loop infos contacts (failed @ [([], Tr ''pgp.noEmailInKey'' [])])
      else bulk_loop infos (contacts @ [contact_of info]) failed)"

definition contact_json :: "pgp_contact_key \<Rightarrow> json" where
  "contact_json c =
     obj [(''email'', jstr (ck_email c)), (''name'', jstr_opt (ck_name c)),
          (''publicKeyArmored'', jstr (ck_publicKeyArmored c)),
          (''fingerprint'', jstr (ck_fingerprint c)), (''keyId'', jstr_opt (ck_keyId c))]"

definition bulk_call :: "pgp_contact_key list \<Rightarrow> call" where
  "bulk_call contacts =
     (''/pgp/contacts/bulk'',
      json_body ''POST'' [(''contacts'', Some (JArr (map contact_json contacts)))])"

definition saveContactKeysBulk ::
    "pgp_server \<Rightarrow> parsed_key_info list \<Rightarrow> pgp_world \<Rightarrow> bulk_result \<times> pgp_world" where
  "saveContactKeysBulk sv keys w =
     (let (contacts, failed) = bulk_loop keys [] []
      in if contacts = [] then (\<lparr>bk_saved = [], bk_skipped = [], bk_failed = failed\<rparr>, w)
         else
           (let w = send (bulk_call contacts) w
            in case sv_bulk sv (sentCalls w) of
                 Inr (_, skipped) \<Rightarrow>
                   (\<lparr>bk_saved = filter (\<lambda>c. ck_email c \<notin> set skipped) contacts,
                     bk_skipped = skipped, bk_failed = failed\<rparr>, w)
               | Inl e \<Rightarrow>
                   (\<lparr>bk_saved = [], bk_skipped = [],
                     bk_failed = failed @ map (\<lambda>c. (ck_email c, emessage e)) contacts\<rparr>, w)))"

definition import_call :: "string \<Rightarrow> call" where
  "import_call armored = (''/pgp/contacts/import'', json_body ''POST'' [(''armored'', jstr armored)])"

definition importContactKeysFromFile ::
    "pgp_server \<Rightarrow> string \<Rightarrow> pgp_world \<Rightarrow> (api_error + nat \<times> string list \<times> nat) \<times> pgp_world" where
  "importContactKeysFromFile sv armored w =
     (let w = send (import_call armored) w in (sv_import sv (sentCalls w), w))"

definition contacts_call :: call where
  "contacts_call = (''/pgp/contacts'', get_options)"

definition getContactKeys :: "pgp_server \<Rightarrow> pgp_world \<Rightarrow> pgp_contact_key list \<times> pgp_world" where
  "getContactKeys sv w =
     (let w = send contacts_call w
      in (case sv_contacts sv (sentCalls w) of Inl _ \<Rightarrow> [] | Inr cs \<Rightarrow> cs, w))"

definition save_contact_call :: "string \<Rightarrow> string option \<Rightarrow> string \<Rightarrow> parsed_key_info \<Rightarrow> call" where
  "save_contact_call email name publicKeyArmored info =
     (''/pgp/contacts'',
      json_body ''POST''
        [(''email'', jstr email),
         (''name'', jstr (if truthy_opt name then opt_string name else ki_name info)),
         (''publicKeyArmored'', jstr publicKeyArmored),
         (''fingerprint'', jstr (ki_fingerprint info)), (''keyId'', jstr (ki_keyId info))])"

definition saveContactKey ::
    "('k, 'm) openpgp \<Rightarrow> pgp_server \<Rightarrow> string \<Rightarrow> string \<Rightarrow> string option \<Rightarrow> pgp_world
       \<Rightarrow> (api_error + pgp_contact_key) \<times> pgp_world" where
  "saveContactKey lib sv email publicKeyArmored name w =
     (case parseKeyInfo lib publicKeyArmored of
        Inl e \<Rightarrow> (Inl e, w)
      | Inr info \<Rightarrow>
          (let finalEmail = trim (to_lower (or_else email (ki_email info)))
           in if finalEmail = [] then (Inl (thrown (Tr ''pgp.noEmailSpecify'' [])), w)
              else
                (let w = send (save_contact_call finalEmail name publicKeyArmored info) w
                 in (sv_contact sv (sentCalls w), w))))"

definition remove_contact_call :: "string \<Rightarrow> call" where
  "remove_contact_call email =
     (''/pgp/contacts/'' @ encodeURIComponent (trim (to_lower email)), with_body ''DELETE'' NoBody)"

definition removeContactKey ::
    "pgp_server \<Rightarrow> string \<Rightarrow> pgp_world \<Rightarrow> (api_error + unit) \<times> pgp_world" where
  "removeContactKey sv email w =
     (let w = send (remove_contact_call email) w in (sv_unit sv (sentCalls w), w))"

text \<open>The key servers: \<open>fetched\<close> is the outcome of a plain \<open>fetch\<close>, \<open>None\<close> when it is rejected.\<close>

definition keyserver_urls :: "string \<Rightarrow> string list" where
  "keyserver_urls email =
     [''https://keys.openpgp.org/vks/v1/by-email/'' @ encodeURIComponent email,
      ''https://keyserver.ubuntu.com/pks/lookup?op=get&options=mr&search='' @ encodeURIComponent email]"

definition keyserver_answer :: "(string \<Rightarrow> (nat \<times> string) option) \<Rightarrow> string \<Rightarrow> string option" where
  "keyserver_answer fetched address =
     (case fetched address of
        Some (stat, armored) \<Rightarrow>
          if res_ok stat \<and> armored \<noteq> [] \<and> contains armored ''BEGIN PGP PUBLIC KEY BLOCK''
          then Some armored else None
      | None \<Rightarrow> None)"

definition fetchPublicKeyFromKeyserver ::
    "(string \<Rightarrow> (nat \<times> string) option) \<Rightarrow> string \<Rightarrow> string option" where
  "fetchPublicKeyFromKeyserver fetched email =
     (let targetEmail = trim (to_lower email)
      in if targetEmail = [] \<or> \<not> contains targetEmail ''@'' then None
         else first_some (keyserver_answer fetched) (keyserver_urls targetEmail))"

end
