(* ===== verification/PgpCrypt.thy ===== *)
theory PgpCrypt
  imports Pgp
begin

text \<open>
  The personal key of \<open>pgpService\<close> (generated, imported, synchronised with the server and kept in
  memory for the session) and the encryption and decryption of messages, with the cleaning of the
  plaintext and the recursion into nested messages.
\<close>

section \<open>The key of the session\<close>

definition saveKeyPair :: "pgp_key_pair option \<Rightarrow> pgp_world \<Rightarrow> pgp_world" where
  "saveKeyPair kp w = w\<lparr>memoryKeyPair := kp\<rparr>"

definition getKeyPair :: "pgp_world \<Rightarrow> pgp_key_pair option" where
  "getKeyPair w = memoryKeyPair w"

definition clearKey :: "pgp_world \<Rightarrow> pgp_world" where
  "clearKey w = w\<lparr>memoryKeyPair := None\<rparr>"

definition sync_call :: "pgp_key_pair \<Rightarrow> call" where
  "sync_call kp =
     (''/pgp/keyring'',
      json_body ''POST''
        [(''publicKeyArmored'', jstr (kp_publicKeyArmored kp)),
         (''encryptedPrivateKeyArmored'', jstr (kp_privateKeyArmored kp)),
         (''fingerprint'', jstr (kp_fingerprint kp)), (''keyId'', jstr (kp_keyId kp))])"

definition syncKeyringToCloud ::
    "pgp_server \<Rightarrow> pgp_key_pair \<Rightarrow> pgp_world \<Rightarrow> (api_error + unit) \<times> pgp_world" where
  "syncKeyringToCloud sv kp w = (let w = send (sync_call kp) w in (sv_unit sv (sentCalls w), w))"

definition keyring_call :: call where
  "keyring_call = (''/pgp/keyring'', get_options)"

definition cloud_key_pair :: "cloud_keyring_payload \<Rightarrow> pgp_key_pair" where
  "cloud_key_pair p =
     \<lparr>kp_keyId = cl_keyId p, kp_fingerprint = cl_fingerprint p, kp_userId = cl_email p,
      kp_publicKeyArmored = cl_publicKeyArmored p,
      kp_privateKeyArmored = cl_encryptedPrivateKeyArmored p, kp_createdAt = cl_updatedAt p\<rparr>"

definition fetchKeyringFromCloud :: "pgp_server \<Rightarrow> pgp_world \<Rightarrow> pgp_key_pair option \<times> pgp_world" where
  "fetchKeyringFromCloud sv w =
     (let w = send keyring_call w
      in case sv_keyring sv (sentCalls w) of
           Inr (Some p) \<Rightarrow>
             if cl_encryptedPrivateKeyArmored p = [] then (None, w)
             else (Some (cloud_key_pair p), saveKeyPair (Some (cloud_key_pair p)) w)
         | _ \<Rightarrow> (None, w))"

definition delete_keyring_call :: call where
  "delete_keyring_call = (''/pgp/keyring'', with_body ''DELETE'' NoBody)"

definition deleteKeyringFromCloud :: "pgp_server \<Rightarrow> pgp_world \<Rightarrow> (api_error + unit) \<times> pgp_world" where
  "deleteKeyringFromCloud sv w =
     (let w = send delete_keyring_call w in (sv_unit sv (sentCalls w), w))"

definition ensureKey :: "pgp_server \<Rightarrow> pgp_world \<Rightarrow> pgp_key_pair option \<times> pgp_world" where
  "ensureKey sv w =
     (case memoryKeyPair w of Some kp \<Rightarrow> (Some kp, w) | None \<Rightarrow> fetchKeyringFromCloud sv w)"

text \<open>A new key pair is put in memory and sent to the server, whose answer is not awaited.\<close>

definition store_new_key :: "pgp_server \<Rightarrow> pgp_key_pair \<Rightarrow> pgp_world \<Rightarrow> pgp_world" where
  "store_new_key sv kp w = snd (syncKeyringToCloud sv kp (saveKeyPair (Some kp) w))"

definition nonempty_opt :: "string option \<Rightarrow> string option" where
  "nonempty_opt so = (if truthy_opt so then so else None)"

definition generateKey ::
    "('k, 'm) openpgp \<Rightarrow> pgp_server \<Rightarrow> string \<Rightarrow> string \<Rightarrow> string \<Rightarrow> string option \<Rightarrow> pgp_world
       \<Rightarrow> (api_error + pgp_key_pair) \<times> pgp_world" where
  "generateKey lib sv now name email passphrase w =
     (case bindE (of_lib (generateKeys lib name email (nonempty_opt passphrase)))
             (\<lambda>(priv, pub). bindE (of_lib (readKey lib pub)) (\<lambda>k. Inr (priv, pub, k))) of
        Inl e \<Rightarrow> (Inl e, w)
      | Inr (priv, pub, k) \<Rightarrow>
          (let kp = \<lparr>kp_keyId = to_upper (keyIdHex lib k),
                     kp_fingerprint = to_upper (fingerprintHex lib k),
                     kp_userId = name @ '' <'' @ email @ ''>'', kp_publicKeyArmored = pub,
                     kp_privateKeyArmored = priv, kp_createdAt = now\<rparr>
           in (Inr kp, store_new_key sv kp w)))"

text \<open>A key that is locked has to open with the passphrase; \<open>err\<close> is the error of each caller.\<close>

definition unlock ::
    "('k, 'm) openpgp \<Rightarrow> (string \<Rightarrow> api_error) \<Rightarrow> string option \<Rightarrow> 'k \<Rightarrow> api_error + 'k" where
  "unlock lib err passphrase k =
     (if isDecrypted lib k then Inr k
      else (case decryptKey lib k (opt_string passphrase) of Inl e \<Rightarrow> Inl (err e) | Inr k' \<Rightarrow> Inr k'))"

definition import_public :: "('k, 'm) openpgp \<Rightarrow> 'k \<Rightarrow> string option \<Rightarrow> api_error + string" where
  "import_public lib privKey publicKeyArmored =
     (if truthy_opt publicKeyArmored then Inr (opt_string publicKeyArmored)
      else of_lib (armor lib (toPublic lib privKey)))"

definition importPersonalKey ::
    "('k, 'm) openpgp \<Rightarrow> pgp_server \<Rightarrow> string \<Rightarrow> string \<Rightarrow> string option \<Rightarrow> string option \<Rightarrow> pgp_world
       \<Rightarrow> (api_error + pgp_key_pair) \<times> pgp_world" where
  "importPersonalKey lib sv now privateKeyArmored publicKeyArmored passphrase w =
     (case bindE (of_lib (readPrivateKey lib privateKeyArmored))
             (\<lambda>privKey. bindE (unlock lib (\<lambda>_. thrown (Tr ''pgp.badPassphraseImport'' [])) passphrase privKey)
                (\<lambda>_. bindE (import_public lib privKey publicKeyArmored) (\<lambda>pub. Inr (privKey, pub)))) of
        Inl e \<Rightarrow> (Inl e, w)
      | Inr (privKey, pub) \<Rightarrow>
          (let kp = \<lparr>kp_keyId = to_upper (keyIdHex lib privKey),
                     kp_fingerprint = to_upper (fingerprintHex lib privKey),
                     kp_userId = or_else (first_string (userIDs lib privKey)) ''Imported Key'',
                     kp_publicKeyArmored = pub, kp_privateKeyArmored = privateKeyArmored,
                     kp_createdAt = now\<rparr>
           in (Inr kp, store_new_key sv kp w)))"

definition isPrivateKeyEncrypted :: "('k, 'm) openpgp \<Rightarrow> string \<Rightarrow> bool" where
  "isPrivateKeyEncrypted lib privateKeyArmored =
     (case readPrivateKey lib privateKeyArmored of Inl _ \<Rightarrow> False | Inr k \<Rightarrow> \<not> isDecrypted lib k)"

section \<open>Encryption\<close>

definition signing_key ::
    "('k, 'm) openpgp \<Rightarrow> (string \<Rightarrow> api_error) \<Rightarrow> string option \<Rightarrow> string option
       \<Rightarrow> api_error + 'k option" where
  "signing_key lib err signerPrivateKeyArmored passphrase =
     (if \<not> truthy_opt signerPrivateKeyArmored then Inr None
      else bindE (of_lib (readPrivateKey lib (opt_string signerPrivateKeyArmored)))
             (\<lambda>k. bindE (unlock lib err passphrase k) (\<lambda>k. Inr (Some k))))"

definition sign_error :: "string \<Rightarrow> api_error" where
  "sign_error e = thrown (Tr ''pgp.badPassphraseSign'' [(''error'', Raw e)])"

definition encrypt ::
    "('k, 'm) openpgp \<Rightarrow> string \<Rightarrow> string list \<Rightarrow> string option \<Rightarrow> string option \<Rightarrow> api_error + string" where
  "encrypt lib txt recipientPublicKeysArmored signerPrivateKeyArmored passphrase =
     bindE (of_lib (collectE (map (readKey lib) recipientPublicKeysArmored))) (\<lambda>keys.
     bindE (signing_key lib sign_error signerPrivateKeyArmored passphrase) (\<lambda>signer.
     of_lib (encryptText lib txt keys signer)))"

definition encryptBinary ::
    "('k, 'm) openpgp \<Rightarrow> nat list \<Rightarrow> string list \<Rightarrow> string option \<Rightarrow> string option
       \<Rightarrow> api_error + nat list" where
  "encryptBinary lib bytes recipientPublicKeysArmored signerPrivateKeyArmored passphrase =
     bindE (of_lib (collectE (map (readKey lib) recipientPublicKeysArmored))) (\<lambda>keys.
     bindE (signing_key lib (\<lambda>e. thrown (Raw e)) signerPrivateKeyArmored passphrase) (\<lambda>signer.
     of_lib (encryptBytes lib bytes keys signer)))"

section \<open>Cleaning the plaintext\<close>

definition isPgpEncrypted :: "string \<Rightarrow> bool" where
  "isPgpEncrypted content = rx_test (lit ''-----BEGIN PGP MESSAGE-----'') content"

definition isPgpSigned :: "string \<Rightarrow> bool" where
  "isPgpSigned content = rx_test (lit ''-----BEGIN PGP SIGNED MESSAGE-----'') content"

definition pgp_block :: rx where
  "pgp_block = cat [lit ''-----BEGIN PGP MESSAGE-----'', any, Lazy any, lit ''-----END PGP MESSAGE-----'']"

definition target_armored :: "string \<Rightarrow> string" where
  "target_armored msg = (case rx_exec pgp_block msg of Some m \<Rightarrow> rm_text m | None \<Rightarrow> msg)"

definition marker_kind :: rx where
  "marker_kind = Opt (Alt (lit ''UNVERIFIED '') (lit ''SIGNED ''))"

definition begin_marker :: rx where
  "begin_marker = cat [Bol False, lit ''-----BEGIN PGP '', marker_kind, lit ''MESSAGE-----'',
     Opt (lit_cs [cr]), Opt (lit_cs [nl])]"

definition end_marker :: rx where
  "end_marker = cat [Opt (lit_cs [cr]), Opt (lit_cs [nl]), lit ''-----END PGP '', marker_kind,
     lit ''MESSAGE-----'', Star any, Eol]"

definition strip_markers :: "string \<Rightarrow> string" where
  "strip_markers s = trim (rx_replace1 end_marker (\<lambda>_. []) (rx_replace1 begin_marker (\<lambda>_. []) s))"

definition line_type :: "string \<Rightarrow> rx" where
  "line_type ty = cat [Bol True, lit ''Content-Type:'', Star ws, lit ty]"

definition single_base64 :: "(string \<Rightarrow> string) \<Rightarrow> string \<Rightarrow> string" where
  "single_base64 td s =
     (case rx_exec two_newlines s of
        None \<Rightarrow> s
      | Some m \<Rightarrow>
          (case atob (remove_ws (trim (rm_text m @ rm_after m))) of
             None \<Rightarrow> s
           | Some bytes \<Rightarrow> if length (td bytes) > 10 then td bytes else s))"

definition clean_text :: "(string \<Rightarrow> string) \<Rightarrow> string \<Rightarrow> string" where
  "clean_text td decrypted =
     (let s = strip_markers decrypted
      in if rx_test (line_type ''multipart/'') s \<and> rx_test (lit ''boundary='') s then
           (case extractTextFromMime td s of
              Some x \<Rightarrow> if x \<noteq> [] then x else s
            | None \<Rightarrow> s)
         else if rx_test (line_type ''text/'') s
             \<and> rx_test (cat [lit ''Content-Transfer-Encoding:'', Star ws, lit ''base64'']) s
         then single_base64 td s
         else s)"

section \<open>Decryption\<close>

record decrypt_args =
  da_armoredMessage :: string
  da_privateKeyArmored :: string
  da_passphrase :: "string option"
  da_senderPublicKeyArmored :: "string option"

record decrypted =
  dc_data :: string
  dc_verified :: bool
  dc_signatureKeyId :: "string option"

fun check_signatures :: "signature list \<Rightarrow> bool \<times> string option" where
  "check_signatures [] = (False, None)"
| "check_signatures ((kid, v) # sigs) =
     (if v = Some True then (True, Some (to_upper kid)) else check_signatures sigs)"

definition readable_keys :: "('k, 'm) openpgp \<Rightarrow> string list \<Rightarrow> 'k list" where
  "readable_keys lib armoreds =
     concat (map (\<lambda>a. case readKey lib a of Inl _ \<Rightarrow> [] | Inr k \<Rightarrow> [k]) armoreds)"

text \<open>Every key that may verify a signature: that of the sender if it is given, those of all contacts
  and the own one.\<close>

definition verification_armors ::
    "pgp_server \<Rightarrow> string option \<Rightarrow> pgp_world \<Rightarrow> string list \<times> pgp_world" where
  "verification_armors sv sender w =
     (let (contacts, w) = getContactKeys sv w;
          (myKey, w) = ensureKey sv w
      in ((if truthy_opt sender then [opt_string sender] else [])
          @ map ck_publicKeyArmored contacts
          @ (case myKey of
               Some kp \<Rightarrow> if kp_publicKeyArmored kp \<noteq> [] then [kp_publicKeyArmored kp] else []
             | None \<Rightarrow> []), w))"

text \<open>One level: the library decrypts the block of the message; the result is its plaintext as it is
  shown and the outcome of the signatures.\<close>

definition decrypt_block ::
    "('k, 'm) openpgp \<Rightarrow> (string \<Rightarrow> string) \<Rightarrow> string \<Rightarrow> 'k \<Rightarrow> 'k list \<Rightarrow> api_error + decrypted" where
  "decrypt_block lib td msg privateKey keys =
     bindE (of_lib (readMessage lib (target_armored msg))) (\<lambda>message.
     bindE (of_lib (decryptMessage lib message privateKey (if keys \<noteq> [] then Some keys else None)))
       (\<lambda>(plain, sigs).
          (let (verified, kid) = check_signatures sigs
           in Inr \<lparr>dc_data = clean_text td plain, dc_verified = verified, dc_signatureKeyId = kid\<rparr>)))"

definition decrypt_once ::
    "('k, 'm) openpgp \<Rightarrow> (string \<Rightarrow> string) \<Rightarrow> pgp_server \<Rightarrow> decrypt_args \<Rightarrow> pgp_world
       \<Rightarrow> (api_error + decrypted) \<times> pgp_world" where
  "decrypt_once lib td sv args w =
     (case bindE (of_lib (readPrivateKey lib (da_privateKeyArmored args)))
             (unlock lib (\<lambda>_. thrown (Tr ''pgp.badPassphraseDecrypt'' [])) (da_passphrase args)) of
        Inl e \<Rightarrow> (Inl e, w)
      | Inr privateKey \<Rightarrow>
          (let (armors, w) = verification_armors sv (da_senderPublicKeyArmored args) w
           in (decrypt_block lib td (da_armoredMessage args) privateKey (readable_keys lib armors), w)))"

text \<open>The recursion into a nested message.  The first argument bounds its depth; \<open>None\<close> means that the
  bound was reached (\<open>decrypt_returns\<close> gives a bound that is enough).\<close>

primrec decrypt ::
    "nat \<Rightarrow> ('k, 'm) openpgp \<Rightarrow> (string \<Rightarrow> string) \<Rightarrow> pgp_server \<Rightarrow> decrypt_args \<Rightarrow> pgp_world
       \<Rightarrow> ((api_error + decrypted) \<times> pgp_world) option" where
  "decrypt 0 lib td sv args w = None"
| "decrypt (Suc n) lib td sv args w =
     (case decrypt_once lib td sv args w of
        (Inl e, w) \<Rightarrow> Some (Inl e, w)
      | (Inr d, w) \<Rightarrow>
          if isPgpEncrypted (dc_data d) then
            (case decrypt n lib td sv (args\<lparr>da_armoredMessage := dc_data d\<rparr>) w of
               None \<Rightarrow> None
             | Some (Inr d', w) \<Rightarrow> Some (Inr d', w)
             | Some (Inl _, w) \<Rightarrow> Some (Inr d, w))
          else Some (Inr d, w))"

end
