(* ===== verification/MailFrame.thy ===== *)
theory MailFrame
  imports MailHtml PgpCrypt
begin

text \<open>
  The component \<open>EmailFrame\<close> of \<open>frontend/src/components/mail/EmailFrame.tsx\<close> as a state machine: its
  props, the state of the decryption, and the decryptions that were started and have not ended.
  The viewer renders it without a key, so one instance shows message after message.
\<close>

record frame_props =
  fp_uid :: nat
  fp_folder :: string
  fp_htmlBody :: string
  fp_textBody :: string
  fp_attachments :: "attachment_info list"
  fp_trustedSender :: bool

record frame_state =
  fs_props :: frame_props
  userAllowed :: bool
  decryptedContent :: "string option"
  fs_isDecrypted :: bool
  isSignatureVerified :: "bool option"
  signatureKeyId :: "string option"
  passphrase :: string
  decryptError :: "message option"
  showPassModal :: bool
  running :: nat

definition init_frame :: "frame_props \<Rightarrow> frame_state" where
  "init_frame p =
     \<lparr>fs_props = p, userAllowed = False, decryptedContent = None, fs_isDecrypted = False,
      isSignatureVerified = None, signatureKeyId = None, passphrase = [], decryptError = None,
      showPassModal = False, running = 0\<rparr>"

definition allowRemoteImages :: "frame_state \<Rightarrow> bool" where
  "allowRemoteImages s \<longleftrightarrow> fp_trustedSender (fs_props s) \<or> userAllowed s"

definition raw_body :: "frame_props \<Rightarrow> string" where
  "raw_body p = or_else (fp_textBody p) (fp_htmlBody p)"

definition isPgpMessage :: "frame_props \<Rightarrow> bool" where
  "isPgpMessage p = isPgpEncrypted (raw_body p)"

section \<open>One run of the handler\<close>

datatype outcome = NoKey | AskPassphrase | Failed message | Shown decrypted

text \<open>\<open>handleDecrypt\<close> up to its result, for the props and the passphrase of the time it was called.  \<open>None\<close>
  is the bound of the nested decryption.\<close>

definition handleDecrypt ::
    "nat \<Rightarrow> ('k, 'm) openpgp \<Rightarrow> (string \<Rightarrow> string) \<Rightarrow> pgp_server \<Rightarrow> frame_props \<Rightarrow> string \<Rightarrow> pgp_world
       \<Rightarrow> (outcome \<times> pgp_world) option" where
  "handleDecrypt n lib td sv p pass w =
     (case ensureKey sv w of
        (None, w) \<Rightarrow> Some (NoKey, w)
      | (Some kp, w) \<Rightarrow>
          if pass = [] \<and> isPrivateKeyEncrypted lib (kp_privateKeyArmored kp) then Some (AskPassphrase, w)
          else
            (case decrypt n lib td sv
                \<lparr>da_armoredMessage = raw_body p, da_privateKeyArmored = kp_privateKeyArmored kp,
                 da_passphrase = Some pass, da_senderPublicKeyArmored = None\<rparr> w of
               None \<Rightarrow> None
             | Some (Inl e, w) \<Rightarrow> Some (Failed (emessage e), w)
             | Some (Inr d, w) \<Rightarrow> Some (Shown d, w)))"

definition finish :: "outcome \<Rightarrow> frame_state \<Rightarrow> frame_state" where
  "finish out s =
     (case out of
        NoKey \<Rightarrow> s\<lparr>decryptError := Some (Tr ''emailFrame.needPrivateKey'' [])\<rparr>
      | AskPassphrase \<Rightarrow> s\<lparr>showPassModal := True, decryptError := None\<rparr>
      | Failed m \<Rightarrow> s\<lparr>decryptError := Some m\<rparr>
      | Shown d \<Rightarrow>
          s\<lparr>decryptedContent := Some (dc_data d), fs_isDecrypted := True,
            isSignatureVerified := Some (dc_verified d), signatureKeyId := dc_signatureKeyId d,
            showPassModal := False, decryptError := None\<rparr>)"

section \<open>Events\<close>

datatype frame_event =
    NewProps frame_props
  | ClickDecrypt
  | SubmitPassphrase
  | DecryptEnds outcome
  | TypePassphrase string
  | CancelModal
  | ShowImages

text \<open>The effect of the props: only a change of the uid resets the state.\<close>

definition new_props :: "frame_props \<Rightarrow> frame_state \<Rightarrow> frame_state" where
  "new_props p s =
     (if fp_uid p = fp_uid (fs_props s) then s\<lparr>fs_props := p\<rparr>
      else
        s\<lparr>fs_props := p, userAllowed := False, decryptedContent := None, fs_isDecrypted := False,
          isSignatureVerified := None, signatureKeyId := None, decryptError := None\<rparr>)"

fun frame_step :: "frame_event \<Rightarrow> frame_state \<Rightarrow> frame_state" where
  "frame_step (NewProps p) s = new_props p s"
| "frame_step ClickDecrypt s =
     (if isPgpMessage (fs_props s) \<and> \<not> fs_isDecrypted s
      then s\<lparr>showPassModal := True, running := running s + 1\<rparr> else s)"
| "frame_step SubmitPassphrase s =
     (if showPassModal s then s\<lparr>running := running s + 1\<rparr> else s)"
| "frame_step (DecryptEnds out) s =
     (if running s = 0 then s else finish out (s\<lparr>running := running s - 1\<rparr>))"
| "frame_step (TypePassphrase t) s = (if showPassModal s then s\<lparr>passphrase := t\<rparr> else s)"
| "frame_step CancelModal s = (if showPassModal s then s\<lparr>showPassModal := False\<rparr> else s)"
| "frame_step ShowImages s = s\<lparr>userAllowed := True\<rparr>"

definition shown_doc ::
    "(string \<Rightarrow> string) \<Rightarrow> (string \<Rightarrow> string) \<Rightarrow> frame_state \<Rightarrow> (frame_doc \<times> bool option) option" where
  "shown_doc sanitize tr s =
     (let p = fs_props s
      in processedHtml sanitize tr (allowRemoteImages s) (decryptedContent s) (fp_uid p) (fp_folder p)
           (fp_attachments p) (fp_htmlBody p) (fp_textBody p))"

end
