(* ===== verification/Viewer.thy ===== *)
theory Viewer
  imports MessageList MailFrame
begin

text \<open>
  The component \<open>ViewerPane\<close> of \<open>frontend/src/components/layout/ViewerPane.tsx\<close>: the query of the
  message, the updates of the cached lists when a message is opened or deleted, the operations
  on the message, the sender's contact, replies, and the local state with the mail frame that
  the component shows.  The cache of the query library is a list of keys and results; a part of a
  key that is \<open>undefined\<close> is empty.
\<close>

section \<open>The message\<close>

definition detailFolder :: "mail_state \<Rightarrow> string" where
  "detailFolder s =
     (if unreadView s \<and> truthy_opt (selectedFolder s) then opt_string (selectedFolder s)
      else currentFolder s)"

text \<open>\<open>null\<close> and 0 are falsy.\<close>

definition truthy_uid :: "nat option \<Rightarrow> bool" where
  "truthy_uid u \<longleftrightarrow> u \<noteq> None \<and> u \<noteq> Some 0"

definition detail_query :: "string option \<Rightarrow> mail_state \<Rightarrow> call option" where
  "detail_query account s =
     (if truthy_uid (selectedUID s)
      then Some (getMessageDetail (the (selectedUID s)) (detailFolder s) account) else None)"

definition is_gone :: "string \<Rightarrow> bool" where
  "is_gone msg \<longleftrightarrow> contains (to_lower msg) ''not found'' \<or> contains (to_lower msg) ''404''"

text \<open>The \<open>retry\<close> of the query, for the number of failures so far.\<close>

definition retry_detail :: "nat \<Rightarrow> string \<Rightarrow> bool" where
  "retry_detail failureCount msg = (if is_gone msg then False else failureCount < 2)"

type_synonym query_key = "string list"

text \<open>The effect of an error: a message that is gone is no longer selected.\<close>

definition gone_effect :: "string option \<Rightarrow> string option \<Rightarrow> mail_state \<Rightarrow> mail_state \<times> query_key list" where
  "gone_effect account err s =
     (case err of
        None \<Rightarrow> (s, [])
      | Some msg \<Rightarrow>
          if selectedUID s = None \<or> \<not> is_gone msg then (s, [])
          else
            (setSelectedUID None s,
             if truthy_opt account
             then [[''messages'', opt_string account], [''unread-aggregate'', opt_string account],
                   [''folders'', opt_string account]]
             else []))"

section \<open>The cached lists\<close>

type_synonym list_cache = "(query_key \<times> message_list_result) list"

definition getQueryData :: "query_key \<Rightarrow> list_cache \<Rightarrow> message_list_result option" where
  "getQueryData k c = map_of c k"

definition under :: "query_key \<Rightarrow> query_key \<Rightarrow> bool" where
  "under p k \<longleftrightarrow> take (length p) k = p"

definition getQueriesData :: "query_key \<Rightarrow> list_cache \<Rightarrow> list_cache" where
  "getQueriesData p c = filter (\<lambda>(k, _). under p k) c"

definition setQueriesData ::
    "query_key \<Rightarrow> (message_list_result \<Rightarrow> message_list_result) \<Rightarrow> list_cache \<Rightarrow> list_cache" where
  "setQueriesData p f c = map (\<lambda>(k, r). (k, if under p k then f r else r)) c"

subsection \<open>Opening a message\<close>

definition read_message :: "nat \<Rightarrow> message_summary \<Rightarrow> message_summary" where
  "read_message u m = (if ms_uid m = u then m\<lparr>ms_unread := False\<rparr> else m)"

definition read_thread :: "nat \<Rightarrow> thread_summary \<Rightarrow> thread_summary" where
  "read_thread u t =
     (case find (\<lambda>m. ms_uid m = u) (th_messages t) of
        None \<Rightarrow> t
      | Some target \<Rightarrow>
          t\<lparr>th_messages := map (read_message u) (th_messages t),
            th_unreadCount := (if ms_unread target \<and> th_unreadCount t > 0 then th_unreadCount t - 1
                               else th_unreadCount t)\<rparr>)"

definition read_result :: "nat \<Rightarrow> message_list_result \<Rightarrow> message_list_result" where
  "read_result u r =
     (case (ml_mode r, ml_threads r) of
        (Some Threads, Some ts) \<Rightarrow> r\<lparr>ml_threads := Some (map (read_thread u) ts)\<rparr>
      | _ \<Rightarrow> r\<lparr>ml_messages := map (read_message u) (ml_messages r)\<rparr>)"

text \<open>\<open>Math.ceil(total / (limit || 50))\<close>, at least 1.\<close>

definition pages_for :: "nat \<Rightarrow> nat \<Rightarrow> nat" where
  "pages_for tot perPage =
     (let l = (if perPage = 0 then 50 else perPage) in max 1 ((tot + l - 1) div l))"

definition stays_unread :: "nat \<Rightarrow> string \<Rightarrow> message_summary \<Rightarrow> bool" where
  "stays_unread u folder m =
     (if ms_uid m \<noteq> u then True
      else if truthy_opt (ms_folder m) \<and> folder \<noteq> [] then ms_folder m \<noteq> Some folder
      else False)"

definition leave_unread :: "nat \<Rightarrow> string \<Rightarrow> message_list_result \<Rightarrow> message_list_result" where
  "leave_unread u folder r =
     (let before = length (ml_messages r);
          filtered = filter (stays_unread u folder) (ml_messages r);
          tot = ml_total r - (before - length filtered)
      in if length filtered = before then r
         else r\<lparr>ml_messages := filtered, ml_total := tot, ml_totalPages := pages_for tot (ml_limit r)\<rparr>)"

text \<open>The effect of a loaded message; the result has the keys that become stale.\<close>

definition open_effect ::
    "string option \<Rightarrow> mail_state \<Rightarrow> parsed_message option \<Rightarrow> list_cache \<Rightarrow> list_cache \<times> query_key list" where
  "open_effect account s msg c =
     (case (selectedUID s, msg) of
        (Some u, Some _) \<Rightarrow>
          (setQueriesData [''unread-aggregate'', opt_string account] (leave_unread u (detailFolder s))
             (setQueriesData [''messages'', opt_string account, detailFolder s] (read_result u) c),
           [[''folders'', opt_string account], [''unread-aggregate'', opt_string account]])
      | _ \<Rightarrow> (c, []))"

subsection \<open>The message after a deletion\<close>

definition neighbour :: "'a list \<Rightarrow> nat \<Rightarrow> 'a option" where
  "neighbour xs i = or_opt (nth_opt xs (int i + 1)) (nth_opt xs (int i - 1))"

definition next_in_unread ::
    "nat \<Rightarrow> string option \<Rightarrow> message_summary list \<Rightarrow> message_summary option" where
  "next_in_unread u folder ms =
     (let idx = index_where (\<lambda>m. ms_uid m = u
                  \<and> (\<not> truthy_opt folder \<or> ms_folder m = folder \<or> \<not> truthy_opt (ms_folder m))) ms;
          realIdx = or_opt idx (index_where (\<lambda>m. ms_uid m = u) ms)
      in case realIdx of None \<Rightarrow> None | Some i \<Rightarrow> neighbour ms i)"

definition next_in_list :: "nat \<Rightarrow> message_summary list \<Rightarrow> nat option" where
  "next_in_list u ms =
     (let remain = filter (\<lambda>m. ms_uid m \<noteq> u) ms
      in case index_where (\<lambda>m. ms_uid m = u) ms of
           Some i \<Rightarrow> map_option ms_uid (or_opt (neighbour ms i) (nth_opt remain 0))
         | None \<Rightarrow> map_option ms_uid (nth_opt remain 0))"

text \<open>\<open>newest.uid\<close> of a thread: \<open>None\<close> is the \<open>TypeError\<close> for a thread without messages.\<close>

definition newest_uid :: "date_value \<Rightarrow> message_summary list \<Rightarrow> nat option" where
  "newest_uid dv ms = map_option ms_uid (newest dv ms)"

definition next_in_threads ::
    "date_value \<Rightarrow> nat \<Rightarrow> thread_summary list \<Rightarrow> nat option option" where
  "next_in_threads dv u ts =
     (case index_where (\<lambda>t. list_ex (\<lambda>m. ms_uid m = u) (th_messages t)) ts of
        None \<Rightarrow> Some None
      | Some i \<Rightarrow>
          (let remainInThread = filter (\<lambda>m. ms_uid m \<noteq> u) (th_messages (ts ! i))
           in if remainInThread \<noteq> [] then map_option Some (newest_uid dv remainInThread)
              else
                (case neighbour ts i of
                   Some candThread \<Rightarrow> map_option Some (newest_uid dv (th_messages candThread))
                 | None \<Rightarrow>
                     (case filter (\<lambda>t. \<not> list_all (\<lambda>m. ms_uid m = u) (th_messages t)) ts of
                        [] \<Rightarrow> Some None
                      | fallback # _ \<Rightarrow> map_option Some (newest_uid dv (th_messages fallback))))))"

definition unread_list_key :: "string option \<Rightarrow> mail_state \<Rightarrow> query_key" where
  "unread_list_key account s =
     [''unread-aggregate'', opt_string account, nat_str (page s), nat_str (limit s)]"

definition list_key :: "string option \<Rightarrow> mail_state \<Rightarrow> string \<Rightarrow> query_key" where
  "list_key account s mode =
     [''messages'', opt_string account, detailFolder s, nat_str (page s), nat_str (limit s),
      searchQuery s, mode]"

text \<open>The list of the folder: the current page, the same under an old key, or any other page.\<close>

definition cached_list :: "string option \<Rightarrow> mail_state \<Rightarrow> list_cache \<Rightarrow> message_list_result option" where
  "cached_list account s c =
     or_opt (getQueryData (list_key account s (mode_str (listMode s))) c)
       (or_opt (getQueryData (list_key account s (if listMode s = Threads then ''true'' else ''false'')) c)
         (case getQueriesData [''messages'', opt_string account, detailFolder s] c of
            [] \<Rightarrow> None | (_, r) # _ \<Rightarrow> Some r))"

definition next_in_result :: "date_value \<Rightarrow> nat \<Rightarrow> message_list_result \<Rightarrow> nat option option" where
  "next_in_result dv u r =
     (case (ml_mode r, ml_threads r) of
        (Some Threads, Some ts) \<Rightarrow> next_in_threads dv u ts
      | _ \<Rightarrow> Some (next_in_list u (ml_messages r)))"

text \<open>\<open>onSuccess\<close> of the deletion on the store, with the closure of the last render: \<open>None\<close> where it throws.\<close>

definition deleted ::
    "date_value \<Rightarrow> string option \<Rightarrow> list_cache \<Rightarrow> nat \<Rightarrow> mail_state \<Rightarrow> mail_state option" where
  "deleted dv account c u s =
     (if unreadView s then
        (case next_in_unread u (selectedFolder s)
                (case getQueryData (unread_list_key account s) c of None \<Rightarrow> [] | Some r \<Rightarrow> ml_messages r) of
           None \<Rightarrow> Some (setSelectedUID None s)
         | Some m \<Rightarrow>
             Some (setSelectedUID (Some (ms_uid m))
               (if truthy_opt (ms_folder m) then setSelectedFolder (ms_folder m) s else s)))
      else
        (case (case cached_list account s c of None \<Rightarrow> Some None | Some r \<Rightarrow> next_in_result dv u r) of
           None \<Rightarrow> None
         | Some None \<Rightarrow> Some (setSelectedUID None s)
         | Some (Some v) \<Rightarrow> Some (setSelectedUID (Some v) (setSelectedFolder None s))))"

definition stale_lists :: "string option \<Rightarrow> mail_state \<Rightarrow> query_key list" where
  "stale_lists account s =
     [[''messages'', opt_string account, detailFolder s], [''unread-aggregate'', opt_string account],
      [''folders'', opt_string account]]"

section \<open>Operations\<close>

definition delete_call :: "string option \<Rightarrow> mail_state \<Rightarrow> nat \<Rightarrow> call" where
  "delete_call account s u = deleteMessages (detailFolder s) [u] False account"

definition flag_call :: "string option \<Rightarrow> mail_state \<Rightarrow> string list \<Rightarrow> flag_op \<Rightarrow> call option" where
  "flag_call account s flags opr =
     (if truthy_uid (selectedUID s)
      then Some (setFlags (detailFolder s) [the (selectedUID s)] flags opr account) else None)"

definition star_call :: "string option \<Rightarrow> mail_state \<Rightarrow> parsed_message \<Rightarrow> call option" where
  "star_call account s m =
     flag_call account s [bslash # ''Flagged''] (if pm_starred m then FRemove else FAdd)"

definition mark_unread_call :: "string option \<Rightarrow> mail_state \<Rightarrow> call option" where
  "mark_unread_call account s = flag_call account s [bslash # ''Seen''] FRemove"

definition detail_key :: "string option \<Rightarrow> mail_state \<Rightarrow> query_key" where
  "detail_key account s =
     [''message'', opt_string account, detailFolder s,
      (case selectedUID s of None \<Rightarrow> ''null'' | Some u \<Rightarrow> nat_str u)]"

definition flagged_stale :: "string option \<Rightarrow> mail_state \<Rightarrow> query_key list" where
  "flagged_stale account s =
     [detail_key account s, [''messages'', opt_string account, detailFolder s],
      [''unread-aggregate'', opt_string account]]"

definition viewer_junk :: "folder_info list option \<Rightarrow> string option" where
  "viewer_junk folders =
     (case folders of
        None \<Rightarrow> None
      | Some fs \<Rightarrow>
          or_opt (map_option fi_name
              (find (\<lambda>f. fi_specialUse f = Some ''junk'' \<or> fi_specialUse f = Some ''spam'') fs))
            (map_option fi_name
              (find (\<lambda>f. contains (to_lower (fi_name f)) ''junk''
                       \<or> contains (to_lower (fi_name f)) ''spam'') fs)))"

definition move_to_junk_call ::
    "string option \<Rightarrow> folder_info list option \<Rightarrow> mail_state \<Rightarrow> parsed_message \<Rightarrow> call option" where
  "move_to_junk_call account folders s m =
     (if truthy_opt (viewer_junk folders)
      then Some (moveMessages (detailFolder s) [pm_uid m] (opt_string (viewer_junk folders)) account)
      else None)"

definition moved_to_junk :: "mail_state \<Rightarrow> mail_state" where
  "moved_to_junk s = setSelectedUID None s"

subsection \<open>The contact of the sender\<close>

definition senderEmail :: "parsed_message option \<Rightarrow> string" where
  "senderEmail m =
     (case m of None \<Rightarrow> [] | Some m \<Rightarrow> (case pm_from m of [] \<Rightarrow> [] | a # _ \<Rightarrow> to_lower (eaddress a)))"

definition senderName :: "parsed_message option \<Rightarrow> string" where
  "senderName m =
     (case m of None \<Rightarrow> [] | Some m \<Rightarrow> (case pm_from m of [] \<Rightarrow> [] | a # _ \<Rightarrow> ename a))"

definition resolve_call :: "parsed_message option \<Rightarrow> call option" where
  "resolve_call m = (if senderEmail m = [] then None else contacts_resolve [senderEmail m])"

definition senderContact ::
    "(string \<Rightarrow> contact option) \<Rightarrow> parsed_message option \<Rightarrow> contact option" where
  "senderContact resolvedMap m = (if senderEmail m = [] then None else resolvedMap (senderEmail m))"

definition add_contact_call :: "parsed_message option \<Rightarrow> call" where
  "add_contact_call m = contacts_fromEmail (senderEmail m) (Some (senderName m)) None"

text \<open>The contact whose picture is fetched.\<close>

definition avatar_request :: "contact option \<Rightarrow> string option" where
  "avatar_request ct =
     (case ct of None \<Rightarrow> None | Some c \<Rightarrow> if c_hasAvatar c then Some (c_id c) else None)"

text \<open>The letter in place of a picture, and the shown name.\<close>

definition initial_of :: "string \<Rightarrow> string" where
  "initial_of s = to_upper (take 1 s)"

definition sender_initial :: "contact option \<Rightarrow> parsed_message \<Rightarrow> string" where
  "sender_initial ct m =
     or_else (case ct of None \<Rightarrow> [] | Some c \<Rightarrow> initial_of (c_displayName c))
       (or_else (initial_of (senderName (Some m)))
         (or_else (case pm_from m of [] \<Rightarrow> [] | a # _ \<Rightarrow> initial_of (eaddress a)) ''U''))"

definition sender_shown :: "contact option \<Rightarrow> parsed_message \<Rightarrow> string" where
  "sender_shown ct m =
     or_else (case ct of None \<Rightarrow> [] | Some c \<Rightarrow> c_displayName c)
       (or_else (senderName (Some m)) (case pm_from m of [] \<Rightarrow> [] | a # _ \<Rightarrow> eaddress a))"

definition recipients_shown :: "parsed_message \<Rightarrow> message" where
  "recipients_shown m =
     Tr ''viewer.to'' [(''recipients'',
       (let r = join '', '' (map (\<lambda>a. or_else (ename a) (eaddress a)) (pm_to m))
        in if r = [] then Tr ''common.none'' [] else Raw r))]"

text \<open>The links of the attachments name no account.\<close>

definition attachment_links :: "mail_state \<Rightarrow> parsed_message \<Rightarrow> string list" where
  "attachment_links s m =
     map (\<lambda>a. getAttachmentUrl (pm_uid m) (att_id a) (detailFolder s) None) (pm_attachments m)"

section \<open>Replies\<close>

text \<open>\<open>t\<close> of the translation module, for the locale of the time.\<close>

type_synonym translator = "string \<Rightarrow> (string \<times> string) list \<Rightarrow> string"

definition from_address :: "parsed_message \<Rightarrow> string" where
  "from_address m = (case pm_from m of [] \<Rightarrow> [] | a # _ \<Rightarrow> eaddress a)"

definition reply_recipients :: "bool \<Rightarrow> parsed_message \<Rightarrow> string list" where
  "reply_recipients replyAll m =
     (if replyAll
      then from_address m # filter (\<lambda>a. a \<noteq> from_address m) (map eaddress (pm_to m))
      else [from_address m])"

definition prefixed :: "string \<Rightarrow> string \<Rightarrow> string" where
  "prefixed pre subject = (if starts_with subject pre then subject else pre @ '' '' @ subject)"

definition reply_draft :: "translator \<Rightarrow> bool \<Rightarrow> string \<Rightarrow> parsed_message \<Rightarrow> partial_message" where
  "reply_draft tr replyAll body m =
     \<lparr>d_from = None, d_to = Some (reply_recipients replyAll m),
      d_cc = Some (if replyAll then map eaddress (pm_cc m) else []), d_bcc = None,
      d_subject = Some (prefixed (tr ''viewer.replySubjectPrefix'' []) (pm_subject m)),
      d_inReplyTo = Some (pm_messageId m), d_references = Some (pm_messageId m),
      d_textBody = Some (tr ''viewer.replyQuote''
        [(''date'', pm_date m), (''from'', from_address m), (''subject'', pm_subject m)] @ body),
      d_htmlBody = None, d_attachments = None\<rparr>"

definition forward_draft :: "translator \<Rightarrow> string \<Rightarrow> parsed_message \<Rightarrow> partial_message" where
  "forward_draft tr body m =
     \<lparr>d_from = None, d_to = Some [], d_cc = None, d_bcc = None,
      d_subject = Some (prefixed (tr ''viewer.forwardSubjectPrefix'' []) (pm_subject m)),
      d_inReplyTo = None, d_references = Some (pm_messageId m),
      d_textBody = Some (tr ''viewer.forwardQuote''
        [(''from'', from_address m), (''date'', pm_date m), (''subject'', pm_subject m),
         (''to'', join '', '' (map eaddress (pm_to m)))] @ body),
      d_htmlBody = None, d_attachments = None\<rparr>"

section \<open>The local state\<close>

text \<open>
  The query of the message in a render, and the state of the component: the uid and the message
  of the last render, the frame that is shown, the decryptions of frames that are gone, and
  the source text with the requests for it that are open.
\<close>

datatype detail = DetailLoading | DetailFailed message | Detail parsed_message

record viewer =
  v_uid :: "nat option"
  v_message :: "parsed_message option"
  v_frame :: "frame_state option"
  v_orphans :: nat
  v_decrypted :: "string option"
  v_showRaw :: bool
  v_raw :: "message option"
  v_rawLoading :: bool
  v_rawPending :: nat

definition init_viewer :: viewer where
  "init_viewer =
     \<lparr>v_uid = None, v_message = None, v_frame = None, v_orphans = 0, v_decrypted = None,
      v_showRaw = False, v_raw = None, v_rawLoading = False, v_rawPending = 0\<rparr>"

definition shown_message :: "mail_state \<Rightarrow> detail \<Rightarrow> parsed_message option" where
  "shown_message s q =
     (if \<not> truthy_uid (selectedUID s) then None
      else case q of Detail m \<Rightarrow> Some m | _ \<Rightarrow> None)"

definition props_for :: "mail_state \<Rightarrow> bool \<Rightarrow> parsed_message \<Rightarrow> frame_props" where
  "props_for s trusted m =
     \<lparr>fp_uid = pm_uid m, fp_folder = detailFolder s, fp_htmlBody = pm_htmlBody m,
      fp_textBody = pm_textBody m, fp_attachments = pm_attachments m, fp_trustedSender = trusted\<rparr>"

text \<open>The effect of \<open>selectedUID\<close>.\<close>

definition reset_for :: "nat option \<Rightarrow> viewer \<Rightarrow> viewer" where
  "reset_for u v =
     (if u = v_uid v then v
      else v\<lparr>v_uid := u, v_decrypted := None, v_raw := None, v_showRaw := False\<rparr>)"

definition render :: "mail_state \<Rightarrow> bool \<Rightarrow> detail \<Rightarrow> viewer \<Rightarrow> viewer" where
  "render s trusted q v =
     (let v = reset_for (selectedUID s) v
      in case shown_message s q of
           None \<Rightarrow>
             v\<lparr>v_message := None, v_frame := None,
               v_orphans := v_orphans v + (case v_frame v of None \<Rightarrow> 0 | Some f \<Rightarrow> running f)\<rparr>
         | Some m \<Rightarrow>
             v\<lparr>v_message := Some m,
               v_frame := Some (case v_frame v of
                   None \<Rightarrow> init_frame (props_for s trusted m)
                 | Some f \<Rightarrow> new_props (props_for s trusted m) f)\<rparr>)"

text \<open>\<open>onDecryptedChange\<close>, called at the end of a decryption that succeeded.\<close>

definition notify :: "outcome \<Rightarrow> viewer \<Rightarrow> viewer" where
  "notify out v = (case out of Shown d \<Rightarrow> v\<lparr>v_decrypted := Some (dc_data d)\<rparr> | _ \<Rightarrow> v)"

text \<open>An event in the frame; new props come with a render only.\<close>

definition frame_event :: "frame_event \<Rightarrow> viewer \<Rightarrow> viewer" where
  "frame_event e v =
     (case v_frame v of
        None \<Rightarrow> v
      | Some f \<Rightarrow>
          (let v' = v\<lparr>v_frame := Some (frame_step e f)\<rparr>
           in case e of
                NewProps _ \<Rightarrow> v
              | DecryptEnds out \<Rightarrow> if running f = 0 then v' else notify out v'
              | _ \<Rightarrow> v'))"

datatype viewer_event =
    Render mail_state bool detail
  | InFrame frame_event
  | OrphanEnds outcome
  | ShowRaw
  | RawArrives message
  | CloseRaw

fun viewer_step :: "viewer_event \<Rightarrow> viewer \<Rightarrow> viewer" where
  "viewer_step (Render s trusted q) v = render s trusted q v"
| "viewer_step (InFrame e) v = frame_event e v"
| "viewer_step (OrphanEnds out) v =
     (if v_orphans v = 0 then v else notify out (v\<lparr>v_orphans := v_orphans v - 1\<rparr>))"
| "viewer_step ShowRaw v =
     (if v_message v = None then v
      else v\<lparr>v_showRaw := True, v_rawLoading := True, v_rawPending := v_rawPending v + 1\<rparr>)"
| "viewer_step (RawArrives txt) v =
     (if v_rawPending v = 0 then v
      else v\<lparr>v_raw := Some txt, v_rawLoading := False, v_rawPending := v_rawPending v - 1\<rparr>)"
| "viewer_step CloseRaw v = v\<lparr>v_showRaw := False\<rparr>"

definition replyBodyText :: "viewer \<Rightarrow> string" where
  "replyBodyText v =
     (case v_decrypted v of
        Some d \<Rightarrow> d
      | None \<Rightarrow> (case v_message v of None \<Rightarrow> [] | Some m \<Rightarrow> pm_textBody m))"

text \<open>The buttons that open the composer; they exist while a message is shown.\<close>

definition handleReply :: "translator \<Rightarrow> bool \<Rightarrow> viewer \<Rightarrow> mail_state \<Rightarrow> mail_state" where
  "handleReply tr replyAll v s =
     (case v_message v of
        None \<Rightarrow> s | Some m \<Rightarrow> openComposer (reply_draft tr replyAll (replyBodyText v) m) s)"

definition handleForward :: "translator \<Rightarrow> viewer \<Rightarrow> mail_state \<Rightarrow> mail_state" where
  "handleForward tr v s =
     (case v_message v of None \<Rightarrow> s | Some m \<Rightarrow> openComposer (forward_draft tr (replyBodyText v) m) s)"

section \<open>The server\<close>

text \<open>
  What the handlers \<open>SetFlags\<close> and \<open>GetMessageDetail\<close> of \<open>backend/internal/api/handler/mail.go\<close> do to
  the flags of a mailbox: reading a message that is unread marks it as seen.
\<close>

type_synonym mailbox_flags = "string \<times> nat \<Rightarrow> string set"

definition served_folder :: "string \<Rightarrow> string" where
  "served_folder folder = or_else folder ''INBOX''"

definition serve_set_flags ::
    "string \<Rightarrow> nat list \<Rightarrow> string list \<Rightarrow> flag_op \<Rightarrow> mailbox_flags \<Rightarrow> mailbox_flags" where
  "serve_set_flags folder uids flags opr box =
     (\<lambda>(f, u). if f = served_folder folder \<and> u \<in> set uids
        then (case opr of FAdd \<Rightarrow> box (f, u) \<union> set flags | FRemove \<Rightarrow> box (f, u) - set flags
                | FSet \<Rightarrow> set flags)
        else box (f, u))"

definition serve_detail :: "string \<Rightarrow> nat \<Rightarrow> mailbox_flags \<Rightarrow> mailbox_flags" where
  "serve_detail folder u box =
     (if (bslash # ''Seen'') \<notin> box (served_folder folder, u)
      then serve_set_flags folder [u] [bslash # ''Seen''] FAdd box else box)"

end
