(* ===== verification/JsRegexFacts.thy ===== *)
theory JsRegexFacts
  imports JsRegex
begin

text \<open>
  Facts about the matcher that the proofs about expressions share: a match is a piece of the text,
  a search finds the first one, a literal consumes exactly its own text, and an expression with a
  literal in it matches only texts that contain the literal.
\<close>

section \<open>The matcher only moves forward\<close>

lemma suffix_trans2: "suffix a b \<Longrightarrow> suffix b c \<Longrightarrow> suffix a c"
  by (auto simp: suffix_def)

lemma iter_suffix:
  assumes m: "\<And>k p x. m k p = Some x \<Longrightarrow> \<exists>p'. k p' = Some x \<and> suffix (rest_of p') (rest_of p)"
  shows "iter_greedy n m k p = Some x \<Longrightarrow> \<exists>p'. k p' = Some x \<and> suffix (rest_of p') (rest_of p)"
    and "iter_lazy n m k p = Some x \<Longrightarrow> \<exists>p'. k p' = Some x \<and> suffix (rest_of p') (rest_of p)"
proof (induction n arbitrary: p)
  case (Suc n)
  {
    case 1
    then consider "k p = Some x"
      | "m (\<lambda>p'. if length (rest_of p') < length (rest_of p) then iter_greedy n m k p' else None) p
          = Some x"
      by (auto simp: or_try_Some)
    then show ?case
    proof cases
      case 2
      from m [OF this] obtain p' where p': "iter_greedy n m k p' = Some x"
          "suffix (rest_of p') (rest_of p)" by (auto split: if_splits)
      with Suc.IH(1) [OF p'(1)] show ?thesis by (meson suffix_trans2)
    qed (intro exI [of _ p], simp)
  next
    case 2
    then consider "k p = Some x"
      | "m (\<lambda>p'. if length (rest_of p') < length (rest_of p) then iter_lazy n m k p' else None) p
          = Some x"
      by (auto simp: or_try_Some)
    then show ?case
    proof cases
      case 2
      from m [OF this] obtain p' where p': "iter_lazy n m k p' = Some x"
          "suffix (rest_of p') (rest_of p)" by (auto split: if_splits)
      with Suc.IH(2) [OF p'(1)] show ?thesis by (meson suffix_trans2)
    qed (intro exI [of _ p], simp)
  }
next
  case 0
  {
    case 1
    then show ?case by (intro exI [of _ p]) simp
  next
    case 2
    then show ?case by (intro exI [of _ p]) simp
  }
qed

lemma rxm_suffix:
  "rxm r k p = Some x \<Longrightarrow> \<exists>p'. k p' = Some x \<and> suffix (rest_of p') (rest_of p)"
proof (induction r arbitrary: k p x)
  case (Ch f)
  then show ?case
    by (cases "rest_of p") (auto split: if_splits simp: suffix_ConsI intro!: exI)
next
  case (Cat a b)
  then show ?case by (metis rxm.simps(3) suffix_trans2)
next
  case (Alt a b)
  from Alt.prems have "rxm a k p = Some x \<or> rxm b k p = Some x" by (auto simp: or_try_Some)
  with Alt.IH show ?case by blast
next
  case (Star r)
  from Star.prems show ?case
    using iter_suffix(1) [of "rxm r", OF Star.IH] by simp
next
  case (Lazy r)
  from Lazy.prems show ?case
    using iter_suffix(2) [of "rxm r", OF Lazy.IH] by simp
next
  case (Grp i r)
  from Grp.IH [of _ p] Grp.prems obtain p' where
    "k (set_group i (take (length (rest_of p) - length (rest_of p')) (rest_of p)) p') = Some x"
    "suffix (rest_of p') (rest_of p)" by fastforce
  then show ?case by (metis pos_simps(3))
next
  case (Ahead r)
  then have "k p = Some x" by (simp split: option.splits)
  then show ?case by (intro exI [of _ p]) simp
next
  case (NotAhead r)
  then have "k p = Some x" by (simp split: option.splits)
  then show ?case by (intro exI [of _ p]) simp
next
  case (Bol m)
  then have "k p = Some x" by (simp split: if_splits)
  then show ?case by (intro exI [of _ p]) simp
next
  case Eol
  then have "k p = Some x" by (simp split: if_splits)
  then show ?case by (intro exI [of _ p]) simp
next
  case Eps
  then show ?case by (intro exI [of _ p]) simp
qed

lemma match_here_iff:
  "match_here r prev s = Some (t, g, rest) \<longleftrightarrow>
     (\<exists>p. rxm r Some (prev, s, \<lambda>_. None) = Some p
        \<and> t = take (length s - length (rest_of p)) s \<and> g = groups_of p \<and> rest = rest_of p)"
  by (cases "rxm r Some (prev, s, \<lambda>_. None)") (auto simp: match_here_def)

lemma match_here_split:
  assumes "match_here r prev s = Some (t, g, rest)"
  shows "t @ rest = s"
proof -
  obtain p where p: "rxm r Some (prev, s, \<lambda>_. None) = Some p" "rest = rest_of p"
      "t = take (length s - length rest) s"
    using assms by (auto simp: match_here_def split: option.splits)
  from rxm_suffix [OF p(1)] have "suffix rest s" using p(2) by auto
  then show ?thesis using p(3) by (auto simp: suffix_def)
qed

lemma rx_search_split:
  "rx_search r prev s = Some m \<Longrightarrow>
     rm_before m @ rm_text m @ rm_after m = s
     \<and> (\<exists>prev'. match_here r prev' (rm_text m @ rm_after m) = Some (rm_text m, rm_groups m, rm_after m))"
proof (induction s arbitrary: prev m)
  case Nil
  then obtain t g rest where a: "match_here r prev [] = Some (t, g, rest)"
    and m: "m = \<lparr>rm_before = [], rm_text = t, rm_groups = g, rm_after = rest\<rparr>"
    by (subst (asm) rx_search.simps) (auto split: option.splits)
  from match_here_split [OF a] a m show ?case by auto
next
  case (Cons c cs)
  show ?case
  proof (cases "match_here r prev (c # cs)")
    case None
    then obtain m' where "rx_search r (Some c) cs = Some m'" "m = m'\<lparr>rm_before := c # rm_before m'\<rparr>"
      using Cons.prems by (subst (asm) rx_search.simps) auto
    with Cons.IH [of "Some c" m'] show ?thesis by auto
  next
    case (Some a)
    then obtain t g rest where a: "match_here r prev (c # cs) = Some (t, g, rest)" by (cases a) auto
    then have "m = \<lparr>rm_before = [], rm_text = t, rm_groups = g, rm_after = rest\<rparr>"
      using Cons.prems by (subst (asm) rx_search.simps) simp
    with a match_here_split [OF a] show ?thesis by auto
  qed
qed

lemma rx_all_match:
  "m \<in> set (rx_all r s) \<Longrightarrow>
     \<exists>prev u. match_here r prev u = Some (rm_text m, rm_groups m, rm_after m)"
proof -
  have "m \<in> set (exec_all n r prev s) \<Longrightarrow>
     \<exists>prev u. match_here r prev u = Some (rm_text m, rm_groups m, rm_after m)" for n prev s
  proof (induction n arbitrary: prev s)
    case (Suc n)
    show ?case
    proof (cases "rx_search r prev s")
      case None
      with Suc.prems show ?thesis by simp
    next
      case m': (Some m')
      with Suc.prems have "m = m' \<or> m \<in> set (exec_all n r (Some (last (rm_text m'))) (rm_after m'))"
        by (auto split: if_splits)
      with Suc.IH rx_search_split [OF m'] show ?thesis by blast
    qed
  qed simp
  then show "m \<in> set (rx_all r s) \<Longrightarrow>
     \<exists>prev u. match_here r prev u = Some (rm_text m, rm_groups m, rm_after m)"
    unfolding rx_all_def by blast
qed

section \<open>Where a search stops\<close>

lemma or_try_None2 [simp]: "or_try x None = x"
  by (cases x) auto

lemma or_try_ne: "or_try x y \<noteq> None \<longleftrightarrow> x \<noteq> None \<or> y \<noteq> None"
  by (cases x) auto

lemma rx_search_Cons:
  "rx_search r prev (c # cs) =
     (case match_here r prev (c # cs) of
        Some (t, g, rest) \<Rightarrow> Some \<lparr>rm_before = [], rm_text = t, rm_groups = g, rm_after = rest\<rparr>
      | None \<Rightarrow> map_option (\<lambda>m. m\<lparr>rm_before := c # rm_before m\<rparr>) (rx_search r (Some c) cs))"
  by (subst rx_search.simps) (simp split: option.split)

lemma rx_search_None:
  "rx_search r prev (u @ v) = None \<Longrightarrow> \<exists>pv. match_here r pv v = None"
proof (induction u arbitrary: prev)
  case Nil
  then show ?case by (subst (asm) rx_search.simps) (auto split: option.splits)
next
  case (Cons c u)
  then show ?case by (auto simp: rx_search_Cons split: option.splits)
qed

lemma rx_search_first:
  "rx_search r prev (u @ v) = Some m \<Longrightarrow> length u < length (rm_before m) \<Longrightarrow>
     \<exists>pv. match_here r pv v = None"
proof (induction u arbitrary: prev m)
  case Nil
  then show ?case by (subst (asm) rx_search.simps) (auto split: option.splits list.splits)
next
  case (Cons c u)
  then obtain m' where "rx_search r (Some c) (u @ v) = Some m'" "m = m'\<lparr>rm_before := c # rm_before m'\<rparr>"
    by (auto simp: rx_search_Cons split: option.splits)
  with Cons.IH Cons.prems(2) show ?case by auto
qed

section \<open>Literals\<close>

lemma rxm_lit:
  "rxm (lit s) k (prev, t, g) =
     (if length s \<le> length t \<and> to_lower (take (length s) t) = to_lower s
      then k (if s = [] then prev else Some (last (take (length s) t)), drop (length s) t, g)
      else None)"
proof (induction s arbitrary: prev t)
  case Nil
  then show ?case by (simp add: lit_def)
next
  case (Cons c s)
  have step: "rxm (lit (c # s)) k (prev, t, g) =
      (case t of [] \<Rightarrow> None
       | d # ds \<Rightarrow> if lower_char d = lower_char c then rxm (lit s) k (Some d, ds, g) else None)"
    by (cases s) (simp_all add: lit_def split: list.split)
  show ?case unfolding step by (cases t) (auto simp: Cons.IH to_lower_def take_eq_Nil)
qed

lemma rxm_cat_tail:
  "ys \<noteq> [] \<Longrightarrow> rxm (cat (xs @ ys)) k p = Some x \<Longrightarrow>
     \<exists>p'. rxm (cat ys) k p' = Some x \<and> suffix (rest_of p') (rest_of p)"
proof (induction xs arbitrary: p)
  case (Cons a xs)
  then obtain b r where b: "xs @ ys = b # r" by (cases "xs @ ys") auto
  with Cons.prems have "rxm a (rxm (cat (xs @ ys)) k) p = Some x" by simp
  from rxm_suffix [OF this] obtain p' where p': "rxm (cat (xs @ ys)) k p' = Some x"
      "suffix (rest_of p') (rest_of p)" by blast
  from Cons.IH [OF Cons.prems(1) p'(1)] p'(2) show ?case by (meson suffix_trans2)
next
  case Nil
  then have "rxm (cat ys) k p = Some x" by simp
  then show ?case using suffix_order.order_refl by blast
qed

lemma rxm_Eps: "rxm Eps k = k"
  by (rule ext) simp

lemma rxm_cat_Cons: "rxm (cat (a # r)) k p = rxm a (rxm (cat r) k) p"
  by (cases r) (simp_all add: rxm_Eps)

lemma contains_iff: "contains s pat \<longleftrightarrow> (\<exists>u v. s = u @ pat @ v)"
  by (auto simp: contains_sublist sublist_def)

lemma to_lower_split: "to_lower s = u @ v \<Longrightarrow> \<exists>a b. s = a @ b \<and> to_lower a = u \<and> to_lower b = v"
  unfolding to_lower_def map_eq_append_conv by blast

lemma rx_test_lit:
  assumes "rx_test (cat (xs @ lit s # ys)) t"
  shows "contains (to_lower t) (to_lower s)"
proof -
  obtain m where m: "rx_search (cat (xs @ lit s # ys)) None t = Some m"
    using assms by (auto simp: rx_test_def rx_exec_def)
  from rx_search_split [OF m] obtain prev where t: "rm_before m @ rm_text m @ rm_after m = t"
    and "match_here (cat (xs @ lit s # ys)) prev (rm_text m @ rm_after m) \<noteq> None" by auto
  then obtain x where "rxm (cat (xs @ lit s # ys)) Some (prev, rm_text m @ rm_after m, \<lambda>_. None) = Some x"
    by (auto simp: match_here_def split: option.splits)
  from rxm_cat_tail [OF list.distinct(2) this] obtain pv u g where
    u: "rxm (lit s) (rxm (cat ys) Some) (pv, u, g) = Some x" "suffix u (rm_text m @ rm_after m)"
    by (auto simp: rxm_cat_Cons)
  then have "to_lower u = to_lower s @ to_lower (drop (length s) u)"
    by (metis append_take_drop_id option.distinct(1) rxm_lit to_lower_append)
  moreover obtain a where "t = a @ u" using t u(2) by (metis append.assoc suffix_def)
  ultimately show ?thesis by (auto simp: contains_iff)
qed

lemma rxm_ignores_groups_rest: "rxm (Star any) (rxm Eol Some) p \<noteq> None"
proof -
  have "length (rest_of p) \<le> n \<Longrightarrow> iter_greedy n (rxm any) (rxm Eol Some) p \<noteq> None" for n p
  proof (induction n arbitrary: p)
    case (Suc n)
    obtain pv s g where p: "p = (pv, s, g)" by (cases p)
    show ?case
    proof (cases s)
      case (Cons c cs)
      have "iter_greedy n (rxm any) (rxm Eol Some) (Some c, cs, g) \<noteq> None"
        by (rule Suc.IH) (use Suc.prems p Cons in simp)
      moreover have "rxm any K (pv, c # cs, g) = K (Some c, cs, g)" for K :: "rx_pos rx_cont"
        by (simp only: rxm_any pos_simps list.case)
      ultimately show ?thesis
        unfolding p Cons iter_greedy.simps or_try_ne
        by (simp only: pos_simps list.size less_add_same_cancel1 zero_less_Suc if_True
            add_Suc_right add_0_right lessI simp_thms)
    qed (simp add: p or_try_ne any_def)
  qed simp
  then show ?thesis by simp
qed

lemma rx_replace_shorter:
  "replace_from n r (\<lambda>_. []) prev s = s \<or> length (replace_from n r (\<lambda>_. []) prev s) < length s"
proof (induction n arbitrary: prev s)
  case (Suc n)
  show ?case
  proof (cases "match_here r prev s")
    case None
    then show ?thesis using Suc.IH [of "Some (hd s)" "tl s"] by (cases s) auto
  next
    case (Some a)
    then obtain t g rest where a: "match_here r prev s = Some (t, g, rest)" by (cases a) auto
    then have "t @ rest = s" by (rule match_here_split)
    then show ?thesis
      using a Suc.IH [of "Some (last t)" rest] Suc.IH [of "Some (hd s)" "tl s"]
      by (cases s; cases t) auto
  qed
qed simp

section \<open>The texts that a continuation accepts\<close>

text \<open>Behind an anchor the expressions of the code look at the text only, not at what stands before it.\<close>

definition accepts :: "rx_pos rx_cont \<Rightarrow> (string \<Rightarrow> bool) \<Rightarrow> bool" where
  "accepts k A \<longleftrightarrow> (\<forall>pv s g. k (pv, s, g) \<noteq> None \<longleftrightarrow> A s)"

lemma accepts_Eol: "accepts (rxm Eol Some) (\<lambda>s. s = [])"
  by (simp add: accepts_def)

lemma accepts_Ch: "accepts k A \<Longrightarrow> accepts (rxm (Ch f) k) (\<lambda>s. \<exists>c v. s = c # v \<and> f c \<and> A v)"
  by (simp add: accepts_def split: list.split)

lemma iter_greedy_Ch:
  assumes "accepts k A"
  shows "length s \<le> n \<Longrightarrow>
     iter_greedy n (rxm (Ch f)) k (pv, s, g) \<noteq> None \<longleftrightarrow> (\<exists>u v. s = u @ v \<and> list_all f u \<and> A v)"
proof (induction n arbitrary: pv s)
  case 0
  then show ?case using assms by (simp add: accepts_def)
next
  case (Suc n)
  show ?case
  proof (cases s)
    case Nil
    then show ?thesis using assms by (auto simp: accepts_def or_try_ne simp del: not_None_eq)
  next
    case (Cons c cs)
    have split: "(\<exists>u v. c # cs = u @ v \<and> list_all f u \<and> A v) \<longleftrightarrow>
        f c \<and> (\<exists>u v. cs = u @ v \<and> list_all f u \<and> A v) \<or> A (c # cs)" (is "?l \<longleftrightarrow> ?r")
    proof
      assume ?l
      then obtain u v where uv: "c # cs = u @ v" "list_all f u" "A v" by blast
      then show ?r by (cases u) auto
    next
      assume ?r
      then consider u v where "f c" "cs = u @ v" "list_all f u" "A v" | "A (c # cs)" by blast
      then show ?l
      proof cases
        case 1
        then have "c # cs = (c # u) @ v" "list_all f (c # u)" by simp_all
        with \<open>A v\<close> show ?thesis by blast
      next
        case 2
        then have "c # cs = [] @ c # cs" "list_all f []" by simp_all
        with 2 show ?thesis by blast
      qed
    qed
    have head: "rxm (Ch f) K (pv, c # cs, g) = (if f c then K (Some c, cs, g) else None)" for K :: "rx_pos rx_cont"
      by simp
    have tail: "k (pv, c # cs, g) \<noteq> None \<longleftrightarrow> A (c # cs)" using assms by (simp only: accepts_def)
    have ih: "iter_greedy n (rxm (Ch f)) k (Some c, cs, g) \<noteq> None \<longleftrightarrow> (\<exists>u v. cs = u @ v \<and> list_all f u \<and> A v)"
      by (rule Suc.IH) (use Suc.prems Cons in simp)
    show ?thesis
      unfolding Cons iter_greedy.simps or_try_ne split head tail using ih by (cases "f c") simp_all
  qed
qed

lemma accepts_Star_Ch:
  "accepts k A \<Longrightarrow> accepts (rxm (Star (Ch f)) k) (\<lambda>s. \<exists>u v. s = u @ v \<and> list_all f u \<and> A v)"
  unfolding accepts_def [of "rxm (Star (Ch f)) k"] by (simp add: iter_greedy_Ch del: not_None_eq)

lemma accepts_Plus_Ch:
  assumes "accepts k A"
  shows "accepts (rxm (Plus (Ch f)) k) (\<lambda>s. \<exists>u v. s = u @ v \<and> u \<noteq> [] \<and> list_all f u \<and> A v)"
proof -
  have split: "(\<exists>c w. s = c # w \<and> f c \<and> (\<exists>u v. w = u @ v \<and> list_all f u \<and> A v))
      \<longleftrightarrow> (\<exists>u v. s = u @ v \<and> u \<noteq> [] \<and> list_all f u \<and> A v)" (is "?l \<longleftrightarrow> ?r") for s
  proof
    assume ?l
    then obtain c u v where s: "s = (c # u) @ v" "A v" "f c" "list_all f u" by auto
    show ?r by (rule exI [of _ "c # u"], rule exI [of _ v]) (use s in simp)
  next
    assume ?r
    then obtain u v where s: "s = u @ v" "u \<noteq> []" "list_all f u" "A v" by blast
    then obtain c w where u: "u = c # w" by (cases u) auto
    show ?l
      by (rule exI [of _ c], rule exI [of _ "w @ v"]) (use s u in auto)
  qed
  have "accepts (rxm (Ch f) (rxm (Star (Ch f)) k))
      (\<lambda>s. \<exists>c w. s = c # w \<and> f c \<and> (\<exists>u v. w = u @ v \<and> list_all f u \<and> A v))"
    by (rule accepts_Ch [OF accepts_Star_Ch [OF assms]])
  then show ?thesis unfolding accepts_def Plus_def rxm.simps(3) split .
qed

lemma rx_search_behind_start: "rx_search (Cat (Bol False) r) (Some c) s = None"
  by (induction s arbitrary: c) (subst rx_search.simps, simp add: match_here_def)+

lemma rx_test_start:
  assumes "accepts (rxm (cat (b # r)) Some) A"
  shows "rx_test (cat (Bol False # b # r)) s \<longleftrightarrow> A s"
proof -
  have "rx_test (cat (Bol False # b # r)) s \<longleftrightarrow> match_here (cat (Bol False # b # r)) None s \<noteq> None"
    unfolding rx_test_def rx_exec_def
    by (subst rx_search.simps) (auto simp: rx_search_behind_start split: option.split list.split)
  also have "\<dots> \<longleftrightarrow> rxm (cat (b # r)) Some (None, s, \<lambda>_. None) \<noteq> None"
    by (simp add: match_here_def split: option.split)
  also have "\<dots> \<longleftrightarrow> A s" using assms by (simp only: accepts_def)
  finally show ?thesis .
qed

end
