(* ===== verification/Composer.thy ===== *)
theory Composer
  imports Stores PgpCrypt JsRegexFacts
begin

text \<open>
  The component \<open>Composer\<close> of \<open>frontend/src/components/mail/Composer.tsx\<close>: the form, its suggestions,
  the draft kept in \<open>localStorage\<close>, the closing dialog, and the sending of a message with its
  encryption.  The record holds the state of the component, the mail store that opens and closes
  it, and the stored draft.
\<close>

section \<open>The form\<close>

text \<open>The text in \<open>localStorage\<close>, parsed; \<open>None\<close> when there is none or it is not JSON.\<close>

record local_draft =
  ld_to :: string
  ld_cc :: string
  ld_bcc :: string
  ld_subject :: string
  ld_body :: string

record composer =
  co_mail :: mail_state
  co_saved :: "local_draft option"
  co_to :: string
  co_cc :: string
  co_bcc :: string
  co_showCc :: bool
  co_showBcc :: bool
  co_subject :: string
  co_body :: string
  co_attachments :: "upload_file list"
  co_isSending :: bool
  co_statusText :: "message option"
  co_error :: "message option"
  co_confirmClose :: bool
  co_savingDraft :: bool
  co_encrypt :: bool
  co_sign :: bool
  co_showSignPassModal :: bool
  co_passphrase :: string

definition opt_list :: "'a list option \<Rightarrow> 'a list" where
  "opt_list xo = (case xo of None \<Rightarrow> [] | Some xs \<Rightarrow> xs)"

text \<open>The state of a new component: the key of the composer remounts it for every opening.\<close>

definition mount_composer :: "mail_state \<Rightarrow> local_draft option \<Rightarrow> composer" where
  "mount_composer ms saved =
     (let d = composerDraft ms;
          f = (\<lambda>g. case d of None \<Rightarrow> [] | Some x \<Rightarrow> opt_list (g x));
          s = (\<lambda>g. case d of None \<Rightarrow> [] | Some x \<Rightarrow> opt_string (g x))
      in \<lparr>co_mail = ms, co_saved = saved, co_to = join '', '' (f d_to), co_cc = join '', '' (f d_cc),
          co_bcc = join '', '' (f d_bcc), co_showCc = (f d_cc \<noteq> []), co_showBcc = (f d_bcc \<noteq> []),
          co_subject = s d_subject, co_body = s d_textBody, co_attachments = [], co_isSending = False,
          co_statusText = None, co_error = None, co_confirmClose = False, co_savingDraft = False,
          co_encrypt = False, co_sign = False, co_showSignPassModal = False, co_passphrase = []\<rparr>)"

definition incoming_empty :: "partial_message \<Rightarrow> bool" where
  "incoming_empty d \<longleftrightarrow>
     opt_list (d_to d) = [] \<and> opt_list (d_cc d) = [] \<and> opt_list (d_bcc d) = []
     \<and> \<not> truthy_opt (d_subject d) \<and> \<not> truthy_opt (d_textBody d)"

text \<open>The effect of a new draft of the store: an empty one brings back the stored text.\<close>

definition sync_draft :: "composer \<Rightarrow> composer" where
  "sync_draft c =
     (case (isComposerOpen (co_mail c), composerDraft (co_mail c)) of
        (True, Some d) \<Rightarrow>
          (case (incoming_empty d, co_saved c) of
             (True, Some x) \<Rightarrow>
               c\<lparr>co_to := ld_to x, co_cc := ld_cc x, co_bcc := ld_bcc x, co_showCc := (ld_cc x \<noteq> []),
                 co_showBcc := (ld_bcc x \<noteq> []), co_subject := ld_subject x, co_body := ld_body x,
                 co_attachments := [], co_error := None\<rparr>
           | _ \<Rightarrow>
               c\<lparr>co_to := join '', '' (opt_list (d_to d)), co_cc := join '', '' (opt_list (d_cc d)),
                 co_bcc := join '', '' (opt_list (d_bcc d)), co_showCc := (opt_list (d_cc d) \<noteq> []),
                 co_showBcc := (opt_list (d_bcc d) \<noteq> []), co_subject := opt_string (d_subject d),
                 co_body := opt_string (d_textBody d), co_attachments := [], co_error := None\<rparr>)
      | _ \<Rightarrow> c)"

text \<open>The timer that writes the form to \<open>localStorage\<close> 800 ms after the last change.\<close>

definition autosave :: "composer \<Rightarrow> composer" where
  "autosave c =
     (if isComposerOpen (co_mail c)
      then c\<lparr>co_saved := Some \<lparr>ld_to = co_to c, ld_cc = co_cc c, ld_bcc = co_bcc c,
               ld_subject = co_subject c, ld_body = co_body c\<rparr>\<rparr>
      else c)"

definition addFiles :: "upload_file list \<Rightarrow> composer \<Rightarrow> composer" where
  "addFiles fs c = c\<lparr>co_attachments := co_attachments c @ fs\<rparr>"

definition removeAttachment :: "nat \<Rightarrow> composer \<Rightarrow> composer" where
  "removeAttachment i c =
     c\<lparr>co_attachments := take i (co_attachments c) @ drop (i + 1) (co_attachments c)\<rparr>"

section \<open>Suggestions\<close>

definition getLastToken :: "string \<Rightarrow> string" where
  "getLastToken val = trim (last (split_on CHR '','' val))"

record suggestion =
  sg_id :: string
  sg_email :: string
  sg_displayName :: string

definition mergeSuggest ::
    "suggestion list option \<Rightarrow> pgp_contact_key list option \<Rightarrow> string \<Rightarrow> suggestion list" where
  "mergeSuggest list pgpKeys token =
     (let tkn = to_lower token;
          fromBook = opt_list list;
          extra = map (\<lambda>k. \<lparr>sg_id = ''pgp:'' @ ck_email k, sg_email = ck_email k,
                            sg_displayName = (if truthy_opt (ck_name k) then opt_string (ck_name k) else ck_email k)\<rparr>)
            (filter (\<lambda>k. \<not> list_ex (\<lambda>c. to_lower (sg_email c) = to_lower (ck_email k)) fromBook)
              (filter (\<lambda>k. contains (to_lower (ck_email k)) tkn
                         \<or> contains (to_lower (opt_string (ck_name k))) tkn)
                (opt_list pgpKeys)))
      in fromBook @ extra)"

text \<open>The new value of a field when a suggestion is chosen.\<close>

definition applySuggest :: "string \<Rightarrow> string \<Rightarrow> string" where
  "applySuggest cur email =
     (let parts = split_on CHR '','' cur;
          parts = parts[length parts - 1 := '' '' @ email @ '' ''];
          next = trim (rx_replace (cat [lit_cs '','', Star ws, lit_cs '','']) (\<lambda>_. '','')
            (rx_replace1 (cat [Bol False, lit_cs '','', Star ws]) (\<lambda>_. []) (join '','' parts)))
      in next @ (if next \<noteq> [] \<and> last next = CHR '','' then '' '' else '', ''))"

section \<open>Closing and saving\<close>

text \<open>\<open>to.split(',').map(trim).filter(Boolean)\<close>\<close>

definition address_list :: "string \<Rightarrow> string list" where
  "address_list s = filter (\<lambda>a. a \<noteq> []) (map trim (split_on CHR '','' s))"

definition hasUnsaved :: "composer \<Rightarrow> bool" where
  "hasUnsaved c \<longleftrightarrow>
     trim (co_to c) \<noteq> [] \<or> trim (co_cc c) \<noteq> [] \<or> trim (co_bcc c) \<noteq> [] \<or> trim (co_subject c) \<noteq> []
     \<or> trim (co_body c) \<noteq> [] \<or> co_attachments c \<noteq> []"

definition close_composer :: "composer \<Rightarrow> composer" where
  "close_composer c = c\<lparr>co_mail := closeComposer (co_mail c)\<rparr>"

definition requestClose :: "composer \<Rightarrow> composer" where
  "requestClose c = (if hasUnsaved c then c\<lparr>co_confirmClose := True\<rparr> else close_composer c)"

definition discardAndClose :: "composer \<Rightarrow> composer" where
  "discardAndClose c = close_composer (c\<lparr>co_saved := None, co_confirmClose := False\<rparr>)"

definition draft_field :: "(partial_message \<Rightarrow> string option) \<Rightarrow> composer \<Rightarrow> string option" where
  "draft_field g c = (case composerDraft (co_mail c) of None \<Rightarrow> None | Some d \<Rightarrow> g d)"

definition outgoing :: "account option \<Rightarrow> string \<Rightarrow> string \<Rightarrow> upload_file list \<Rightarrow> composer \<Rightarrow> outgoing_message" where
  "outgoing acc txt html files c =
     \<lparr>om_from = map_option acc_email acc, om_to = address_list (co_to c),
      om_cc = Some (address_list (co_cc c)), om_bcc = Some (address_list (co_bcc c)),
      om_subject = co_subject c, om_inReplyTo = draft_field d_inReplyTo c,
      om_references = draft_field d_references c, om_textBody = Some txt, om_htmlBody = Some html,
      om_attachments = Some files\<rparr>"

definition draft_call :: "account option \<Rightarrow> composer \<Rightarrow> call" where
  "draft_call acc c =
     saveDraft (outgoing acc (co_body c) [] (co_attachments c) c) (map_option acc_id acc)"

text \<open>\<open>saveImapDraft\<close>, with the outcome of its request.\<close>

definition saveImapDraft :: "api_error + unit \<Rightarrow> composer \<Rightarrow> composer" where
  "saveImapDraft res c =
     (case res of
        Inr _ \<Rightarrow> close_composer (c\<lparr>co_error := None, co_saved := None, co_confirmClose := False, co_savingDraft := False\<rparr>)
      | Inl e \<Rightarrow>
          c\<lparr>co_error := Some (message_or ''composer.draftFailed'' (emessage e)), co_confirmClose := False,
            co_savingDraft := False\<rparr>)"

section \<open>Sending\<close>

text \<open>What the answers of the outside world are: the library, the server, the key servers, and the
  answer to the request that sends the message.\<close>

record ('k, 'm) outside =
  w_lib :: "('k, 'm) openpgp"
  w_server :: pgp_server
  w_fetched :: "string \<Rightarrow> (nat \<times> string) option"
  w_reply :: "call list \<Rightarrow> api_error + unit"

definition known_key :: "pgp_contact_key list \<Rightarrow> string \<Rightarrow> string option" where
  "known_key contacts recipient =
     map_option ck_publicKeyArmored
       (find (\<lambda>c. to_lower (ck_email c) = to_lower recipient) contacts)"

text \<open>The loop over the recipients: the keys that were found, or the recipient at which an error was
  thrown.\<close>

fun find_keys ::
    "('k, 'm) outside \<Rightarrow> bool \<Rightarrow> pgp_contact_key list \<Rightarrow> string list \<Rightarrow> string list \<Rightarrow> pgp_world
       \<Rightarrow> (string + string list) \<times> pgp_world" where
  "find_keys ow enc contacts [] keys w = (Inr keys, w)"
| "find_keys ow enc contacts (r # rs) keys w =
     (if truthy_opt (known_key contacts r) then
        find_keys ow enc contacts rs (keys @ [opt_string (known_key contacts r)]) w
      else if enc then
        (case fetchPublicKeyFromKeyserver (w_fetched ow) r of
           None \<Rightarrow> find_keys ow enc contacts rs keys w
         | Some k \<Rightarrow>
             (case saveContactKey (w_lib ow) (w_server ow) r k None w of
                (Inl e, w) \<Rightarrow> (Inl r, w)
              | (Inr _, w) \<Rightarrow> find_keys ow enc contacts rs (keys @ [k]) w))
      else find_keys ow enc contacts rs keys w)"

definition pgp_name :: "string \<Rightarrow> string" where
  "pgp_name n = (if suffix ''.pgp'' n then n else n @ ''.pgp'')"

definition encrypt_file ::
    "('k, 'm) openpgp \<Rightarrow> string list \<Rightarrow> string option \<Rightarrow> string option \<Rightarrow> upload_file \<Rightarrow> api_error + upload_file" where
  "encrypt_file lib keys signer pass f =
     bindE (encryptBinary lib (map code (f_data f)) keys signer pass) (\<lambda>enc.
       Inr \<lparr>f_name = pgp_name (f_name f), f_type = ''application/pgp-encrypted'', f_data = map char_of enc\<rparr>)"

fun mapE :: "('a \<Rightarrow> api_error + 'b) \<Rightarrow> 'a list \<Rightarrow> api_error + 'b list" where
  "mapE f [] = Inr []"
| "mapE f (x # xs) = bindE (f x) (\<lambda>y. bindE (mapE f xs) (\<lambda>ys. Inr (y # ys)))"

definition encrypt_message ::
    "('k, 'm) openpgp \<Rightarrow> string list \<Rightarrow> string option \<Rightarrow> string option \<Rightarrow> composer
       \<Rightarrow> api_error + string \<times> upload_file list" where
  "encrypt_message lib keys signer pass c =
     bindE (encrypt lib (co_body c) keys signer pass) (\<lambda>body.
       if co_encrypt c \<and> co_attachments c \<noteq> []
       then bindE (mapE (encrypt_file lib keys signer pass) (co_attachments c)) (\<lambda>files. Inr (body, files))
       else Inr (body, co_attachments c))"

text \<open>The PGP part of \<open>performSend\<close>: an error that is thrown out of the handler, an error that is shown,
  or what is to be sent.\<close>

datatype pgp_part = Thrown string | Refused message | Ready string "upload_file list"

definition keys_to_use :: "string list \<Rightarrow> pgp_key_pair option \<Rightarrow> string list" where
  "keys_to_use keys myKeyPair =
     (if keys \<noteq> [] then keys
      else (case myKeyPair of None \<Rightarrow> [] | Some kp \<Rightarrow> [kp_publicKeyArmored kp]))"

definition prepare ::
    "('k, 'm) outside \<Rightarrow> string option \<Rightarrow> composer \<Rightarrow> pgp_world \<Rightarrow> pgp_part \<times> pgp_world" where
  "prepare ow pass c w =
     (if \<not> co_encrypt c \<and> \<not> co_sign c then (Ready (co_body c) (co_attachments c), w)
      else
        (let toList = address_list (co_to c);
             (myKeyPair, w) = ensureKey (w_server ow) w;
             (contacts, w) = getContactKeys (w_server ow) w
         in case find_keys ow (co_encrypt c) contacts toList [] w of
              (Inl r, w) \<Rightarrow> (Thrown r, w)
            | (Inr keys, w) \<Rightarrow>
                if co_encrypt c \<and> keys = [] then
                  (Refused (Tr ''composer.missingKeys'' [(''emails'', Raw (join '', '' toList))]), w)
                else if co_encrypt c \<and> length keys < length toList then
                  (Refused (Tr ''composer.someMissingKeys''
                     [(''count'', Raw (nat_str (length toList - length keys)))]), w)
                else
                  (case encrypt_message (w_lib ow) (keys_to_use keys myKeyPair)
                          (if co_sign c then map_option kp_privateKeyArmored myKeyPair else None) pass c of
                     Inl e \<Rightarrow> (Refused (Tr ''composer.pgpFailed'' [(''error'', emessage e)]), w)
                   | Inr (body, files) \<Rightarrow> (Ready body files, w))))"

definition html_of :: "composer \<Rightarrow> string \<Rightarrow> string" where
  "html_of c body =
     (if co_encrypt c \<or> co_sign c then []
      else ''<div>'' @ replace_char nl ''<br/>'' body @ ''</div>'')"

definition send_call :: "account option \<Rightarrow> composer \<Rightarrow> string \<Rightarrow> upload_file list \<Rightarrow> call" where
  "send_call acc c body files =
     sendMessage (outgoing acc body (html_of c body) files c) (map_option acc_id acc)"

definition performSend ::
    "('k, 'm) outside \<Rightarrow> account option \<Rightarrow> string option \<Rightarrow> composer \<times> pgp_world \<Rightarrow> composer \<times> pgp_world" where
  "performSend ow acc pass cw =
     (case cw of (c, w) \<Rightarrow>
        (case prepare ow pass c w of
           (Thrown r, w) \<Rightarrow>
             (c\<lparr>co_isSending := True, co_error := None,
                co_statusText := Some (Tr ''composer.fetchingKey'' [(''recipient'', Raw r)])\<rparr>, w)
         | (Refused m, w) \<Rightarrow> (c\<lparr>co_isSending := False, co_error := Some m, co_statusText := None\<rparr>, w)
         | (Ready body files, w) \<Rightarrow>
             (let w = send (send_call acc c body files) w
              in case w_reply ow (sentCalls w) of
                   Inr _ \<Rightarrow>
                     (close_composer (c\<lparr>co_showSignPassModal := False, co_saved := None, co_error := None,
                        co_isSending := False, co_statusText := None\<rparr>), w)
                 | Inl e \<Rightarrow>
                     (c\<lparr>co_error := Some (message_or ''composer.sendFailed'' (emessage e)), co_isSending := False,
                        co_statusText := None\<rparr>, w))))"

definition handleSubmit ::
    "('k, 'm) outside \<Rightarrow> account option \<Rightarrow> composer \<times> pgp_world \<Rightarrow> composer \<times> pgp_world" where
  "handleSubmit ow acc cw =
     (case cw of (c, w) \<Rightarrow>
        if trim (co_to c) = [] then (c\<lparr>co_error := Some (Tr ''composer.needRecipient'' [])\<rparr>, w)
        else if co_sign c then
          (case ensureKey (w_server ow) w of
             (None, w) \<Rightarrow> (c\<lparr>co_error := Some (Tr ''composer.needPrivateKey'' [])\<rparr>, w)
           | (Some kp, w) \<Rightarrow>
               if isPrivateKeyEncrypted (w_lib ow) (kp_privateKeyArmored kp) \<and> co_passphrase c = []
               then (c\<lparr>co_showSignPassModal := True\<rparr>, w)
               else performSend ow acc (Some (co_passphrase c)) (c, w))
        else performSend ow acc (Some (co_passphrase c)) (c, w))"

end
