(* ===== verification/ComposerProps.thy ===== *)
theory ComposerProps
  imports Composer
begin

text \<open>
  Properties of the composer: what a message that is sent with encryption consists of and for whom,
  what the signature switch does on its own, and where the handler stops.
\<close>

section \<open>Requests before the message\<close>

definition pgp_call :: "call \<Rightarrow> bool" where
  "pgp_call c \<longleftrightarrow> starts_with (fst c) ''/pgp/''"

text \<open>\<open>w'\<close> is a later world in which only requests about keys were sent.\<close>

definition only_pgp :: "pgp_world \<Rightarrow> pgp_world \<Rightarrow> bool" where
  "only_pgp w w' \<longleftrightarrow> (\<exists>cs. list_all pgp_call cs \<and> sentCalls w' = sentCalls w @ cs)"

lemma only_pgp_refl [simp]: "only_pgp w w"
  by (auto simp: only_pgp_def)

lemma only_pgp_trans: "only_pgp w w' \<Longrightarrow> only_pgp w' w'' \<Longrightarrow> only_pgp w w''"
  by (auto simp: only_pgp_def)

lemma only_pgp_send: "pgp_call c \<Longrightarrow> only_pgp w (send c w)"
  by (simp add: only_pgp_def)

lemma pgp_calls:
  "pgp_call keyring_call" "pgp_call contacts_call" "pgp_call (save_contact_call e n k i)"
  by (simp_all add: pgp_call_def keyring_call_def contacts_call_def save_contact_call_def starts_with_def)

lemma only_pgp_saveKeyPair: "only_pgp w w' \<Longrightarrow> only_pgp w (saveKeyPair kp w')"
  by (simp add: only_pgp_def saveKeyPair_def)

lemma only_pgp_ensureKey: "only_pgp w (snd (ensureKey sv w))"
  using only_pgp_send [OF pgp_calls(1), of w]
  by (auto simp: ensureKey_def fetchKeyringFromCloud_def Let_def only_pgp_saveKeyPair
      split: option.split sum.split)

lemma only_pgp_getContactKeys: "only_pgp w (snd (getContactKeys sv w))"
  using only_pgp_send [OF pgp_calls(2)] by (simp add: getContactKeys_def Let_def)

lemma only_pgp_saveContactKey: "only_pgp w (snd (saveContactKey lib sv e k n w))"
  using only_pgp_send [OF pgp_calls(3)]
  by (simp add: saveContactKey_def Let_def split: sum.split)

lemma only_pgp_find_keys: "only_pgp w (snd (find_keys ow enc contacts rs keys w))"
proof (induction rs arbitrary: keys w)
  case (Cons r rs)
  show ?case
  proof (cases "truthy_opt (known_key contacts r) \<or> \<not> enc \<or> fetchPublicKeyFromKeyserver (w_fetched ow) r = None")
    case False
    then obtain k where k: "fetchPublicKeyFromKeyserver (w_fetched ow) r = Some k" by auto
    obtain res w1 where s: "saveContactKey (w_lib ow) (w_server ow) r k None w = (res, w1)" by fastforce
    then have "only_pgp w w1"
      using only_pgp_saveContactKey [of w "w_lib ow" "w_server ow" r k None] by simp
    then have "only_pgp w (snd (find_keys ow enc contacts rs (keys @ [k]) w1))"
      using Cons.IH by (rule only_pgp_trans)
    then show ?thesis using False k s \<open>only_pgp w w1\<close> by (cases res) auto
  qed (use Cons.IH in auto)
qed simp

lemma only_pgp_prepare: "only_pgp w (snd (prepare ow pass c w))"
proof -
  obtain kp w1 where e: "ensureKey (w_server ow) w = (kp, w1)" by fastforce
  obtain cs w2 where g: "getContactKeys (w_server ow) w1 = (cs, w2)" by fastforce
  obtain r w3 where f: "find_keys ow (co_encrypt c) cs (address_list (co_to c)) [] w2 = (r, w3)" by fastforce
  have "only_pgp w w3"
    using only_pgp_ensureKey [of w "w_server ow"] only_pgp_getContactKeys [of w1 "w_server ow"]
      only_pgp_find_keys [of w2 ow "co_encrypt c" cs "address_list (co_to c)" "[]"] e g f
    by (auto intro: only_pgp_trans)
  then show ?thesis by (auto simp: prepare_def e g f Let_def split: sum.split)
qed

section \<open>Keys and recipients\<close>

lemma find_keys_length:
  "fst (find_keys ow enc contacts rs keys w) = Inr ks \<Longrightarrow> length ks \<le> length keys + length rs"
proof (induction rs arbitrary: keys w)
  case (Cons r rs)
  then show ?case
    by (auto split: if_splits option.splits sum.splits prod.splits) (force dest: Cons.IH)+
qed simp

lemma find_keys_unknown:
  "list_all (\<lambda>r. \<not> truthy_opt (known_key contacts r)) rs \<Longrightarrow>
     find_keys ow False contacts rs keys w = (Inr keys, w)"
  by (induction rs) auto

lemma mapE_Inr: "mapE f xs = Inr ys \<Longrightarrow> list_all2 (\<lambda>x y. f x = Inr y) xs ys"
  by (induction xs arbitrary: ys) (auto simp: bindE_Inr_iff)

lemma collectE_length: "collectE xs = Inr ys \<Longrightarrow> length ys = length xs"
proof (induction xs arbitrary: ys rule: collectE.induct)
  case (3 x r)
  then show ?case by (cases "collectE r") auto
qed simp_all

text \<open>The body and the files are encrypted for exactly as many keys as there are To recipients.\<close>

definition sealed :: "('k, 'm) openpgp \<Rightarrow> composer \<Rightarrow> string \<Rightarrow> upload_file list \<Rightarrow> bool" where
  "sealed lib c body files \<longleftrightarrow>
     (\<exists>pks signer.
        pks \<noteq> [] \<and> length pks = length (address_list (co_to c))
        \<and> encryptText lib (co_body c) pks signer = Inr body
        \<and> list_all2 (\<lambda>f f'. \<exists>enc. encryptBytes lib (map code (f_data f)) pks signer = Inr enc
             \<and> f_data f' = map char_of enc) (co_attachments c) files)"

lemma encrypt_keys:
  assumes "encrypt lib msg recipients signer pass = Inr body"
  shows "\<exists>pks s. collectE (map (readKey lib) recipients) = Inr pks
    \<and> signing_key lib sign_error signer pass = Inr s \<and> encryptText lib msg pks s = Inr body"
  using assms unfolding encrypt_def bindE_Inr_iff of_lib_Inr_iff by blast

lemma unlock_err: "unlock lib e1 pass k = Inr k' \<Longrightarrow> unlock lib e2 pass k = Inr k'"
  by (simp add: unlock_def split: if_splits sum.splits)

lemma signing_key_err:
  assumes "signing_key lib e1 signer pass = Inr s"
  shows "signing_key lib e2 signer pass = Inr s"
proof (cases "truthy_opt signer")
  case True
  with assms obtain k k' where k: "readPrivateKey lib (opt_string signer) = Inr k"
      "unlock lib e1 pass k = Inr k'" "s = Some k'"
    unfolding signing_key_def by (simp add: bindE_Inr_iff of_lib_Inr_iff) blast
  from True k(1,3) unlock_err [OF k(2), of e2] show ?thesis by (simp add: signing_key_def)
qed (use assms in \<open>simp add: signing_key_def\<close>)

lemma encrypt_file_keys:
  assumes "encrypt_file lib keys signer pass f = Inr f'" "collectE (map (readKey lib) keys) = Inr pks"
    and "signing_key lib sign_error signer pass = Inr s"
  shows "\<exists>enc. encryptBytes lib (map code (f_data f)) pks s = Inr enc \<and> f_data f' = map char_of enc"
proof -
  from assms(1) obtain enc where e: "encryptBinary lib (map code (f_data f)) keys signer pass = Inr enc"
      "f_data f' = map char_of enc" by (auto simp: encrypt_file_def bindE_Inr_iff)
  then obtain s' where s': "signing_key lib (\<lambda>e. thrown (Raw e)) signer pass = Inr s'"
      "encryptBytes lib (map code (f_data f)) pks s' = Inr enc"
    using assms(2) by (auto simp: encryptBinary_def bindE_Inr_iff of_lib_Inr_iff)
  from signing_key_err [OF s'(1), of sign_error] assms(3) have "s' = s" by simp
  with s'(2) e(2) show ?thesis by blast
qed

lemma encrypt_message_sealed:
  assumes "encrypt_message lib keys signer pass c = Inr (body, files)" "co_encrypt c"
    and "keys \<noteq> []" "length keys = length (address_list (co_to c))"
  shows "sealed lib c body files"
proof -
  from assms(1) have e: "encrypt lib (co_body c) keys signer pass = Inr body"
    by (auto simp: encrypt_message_def bindE_Inr_iff split: if_splits)
  from encrypt_keys [OF e] obtain pks s where
    pks: "collectE (map (readKey lib) keys) = Inr pks" and
    s: "signing_key lib sign_error signer pass = Inr s" and
    body: "encryptText lib (co_body c) pks s = Inr body" by blast
  have "mapE (encrypt_file lib keys signer pass) (co_attachments c) = Inr files"
    using assms(1,2) by (auto simp: encrypt_message_def bindE_Inr_iff split: if_splits)
  from mapE_Inr [OF this] have files: "list_all2 (\<lambda>f f'.
      \<exists>enc. encryptBytes lib (map code (f_data f)) pks s = Inr enc \<and> f_data f' = map char_of enc)
      (co_attachments c) files"
    by (rule list_all2_mono) (rule encrypt_file_keys [OF _ pks s])
  have "length pks = length keys" using collectE_length [OF pks] by simp
  then have "length pks = length (address_list (co_to c))" "pks \<noteq> []" using assms(3,4) by auto
  with body files show ?thesis unfolding sealed_def by (intro exI [of _ pks] exI [of _ s] conjI)
qed

lemma prepare_sealed:
  assumes "prepare ow pass c w = (Ready body files, w')" "co_encrypt c"
  shows "sealed (w_lib ow) c body files"
proof -
  obtain kp w1 where e: "ensureKey (w_server ow) w = (kp, w1)" by fastforce
  obtain cs w2 where g: "getContactKeys (w_server ow) w1 = (cs, w2)" by fastforce
  obtain r w3 where f: "find_keys ow True cs (address_list (co_to c)) [] w2 = (r, w3)" by fastforce
  from assms obtain keys where keys: "r = Inr keys" "keys \<noteq> []" "\<not> length keys < length (address_list (co_to c))"
    and m: "encrypt_message (w_lib ow) (keys_to_use keys kp)
        (if co_sign c then map_option kp_privateKeyArmored kp else None) pass c = Inr (body, files)"
    by (cases r) (auto simp: prepare_def e g f Let_def split: sum.splits if_split_asm)
  have "length keys = length (address_list (co_to c))"
    using find_keys_length [of ow True cs "address_list (co_to c)" "[]" w2 keys] f keys by simp
  with encrypt_message_sealed [OF m assms(2)] keys(2) show ?thesis by (simp add: keys_to_use_def)
qed

section \<open>Properties\<close>


definition bob_contact :: pgp_contact_key where
  "bob_contact =
     \<lparr>ck_email = ''bob@x'', ck_name = None, ck_publicKeyArmored = ''pub'', ck_fingerprint = ''B'', ck_keyId = None\<rparr>"

text \<open>A library that marks what it encrypts with the number of keys, and a server that knows Bob.\<close>

definition marking_lib :: "(string, string) openpgp" where
  "marking_lib =
     \<lparr>readKey = Inr, readKeys = (\<lambda>s. Inr [s]), readBinaryKeys = (\<lambda>_. Inr []), readPrivateKey = Inr,
      readBinaryPrivateKey = (\<lambda>_. Inl []), armor = Inr, userIDs = (\<lambda>_. []), keyIdHex = (\<lambda>_. []),
      fingerprintHex = (\<lambda>_. []), toPublic = (\<lambda>k. k), isDecrypted = (\<lambda>_. True), decryptKey = (\<lambda>k p. Inr k),
      generateKeys = (\<lambda>n e p. Inr ([], [])), encryptText = (\<lambda>m ks s. Inr (concat ks @ ''#'' @ rev m)),
      encryptBytes = (\<lambda>m ks s. Inr (length ks # rev m)), readMessage = Inr,
      decryptMessage = (\<lambda>m k vs. Inr (m, []))\<rparr>"

definition bob_outside :: "(string, string) outside" where
  "bob_outside =
     \<lparr>w_lib = marking_lib,
      w_server = \<lparr>sv_unit = (\<lambda>_. Inr ()), sv_bulk = (\<lambda>_. Inr (1, [])), sv_import = (\<lambda>_. Inr (0, [], 0)),
        sv_keyring = (\<lambda>_. Inr (Some \<lparr>cl_email = ''me@x'', cl_publicKeyArmored = ''mine'',
          cl_encryptedPrivateKeyArmored = ''priv'', cl_fingerprint = [], cl_keyId = [], cl_updatedAt = []\<rparr>)),
        sv_contacts = (\<lambda>_. Inr [bob_contact]), sv_contact = (\<lambda>_. Inr bob_contact)\<rparr>,
      w_fetched = (\<lambda>_. None), w_reply = (\<lambda>_. Inr ())\<rparr>"

definition idle_world :: pgp_world where
  "idle_world = \<lparr>memoryKeyPair = None, sentCalls = []\<rparr>"

definition mail_to :: "string \<Rightarrow> bool \<Rightarrow> bool \<Rightarrow> composer" where
  "mail_to recipient enc sign =
     (mount_composer (init_mail empty_browser) None)
       \<lparr>co_to := recipient, co_body := ''Hi'', co_encrypt := enc, co_sign := sign\<rparr>"


text \<open>The signature switch on its own encrypts: when no key of a To recipient is stored, the message
  is encrypted for the key of the sender alone, so no recipient can read it, while the
  attachments are sent in clear and without a signature.\<close>

theorem sign_only_encrypts_for_sender:
  assumes "\<not> co_encrypt c" and "co_sign c" and "ensureKey (w_server ow) w = (Some kp, w1)"
    and "list_all (\<lambda>r. \<not> truthy_opt (known_key (fst (getContactKeys (w_server ow) w1)) r))
      (address_list (co_to c))"
    and "prepare ow pass c w = (Ready body files, w')"
  shows "encrypt (w_lib ow) (co_body c) [kp_publicKeyArmored kp] (Some (kp_privateKeyArmored kp)) pass = Inr body
    \<and> files = co_attachments c"
proof -
  obtain cs w2 where g: "getContactKeys (w_server ow) w1 = (cs, w2)" by fastforce
  have f: "find_keys ow False cs (address_list (co_to c)) [] w2 = (Inr [], w2)"
    using assms(4) g by (simp add: find_keys_unknown)
  from assms(5) have
    "encrypt_message (w_lib ow) [kp_publicKeyArmored kp] (Some (kp_privateKeyArmored kp)) pass c = Inr (body, files)"
    using assms(1,2) by (auto simp: prepare_def assms(3) g f Let_def keys_to_use_def split: sum.splits)
  then show ?thesis using assms(1) by (auto simp: encrypt_message_def bindE_Inr_iff)
qed

theorem sign_only_encrypts_for_sender_witness:
  "encrypt marking_lib ''Hi'' [''mine''] (Some ''priv'') None = Inr ''mine#iH''"
proof -
  let ?c = "mail_to ''ann@x'' False True"
  let ?kp = "cloud_key_pair \<lparr>cl_email = ''me@x'', cl_publicKeyArmored = ''mine'',
          cl_encryptedPrivateKeyArmored = ''priv'', cl_fingerprint = [], cl_keyId = [], cl_updatedAt = []\<rparr>"
  let ?w1 = "saveKeyPair (Some ?kp) (send keyring_call idle_world)"
  have c: "\<not> co_encrypt ?c" "co_sign ?c" by (simp_all add: mail_to_def)
  have e: "ensureKey (w_server bob_outside) idle_world = (Some ?kp, ?w1)"
    by (simp add: ensureKey_def idle_world_def fetchKeyringFromCloud_def bob_outside_def)
  have to: "address_list (co_to ?c) = [''ann@x'']"
    by (simp add: mail_to_def address_list_def) code_simp
  have k: "known_key [bob_contact] ''ann@x'' = None" by code_simp
  have l: "list_all (\<lambda>r. \<not> truthy_opt (known_key (fst (getContactKeys (w_server bob_outside) ?w1)) r))
      (address_list (co_to ?c))"
    unfolding to by (simp add: getContactKeys_def bob_outside_def k truthy_opt_def)
  have "\<exists>w'. prepare bob_outside None ?c idle_world = (Ready ''mine#iH'' [], w')"
    using c k by (simp add: prepare_def e to) (simp add: getContactKeys_def bob_outside_def truthy_opt_def
        encrypt_message_def encrypt_def marking_lib_def signing_key_def unlock_def keys_to_use_def
        cloud_key_pair_def mail_to_def mount_composer_def Let_def)
  then obtain w' where "prepare bob_outside None ?c idle_world = (Ready ''mine#iH'' [], w')" ..
  from sign_only_encrypts_for_sender [OF c e l this] show ?thesis
    by (simp add: bob_outside_def cloud_key_pair_def mail_to_def)
qed

section \<open>Where the handler stops\<close>

text \<open>An error while the key of a key server is stored is thrown out of the handler: the composer stays
  in the state of sending.\<close>

lemma thrown_leaves_sending:
  assumes "prepare ow pass c w = (Thrown r, w')"
  shows "co_isSending (fst (performSend ow acc pass (c, w)))"
  using assms by (simp add: performSend_def)

text \<open>Without PGP the typed text becomes markup as it is.\<close>

lemma typed_text_is_markup: "html_of (mail_to [] False False) ''1 <b 2'' = ''<div>1 <b 2</div>''"
  by (simp add: html_of_def mail_to_def)

end
