(* ===== verification/ViewerProps.thy ===== *)
theory ViewerProps
  imports Viewer ComposerProps MessageListProps
begin

text \<open>
  Properties of the viewer: the message that opens after a deletion, against the choice that the
  message list makes; the updates of the cached lists; the text that a reply quotes; the way of a
  reply into the composer.
\<close>

section \<open>Neighbours\<close>

lemma index_where_Some:
  "index_where P xs = Some i \<Longrightarrow> i < length xs \<and> P (xs ! i)"
proof -
  assume a: "index_where P xs = Some i"
  then have i: "i = length (takeWhile (\<lambda>x. \<not> P x) xs)" and ex: "\<exists>x \<in> set xs. P x"
    by (auto simp: index_where_def list_ex_iff split: if_splits)
  from ex have "takeWhile (\<lambda>x. \<not> P x) xs \<noteq> xs" by (metis takeWhile_eq_all_conv)
  then have lt: "i < length xs" unfolding i
    by (metis length_takeWhile_le le_neq_implies_less takeWhile_eq_take take_all_iff order_refl)
  with nth_length_takeWhile [of "\<lambda>x. \<not> P x" xs] i show ?thesis by simp
qed

lemma index_where_None: "index_where P xs = None \<longleftrightarrow> (\<forall>x \<in> set xs. \<not> P x)"
  by (auto simp: index_where_def list_ex_iff)

lemma find_filter: "find P xs = nth_opt (filter P xs) 0"
  by (induction xs) (simp_all add: nth_opt_def)

lemma find_all: "\<forall>x \<in> set xs. P x \<Longrightarrow> find P xs = nth_opt xs 0"
  by (simp add: find_filter)

lemma nth_opt_drop: "nth_opt (drop n xs) 0 = nth_opt xs (int n)"
  by (auto simp: nth_opt_def)

lemma nth_opt_rev_take: "i \<le> length xs \<Longrightarrow> nth_opt (rev (take i xs)) 0 = nth_opt xs (int i - 1)"
  by (cases i) (auto simp: nth_opt_def rev_nth take_Suc_conv_app_nth)

text \<open>The two loops of the message list stop at the neighbours when these are kept.\<close>

lemma neighbour_kept:
  assumes "i < length xs" and "\<forall>x \<in> set (take i xs) \<union> set (drop (i + 1) xs). keep x"
  shows "or_opt (next_kept keep i xs) (prev_kept keep i xs) = neighbour xs i"
proof -
  have "next_kept keep i xs = nth_opt xs (int i + 1)"
    using assms(2) nth_opt_drop [of "i + 1" xs] by (simp add: next_kept_def find_all add.commute)
  moreover have "prev_kept keep i xs = nth_opt xs (int i - 1)"
    using assms nth_opt_rev_take [of i xs] by (simp add: prev_kept_def find_all)
  ultimately show ?thesis by (simp add: neighbour_def)
qed

lemma around_index: "i < length xs \<Longrightarrow> xs = take i xs @ xs ! i # drop (i + 1) xs"
  using id_take_nth_drop [of i xs] by simp

lemma others_differ:
  assumes "distinct (map f xs)" and "i < length xs"
    and "x \<in> set (take i xs) \<union> set (drop (i + 1) xs)"
  shows "f x \<noteq> f (xs ! i)"
proof -
  have "map f xs = map f (take i xs) @ f (xs ! i) # map f (drop (i + 1) xs)"
    using arg_cong [OF around_index [OF assms(2)], of "map f"] by simp
  with assms(1) have "distinct (map f (take i xs) @ f (xs ! i) # map f (drop (i + 1) xs))" by metis
  with assms(3) show ?thesis by (auto simp: rev_image_eqI)
qed

lemma or_opt_assoc: "or_opt x (or_opt y z) = or_opt (or_opt x y) z"
  by (simp add: or_opt_def split: option.split)

lemma next_in_list_agrees:
  assumes "distinct (map ms_uid ms)"
  shows "next_in_list u ms = map_option ms_uid (reselect_flat ms u [u])"
proof (cases "index_where (\<lambda>m. ms_uid m = u) ms")
  case None
  then show ?thesis by (simp add: next_in_list_def reselect_flat_def find_filter)
next
  case (Some i)
  then have i: "i < length ms" "ms_uid (ms ! i) = u" using index_where_Some by blast+
  have "or_opt (next_kept (\<lambda>m. ms_uid m \<noteq> u) i ms) (prev_kept (\<lambda>m. ms_uid m \<noteq> u) i ms) = neighbour ms i"
    using others_differ [OF assms i(1)] i by (intro neighbour_kept) auto
  with Some show ?thesis
    by (simp add: next_in_list_def reselect_flat_def find_filter or_opt_assoc)
qed

text \<open>Threads that have messages, no message in two of them.\<close>

definition threads_apart :: "thread_summary list \<Rightarrow> bool" where
  "threads_apart ts \<longleftrightarrow>
     list_all (\<lambda>t. th_messages t \<noteq> []) ts \<and> distinct (concat (map memberUIDs ts))"

lemma threads_apart_kept:
  assumes "threads_apart ts" and "i < length ts" and "u \<in> set (memberUIDs (ts ! i))"
    and "t \<in> set (take i ts) \<union> set (drop (i + 1) ts)"
  shows "\<not> list_all (\<lambda>m. ms_uid m = u) (th_messages t)"
proof -
  have "concat (map memberUIDs ts)
      = concat (map memberUIDs (take i ts)) @ memberUIDs (ts ! i) @ concat (map memberUIDs (drop (i + 1) ts))"
    using arg_cong [OF around_index [OF assms(2)], of "\<lambda>ts. concat (map memberUIDs ts)"] by simp
  with assms(1) have d: "distinct (concat (map memberUIDs (take i ts)) @ memberUIDs (ts ! i)
      @ concat (map memberUIDs (drop (i + 1) ts)))" by (metis threads_apart_def)
  have t: "t \<in> set ts" using assms(4) by (auto dest: in_set_takeD in_set_dropD)
  have "u \<notin> set (memberUIDs t)" using d assms(3,4) by auto
  moreover have "th_messages t \<noteq> []" using assms(1) t by (auto simp: threads_apart_def list_all_iff)
  ultimately show ?thesis by (cases "th_messages t") (auto simp: memberUIDs_def)
qed

lemma next_in_threads_agrees:
  assumes "threads_apart ts"
  shows "next_in_threads dv u ts = Some (map_option ms_uid (reselect_thread dv ts u [u]))"
proof (cases "index_where (\<lambda>t. list_ex (\<lambda>m. ms_uid m = u) (th_messages t)) ts")
  case None
  then show ?thesis by (simp add: next_in_threads_def reselect_thread_def)
next
  case (Some i)
  let ?keep = "\<lambda>t. \<not> list_all (\<lambda>m. ms_uid m = u) (th_messages t)"
  let ?remain = "filter (\<lambda>m. ms_uid m \<noteq> u) (th_messages (ts ! i))"
  have i: "i < length ts" "u \<in> set (memberUIDs (ts ! i))"
    using index_where_Some [OF Some] by (auto simp: memberUIDs_def list_ex_iff)
  have nb: "or_opt (next_kept ?keep i ts) (prev_kept ?keep i ts) = neighbour ts i"
    using threads_apart_kept [OF assms i] i(1) by (intro neighbour_kept) auto
  have new: "\<exists>m. newest dv (th_messages t) = Some m" if "t \<in> set ts" for t
    using that assms newest_None [of dv "th_messages t"]
    by (cases "newest dv (th_messages t)") (auto simp: threads_apart_def list_all_iff)
  have ntm: "t \<in> set ts" if "neighbour ts i = Some t" for t
    using that by (auto simp: neighbour_def nth_opt_def or_opt_def split: if_splits)
  show ?thesis
  proof (cases "?remain = []")
    case False
    then obtain m where "newest dv ?remain = Some m" using newest_None [of dv ?remain] by blast
    with False Some show ?thesis
      by (simp add: next_in_threads_def reselect_thread_def newest_uid_def)
  next
    case True
    have l: "reselect_thread dv ts u [u]
        = (case or_opt (neighbour ts i) (find ?keep ts) of None \<Rightarrow> None | Some t \<Rightarrow> newest dv (th_messages t))"
      using True Some by (simp add: reselect_thread_def or_opt_assoc nb)
    have v: "next_in_threads dv u ts
        = (case or_opt (neighbour ts i) (find ?keep ts) of
             None \<Rightarrow> Some None | Some t \<Rightarrow> map_option Some (newest_uid dv (th_messages t)))"
      using True Some
      by (cases "neighbour ts i"; cases "filter ?keep ts")
        (simp_all add: next_in_threads_def or_opt_def find_filter nth_opt_def)
    have "t \<in> set ts" if "or_opt (neighbour ts i) (find ?keep ts) = Some t" for t
      using or_opt_cases [OF that] ntm [of t] find_keep [of ?keep ts t] by (elim disjE) simp_all
    then have "\<exists>m. newest dv (th_messages t) = Some m" if "or_opt (neighbour ts i) (find ?keep ts) = Some t" for t
      using that new by simp
    then show ?thesis
      unfolding l v by (cases "or_opt (neighbour ts i) (find ?keep ts)") (auto simp: newest_uid_def simp del: or_opt_None)
  qed
qed

section \<open>After a deletion\<close>

text \<open>A result of the kind that the mode of the list asks for, every message in it once.\<close>

definition listed_once :: "mail_state \<Rightarrow> message_list_result \<Rightarrow> bool" where
  "listed_once s r \<longleftrightarrow>
     (if listMode s = Threads
      then ml_mode r = Some Threads \<and> (\<exists>ts. ml_threads r = Some ts \<and> threads_apart ts)
      else ml_mode r \<noteq> Some Threads \<and> distinct (map ms_uid (ml_messages r)))"

lemma next_in_result_agrees:
  assumes "listed_once s r"
  shows "next_in_result dv u r = Some (map_option ms_uid
    (if listMode s = Threads then reselect_thread dv (opt_list (ml_threads r)) u [u]
     else reselect_flat (ml_messages r) u [u]))"
  using assms
  by (cases "ml_mode r"; cases "ml_threads r")
    (auto simp: listed_once_def next_in_result_def next_in_list_agrees next_in_threads_agrees
      opt_list_def split: if_splits list_mode.split)

text \<open>A list of messages, the store with a selected message, and the query of a list.\<close>

definition listing :: "message_summary list \<Rightarrow> message_list_result" where
  "listing ms =
     \<lparr>ml_folder = ''INBOX'', ml_mode = Some Messages, ml_total = length ms, ml_page = 1, ml_limit = 50,
      ml_totalPages = 1, ml_messages = ms, ml_threads = None\<rparr>"

definition at_uid :: "nat \<Rightarrow> mail_state" where
  "at_uid u = setSelectedUID (Some u) (init_mail empty_browser)"

definition two_messages :: "message_summary list" where
  "two_messages = [example_summary, example_summary\<lparr>ms_uid := 6\<rparr>]"

lemma at_uid_simps [simp]:
  "selectedUID (at_uid u) = Some u" "\<not> unreadView (at_uid u)" "listMode (at_uid u) = Messages"
  "searchQuery (at_uid u) = []" "inputTrim (at_uid u) = []" "currentFolder (at_uid u) = ''INBOX''"
  by (simp_all add: at_uid_def setSelectedUID_def init_mail_def stored_mode_def empty_browser_def inputTrim_def)

lemma cached_current: "cached_list account s [(list_key account s (mode_str (listMode s)), r)] = Some r"
  by (simp add: cached_list_def getQueryData_def or_opt_def)



text \<open>A deletion that ends after the user has opened another message takes the user away from that
  message, to the neighbour of the deleted one; the message list stays where it is.\<close>

theorem late_deletion_moves_selection:
  assumes "\<not> unreadView s" and "selectedUID s = Some b" and "b \<noteq> u"
    and "cached_list account s c = Some r" and "ml_mode r = Some Messages"
    and "ml_messages r = xs @ m # m' # ys" and "ms_uid m = u" and "u \<notin> ms_uid ` set xs"
  shows "map_option selectedUID (deleted dv account c u s) = Some (Some (ms_uid m'))
    \<and> reselectAfterRemoval dv env [u] s = s"
proof -
  have "\<forall>x \<in> set xs. ms_uid x \<noteq> u" using assms(8) by auto
  then have "takeWhile (\<lambda>m. ms_uid m \<noteq> u) (xs @ m # m' # ys) = xs"
    using takeWhile_append2 [of xs "\<lambda>m. ms_uid m \<noteq> u" "m # m' # ys"] assms(7) by simp
  then have "index_where (\<lambda>m. ms_uid m = u) (ml_messages r) = Some (length xs)"
    using assms(7) by (simp add: index_where_def assms(6))
  moreover have "nat (int (length xs) + 1) = Suc (length xs)" by linarith
  ultimately have "next_in_list u (ml_messages r) = Some (ms_uid m')"
    by (simp add: next_in_list_def neighbour_def assms(6) nth_opt_def nth_append or_opt_def)
  with assms show ?thesis
    by (simp add: deleted_def next_in_result_def setSelectedUID_def reselectAfterRemoval_def)
qed

theorem late_deletion_moves_selection_witness:
  "map_option selectedUID (deleted (\<lambda>_. None) None
       [(list_key None (at_uid 9) ''messages'', listing two_messages)] 5 (at_uid 9)) = Some (Some 6)
    \<and> reselectAfterRemoval (\<lambda>_. None) (unread_env []) [5] (at_uid 9) = at_uid 9"
  using late_deletion_moves_selection
    [of "at_uid 9" 9 5 None "[(list_key None (at_uid 9) ''messages'', listing two_messages)]"
      "listing two_messages" "[]" example_summary "example_summary\<lparr>ms_uid := 6\<rparr>" "[]" "\<lambda>_. None" "unread_env []"]
    cached_current [of None "at_uid 9" "listing two_messages"]
  by (simp add: mode_str_def listing_def two_messages_def example_summary_def)

section \<open>The cached lists\<close>

lemma leave_unread_messages:
  "ml_messages (leave_unread u f r) = filter (stays_unread u f) (ml_messages r)"
proof (cases "length (filter (stays_unread u f) (ml_messages r)) = length (ml_messages r)")
  case True
  then have "filter (stays_unread u f) (ml_messages r) = ml_messages r"
    by (metis length_filter_less filter_id_conv less_irrefl)
  with True show ?thesis by (simp add: leave_unread_def Let_def)
qed (simp add: leave_unread_def Let_def)

lemma getQueryData_set:
  "getQueryData k (setQueriesData p g c) = map_option (\<lambda>r. if under p k then g r else r) (getQueryData k c)"
  by (induction c) (auto simp: getQueryData_def setQueriesData_def)

lemma neighbour_gone: "index_where (\<lambda>m. ms_uid m = u) ms = None \<Longrightarrow> next_in_unread u folder ms = None"
proof -
  assume h: "index_where (\<lambda>m. ms_uid m = u) ms = None"
  then have "index_where (\<lambda>m. ms_uid m = u \<and> P m) ms = None" for P by (simp add: index_where_None)
  with h show ?thesis by (simp add: next_in_unread_def or_opt_def)
qed

text \<open>Among the unread messages of all folders, deleting the shown message never opens the next one,
  although the comment promises it: opening the message took it out of the cached list, so that its
  place is not found and the selection is cleared.\<close>

theorem unread_deletion_opens_nothing:
  assumes "unreadView s" and "selectedUID s = Some u"
    and "fst (open_effect account s (Some msg) c) = c'"
    and "\<And>r m. getQueryData (unread_list_key account s) c = Some r \<Longrightarrow> m \<in> set (ml_messages r)
      \<Longrightarrow> ms_uid m = u \<Longrightarrow> truthy_opt (ms_folder m) \<Longrightarrow> ms_folder m = Some (detailFolder s)"
  shows "deleted dv account c' u s = Some (setSelectedUID None s)"
proof -
  let ?k = "unread_list_key account s"
  have un: "under [''unread-aggregate'', opt_string account] ?k"
    "\<not> under [''messages'', opt_string account, detailFolder s] ?k"
    by (simp_all add: under_def unread_list_key_def)
  have c': "getQueryData ?k c' = map_option (leave_unread u (detailFolder s)) (getQueryData ?k c)"
    using assms(2,3) un by (auto simp: open_effect_def getQueryData_set option.map_comp o_def)
  have "index_where (\<lambda>m. ms_uid m = u) (case getQueryData ?k c' of None \<Rightarrow> [] | Some r \<Rightarrow> ml_messages r) = None"
  proof (cases "getQueryData ?k c")
    case (Some r)
    have "\<not> stays_unread u (detailFolder s) m" if "m \<in> set (ml_messages r)" "ms_uid m = u" for m
      using assms(4) [OF Some that] that(2) by (auto simp: stays_unread_def)
    with Some show ?thesis by (auto simp: c' index_where_None leave_unread_messages)
  qed (simp add: c' index_where_None)
  from neighbour_gone [OF this] have "next_in_unread u (selectedFolder s)
      (case getQueryData ?k c' of None \<Rightarrow> [] | Some r \<Rightarrow> ml_messages r) = None" .
  with assms(1) show ?thesis by (simp add: deleted_def)
qed

definition at_unread :: "nat \<Rightarrow> mail_state" where
  "at_unread u = setSelectedUID (Some u) (setUnreadView True (init_mail empty_browser))"

definition example_parsed :: parsed_message where
  "example_parsed =
     \<lparr>pm_uid = 5, pm_messageId = ''<1@x>'', pm_subject = ''Lunch'', pm_date = [],
      pm_from = [\<lparr>ename = ''Alice'', eaddress = ''alice@example.org''\<rparr>],
      pm_to = [\<lparr>ename = [], eaddress = ''me@example.org''\<rparr>, \<lparr>ename = [], eaddress = ''bob@example.org''\<rparr>],
      pm_cc = [], pm_bcc = [], pm_replyTo = [\<lparr>ename = [], eaddress = ''list@example.org''\<rparr>],
      pm_flags = [], pm_unread = True, pm_starred = False, pm_answered = False, pm_textBody = ''at noon?'',
      pm_htmlBody = [], pm_attachments = [], pm_size = 8\<rparr>"

theorem unread_deletion_opens_nothing_witness:
  "deleted (\<lambda>_. None) None (fst (open_effect None (at_unread 5) (Some example_parsed)
       [(unread_list_key None (at_unread 5), listing two_messages)])) 5 (at_unread 5)
     = Some (setSelectedUID None (at_unread 5))"
  by (rule unread_deletion_opens_nothing [where msg = example_parsed
        and c = "[(unread_list_key None (at_unread 5), listing two_messages)]" and account = None])
    (auto simp: at_unread_def setSelectedUID_def setUnreadView_def getQueryData_def listing_def
      two_messages_def example_summary_def detailFolder_def init_mail_def truthy_opt_def)

text \<open>The pages of a list, and what a result says about its length.\<close>

definition paged :: "message_list_result \<Rightarrow> bool" where
  "paged r \<longleftrightarrow> length (ml_messages r) \<le> ml_total r \<and> ml_totalPages r = pages_for (ml_total r) (ml_limit r)"

lemma ceil_div_bounds:
  "0 < l \<Longrightarrow> n \<le> (n + l - 1) div l * (l::nat)" "0 < l \<Longrightarrow> 0 < n \<Longrightarrow> ((n + l - 1) div l - 1) * l < n"
proof -
  assume l: "0 < l"
  have d: "(n + l - 1) div l * l + (n + l - 1) mod l = n + l - 1" by simp
  have m: "(n + l - 1) mod l < l" using l by simp
  show "n \<le> (n + l - 1) div l * l" using d m by linarith
  assume "0 < n"
  then have "(n + l - 1) div l * l \<le> n + l - 1" using d by linarith
  then show "((n + l - 1) div l - 1) * l < n" using \<open>0 < n\<close> l
    by (simp only: diff_mult_distrib nat_mult_1)
qed

lemma pages_for_bounds:
  fixes perPage :: nat
  defines "l \<equiv> if perPage = 0 then 50 else perPage"
  shows "1 \<le> pages_for n perPage" "n \<le> pages_for n perPage * l"
    "pages_for n perPage = 1 \<or> (pages_for n perPage - 1) * l < n"
proof -
  have l: "0 < l" by (simp add: l_def)
  have p: "pages_for n perPage = max 1 ((n + l - 1) div l)" by (simp add: pages_for_def l_def Let_def)
  show "1 \<le> pages_for n perPage" by (simp add: p)
  have "n \<le> (n + l - 1) div l * l" using l by (rule ceil_div_bounds)
  also have "\<dots> \<le> pages_for n perPage * l" by (intro mult_le_mono) (simp_all add: p)
  finally show "n \<le> pages_for n perPage * l" .
  show "pages_for n perPage = 1 \<or> (pages_for n perPage - 1) * l < n"
  proof (cases "n = 0")
    case True
    with l have "pages_for n perPage = 1" unfolding p by simp
    then show ?thesis ..
  next
    case False
    with ceil_div_bounds(2) [OF l, of n] show ?thesis unfolding p by (cases "(n + l - 1) div l \<le> 1") (auto simp: max_def)
  qed
qed

text \<open>C13: taking an opened message out of the unread list keeps the list consistent: it has the remaining
  messages in order and no more than the total, the total loses one for each that went, and the
  number of pages is the least that holds the total and at least one.\<close>

theorem unread_list_stays_consistent:
  assumes "paged r"
  shows "case leave_unread u f r of r' \<Rightarrow>
     paged r' \<and> ml_messages r' = filter (stays_unread u f) (ml_messages r)
     \<and> ml_total r' + length (ml_messages r) = ml_total r + length (ml_messages r')
     \<and> 1 \<le> ml_totalPages r'
     \<and> ml_total r' \<le> ml_totalPages r' * (if ml_limit r = 0 then 50 else ml_limit r)
     \<and> (ml_totalPages r' = 1
        \<or> (ml_totalPages r' - 1) * (if ml_limit r = 0 then 50 else ml_limit r) < ml_total r')
     \<and> leave_unread u f r' = r'"
proof -
  let ?r = "leave_unread u f r"
  have len: "length (filter (stays_unread u f) (ml_messages r)) \<le> length (ml_messages r)" by simp
  have lim: "ml_limit ?r = ml_limit r" by (simp add: leave_unread_def Let_def)
  have tot: "ml_total ?r + length (ml_messages r) = ml_total r + length (ml_messages ?r)"
    using assms len unfolding leave_unread_messages
    by (auto simp: leave_unread_def Let_def paged_def)
  have pg: "paged ?r"
    using assms tot len unfolding paged_def leave_unread_messages
    by (auto simp: leave_unread_def Let_def)
  have id: "leave_unread u f ?r = ?r"
    using leave_unread_messages [of u f r]
    by (simp add: leave_unread_def [of u f ?r] Let_def)
  from pages_for_bounds [of "ml_total ?r" "ml_limit r"] pg tot id show ?thesis
    by (simp add: paged_def lim leave_unread_messages)
qed

theorem unread_list_stays_consistent_witness:
  "ml_total (leave_unread 5 ''INBOX'' (listing two_messages)) = 1
    \<and> leave_unread 5 ''INBOX'' (leave_unread 5 ''INBOX'' (listing two_messages))
      = leave_unread 5 ''INBOX'' (listing two_messages)"
proof -
  have "paged (listing two_messages)" by (simp add: paged_def listing_def two_messages_def pages_for_def)
  from unread_list_stays_consistent [OF this, of 5 "''INBOX''"] show ?thesis
    by (simp add: listing_def two_messages_def example_summary_def stays_unread_def truthy_opt_def)
qed

text \<open>The unread uids that a list shows, and threads whose counters are right.\<close>

definition shown_messages :: "message_list_result \<Rightarrow> message_summary list" where
  "shown_messages r =
     (case (ml_mode r, ml_threads r) of
        (Some Threads, Some ts) \<Rightarrow> concat (map th_messages ts)
      | _ \<Rightarrow> ml_messages r)"

definition unread_uids :: "message_list_result \<Rightarrow> nat set" where
  "unread_uids r = ms_uid ` {m \<in> set (shown_messages r). ms_unread m}"

definition counted :: "message_list_result \<Rightarrow> bool" where
  "counted r \<longleftrightarrow>
     list_all (\<lambda>t. distinct (memberUIDs t) \<and> th_unreadCount t = length (filter ms_unread (th_messages t)))
       (opt_list (ml_threads r))"

lemma read_message_uid [simp]: "ms_uid (read_message u m) = ms_uid m"
  by (simp add: read_message_def)

lemma read_message_unread: "ms_unread (read_message u m) \<longleftrightarrow> ms_unread m \<and> ms_uid m \<noteq> u"
  by (simp add: read_message_def)

lemma read_message_idem: "read_message u (read_message u m) = read_message u m"
  by (simp add: read_message_def)

lemma read_thread_messages: "th_messages (read_thread u t) = map (read_message u) (th_messages t)"
proof (cases "find (\<lambda>m. ms_uid m = u) (th_messages t)")
  case None
  then have "map (read_message u) (th_messages t) = th_messages t"
    by (intro map_idI) (auto simp: find_None_iff read_message_def)
  with None show ?thesis by (simp add: read_thread_def)
qed (simp add: read_thread_def)

lemma count_read:
  assumes "distinct (map ms_uid ms)" and "find (\<lambda>m. ms_uid m = u) ms = Some x"
  shows "length (filter ms_unread (map (read_message u) ms)) + (if ms_unread x then 1 else 0)
    = length (filter ms_unread ms)"
  using assms
proof (induction ms)
  case (Cons m ms)
  have other: "map (read_message u) ms = ms" if "ms_uid m = u"
    using Cons.prems(1) that by (intro map_idI) (auto simp: read_message_def rev_image_eqI)
  show ?case
    using Cons other by (cases "ms_uid m = u") (auto simp: read_message_unread)
qed simp

lemma counted_thread:
  assumes "distinct (memberUIDs t)" and "th_unreadCount t = length (filter ms_unread (th_messages t))"
  shows "distinct (memberUIDs (read_thread u t))
    \<and> th_unreadCount (read_thread u t) = length (filter ms_unread (th_messages (read_thread u t)))"
proof -
  have d: "distinct (memberUIDs (read_thread u t))"
    using assms(1) by (simp add: memberUIDs_def read_thread_messages o_def)
  show ?thesis
  proof (cases "find (\<lambda>m. ms_uid m = u) (th_messages t)")
    case None
    with assms d show ?thesis by (simp add: read_thread_def)
  next
    case (Some x)
    then have "x \<in> set (th_messages t)" by (auto simp: find_Some_iff)
    moreover have "length (filter ms_unread (map (read_message u) (th_messages t)))
        + (if ms_unread x then 1 else 0) = length (filter ms_unread (th_messages t))"
      using assms(1) Some by (intro count_read) (simp_all add: memberUIDs_def)
    ultimately show ?thesis
      using d assms(2) Some by (auto simp: read_thread_messages read_thread_def)
  qed
qed

lemma find_map: "find P (map f xs) = map_option f (find (\<lambda>x. P (f x)) xs)"
  by (induction xs) auto

lemma read_thread_idem: "read_thread u (read_thread u t) = read_thread u t"
proof (cases "find (\<lambda>m. ms_uid m = u) (th_messages t)")
  case None
  then show ?thesis by (simp add: read_thread_def)
next
  case (Some x)
  then have "find (\<lambda>m. ms_uid m = u) (th_messages (read_thread u t)) = Some (read_message u x)"
    "ms_uid x = u"
    by (auto simp: read_thread_messages find_map find_Some_iff)
  then show ?thesis
    using read_thread_messages [of u t]
    by (simp add: read_thread_def [of u "read_thread u t"] read_message_unread o_def read_message_idem)
qed

lemma shown_read: "shown_messages (read_result u r) = map (read_message u) (shown_messages r)"
  by (auto simp: shown_messages_def read_result_def map_concat o_def read_thread_messages
      split: option.split list_mode.split)

lemma read_result_threads:
  "list_all P (opt_list (ml_threads r)) \<Longrightarrow> (\<And>t. P t \<Longrightarrow> P (read_thread u t))
   \<Longrightarrow> list_all P (opt_list (ml_threads (read_result u r)))"
  by (auto simp: read_result_def opt_list_def list_all_iff split: option.splits list_mode.splits)

lemma mem_unread_uids:
  "x \<in> unread_uids r \<longleftrightarrow> (\<exists>m \<in> set (shown_messages r). ms_unread m \<and> ms_uid m = x)"
  by (auto simp: unread_uids_def)

text \<open>C12: opening a message changes the cached list of its folder as the server changes the mailbox: the set of
  unread messages loses exactly this one, the same messages stay listed in the same order, the
  counters of the threads stay right, and a second run of the effect changes nothing.\<close>

theorem opening_refines_marking_read:
  assumes "counted r"
  shows "unread_uids (read_result u r) = unread_uids r - {u}
    \<and> map ms_uid (shown_messages (read_result u r)) = map ms_uid (shown_messages r)
    \<and> counted (read_result u r) \<and> read_result u (read_result u r) = read_result u r"
proof (intro conjI)
  show "unread_uids (read_result u r) = unread_uids r - {u}"
    by (auto simp: set_eq_iff mem_unread_uids shown_read read_message_unread)
  show "map ms_uid (shown_messages (read_result u r)) = map ms_uid (shown_messages r)"
    by (simp add: shown_read o_def)
  show "counted (read_result u r)"
    using assms unfolding counted_def by (rule read_result_threads) (use counted_thread in blast)
  show "read_result u (read_result u r) = read_result u r"
    by (auto simp: read_result_def o_def read_thread_idem read_message_idem
        split: option.split list_mode.split)
qed

theorem opening_refines_marking_read_witness:
  "unread_uids (read_result 5 (listing two_messages)) = {6}"
proof -
  have "counted (listing two_messages)" by (simp add: counted_def listing_def opt_list_def)
  moreover have "unread_uids (listing two_messages) = {5, 6}"
    by (auto simp: set_eq_iff mem_unread_uids listing_def shown_messages_def two_messages_def
        example_summary_def)
  ultimately show ?thesis
    using opening_refines_marking_read [of "listing two_messages" 5, THEN conjunct1] by auto
qed

section \<open>Marking as unread\<close>

text \<open>The button that marks the shown message as unread has no lasting effect: its success makes the query
  of the shown message stale, the query runs again while the message is shown, and to read a
  message marks it as seen on the server.\<close>

theorem mark_unread_is_undone:
  assumes "selectedUID s = Some u" and "u \<noteq> 0"
  shows "mark_unread_call account s
        = Some (setFlags (detailFolder s) [u] [bslash # ''Seen''] FRemove account)
    \<and> detail_key account s \<in> set (flagged_stale account s)
    \<and> detail_query account s = Some (getMessageDetail u (detailFolder s) account)
    \<and> serve_detail (detailFolder s) u (serve_set_flags (detailFolder s) [u] [bslash # ''Seen''] FRemove box)
        = serve_set_flags (detailFolder s) [u] [bslash # ''Seen''] FAdd box"
proof -
  have "serve_detail f u (serve_set_flags f [u] fl FRemove box) = serve_set_flags f [u] fl FAdd box"
    if "fl = [bslash # ''Seen'']" for f fl
    using that by (auto simp: serve_detail_def serve_set_flags_def fun_eq_iff)
  with assms show ?thesis
    by (simp add: mark_unread_call_def flag_call_def truthy_uid_def detail_query_def flagged_stale_def)
qed

theorem mark_unread_is_undone_witness:
  "bslash # ''Seen'' \<in> serve_detail ''INBOX'' 5
     (serve_set_flags ''INBOX'' [5] [bslash # ''Seen''] FRemove (\<lambda>_. {})) (''INBOX'', 5)"
  using mark_unread_is_undone [of "at_uid 5" 5 None "\<lambda>_. {}"]
  by (simp add: detailFolder_def serve_set_flags_def served_folder_def or_else_def)

section \<open>The text that a reply quotes\<close>

lemma reply_opens:
  "v_message v = Some m \<Longrightarrow> v_decrypted v = Some d \<Longrightarrow>
     composerDraft (handleReply tr replyAll v s) = Some (reply_draft tr replyAll d m)"
  by (simp add: handleReply_def openComposer_def replyBodyText_def)

text \<open>The draft of a reply after events on a new viewer.\<close>

definition drafted ::
    "translator \<Rightarrow> bool \<Rightarrow> mail_state \<Rightarrow> viewer_event list \<Rightarrow> partial_message option" where
  "drafted tr replyAll s es = composerDraft (handleReply tr replyAll (fold viewer_step es init_viewer) s)"

text \<open>The plain text of an encrypted message goes out in the reply to another message: when the other
  one is opened before the decryption ends, at once or after it was loaded, and when it has the
  same uid in another folder.\<close>

theorem plaintext_is_quoted_to_other_sender:
  assumes "truthy_uid (selectedUID s)" and "truthy_uid (selectedUID s')"
    and "isPgpMessage (props_for s trusted a)"
  shows "drafted tr replyAll s' [Render s trusted (Detail a), InFrame ClickDecrypt,
        Render s' trusted' (Detail b), InFrame (DecryptEnds (Shown d))]
      = Some (reply_draft tr replyAll (dc_data d) b)
    \<and> drafted tr replyAll s' [Render s trusted (Detail a), InFrame ClickDecrypt,
        Render s' trusted' DetailLoading, Render s' trusted' (Detail b), OrphanEnds (Shown d)]
      = Some (reply_draft tr replyAll (dc_data d) b)
    \<and> (selectedUID s' = selectedUID s \<longrightarrow>
        drafted tr replyAll s' [Render s trusted (Detail a), InFrame ClickDecrypt,
          InFrame (DecryptEnds (Shown d)), Render s' trusted' (Detail b)]
        = Some (reply_draft tr replyAll (dc_data d) b))"
  using assms unfolding drafted_def
  by (auto intro!: reply_opens simp: render_def reset_for_def shown_message_def init_viewer_def
      frame_event_def notify_def init_frame_def props_for_def new_props_def finish_def Let_def)

definition sealed_message :: parsed_message where
  "sealed_message = example_parsed\<lparr>pm_uid := 7, pm_textBody := ''-----BEGIN PGP MESSAGE-----''\<rparr>"

lemma sealed_is_pgp: "isPgpMessage (props_for s trusted sealed_message)"
proof -
  have "isPgpEncrypted ''-----BEGIN PGP MESSAGE-----''" by code_simp
  then show ?thesis
    by (simp add: isPgpMessage_def raw_body_def props_for_def sealed_message_def or_else_def)
qed

theorem plaintext_is_quoted_to_other_sender_witness:
  "drafted (\<lambda>k vs. []) False (at_uid 5) [Render (at_uid 7) False (Detail sealed_message), InFrame ClickDecrypt,
        Render (at_uid 5) False (Detail example_parsed),
        InFrame (DecryptEnds (Shown \<lparr>dc_data = ''secret'', dc_verified = False, dc_signatureKeyId = None\<rparr>))]
     = Some (reply_draft (\<lambda>k vs. []) False ''secret'' example_parsed)"
  using plaintext_is_quoted_to_other_sender
    [OF _ _ sealed_is_pgp, of "at_uid 7" "at_uid 5" "\<lambda>k vs. []" False False False example_parsed
      "\<lparr>dc_data = ''secret'', dc_verified = False, dc_signatureKeyId = None\<rparr>"]
  by (simp add: truthy_uid_def)

text \<open>Histories in which the server answers with the message that was asked for and no frame goes away
  while it decrypts.\<close>

fun fitting :: "viewer_event \<Rightarrow> bool" where
  "fitting (Render s _ (Detail m)) \<longleftrightarrow> selectedUID s = Some (pm_uid m)"
| "fitting (OrphanEnds _) \<longleftrightarrow> False"
| "fitting _ \<longleftrightarrow> True"

definition quote_inv :: "viewer \<Rightarrow> bool" where
  "quote_inv v \<longleftrightarrow>
     (case v_frame v of
        None \<Rightarrow> True
      | Some f \<Rightarrow>
          v_uid v = Some (fp_uid (fs_props f))
          \<and> (decryptedContent f \<noteq> None \<longrightarrow> v_decrypted v = decryptedContent f))"

lemma frame_step_props: "(\<forall>p. e \<noteq> NewProps p) \<Longrightarrow> fs_props (frame_step e f) = fs_props f"
  by (cases e) (auto simp: finish_def split: outcome.splits)

lemma frame_step_content:
  "(\<forall>p. e \<noteq> NewProps p) \<Longrightarrow> decryptedContent (frame_step e f) =
     (case e of DecryptEnds (Shown d) \<Rightarrow> if running f = 0 then decryptedContent f else Some (dc_data d)
      | _ \<Rightarrow> decryptedContent f)"
  by (cases e) (auto simp: finish_def split: outcome.splits)

lemma frame_event_message: "v_message (frame_event e v) = v_message v" "v_uid (frame_event e v) = v_uid v"
  by (auto simp: frame_event_def notify_def Let_def split: option.split frame_event.split outcome.split)

lemma quote_inv_frame: "quote_inv v \<Longrightarrow> quote_inv (frame_event e v)"
proof (cases "v_frame v")
  case (Some f)
  assume inv: "quote_inv v"
  then have v: "v_uid v = Some (fp_uid (fs_props f))"
      "decryptedContent f \<noteq> None \<longrightarrow> v_decrypted v = decryptedContent f"
    using Some by (simp_all add: quote_inv_def)
  show ?thesis
  proof (cases "\<exists>p. e = NewProps p")
    case True
    with inv Some show ?thesis by (auto simp: frame_event_def)
  next
    case False
    then have "fs_props (frame_step e f) = fs_props f" by (intro frame_step_props) simp
    with v Some False show ?thesis
      by (cases e) (auto simp: quote_inv_def frame_event_def notify_def finish_def Let_def split: outcome.splits)
  qed
qed (simp add: frame_event_def)

lemma quote_inv_render:
  assumes "quote_inv v" and "fitting (Render s trusted q)"
  shows "quote_inv (render s trusted q v)"
proof (cases "shown_message s q")
  case None
  then show ?thesis by (simp add: render_def quote_inv_def Let_def)
next
  case (Some m)
  then have q: "q = Detail m" by (cases q) (auto simp: shown_message_def split: if_splits)
  with assms(2) have u: "selectedUID s = Some (pm_uid m)" by simp
  have p: "fp_uid (props_for s trusted m) = pm_uid m" by (simp add: props_for_def)
  show ?thesis
  proof (cases "v_frame v")
    case None
    then show ?thesis by (simp add: render_def Some quote_inv_def reset_for_def u p init_frame_def)
  next
    case (Some f)
    with assms(1) have v: "v_uid v = Some (fp_uid (fs_props f))"
      "decryptedContent f \<noteq> None \<longrightarrow> v_decrypted v = decryptedContent f"
      by (simp_all add: quote_inv_def)
    show ?thesis
      using v Some \<open>shown_message s q = Some m\<close>
      by (auto simp: render_def quote_inv_def reset_for_def u p new_props_def)
  qed
qed

lemma quote_inv_step: "quote_inv v \<Longrightarrow> fitting e \<Longrightarrow> quote_inv (viewer_step e v)"
proof (cases e)
  case (Render s trusted q)
  moreover assume "quote_inv v" "fitting e"
  ultimately show ?thesis using quote_inv_render by simp
next
  case (InFrame e')
  moreover assume "quote_inv v"
  ultimately show ?thesis by (simp add: quote_inv_frame)
qed (auto simp: quote_inv_def split: option.splits)

lemma quote_inv_history: "quote_inv v \<Longrightarrow> list_all fitting es \<Longrightarrow> quote_inv (fold viewer_step es v)"
  by (induction es arbitrary: v) (auto intro: quote_inv_step)

text \<open>Apart from these two ways, what a reply quotes is what the frame shows: as long as no frame goes
  away while it decrypts, a decrypted text on the screen is the text that a reply and a forward
  take over, whatever the user opened before.\<close>

theorem quoted_text_is_shown_text:
  assumes "list_all fitting es" and "v_frame (fold viewer_step es init_viewer) = Some f"
    and "decryptedContent f = Some d"
  shows "replyBodyText (fold viewer_step es init_viewer) = d"
proof -
  have "quote_inv (fold viewer_step es init_viewer)"
    using assms(1) by (intro quote_inv_history) (simp_all add: quote_inv_def init_viewer_def)
  with assms(2,3) show ?thesis by (simp add: quote_inv_def replyBodyText_def)
qed

definition sealed_history :: "viewer_event list" where
  "sealed_history = [Render (at_uid 7) False (Detail sealed_message), InFrame ClickDecrypt,
     InFrame (DecryptEnds (Shown \<lparr>dc_data = ''secret'', dc_verified = False, dc_signatureKeyId = None\<rparr>))]"

theorem quoted_text_is_shown_text_witness:
  "replyBodyText (fold viewer_step sealed_history init_viewer) = ''secret''"
proof -
  have "list_all fitting sealed_history"
    by (simp add: sealed_history_def sealed_message_def)
  moreover obtain f where "v_frame (fold viewer_step sealed_history init_viewer) = Some f"
      "decryptedContent f = Some ''secret''"
    using sealed_is_pgp [of "at_uid 7" False]
    by (simp add: sealed_history_def render_def reset_for_def shown_message_def truthy_uid_def
        init_viewer_def frame_event_def notify_def init_frame_def finish_def)
  ultimately show ?thesis by (rule quoted_text_is_shown_text)
qed

section \<open>Replies in the composer\<close>

definition plain_address :: "string \<Rightarrow> bool" where
  "plain_address a \<longleftrightarrow> a \<noteq> [] \<and> trim a = a \<and> CHR '','' \<notin> set a"

lemma split_on_join_comma_space:
  assumes "xs \<noteq> []" and "\<forall>x \<in> set xs. CHR '','' \<notin> set x"
  shows "split_on CHR '','' (join '', '' xs) = hd xs # map (\<lambda>x. CHR '' '' # x) (tl xs)"
  using assms
proof (induction "'', ''" xs rule: join.induct)
  case (3 x y ys)
  have "split_on CHR '','' (x @ CHR '','' # CHR '' '' # join '', '' (y # ys))
      = x # split_on CHR '','' (CHR '' '' # join '', '' (y # ys))"
    using 3(3) by (intro split_on_append_sep) simp
  moreover have "split_on CHR '','' (CHR '' '' # s) = (CHR '' '' # hd (split_on CHR '','' s)) # tl (split_on CHR '','' s)" for s
    by (cases "split_on CHR '','' s") auto
  ultimately show ?case using 3 by simp
qed (simp_all add: split_on_no_sep)

lemma trim_space: "trim (CHR '' '' # s) = trim s"
proof -
  have "is_ws CHR '' ''" by code_simp
  then show ?thesis by (simp add: trim_def trim_start_def)
qed

lemma address_list_join:
  assumes "list_all plain_address xs"
  shows "address_list (join '', '' xs) = xs"
proof (cases "xs = []")
  case False
  have p: "\<forall>x \<in> set xs. x \<noteq> [] \<and> trim x = x \<and> CHR '','' \<notin> set x"
    using assms by (simp add: plain_address_def list_all_iff)
  have "map trim (split_on CHR '','' (join '', '' xs)) = map trim xs"
    using split_on_join_comma_space [OF False] p False by (cases xs) (simp_all add: trim_space)
  also have "\<dots> = xs" using p by (simp add: map_idI)
  finally have "map trim (split_on CHR '','' (join '', '' xs)) = xs" .
  then show ?thesis using p by (simp add: address_list_def)
qed (simp add: address_list_def)

text \<open>C14: a reply reaches its recipients: the draft that the viewer hands to the composer, opened there and sent
  unchanged, is addressed to the sender and, for a reply to all, to the other recipients and
  to the copies, and names the message it answers.  The address in \<open>Reply-To\<close> plays no part.\<close>

theorem reply_reaches_recipients:
  assumes "v_message v = Some m" and "list_all plain_address (reply_recipients replyAll m)"
    and "replyAll \<Longrightarrow> list_all plain_address (map eaddress (pm_cc m))"
  shows "case outgoing acc txt html files (sync_draft (mount_composer (handleReply tr replyAll v s) saved)) of om \<Rightarrow>
     om_to om = reply_recipients replyAll m
     \<and> om_cc om = Some (if replyAll then map eaddress (pm_cc m) else []) \<and> om_bcc om = Some []
     \<and> om_inReplyTo om = Some (pm_messageId m)
     \<and> (\<forall>x. reply_recipients replyAll (m\<lparr>pm_replyTo := x\<rparr>) = om_to om)"
proof -
  let ?d = "reply_draft tr replyAll (replyBodyText v) m"
  let ?c = "mount_composer (handleReply tr replyAll v s) saved"
  have ms: "isComposerOpen (co_mail ?c)" "composerDraft (co_mail ?c) = Some ?d"
    using assms(1) by (simp_all add: mount_composer_def handleReply_def openComposer_def Let_def)
  have "reply_recipients replyAll m \<noteq> []" by (simp add: reply_recipients_def)
  then have "\<not> incoming_empty ?d" by (simp add: incoming_empty_def reply_draft_def opt_list_def)
  with ms have c: "co_to (sync_draft ?c) = join '', '' (reply_recipients replyAll m)"
      "co_cc (sync_draft ?c) = join '', '' (if replyAll then map eaddress (pm_cc m) else [])"
      "co_bcc (sync_draft ?c) = []" "co_mail (sync_draft ?c) = co_mail ?c"
    by (simp_all add: sync_draft_def reply_draft_def opt_list_def)
  have "address_list (join '', '' (if replyAll then map eaddress (pm_cc m) else []))
      = (if replyAll then map eaddress (pm_cc m) else [])"
    using assms(3) by (intro address_list_join) simp
  moreover have "address_list [] = []" by (simp add: address_list_def)
  moreover have "from_address (m\<lparr>pm_replyTo := x\<rparr>) = from_address m" for x by (simp add: from_address_def)
  ultimately show ?thesis
    using address_list_join [OF assms(2)] ms c
    by (simp add: outgoing_def draft_field_def reply_draft_def reply_recipients_def)
qed

theorem reply_reaches_recipients_witness:
  "om_to (outgoing None [] [] [] (sync_draft (mount_composer
       (handleReply (\<lambda>k vs. []) True (init_viewer\<lparr>v_message := Some example_parsed\<rparr>) (at_uid 5)) None)))
     = [''alice@example.org'', ''me@example.org'', ''bob@example.org'']"
proof -
  have pl: "list_all plain_address [''alice@example.org'', ''me@example.org'', ''bob@example.org'']" by code_simp
  have rr: "reply_recipients True example_parsed = [''alice@example.org'', ''me@example.org'', ''bob@example.org'']"
    by code_simp
  have cc: "pm_cc example_parsed = []" by (simp add: example_parsed_def)
  show ?thesis
    using reply_reaches_recipients [of "init_viewer\<lparr>v_message := Some example_parsed\<rparr>" example_parsed True
        None "[]" "[]" "[]" "\<lambda>k vs. []" "at_uid 5" None] pl
    by (simp add: rr cc)
qed

end
