(* ===== verification/I18n.thy ===== *)
theory I18n
  imports Machine JsRegexFacts
begin

text \<open>
  The translation module \<open>frontend/src/i18n/index.ts\<close>: looking up a text, filling in its
  variables, the choice of the locale and its storage, and the names of special folders.  The
  catalogs are parameters, trees of texts: the Chinese one has characters outside the model.
\<close>

section \<open>Catalogs\<close>

datatype locale_id = En | ZhHant

datatype tree = Text string | Node "(string \<times> tree) list" | Other

type_synonym catalogs = "locale_id \<Rightarrow> tree"

definition locale_str :: "locale_id \<Rightarrow> string" where
  "locale_str l = (case l of En \<Rightarrow> ''en'' | ZhHant \<Rightarrow> ''zh-Hant'')"

definition LOCALE_STORAGE_KEY :: string where
  "LOCALE_STORAGE_KEY = ''e2Mail_locale''"

fun lookup_path :: "tree \<Rightarrow> string list \<Rightarrow> tree option" where
  "lookup_path n [] = Some n"
| "lookup_path n (p # ps) =
     (case n of
        Node fs \<Rightarrow> (case map_of fs p of None \<Rightarrow> None | Some n' \<Rightarrow> lookup_path n' ps)
      | _ \<Rightarrow> None)"

definition lookup :: "tree \<Rightarrow> string \<Rightarrow> string option" where
  "lookup n key =
     (case lookup_path n (split_on CHR ''.'' key) of Some (Text s) \<Rightarrow> Some s | _ \<Rightarrow> None)"

section \<open>Variables\<close>

text \<open>The values of variables as text; a number is its digits.\<close>

type_synonym vars = "(string \<times> string) list"

definition placeholder :: rx where
  "placeholder = cat [lit_cs ''{'', Grp 1 (Plus (Ch is_word_char)), lit_cs ''}'']"

definition fill :: "vars \<Rightarrow> rx_match \<Rightarrow> string" where
  "fill vs m =
     (let name = opt_string (rm_groups m 1)
      in case map_of vs name of None \<Rightarrow> ''{'' @ name @ ''}'' | Some v \<Rightarrow> v)"

definition interpolate :: "string \<Rightarrow> vars option \<Rightarrow> string" where
  "interpolate template vs =
     (case vs of None \<Rightarrow> template | Some vs \<Rightarrow> rx_replace placeholder (fill vs) template)"

section \<open>The locale\<close>

record i18n_state =
  currentLocale :: locale_id
  storedLocale :: "string option"
  documentLang :: string
  notified :: nat

definition detectLocale :: "string option \<Rightarrow> string \<Rightarrow> locale_id" where
  "detectLocale stored navLanguage =
     (if stored = Some ''en'' then En
      else if stored = Some ''zh-Hant'' then ZhHant
      else if starts_with (to_lower navLanguage) ''zh'' then ZhHant else En)"

definition init_i18n :: "string option \<Rightarrow> string \<Rightarrow> string \<Rightarrow> i18n_state" where
  "init_i18n stored navLanguage lang =
     \<lparr>currentLocale = detectLocale stored navLanguage, storedLocale = stored, documentLang = lang,
      notified = 0\<rparr>"

definition setLocale :: "locale_id \<Rightarrow> i18n_state \<Rightarrow> i18n_state" where
  "setLocale l s =
     (if l = currentLocale s then s
      else s\<lparr>currentLocale := l, storedLocale := Some (locale_str l), documentLang := locale_str l,
             notified := notified s + 1\<rparr>)"

definition applyDocumentLang :: "i18n_state \<Rightarrow> i18n_state" where
  "applyDocumentLang s = s\<lparr>documentLang := locale_str (currentLocale s)\<rparr>"

definition or_else_opt :: "'a option \<Rightarrow> 'a option \<Rightarrow> 'a option" where
  "or_else_opt x y = (case x of None \<Rightarrow> y | Some _ \<Rightarrow> x)"

definition translate :: "catalogs \<Rightarrow> locale_id \<Rightarrow> string \<Rightarrow> vars option \<Rightarrow> string" where
  "translate cats loc key vs =
     interpolate
       (case or_else_opt (lookup (cats loc) key) (lookup (cats En) key) of None \<Rightarrow> key | Some s \<Rightarrow> s) vs"

datatype i18n_event = SetLocale locale_id | ApplyDocumentLang

fun i18n_step :: "i18n_event \<Rightarrow> i18n_state \<Rightarrow> i18n_state" where
  "i18n_step (SetLocale l) s = setLocale l s"
| "i18n_step ApplyDocumentLang s = applyDocumentLang s"

text \<open>A reload of the page finds the same locale, whatever the language of the browser.\<close>

definition locale_inv :: "string \<Rightarrow> i18n_state \<Rightarrow> bool" where
  "locale_inv navLanguage s \<longleftrightarrow> detectLocale (storedLocale s) navLanguage = currentLocale s"

lemma detect_stored: "detectLocale (Some (locale_str l)) navLanguage = l"
  by (cases l) (simp_all add: detectLocale_def locale_str_def)

interpretation i18n: safe_machine "init_i18n stored navLanguage lang" i18n_step "locale_inv navLanguage"
  for stored navLanguage lang
proof
  show "locale_inv navLanguage (init_i18n stored navLanguage lang)"
    by (simp add: locale_inv_def init_i18n_def)
  show "locale_inv navLanguage s \<Longrightarrow> locale_inv navLanguage (i18n_step e s)" for s e
    by (cases e) (simp_all add: locale_inv_def setLocale_def applyDocumentLang_def detect_stored)
qed

section \<open>Folder names\<close>

definition folder_key :: "string \<Rightarrow> string option \<Rightarrow> string" where
  "folder_key name specialUse =
     to_lower (if truthy_opt specialUse then opt_string specialUse else name)"

text \<open>The translation key of the shown name, or \<open>None\<close> where the name itself is shown.\<close>

definition folder_label :: "string \<Rightarrow> string option \<Rightarrow> string option" where
  "folder_label name specialUse =
     (let key = folder_key name specialUse
      in if contains key ''inbox'' then Some ''folders.inbox''
         else if contains key ''sent'' then Some ''folders.sent''
         else if contains key ''draft'' then Some ''folders.drafts''
         else if contains key ''trash'' \<or> contains key ''bin'' then Some ''folders.trash''
         else if contains key ''junk'' \<or> contains key ''spam'' then Some ''folders.junk''
         else if contains key ''archive'' then Some ''folders.archive''
         else None)"

definition folderDisplayName :: "catalogs \<Rightarrow> locale_id \<Rightarrow> string \<Rightarrow> string option \<Rightarrow> string" where
  "folderDisplayName cats loc name specialUse =
     (case folder_label name specialUse of
        None \<Rightarrow> name
      | Some k \<Rightarrow> translate cats loc k None)"

lemma folder_label_bin:
  "contains (to_lower name) ''bin'' \<Longrightarrow>
     folder_label name None
       = (if contains (to_lower name) ''inbox'' then Some ''folders.inbox''
          else if contains (to_lower name) ''sent'' then Some ''folders.sent''
          else if contains (to_lower name) ''draft'' then Some ''folders.drafts''
          else Some ''folders.trash'')"
  by (simp add: folder_label_def folder_key_def truthy_opt_def)

section \<open>Filling in variables\<close>

lemma interpolate_no_brace:
  "CHR ''{'' \<notin> set s \<Longrightarrow> interpolate s (Some vs) = s"
proof -
  have "CHR ''{'' \<notin> set s \<Longrightarrow> replace_from n placeholder (fill vs) prev s = s" for n prev
  proof (induction n arbitrary: prev s)
    case (Suc n)
    then show ?case
      by (cases s) (auto simp: match_here_def placeholder_def lit_cs_def)
  qed simp
  then show "CHR ''{'' \<notin> set s \<Longrightarrow> interpolate s (Some vs) = s"
    by (simp add: interpolate_def rx_replace_def)
qed

end
