(* ===== verification/Folders.thy ===== *)
theory Folders
  imports Stores Pgp I18n
begin

text \<open>
  The folders of an account: the tree of the sidebar (\<open>frontend/src/components/layout/Sidebar.tsx\<close>) with its
  rows, counters and the emptying of a folder, and the dialog that hides and orders folders
  (\<open>FolderManagerModal.tsx\<close>).  Preferences and the order are what the server answered, \<open>None\<close> before.
  A \<open>Map\<close> is an association list in insertion order; names with characters above 255 are outside the
  model.
\<close>

section \<open>Kinds of folders\<close>

datatype folder_icon = InboxIcon | SendIcon | DraftIcon | TrashIcon | JunkIcon | ArchiveIcon | FolderIcon

definition getFolderIcon :: "string option \<Rightarrow> string \<Rightarrow> folder_icon" where
  "getFolderIcon specialUse name =
     (let key = folder_key name specialUse
      in if contains key ''inbox'' then InboxIcon
         else if contains key ''sent'' then SendIcon
         else if contains key ''draft'' then DraftIcon
         else if contains key ''trash'' \<or> contains key ''bin'' then TrashIcon
         else if contains key ''junk'' \<or> contains key ''spam'' then JunkIcon
         else if contains key ''archive'' then ArchiveIcon
         else FolderIcon)"

type_synonym folder_prefs = "(string \<Rightarrow> bool option) option"

text \<open>\<open>prefs?.[name] ?? true\<close>\<close>

definition pref_of :: "folder_prefs \<Rightarrow> string \<Rightarrow> bool" where
  "pref_of prefs name =
     (case prefs of
        None \<Rightarrow> True
      | Some p \<Rightarrow> (case p name of None \<Rightarrow> True | Some b \<Rightarrow> b))"

definition is_inbox :: "folder_info \<Rightarrow> bool" where
  "is_inbox f \<longleftrightarrow> fi_specialUse f = Some ''inbox'' \<or> to_upper (fi_name f) = ''INBOX''"

definition isVisibleFolder :: "folder_prefs \<Rightarrow> folder_info \<Rightarrow> bool" where
  "isVisibleFolder prefs f \<longleftrightarrow> is_inbox f \<or> pref_of prefs (fi_name f)"

definition trash_name :: "string \<Rightarrow> bool" where
  "trash_name name \<longleftrightarrow> contains (to_lower name) ''trash'' \<or> contains (to_lower name) ''bin''"

definition isTrashFolder :: "folder_info \<Rightarrow> bool" where
  "isTrashFolder f \<longleftrightarrow> fi_specialUse f = Some ''trash'' \<or> trash_name (fi_name f)"

text \<open>\<open>/^virtual(\/|$)/i\<close>\<close>

definition virtual_name :: "string \<Rightarrow> bool" where
  "virtual_name name \<longleftrightarrow> to_lower name = ''virtual'' \<or> starts_with (to_lower name) ''virtual/''"

definition isVirtualFolder :: "folder_info \<Rightarrow> bool" where
  "isVirtualFolder f \<longleftrightarrow> virtual_name (fi_name f)"

definition delim_of :: "folder_info \<Rightarrow> string" where
  "delim_of f = or_else (fi_delimiter f) ''/''"

definition isTopLevelFolder :: "folder_info \<Rightarrow> bool" where
  "isTopLevelFolder f \<longleftrightarrow> \<not> contains (fi_name f) (delim_of f)"

section \<open>The tree\<close>

datatype folder_node =
  FNode (fn_path: string) (fn_displayName: string) (fn_folder: "folder_info option")
    (fn_children: "(string \<times> folder_node) list")

definition path_parts :: "folder_info \<Rightarrow> string list" where
  "path_parts f = filter (\<lambda>p. p \<noteq> []) (split_text (delim_of f) (fi_name f))"

text \<open>\<open>children.get(part)\<close>, after \<open>children.set\<close> where there was none.\<close>

definition child_or_new :: "string \<Rightarrow> string \<Rightarrow> (string \<times> folder_node) list \<Rightarrow> folder_node" where
  "child_or_new path part cs =
     (case map_of cs part of Some n \<Rightarrow> n | None \<Rightarrow> FNode path part None [])"

definition child_path :: "string \<Rightarrow> bool \<Rightarrow> string \<Rightarrow> string \<Rightarrow> string" where
  "child_path d first path part = (if first then part else path @ d @ part)"

text \<open>The walk of \<open>parts.forEach\<close> below a node whose children are \<open>cs\<close>.\<close>

fun place ::
    "folder_info \<Rightarrow> bool \<Rightarrow> string \<Rightarrow> string list \<Rightarrow> (string \<times> folder_node) list \<Rightarrow> (string \<times> folder_node) list" where
  "place f first path [] cs = cs"
| "place f first path (part # parts) cs =
     (let path' = child_path (delim_of f) first path part; n = child_or_new path' part cs
      in map_set part
           (FNode (fn_path n) (fn_displayName n) (if parts = [] then Some f else fn_folder n)
              (place f False path' parts (fn_children n))) cs)"

text \<open>The children of the root.\<close>

definition buildFolderTree :: "folder_info list \<Rightarrow> (string \<times> folder_node) list" where
  "buildFolderTree folders = fold (\<lambda>f cs. place f True [] (path_parts f) cs) folders []"

definition MAX_SAFE_INTEGER :: nat where
  "MAX_SAFE_INTEGER = 9007199254740991"

definition indexOf :: "string list \<Rightarrow> string \<Rightarrow> nat option" where
  "indexOf xs x = (if x \<in> set xs then Some (length (takeWhile (\<lambda>y. y \<noteq> x) xs)) else None)"

definition order_rank :: "string list \<Rightarrow> string \<Rightarrow> nat" where
  "order_rank order path = (case indexOf order path of None \<Rightarrow> MAX_SAFE_INTEGER | Some i \<Rightarrow> i)"

text \<open>\<open>children.sort\<close> with the difference of the ranks, which is stable.\<close>

definition sort_top :: "string list option \<Rightarrow> folder_node list \<Rightarrow> folder_node list" where
  "sort_top folderOrder children =
     (case folderOrder of
        None \<Rightarrow> children
      | Some order \<Rightarrow> if order = [] then children else sort_key (\<lambda>n. order_rank order (fn_path n)) children)"

definition visibleFolders :: "folder_prefs \<Rightarrow> folder_info list option \<Rightarrow> folder_info list" where
  "visibleFolders prefs folders =
     (case folders of None \<Rightarrow> [] | Some fs \<Rightarrow> filter (isVisibleFolder prefs) fs)"

definition top_nodes ::
    "string list option \<Rightarrow> folder_prefs \<Rightarrow> folder_info list option \<Rightarrow> folder_node list" where
  "top_nodes folderOrder prefs folders =
     sort_top folderOrder (map snd (buildFolderTree (visibleFolders prefs folders)))"

subsection \<open>Rows\<close>

record folder_row =
  row_path :: string
  row_name :: string
  row_depth :: nat
  row_folder :: "folder_info option"
  row_expander :: "bool option"
  row_unread :: nat
  row_trash :: bool

definition row_of :: "(string \<Rightarrow> bool) \<Rightarrow> nat \<Rightarrow> folder_node \<Rightarrow> folder_row" where
  "row_of expanded depth n =
     \<lparr>row_path = fn_path n, row_name = fn_displayName n, row_depth = depth, row_folder = fn_folder n,
      row_expander = (if fn_children n \<noteq> [] then Some (expanded (fn_path n)) else None),
      row_unread = (if virtual_name (fn_path n) then 0
                    else case fn_folder n of None \<Rightarrow> 0 | Some f \<Rightarrow> fi_unreadCount f),
      row_trash = ((case fn_folder n of None \<Rightarrow> False | Some f \<Rightarrow> fi_specialUse f = Some ''trash'')
                   \<or> trash_name (fn_path n))\<rparr>"

fun branch_rows :: "(string \<Rightarrow> bool) \<Rightarrow> nat \<Rightarrow> folder_node \<Rightarrow> folder_row list" where
  "branch_rows expanded depth (FNode p d f cs) =
     row_of expanded depth (FNode p d f cs)
     # (if expanded p then concat (map (\<lambda>kn. branch_rows expanded (depth + 1) (snd kn)) cs) else [])"

definition row_icon :: "folder_row \<Rightarrow> folder_icon" where
  "row_icon r =
     (case row_folder r of None \<Rightarrow> FolderIcon | Some f \<Rightarrow> getFolderIcon (fi_specialUse f) (fi_name f))"

definition sidebar_rows ::
    "(string \<Rightarrow> bool) \<Rightarrow> string list option \<Rightarrow> folder_prefs \<Rightarrow> folder_info list option \<Rightarrow> folder_row list" where
  "sidebar_rows expanded folderOrder prefs folders =
     concat (map (branch_rows expanded 0) (top_nodes folderOrder prefs folders))"

definition toggleFolder :: "string \<Rightarrow> (string \<Rightarrow> bool) \<Rightarrow> string \<Rightarrow> bool" where
  "toggleFolder path expanded = expanded(path := \<not> expanded path)"

definition accountUnread :: "folder_prefs \<Rightarrow> folder_info list option \<Rightarrow> nat" where
  "accountUnread prefs folders =
     sum_list (map fi_unreadCount
       (filter (\<lambda>f. isTopLevelFolder f \<and> \<not> isTrashFolder f \<and> \<not> isVirtualFolder f)
         (visibleFolders prefs folders)))"

text \<open>The effect that copies the counter of the inbox to the store.\<close>

definition inbox_effect :: "bool \<Rightarrow> folder_info list option \<Rightarrow> mail_state \<Rightarrow> mail_state" where
  "inbox_effect isActiveAccount folders s =
     (if \<not> isActiveAccount then s
      else setInboxUnread
        (case folders of
           None \<Rightarrow> 0
         | Some fs \<Rightarrow>
             (case find (\<lambda>f. fi_specialUse f = Some ''inbox'' \<or> to_lower (fi_name f) = ''inbox'') fs of
                None \<Rightarrow> 0 | Some f \<Rightarrow> fi_unreadCount f)) s)"

section \<open>Clicks in the sidebar\<close>

definition click_folder :: "string \<Rightarrow> string \<Rightarrow> mail_state \<Rightarrow> mail_state" where
  "click_folder accountId path s =
     setSidebarOpen False (setCurrentFolder path (setActiveAccountId (Some accountId) s))"

definition click_unread :: "string \<Rightarrow> mail_state \<Rightarrow> mail_state" where
  "click_unread accountId s =
     setSidebarOpen False (setUnreadView True (setActiveAccountId (Some accountId) s))"

definition isActive_row :: "bool \<Rightarrow> mail_state \<Rightarrow> folder_row \<Rightarrow> bool" where
  "isActive_row isActiveAccount s r \<longleftrightarrow> isActiveAccount \<and> currentFolder s = row_path r"

definition empty_draft :: partial_message where
  "empty_draft =
     \<lparr>d_from = None, d_to = None, d_cc = None, d_bcc = None, d_subject = None, d_inReplyTo = None,
      d_references = None, d_textBody = None, d_htmlBody = None, d_attachments = None\<rparr>"

definition click_write :: "mail_state \<Rightarrow> mail_state" where
  "click_write s = setSidebarOpen False (openComposer empty_draft s)"

text \<open>Which accounts are unfolded: at first the first one, and an account that came later by its place.\<close>

definition init_collapsed :: "account list \<Rightarrow> string \<Rightarrow> bool option" where
  "init_collapsed accounts = map_of (rev (map (\<lambda>(i, a). (acc_id a, i = 0)) (enumerate 0 accounts)))"

definition unfolded :: "(string \<Rightarrow> bool option) \<Rightarrow> nat \<Rightarrow> account \<Rightarrow> bool" where
  "unfolded collapsed idx a = (case collapsed (acc_id a) of None \<Rightarrow> idx = 0 | Some b \<Rightarrow> b)"

definition toggleCollapsed ::
    "string \<Rightarrow> (string \<Rightarrow> bool option) \<Rightarrow> string \<Rightarrow> bool option" where
  "toggleCollapsed i collapsed = collapsed(i := Some (collapsed i \<noteq> Some True))"

subsection \<open>Emptying a folder\<close>

record emptying =
  em_emptying :: bool
  em_confirm :: bool
  em_requests :: "call list"
  em_stale :: "string list list"
  em_toasts :: toast_state

definition init_emptying :: "toast_state \<Rightarrow> emptying" where
  "init_emptying ts = \<lparr>em_emptying = False, em_confirm = False, em_requests = [], em_stale = [], em_toasts = ts\<rparr>"

datatype empty_event = AskEmpty | CancelEmpty | ConfirmEmpty | EmptyEnds "string + unit"

text \<open>The button of a row, its dialog and \<open>handleEmptyTrash\<close>; a failure comes with the text of the toast.\<close>

fun empty_step :: "string \<Rightarrow> folder_row \<Rightarrow> empty_event \<Rightarrow> emptying \<Rightarrow> emptying" where
  "empty_step accountId r AskEmpty s =
     (if row_trash r \<and> \<not> em_emptying s then s\<lparr>em_confirm := True\<rparr> else s)"
| "empty_step accountId r CancelEmpty s = s\<lparr>em_confirm := False\<rparr>"
| "empty_step accountId r ConfirmEmpty s =
     (if em_confirm s
      then s\<lparr>em_confirm := False, em_emptying := True,
             em_requests := em_requests s @ [emptyFolder (row_path r) (Some accountId)]\<rparr>
      else s)"
| "empty_step accountId r (EmptyEnds res) s =
     (if \<not> em_emptying s then s
      else (case res of
              Inr _ \<Rightarrow> s\<lparr>em_emptying := False,
                         em_stale := em_stale s @ [[''messages'', accountId, row_path r], [''folders'', accountId]]\<rparr>
            | Inl m \<Rightarrow> s\<lparr>em_emptying := False, em_toasts := toast m None (em_toasts s)\<rparr>))"

section \<open>The folder manager\<close>

definition manager_delim :: "folder_info list \<Rightarrow> string" where
  "manager_delim fs = (case fs of [] \<Rightarrow> ''/'' | f # _ \<Rightarrow> or_else (fi_delimiter f) ''/'')"

definition topFolders :: "folder_prefs \<Rightarrow> folder_info list \<Rightarrow> folder_info list" where
  "topFolders prefs fs =
     filter (\<lambda>f. \<not> contains (fi_name f) (manager_delim fs) \<and> pref_of prefs (fi_name f)) fs"

definition orderedTopFolders :: "string list option \<Rightarrow> folder_info list \<Rightarrow> folder_info list" where
  "orderedTopFolders savedOrder tops =
     (let saved = (case savedOrder of None \<Rightarrow> [] | Some xs \<Rightarrow> xs)
      in List.map_filter (\<lambda>name. find (\<lambda>f. fi_name f = name) tops) saved
         @ filter (\<lambda>f. fi_name f \<notin> set saved) tops)"

text \<open>\<open>moveTop\<close>: the order to store, or \<open>None\<close> at an end of the list.\<close>

definition moveTop :: "nat \<Rightarrow> int \<Rightarrow> folder_info list \<Rightarrow> string list option" where
  "moveTop index dir ordered =
     (let target = int index + dir
      in if target < 0 \<or> target \<ge> int (length ordered) then None
         else Some (map fi_name
           (ordered[index := ordered ! nat target, nat target := ordered ! index])))"

definition order_call :: "string \<Rightarrow> string list \<Rightarrow> call" where
  "order_call accountId order = setFolderOrder accountId order"

text \<open>\<open>toggle\<close>: the request for a folder whose box may be clicked.\<close>

definition toggle_call ::
    "string \<Rightarrow> folder_prefs \<Rightarrow> (string \<Rightarrow> bool) \<Rightarrow> folder_info \<Rightarrow> call option" where
  "toggle_call accountId prefs pendingToggle f =
     (if is_inbox f \<or> pendingToggle (fi_name f) then None
      else Some (setFolderPref accountId (fi_name f) (\<not> pref_of prefs (fi_name f))))"

definition box_checked :: "folder_prefs \<Rightarrow> folder_info \<Rightarrow> bool" where
  "box_checked prefs f \<longleftrightarrow> is_inbox f \<or> pref_of prefs (fi_name f)"

end
