(* ===== verification/FoldersProps.thy ===== *)
theory FoldersProps
  imports Folders MessageListProps "HOL-Library.Sublist" "HOL-Library.Multiset"
begin

text \<open>
  Properties of the folders: the tree against a description of its nodes, the rows of the sidebar, the
  order that the folder manager stores, and the emptying of folders.
\<close>

section \<open>The tree\<close>

lemma map_of_map_set: "map_of (map_set k v cs) x = (if x = k then Some v else map_of cs x)"
  by (induction cs) auto

lemma keys_map_set: "map fst (map_set k v cs) = (if k \<in> set (map fst cs) then map fst cs else map fst cs @ [k])"
  by (induction cs) (auto simp: image_iff, force)

fun node_at :: "(string \<times> folder_node) list \<Rightarrow> string list \<Rightarrow> folder_node option" where
  "node_at cs [] = None"
| "node_at cs [p] = map_of cs p"
| "node_at cs (p # q # qs) = (case map_of cs p of None \<Rightarrow> None | Some n \<Rightarrow> node_at (fn_children n) (q # qs))"

type_synonym node_info = "string \<times> string \<times> folder_info option"

definition info_at :: "(string \<times> folder_node) list \<Rightarrow> string list \<Rightarrow> node_info option" where
  "info_at cs qs = map_option (\<lambda>n. (fn_path n, fn_displayName n, fn_folder n)) (node_at cs qs)"

definition path_at :: "string \<Rightarrow> bool \<Rightarrow> string \<Rightarrow> string list \<Rightarrow> string" where
  "path_at d first path qs = (if first then join d qs else path @ d @ join d qs)"

lemma path_at_child: "qs \<noteq> [] \<Longrightarrow> path_at d False (child_path d first path p) qs = path_at d first path (p # qs)"
  by (simp add: path_at_def child_path_def join_Cons)

lemma path_at_single: "path_at d first path [p] = child_path d first path p"
  by (simp add: path_at_def child_path_def)

lemma info_at_Cons:
  "qs \<noteq> [] \<Longrightarrow> info_at cs (p # qs) = (case map_of cs p of None \<Rightarrow> None | Some n \<Rightarrow> info_at (fn_children n) qs)"
  by (cases qs) (auto simp: info_at_def split: option.split)

lemma info_at_Nil: "info_at [] qs = None"
proof (cases qs)
  case (Cons p ps)
  then show ?thesis by (cases ps) (auto simp: info_at_def)
qed (simp add: info_at_def)

text \<open>What one folder adds to the tree.\<close>

lemma info_at_place:
  assumes "qs \<noteq> []"
  shows "info_at (place f first path ps cs) qs =
    (if prefix qs ps
     then Some (case info_at cs qs of
          None \<Rightarrow> (path_at (delim_of f) first path qs, last qs, if qs = ps then Some f else None)
        | Some (p, dn, g) \<Rightarrow> (p, dn, if qs = ps then Some f else g))
     else info_at cs qs)"
  using assms
proof (induction ps arbitrary: first path cs qs)
  case Nil
  then show ?case by simp
next
  case (Cons p ps)
  from Cons.prems obtain q qs' where qs: "qs = q # qs'" by (cases qs) auto
  let ?path = "child_path (delim_of f) first path p"
  let ?n = "child_or_new ?path p cs"
  let ?n' = "FNode (fn_path ?n) (fn_displayName ?n) (if ps = [] then Some f else fn_folder ?n)
              (place f False ?path ps (fn_children ?n))"
  have m: "map_of (place f first path (p # ps) cs) q = (if q = p then Some ?n' else map_of cs q)"
    by (simp add: map_of_map_set Let_def)
  show ?case
  proof (cases "qs' = []")
    case True
    with m qs show ?thesis
      by (cases "map_of cs p") (auto simp: info_at_def child_or_new_def path_at_single simp del: place.simps)
  next
    case False
    have c: "info_at (fn_children ?n) qs' = (case map_of cs p of None \<Rightarrow> None | Some n \<Rightarrow> info_at (fn_children n) qs')"
      by (simp add: child_or_new_def info_at_Nil split: option.split)
    have l: "last qs = last qs'" using False qs by simp
    show ?thesis
    proof (cases "q = p")
      case True
      with m qs False have "info_at (place f first path (p # ps) cs) qs = info_at (place f False ?path ps (fn_children ?n)) qs'"
        by (simp add: info_at_Cons del: place.simps)
      also note Cons.IH [OF False, of False ?path "fn_children ?n"]
      also have "path_at (delim_of f) False ?path qs' = path_at (delim_of f) first path qs"
        using False True qs by (simp add: path_at_child)
      also have "info_at (fn_children ?n) qs' = info_at cs qs"
        using c True qs False by (simp add: info_at_Cons)
      finally have r: "info_at (place f first path (p # ps) cs) qs = (if prefix qs' ps
          then Some (case info_at cs qs of
               None \<Rightarrow> (path_at (delim_of f) first path qs, last qs', if qs' = ps then Some f else None)
             | Some (p, dn, g) \<Rightarrow> (p, dn, if qs' = ps then Some f else g))
          else info_at cs qs)" .
      have "prefix qs (p # ps) \<longleftrightarrow> prefix qs' ps" "qs = p # ps \<longleftrightarrow> qs' = ps"
        using True qs by simp_all
      with r l show ?thesis by (simp only:)
    next
      case False
      with m qs \<open>qs' \<noteq> []\<close> show ?thesis by (simp add: info_at_Cons del: place.simps)
    qed
  qed
qed

definition same_delim :: "string \<Rightarrow> folder_info list \<Rightarrow> bool" where
  "same_delim d fs \<longleftrightarrow> list_all (\<lambda>f. delim_of f = d) fs"

lemma buildFolderTree_snoc:
  "buildFolderTree (fs @ [f]) = place f True [] (path_parts f) (buildFolderTree fs)"
  by (simp add: buildFolderTree_def)

lemma tree_nodes:
  assumes "same_delim d fs" and "qs \<noteq> []"
  shows "info_at (buildFolderTree fs) qs =
    (if \<exists>f \<in> set fs. prefix qs (path_parts f)
     then Some (join d qs, last qs, find (\<lambda>f. path_parts f = qs) (rev fs)) else None)"
  using assms
proof (induction fs rule: rev_induct)
  case Nil
  then show ?case by (simp add: buildFolderTree_def info_at_Nil)
next
  case (snoc f fs)
  then have "delim_of f = d" "same_delim d fs" by (simp_all add: same_delim_def)
  with snoc have IH: "info_at (buildFolderTree fs) qs =
    (if \<exists>f \<in> set fs. prefix qs (path_parts f)
     then Some (join d qs, last qs, find (\<lambda>f. path_parts f = qs) (rev fs)) else None)" by blast
  have "find (\<lambda>f. path_parts f = qs) (rev fs) = None" if "\<not> (\<exists>f \<in> set fs. prefix qs (path_parts f))"
    using that by (auto simp: find_None_iff)
  with IH \<open>delim_of f = d\<close> show ?case
    by (auto simp: buildFolderTree_snoc info_at_place [OF snoc.prems(2)] path_at_def)
qed

text \<open>The tree has a node for exactly the beginnings of the folders' paths; the node carries the path
  to itself, the last part as its name, and the last listed folder with this path, if there is
  one.\<close>

theorem folder_tree_nodes:
  assumes "same_delim d fs" and "qs \<noteq> []"
  shows "info_at (buildFolderTree fs) qs =
    (if \<exists>f \<in> set fs. prefix qs (path_parts f)
     then Some (join d qs, last qs, find (\<lambda>f. path_parts f = qs) (rev fs)) else None)"
  using assms by (rule tree_nodes)

definition deep_folder :: folder_info where
  "deep_folder =
     \<lparr>fi_name = ''Work/2024'', fi_delimiter = ''/'', fi_attributes = [], fi_totalCount = 3, fi_unreadCount = 2,
      fi_specialUse = None, fi_subscribed = True\<rparr>"

theorem folder_tree_nodes_witness:
  "info_at (buildFolderTree [deep_folder]) [''Work''] = Some (''Work'', ''Work'', None)"
proof -
  have d: "same_delim ''/'' [deep_folder]" "path_parts deep_folder = [''Work'', ''2024'']" by code_simp+
  show ?thesis using folder_tree_nodes [OF d(1), of "[''Work'']"] by (simp add: d(2))
qed

section \<open>Rows\<close>

abbreviation all_open :: "string \<Rightarrow> bool" where
  "all_open \<equiv> \<lambda>_. True"

lemma branch_row_of:
  "node_at (fn_children n) qs = Some m \<Longrightarrow>
     \<exists>r \<in> set (branch_rows all_open k n). row_path r = fn_path m \<and> row_folder r = fn_folder m"
proof (induction qs arbitrary: n k)
  case (Cons p qs)
  obtain pa dn g cs where n: "n = FNode pa dn g cs" by (cases n)
  from Cons.prems n obtain c where c: "map_of cs p = Some c"
      "if qs = [] then m = c else node_at (fn_children c) qs = Some m"
    by (cases qs) (auto split: option.splits)
  from map_of_SomeD [OF c(1)] have sub: "set (branch_rows all_open (Suc k) c) \<subseteq> set (branch_rows all_open k n)"
    using n by force
  have own: "row_of all_open (Suc k) c \<in> set (branch_rows all_open (Suc k) c)" by (cases c) simp
  show ?case
  proof (cases "qs = []")
    case True
    with c own sub show ?thesis by (auto simp: row_of_def intro!: bexI [of _ "row_of all_open (Suc k) c"])
  next
    case False
    with c Cons.IH [of c "Suc k"] sub show ?thesis by auto
  qed
qed simp

text \<open>No two children of a node have the same key.\<close>

fun tidy :: "folder_node \<Rightarrow> bool" where
  "tidy (FNode p d f cs) \<longleftrightarrow> distinct (map fst cs) \<and> (\<forall>kn \<in> set cs. tidy (snd kn))"

definition tidy_list :: "(string \<times> folder_node) list \<Rightarrow> bool" where
  "tidy_list cs \<longleftrightarrow> distinct (map fst cs) \<and> (\<forall>kn \<in> set cs. tidy (snd kn))"

lemma tidy_FNode: "tidy (FNode p d f cs) \<longleftrightarrow> tidy_list cs"
  by (simp add: tidy_list_def)

lemma tidy_iff: "tidy n \<longleftrightarrow> tidy_list (fn_children n)"
  by (cases n) (simp add: tidy_FNode del: tidy.simps)

lemma set_map_set: "kn \<in> set (map_set k v cs) \<Longrightarrow> kn = (k, v) \<or> kn \<in> set cs"
  by (induction cs) (auto split: if_splits)

lemma tidy_map_set:
  assumes "tidy_list cs" and "tidy n"
  shows "tidy_list (map_set k n cs)"
  using assms set_map_set [of _ k n cs] by (fastforce simp: tidy_list_def keys_map_set)

lemma tidy_child: "tidy_list cs \<Longrightarrow> map_of cs p = Some n \<Longrightarrow> tidy n"
  by (auto simp: tidy_list_def dest!: map_of_SomeD)

lemma tidy_place: "tidy_list cs \<Longrightarrow> tidy_list (place f first path ps cs)"
proof (induction ps arbitrary: first path cs)
  case (Cons p ps)
  let ?n = "child_or_new (child_path (delim_of f) first path p) p cs"
  have "tidy_list (fn_children ?n)"
    using Cons.prems tidy_child [of cs p]
    by (auto simp: child_or_new_def tidy_iff tidy_list_def [of "[]"] split: option.split)
  from Cons.IH [OF this] Cons.prems show ?case
    by (simp add: Let_def tidy_map_set tidy_FNode del: tidy.simps)
qed simp

lemma tidy_tree: "tidy_list (buildFolderTree fs)"
  by (induction fs rule: rev_induct)
    (simp_all add: buildFolderTree_snoc tidy_place, simp add: buildFolderTree_def tidy_list_def)

lemma node_at_child:
  assumes "tidy_list cs" and "(k, n) \<in> set cs"
  shows "node_at cs [k] = Some n" and "qs \<noteq> [] \<Longrightarrow> node_at cs (k # qs) = node_at (fn_children n) qs"
proof -
  have "map_of cs k = Some n" using assms by (simp add: tidy_list_def)
  then show "node_at cs [k] = Some n" "qs \<noteq> [] \<Longrightarrow> node_at cs (k # qs) = node_at (fn_children n) qs"
    by (auto simp: neq_Nil_conv)
qed

lemma branch_row_node:
  "tidy n \<Longrightarrow> r \<in> set (branch_rows expanded k n) \<Longrightarrow> (row_path r = fn_path n \<and> row_folder r = fn_folder n)
     \<or> (\<exists>qs m. qs \<noteq> [] \<and> node_at (fn_children n) qs = Some m \<and> row_path r = fn_path m \<and> row_folder r = fn_folder m)"
proof (induction expanded k n rule: branch_rows.induct)
  case (1 expanded k p d f cs)
  show ?case
  proof (cases "r = row_of expanded k (FNode p d f cs)")
    case False
    with 1(3) obtain a c where c: "(a, c) \<in> set cs" "r \<in> set (branch_rows expanded (k + 1) c)" and ex: "expanded p"
      by (auto split: if_splits)
    have t: "tidy_list cs" "tidy c" using 1(2) c(1) by (auto simp: tidy_list_def)
    from 1(1) [OF ex c(1)] t(2) c(2) consider
        (own) "row_path r = fn_path c" "row_folder r = fn_folder c"
      | (sub) qs m where "qs \<noteq> []" "node_at (fn_children c) qs = Some m" "row_path r = fn_path m" "row_folder r = fn_folder m"
      by auto
    then show ?thesis
    proof cases
      case own
      with node_at_child(1) [OF t(1) c(1)] show ?thesis
        by (intro disjI2 exI [of _ "[a]"] exI [of _ c]) simp
    next
      case sub
      with node_at_child(2) [OF t(1) c(1)] show ?thesis
        by (intro disjI2 exI [of _ "a # qs"] exI [of _ m]) simp
    qed
  qed (simp add: row_of_def)
qed

text \<open>Folders that the tree can show: one delimiter, names without empty parts, no name twice.\<close>

definition well_named :: "string \<Rightarrow> folder_info list \<Rightarrow> bool" where
  "well_named d fs \<longleftrightarrow>
     same_delim d fs \<and> distinct (map fi_name fs)
     \<and> list_all (\<lambda>f. path_parts f \<noteq> [] \<and> join d (path_parts f) = fi_name f) fs"

lemma well_named_same:
  assumes "well_named d fs" and "f \<in> set fs" and "g \<in> set fs" and "path_parts g = path_parts f"
  shows "g = f"
proof -
  have "join d (path_parts f) = fi_name f" "join d (path_parts g) = fi_name g"
    using assms(1-3) by (auto simp: well_named_def list_all_iff)
  with assms(4) have "fi_name g = fi_name f" by simp
  with assms(1-3) show ?thesis by (auto simp: well_named_def distinct_map dest: inj_onD)
qed

lemma find_path:
  assumes "well_named d fs" and "f \<in> set fs"
  shows "find (\<lambda>g. path_parts g = path_parts f) (rev fs) = Some f"
proof (cases "find (\<lambda>g. path_parts g = path_parts f) (rev fs)")
  case None
  with assms(2) show ?thesis by (auto simp: find_None_iff)
next
  case (Some g)
  then have "g \<in> set fs" "path_parts g = path_parts f" using find_keep [of _ "rev fs" g] by auto
  with Some well_named_same [OF assms] show ?thesis by auto
qed

lemma node_of_folder:
  assumes "well_named d fs" and "f \<in> set fs"
  shows "\<exists>m. node_at (buildFolderTree fs) (path_parts f) = Some m \<and> fn_path m = fi_name f \<and> fn_folder m = Some f"
proof -
  have p: "path_parts f \<noteq> []" "join d (path_parts f) = fi_name f" "same_delim d fs"
    using assms by (auto simp: well_named_def list_all_iff)
  have "info_at (buildFolderTree fs) (path_parts f)
      = Some (fi_name f, last (path_parts f), Some f)"
    using tree_nodes [OF p(3,1)] find_path [OF assms] assms(2) p(2) by auto
  then show ?thesis by (auto simp: info_at_def)
qed

lemma folder_of_node:
  assumes "well_named d fs" and "qs \<noteq> []" and "node_at (buildFolderTree fs) qs = Some m" and "fn_folder m = Some f"
  shows "f \<in> set fs \<and> fn_path m = fi_name f"
proof -
  have "info_at (buildFolderTree fs) qs = Some (fn_path m, fn_displayName m, Some f)"
    using assms(3,4) by (simp add: info_at_def)
  moreover have "same_delim d fs" using assms(1) by (simp add: well_named_def)
  ultimately have "fn_path m = join d qs" "find (\<lambda>f. path_parts f = qs) (rev fs) = Some f"
    using tree_nodes [OF _ assms(2), of d fs] by (auto split: if_splits)
  then have "f \<in> set fs" "path_parts f = qs" "fn_path m = join d qs" using find_keep [of _ "rev fs" f] by auto
  then show ?thesis using assms(1) by (auto simp: well_named_def list_all_iff)
qed

lemma set_top_nodes:
  "set (top_nodes folderOrder prefs folders) = snd ` set (buildFolderTree (visibleFolders prefs folders))"
  by (simp add: top_nodes_def sort_top_def split: option.split)

text \<open>C15: the sidebar shows the visible folders: with every branch open each of them has a row, a click on
  which opens this folder, and whatever is open, a row with a folder is that of a visible folder.\<close>

theorem sidebar_shows_visible_folders:
  assumes "well_named d (visibleFolders prefs folders)"
  shows "(\<forall>f \<in> set (visibleFolders prefs folders). \<exists>r \<in> set (sidebar_rows all_open folderOrder prefs folders).
       row_folder r = Some f \<and> currentFolder (click_folder accountId (row_path r) s) = fi_name f)
    \<and> (\<forall>r \<in> set (sidebar_rows expanded folderOrder prefs folders). \<forall>f. row_folder r = Some f
         \<longrightarrow> f \<in> set (visibleFolders prefs folders) \<and> row_path r = fi_name f)"
proof (intro conjI ballI allI impI)
  let ?fs = "visibleFolders prefs folders" and ?tree = "buildFolderTree (visibleFolders prefs folders)"
  fix f assume f: "f \<in> set ?fs"
  obtain m where m: "node_at ?tree (path_parts f) = Some m" "fn_path m = fi_name f" "fn_folder m = Some f"
    using node_of_folder [OF assms f] by blast
  then obtain p qs where qs: "path_parts f = p # qs" by (cases "path_parts f") auto
  obtain c where c: "map_of ?tree p = Some c" "if qs = [] then m = c else node_at (fn_children c) qs = Some m"
    using m(1) qs by (cases qs) (auto split: option.splits)
  have "c \<in> set (top_nodes folderOrder prefs folders)"
    using map_of_SomeD [OF c(1)] by (force simp: set_top_nodes)
  then have sub: "set (branch_rows all_open 0 c) \<subseteq> set (sidebar_rows all_open folderOrder prefs folders)"
    by (auto simp: sidebar_rows_def)
  have "\<exists>r \<in> set (branch_rows all_open 0 c). row_path r = fn_path m \<and> row_folder r = fn_folder m"
  proof (cases "qs = []")
    case True
    with c(2) show ?thesis by (cases c) (simp add: row_of_def)
  qed (use c(2) branch_row_of [of c qs m 0] in simp)
  then obtain r where "r \<in> set (sidebar_rows all_open folderOrder prefs folders)"
      "row_path r = fi_name f" "row_folder r = Some f" using sub m(2,3) by auto
  then show "\<exists>r \<in> set (sidebar_rows all_open folderOrder prefs folders).
      row_folder r = Some f \<and> currentFolder (click_folder accountId (row_path r) s) = fi_name f"
    by (intro bexI [of _ r]) (simp_all add: click_folder_def setSidebarOpen_def setCurrentFolder_def)
next
  let ?fs = "visibleFolders prefs folders" and ?tree = "buildFolderTree (visibleFolders prefs folders)"
  fix r f assume "r \<in> set (sidebar_rows expanded folderOrder prefs folders)" and rf: "row_folder r = Some f"
  then obtain a c where c: "(a, c) \<in> set ?tree" "r \<in> set (branch_rows expanded 0 c)"
    by (auto simp: sidebar_rows_def set_top_nodes)
  have t: "tidy_list ?tree" by (rule tidy_tree)
  then have "tidy c" using c(1) by (auto simp: tidy_list_def)
  from branch_row_node [OF this c(2)]
  have "\<exists>qs m. qs \<noteq> [] \<and> node_at ?tree qs = Some m \<and> row_path r = fn_path m \<and> row_folder r = fn_folder m"
  proof (elim disjE exE conjE)
    assume "row_path r = fn_path c" "row_folder r = fn_folder c"
    with node_at_child(1) [OF t c(1)] show ?thesis by (intro exI [of _ "[a]"] exI [of _ c]) simp
  next
    fix qs m assume "qs \<noteq> []" "node_at (fn_children c) qs = Some m" "row_path r = fn_path m" "row_folder r = fn_folder m"
    with node_at_child(2) [OF t c(1)] show ?thesis by (intro exI [of _ "a # qs"] exI [of _ m]) simp
  qed
  then obtain qs m where
      "qs \<noteq> []" "node_at ?tree qs = Some m" "row_path r = fn_path m" "row_folder r = fn_folder m" by blast
  with folder_of_node [OF assms, of qs m f] rf
  show "f \<in> set ?fs" "row_path r = fi_name f" by simp_all
qed

definition example_folder :: "string \<Rightarrow> folder_info" where
  "example_folder name =
     \<lparr>fi_name = name, fi_delimiter = ''/'', fi_attributes = [], fi_totalCount = 3, fi_unreadCount = 2,
      fi_specialUse = None, fi_subscribed = True\<rparr>"

definition example_folders :: "folder_info list" where
  "example_folders = map example_folder [''INBOX'', ''Work'', ''Work/2024'']"

theorem sidebar_shows_visible_folders_witness:
  "\<exists>r \<in> set (sidebar_rows all_open None None (Some example_folders)). row_folder r = Some (example_folder ''Work/2024'')"
proof -
  have "well_named ''/'' (visibleFolders None (Some example_folders))" by code_simp
  moreover have "example_folder ''Work/2024'' \<in> set (visibleFolders None (Some example_folders))" by code_simp
  ultimately show ?thesis
    using sidebar_shows_visible_folders [of "''/''" None "Some example_folders" None "''a1''" "init_mail empty_browser"]
    by blast
qed

end
