(* ===== verification/FolderOrder.thy ===== *)
theory FolderOrder
  imports FoldersProps
begin

text \<open>
  The order of the top-level folders that the folder manager stores, against what the manager and the
  sidebar show afterwards; and the emptying of folders.
\<close>

section \<open>The ranks of an order\<close>

lemma indexOf_nth: "distinct xs \<Longrightarrow> i < length xs \<Longrightarrow> indexOf xs (xs ! i) = Some i"
proof -
  assume d: "distinct xs" and i: "i < length xs"
  have "takeWhile (\<lambda>y. y \<noteq> xs ! i) xs = take i xs"
  proof (rule takeWhile_eq_take_P_nth)
    show "xs ! j \<noteq> xs ! i" if "j < i" "j < length xs" for j
      using d i that by (simp add: nth_eq_iff_index_eq)
  qed simp
  then show ?thesis using i by (simp add: indexOf_def)
qed

lemma order_rank_nth:
  "distinct xs \<Longrightarrow> i < length xs \<Longrightarrow> order_rank xs (xs ! i) = i"
  by (simp add: order_rank_def indexOf_nth)

lemma order_rank_map: "distinct xs \<Longrightarrow> map (order_rank xs) xs = [0..<length xs]"
  by (rule nth_equalityI) (simp_all add: order_rank_nth)

lemma order_rank_inj: "distinct xs \<Longrightarrow> inj_on (order_rank xs) (set xs)"
  by (auto simp: inj_on_def in_set_conv_nth order_rank_nth)

text \<open>A list that is sorted by the ranks and has the names of the order shows them in the order.\<close>

lemma sorted_by_rank:
  assumes "distinct names" and "distinct ps" and "set ps = set names" and "sorted (map (order_rank names) ps)"
  shows "ps = names"
proof -
  have "distinct (map (order_rank names) ps)"
    using assms(1-3) order_rank_inj [OF assms(1)] by (simp add: distinct_map)
  moreover have "set (map (order_rank names) ps) = set [0..<length names]"
    using order_rank_map [OF assms(1)] assms(3) by (metis list.set_map)
  ultimately have "map (order_rank names) ps = map (order_rank names) names"
    using assms(4) by (simp add: order_rank_map [OF assms(1)] sorted_distinct_set_unique)
  with assms(3) order_rank_inj [OF assms(1)] show ?thesis by (auto simp: inj_on_map_eq_map)
qed

lemma sort_top_order:
  assumes "distinct names" and "names \<noteq> []" and "distinct (map fn_path ns)"
    and "set names \<subseteq> set (map fn_path ns)"
  shows "filter (\<lambda>p. p \<in> set names) (map fn_path (sort_top (Some names) ns)) = names"
proof (rule sorted_by_rank [OF assms(1)])
  let ?s = "sort_key (\<lambda>n. order_rank names (fn_path n)) ns"
  have s: "sort_top (Some names) ns = ?s" using assms(2) by (simp add: sort_top_def)
  have "mset (map fn_path ?s) = mset (map fn_path ns)" by simp
  then have d: "distinct (map fn_path ?s)" and st: "set (map fn_path ?s) = set (map fn_path ns)"
    using assms(3) mset_eq_imp_distinct_iff mset_eq_setD by blast+
  show "distinct (filter (\<lambda>p. p \<in> set names) (map fn_path (sort_top (Some names) ns)))"
    using d by (simp add: s)
  show "set (filter (\<lambda>p. p \<in> set names) (map fn_path (sort_top (Some names) ns))) = set names"
    using assms(4) st by (auto simp: s)
  have "sorted (map (order_rank names) (map fn_path ?s))"
    using sorted_sort_key [of "\<lambda>n. order_rank names (fn_path n)" ns] by (simp add: o_def)
  then show "sorted (map (order_rank names) (filter (\<lambda>p. p \<in> set names) (map fn_path (sort_top (Some names) ns))))"
    unfolding s by (rule sorted_filter)
qed

section \<open>The order in the manager\<close>

lemma find_name:
  "distinct (map fi_name fs) \<Longrightarrow> f \<in> set fs \<Longrightarrow> find (\<lambda>g. fi_name g = fi_name f) fs = Some f"
  by (induction fs) (auto simp: rev_image_eqI)

lemma map_filter_find:
  assumes "distinct (map fi_name tops)" and "set fs \<subseteq> set tops"
  shows "List.map_filter (\<lambda>name. find (\<lambda>f. fi_name f = name) tops) (map fi_name fs) = fs"
  using assms(2) by (induction fs) (auto simp: List.map_filter_simps find_name [OF assms(1)])

lemma ordered_by_names:
  assumes "distinct (map fi_name tops)" and "set fs = set tops"
  shows "orderedTopFolders (Some (map fi_name fs)) tops = fs"
proof -
  have "filter (\<lambda>f. fi_name f \<notin> set (map fi_name fs)) tops = []"
    using assms(2) by (auto simp: filter_empty_conv)
  then show ?thesis
    using map_filter_find [OF assms(1), of fs] assms(2) by (simp add: orderedTopFolders_def)
qed

lemma set_map_filter_find:
  "set (List.map_filter (\<lambda>name. find (\<lambda>f. fi_name f = name) tops) saved) \<subseteq> set tops"
  by (induction saved) (auto simp: List.map_filter_simps dest!: find_keep split: option.splits)

lemma distinct_map_filter_find:
  "distinct saved \<Longrightarrow>
     distinct (map fi_name (List.map_filter (\<lambda>name. find (\<lambda>f. fi_name f = name) tops) saved))
     \<and> set (map fi_name (List.map_filter (\<lambda>name. find (\<lambda>f. fi_name f = name) tops) saved)) \<subseteq> set saved"
  by (induction saved) (auto simp: List.map_filter_simps find_Some_iff split: option.split)

lemma ordered_permutes:
  assumes "distinct (map fi_name tops)" and "savedOrder \<noteq> None \<Longrightarrow> distinct (the savedOrder)"
  shows "set (orderedTopFolders savedOrder tops) = set tops
    \<and> distinct (map fi_name (orderedTopFolders savedOrder tops))"
proof -
  define saved where "saved = (case savedOrder of None \<Rightarrow> [] | Some xs \<Rightarrow> xs)"
  let ?a = "List.map_filter (\<lambda>name. find (\<lambda>f. fi_name f = name) tops) saved"
  let ?b = "filter (\<lambda>f. fi_name f \<notin> set saved) tops"
  have o: "orderedTopFolders savedOrder tops = ?a @ ?b"
    by (simp add: orderedTopFolders_def saved_def)
  have ds: "distinct saved" using assms(2) by (cases savedOrder) (simp_all add: saved_def)
  have "f \<in> set ?a" if "f \<in> set tops" "fi_name f \<in> set saved" for f
    using that find_name [OF assms(1) that(1)] by (auto simp: List.map_filter_def intro!: rev_image_eqI)
  then have "set (?a @ ?b) = set tops" using set_map_filter_find [of tops saved] by auto
  moreover have "distinct (map fi_name (?a @ ?b))"
    using distinct_map_filter_find [OF ds, of tops]
      distinct_map_filter [OF assms(1), of "\<lambda>f. fi_name f \<notin> set saved"] by auto
  ultimately show ?thesis by (simp add: o)
qed

lemma moveTop_swap:
  assumes "moveTop i dir xs = Some names" and "i < length xs"
  shows "\<exists>j. int j = int i + dir \<and> j < length xs \<and> names = map fi_name (xs[i := xs ! j, j := xs ! i])"
proof -
  have "0 \<le> int i + dir" "int i + dir < int (length xs)" "names = map fi_name
      (xs[i := xs ! nat (int i + dir), nat (int i + dir) := xs ! i])"
    using assms by (auto simp: moveTop_def Let_def split: if_splits)
  then show ?thesis by (intro exI [of _ "nat (int i + dir)"]) auto
qed

lemma swap_back:
  assumes "i < length xs" and "j < length xs" and "ys = xs[i := xs ! j, j := xs ! i]"
  shows "ys[j := ys ! i, i := ys ! j] = xs"
proof (cases "i = j")
  case False
  have y: "ys ! i = xs ! j" "ys ! j = xs ! i" using assms False by simp_all
  have "xs[i := xs ! j, j := xs ! i, j := xs ! j, i := xs ! i] = xs[i := xs ! j, j := xs ! j, i := xs ! i]"
    by (simp only: list_update_overwrite)
  also have "\<dots> = xs[j := xs ! j, i := xs ! j, i := xs ! i]" using False by (simp only: list_update_swap)
  also have "\<dots> = xs" by simp
  finally show ?thesis using y assms(3) by simp
qed (simp add: assms(3))

section \<open>The order in the sidebar\<close>

lemma keys_place:
  "map fst (place f first path ps cs)
     = (case ps of [] \<Rightarrow> map fst cs | p # _ \<Rightarrow> if p \<in> set (map fst cs) then map fst cs else map fst cs @ [p])"
  by (cases ps) (simp_all add: Let_def keys_map_set)

lemma top_paths:
  assumes "same_delim d fs" and "(k, n) \<in> set (buildFolderTree fs)"
  shows "fn_path n = k"
proof -
  have "node_at (buildFolderTree fs) [k] = Some n"
    using tidy_tree assms(2) by (rule node_at_child)
  then have "info_at (buildFolderTree fs) [k] = Some (fn_path n, fn_displayName n, fn_folder n)"
    by (simp add: info_at_def)
  then show ?thesis using tree_nodes [OF assms(1), of "[k]"] by (auto split: if_splits)
qed

lemma distinct_top_paths:
  assumes "same_delim d fs"
  shows "map fn_path (map snd (buildFolderTree fs)) = map fst (buildFolderTree fs)"
    and "distinct (map fn_path (map snd (buildFolderTree fs)))"
proof -
  show e: "map fn_path (map snd (buildFolderTree fs)) = map fst (buildFolderTree fs)"
    using top_paths [OF assms] by auto
  show "distinct (map fn_path (map snd (buildFolderTree fs)))" unfolding e
    using tidy_tree [of fs] by (simp add: tidy_list_def)
qed

lemma top_path_exists:
  assumes "same_delim d fs" and "f \<in> set fs" and "path_parts f = [fi_name f]"
  shows "fi_name f \<in> set (map fn_path (map snd (buildFolderTree fs)))"
proof -
  have "\<exists>g \<in> set fs. prefix [fi_name f] (path_parts g)"
    using assms(2,3) by (intro bexI [of _ f]) simp_all
  then have "info_at (buildFolderTree fs) [fi_name f] \<noteq> None"
    using tree_nodes [OF assms(1), of "[fi_name f]"] by simp
  then have "fi_name f \<in> set (map fst (buildFolderTree fs))"
    by (auto simp: info_at_def dest!: map_of_SomeD intro: rev_image_eqI)
  then show ?thesis using distinct_top_paths(1) [OF assms(1)] by simp
qed

text \<open>A name without the delimiter is its own path.\<close>

lemma index_of_None: "\<not> contains s sep \<Longrightarrow> index_of sep s = None"
  by (induction s) auto

lemma top_level_parts:
  assumes "fi_name f \<noteq> []" and "\<not> contains (fi_name f) (delim_of f)"
  shows "path_parts f = [fi_name f]"
proof -
  have "split_text (delim_of f) (fi_name f) = [fi_name f]"
    using index_of_None [OF assms(2)] assms(1) by (cases "fi_name f") (auto simp: split_text_def)
  with assms(1) show ?thesis by (simp add: path_parts_def)
qed

text \<open>C16: an order that the user makes by moving a folder is the order that is shown: once it is stored, the
  manager lists the folders in this order, the sidebar shows them in this order too, no folder is
  lost, and moving the folder back restores the order before.\<close>

theorem moved_order_is_shown:
  assumes "well_named d fs" and "list_all (\<lambda>f. fi_name f \<noteq> []) fs"
    and "savedOrder \<noteq> None \<Longrightarrow> distinct (the savedOrder)"
    and "ordered = orderedTopFolders savedOrder (topFolders prefs fs)" and "i < length ordered"
    and "moveTop i dir ordered = Some names"
  shows "map fi_name (orderedTopFolders (Some names) (topFolders prefs fs)) = names
    \<and> mset names = mset (map fi_name (topFolders prefs fs))
    \<and> filter (\<lambda>p. p \<in> set names) (map fn_path (top_nodes (Some names) prefs (Some fs))) = names
    \<and> moveTop (nat (int i + dir)) (- dir) (orderedTopFolders (Some names) (topFolders prefs fs))
        = Some (map fi_name ordered)"
proof -
  let ?tops = "topFolders prefs fs"
  obtain j where j: "int j = int i + dir" "j < length ordered"
      "names = map fi_name (ordered[i := ordered ! j, j := ordered ! i])"
    using moveTop_swap [OF assms(6,5)] by blast
  define ys where "ys = ordered[i := ordered ! j, j := ordered ! i]"
  have n: "names = map fi_name ys" by (simp add: ys_def j(3))
  have dt: "distinct (map fi_name ?tops)"
    using assms(1) by (simp add: topFolders_def well_named_def distinct_map_filter)
  have o: "set ordered = set ?tops" "distinct (map fi_name ordered)"
    using ordered_permutes [OF dt assms(3)] by (simp_all add: assms(4))
  have sy: "set ys = set ?tops" unfolding ys_def using o(1) assms(5) j(2) by simp
  have my: "mset ys = mset ordered" unfolding ys_def by (rule mset_swap [OF j(2) assms(5)])
  then have dn: "distinct names"
    using o(2) by (metis n mset_map mset_eq_imp_distinct_iff)
  have shown: "orderedTopFolders (Some names) ?tops = ys"
    unfolding n by (rule ordered_by_names [OF dt sy])
  have "mset ordered = mset ?tops"
    using o dt by (simp add: set_eq_iff_mset_eq_distinct distinct_map)
  with my have ms: "mset names = mset (map fi_name ?tops)" by (simp add: n)
  have sd: "same_delim d (filter (isVisibleFolder prefs) fs)"
    using assms(1) by (auto simp: well_named_def same_delim_def list_all_iff)
  have "fi_name f \<in> set (map fn_path (map snd (buildFolderTree (filter (isVisibleFolder prefs) fs))))"
    if f: "f \<in> set ?tops" for f
  proof (rule top_path_exists [OF sd])
    show "f \<in> set (filter (isVisibleFolder prefs) fs)"
      using f by (simp add: topFolders_def isVisibleFolder_def)
    have df: "delim_of g = d" if "g \<in> set fs" for g
      using assms(1) that by (simp add: well_named_def same_delim_def list_all_iff)
    have "manager_delim fs = d" using f df by (cases fs) (auto simp: topFolders_def manager_delim_def delim_of_def)
    moreover have "f \<in> set fs" using f by (simp add: topFolders_def)
    ultimately show "path_parts f = [fi_name f]"
      using f df assms(2) by (intro top_level_parts) (auto simp: topFolders_def list_all_iff)
  qed
  then have "set names \<subseteq> set (map fn_path (map snd (buildFolderTree (filter (isVisibleFolder prefs) fs))))"
    using sy by (auto simp: n)
  moreover have "names \<noteq> []" using assms(5) by (auto simp: n ys_def)
  ultimately have "filter (\<lambda>p. p \<in> set names) (map fn_path (top_nodes (Some names) prefs (Some fs))) = names"
    unfolding top_nodes_def visibleFolders_def option.case
    by (intro sort_top_order [OF dn]) (use distinct_top_paths(2) [OF sd] in auto)
  moreover have "moveTop j (- dir) ys = Some (map fi_name ordered)"
  proof -
    have "int j + (- dir) = int i" using j(1) by simp
    moreover have "i < length ys" by (simp add: ys_def assms(5))
    ultimately show ?thesis
      using swap_back [OF assms(5) j(2) ys_def] by (simp add: moveTop_def Let_def)
  qed
  moreover have "nat (int i + dir) = j" using j(1) by simp
  ultimately show ?thesis unfolding shown using ms n by simp
qed

theorem moved_order_is_shown_witness:
  "map fi_name (orderedTopFolders (Some [''Work'', ''INBOX'']) (topFolders None example_folders)) = [''Work'', ''INBOX'']"
proof -
  have w: "well_named ''/'' example_folders" "list_all (\<lambda>f. fi_name f \<noteq> []) example_folders" by code_simp+
  have o: "orderedTopFolders None (topFolders None example_folders)
      = [example_folder ''INBOX'', example_folder ''Work'']" by code_simp
  have "moveTop 0 1 [example_folder ''INBOX'', example_folder ''Work''] = Some [''Work'', ''INBOX'']"
    by code_simp
  from moved_order_is_shown [OF w, of None "[example_folder ''INBOX'', example_folder ''Work'']" None 0 1, OF _ _ _ this]
  show ?thesis by (simp add: o)
qed

section \<open>Emptying folders\<close>

definition confirmations :: "empty_event list \<Rightarrow> nat" where
  "confirmations es = length (filter (\<lambda>e. e = ConfirmEmpty) es)"

text \<open>A row that does not look like trash is never emptied; a dialog and a running request exclude each
  other.\<close>

definition emptying_inv :: "string \<Rightarrow> folder_row \<Rightarrow> emptying \<Rightarrow> bool" where
  "emptying_inv accountId r s \<longleftrightarrow>
     (em_confirm s \<or> em_requests s \<noteq> [] \<longrightarrow> row_trash r) \<and> \<not> (em_confirm s \<and> em_emptying s)
     \<and> set (em_requests s) \<subseteq> {emptyFolder (row_path r) (Some accountId)}"

interpretation emptying: safe_machine "init_emptying ts" "empty_step accountId r" "emptying_inv accountId r"
  for ts accountId r
proof
  show "emptying_inv accountId r (init_emptying ts)" by (simp add: emptying_inv_def init_emptying_def)
  show "emptying_inv accountId r s \<Longrightarrow> emptying_inv accountId r (empty_step accountId r e s)" for e s
    by (cases e) (auto simp: emptying_inv_def split: sum.split)
qed

lemma requests_confirmed:
  "length (em_requests (fold (empty_step accountId r) es s)) \<le> length (em_requests s) + confirmations es"
proof (induction es arbitrary: s)
  case (Cons e es)
  have "length (em_requests (empty_step accountId r e s)) \<le> length (em_requests s) + confirmations [e]"
    by (cases e) (auto simp: confirmations_def split: sum.split)
  with Cons.IH [of "empty_step accountId r e s"] show ?case by (auto simp: confirmations_def)
qed (simp add: confirmations_def)

text \<open>C17: whatever the user clicks, a row of the sidebar empties only its own folder, only when the row looks
  like trash, at most once for each confirmation, and never while its dialog is open.\<close>

theorem emptying_needs_confirmation:
  "case fold (empty_step accountId r) es (init_emptying ts) of s \<Rightarrow>
     set (em_requests s) \<subseteq> {emptyFolder (row_path r) (Some accountId)}
     \<and> (em_requests s = [] \<or> row_trash r)
     \<and> length (em_requests s) \<le> confirmations es \<and> \<not> (em_confirm s \<and> em_emptying s)"
  using emptying.inv_history [where ts = ts and accountId = accountId and r = r and es = es] requests_confirmed [of accountId r es "init_emptying ts"]
  by (auto simp: emptying_inv_def init_emptying_def)

text \<open>A folder looks like trash when its path has the three letters \<open>bin\<close> anywhere, whatever its special
  use: two clicks empty it for good, it has the icon of the trash, and its unread messages are left
  out of the counter of the account.\<close>

theorem folder_with_bin_is_emptied:
  assumes "contains (to_lower (fi_name f)) ''bin''" and "fn_path n = fi_name f" and "fn_folder n = Some f"
    and "r = row_of expanded depth n"
  shows "em_requests (fold (empty_step accountId r) [AskEmpty, ConfirmEmpty] (init_emptying ts))
      = [emptyFolder (fi_name f) (Some accountId)]
    \<and> accountUnread prefs (Some [f]) = 0
    \<and> (fi_specialUse f = None \<longrightarrow> row_icon r \<in> {InboxIcon, SendIcon, DraftIcon, TrashIcon})"
proof -
  have t: "trash_name (fi_name f)" using assms(1) by (simp add: trash_name_def)
  then have "row_trash r" "row_path r = fi_name f" using assms by (simp_all add: row_of_def)
  moreover have "isTrashFolder f" using t by (simp add: isTrashFolder_def)
  moreover have "row_icon r \<in> {InboxIcon, SendIcon, DraftIcon, TrashIcon}" if "fi_specialUse f = None"
    using that assms by (simp add: row_icon_def row_of_def getFolderIcon_def folder_key_def truthy_opt_def Let_def)
  ultimately show ?thesis
    by (simp add: init_emptying_def accountUnread_def visibleFolders_def)
qed

theorem folder_with_bin_is_emptied_witness:
  "em_requests (fold (empty_step ''a1'' (row_of all_open 0
         (FNode ''Cabinet'' ''Cabinet'' (Some (example_folder ''Cabinet'')) [])))
       [AskEmpty, ConfirmEmpty] (init_emptying init_toast)) = [emptyFolder ''Cabinet'' (Some ''a1'')]"
proof -
  have "contains (to_lower (fi_name (example_folder ''Cabinet''))) ''bin''" by code_simp
  from folder_with_bin_is_emptied [OF this, of "FNode ''Cabinet'' ''Cabinet'' (Some (example_folder ''Cabinet'')) []"
      "row_of all_open 0 (FNode ''Cabinet'' ''Cabinet'' (Some (example_folder ''Cabinet'')) [])" all_open 0 "''a1''"
      init_toast]
  show ?thesis by (simp add: example_folder_def)
qed

end
