(* ===== verification/Login.thy ===== *)
theory Login
  imports Stores
begin

text \<open>
  The component \<open>LoginForm\<close> of \<open>frontend/src/components/auth/LoginForm.tsx\<close>: the servers that it guesses from
  the address, the login request, and the second factor by code or passkey.  The record holds the
  state of the component, the authentication store and the requests that were sent.  A port typed
  as a negative number is outside the model.
\<close>

section \<open>Servers\<close>

record server_defaults =
  sd_imapHost :: string
  sd_imapPort :: nat
  sd_smtpHost :: string
  sd_smtpPort :: nat
  sd_allowInsecureTls :: bool

text \<open>An entry of \<open>KNOWN_DOMAINS\<close>; all of them have \<open>allowInsecure: false\<close>.\<close>

definition provider :: "string \<Rightarrow> string \<Rightarrow> nat \<Rightarrow> server_defaults" where
  "provider imap smtp port =
     \<lparr>sd_imapHost = imap, sd_imapPort = 993, sd_smtpHost = smtp, sd_smtpPort = port,
      sd_allowInsecureTls = False\<rparr>"

definition KNOWN_DOMAINS :: "(string \<times> server_defaults) list" where
  "KNOWN_DOMAINS =
     [(''gmail.com'', provider ''imap.gmail.com'' ''smtp.gmail.com'' 587),
      (''googlemail.com'', provider ''imap.gmail.com'' ''smtp.gmail.com'' 587),
      (''outlook.com'', provider ''outlook.office365.com'' ''smtp.office365.com'' 587),
      (''hotmail.com'', provider ''outlook.office365.com'' ''smtp.office365.com'' 587),
      (''live.com'', provider ''outlook.office365.com'' ''smtp.office365.com'' 587),
      (''office365.com'', provider ''outlook.office365.com'' ''smtp.office365.com'' 587),
      (''yahoo.com'', provider ''imap.mail.yahoo.com'' ''smtp.mail.yahoo.com'' 587),
      (''yahoo.com.hk'', provider ''imap.mail.yahoo.com'' ''smtp.mail.yahoo.com'' 587),
      (''icloud.com'', provider ''imap.mail.me.com'' ''smtp.mail.me.com'' 587),
      (''me.com'', provider ''imap.mail.me.com'' ''smtp.mail.me.com'' 587),
      (''fastmail.com'', provider ''imap.fastmail.com'' ''smtp.fastmail.com'' 587),
      (''qq.com'', provider ''imap.qq.com'' ''smtp.qq.com'' 587),
      (''163.com'', provider ''imap.163.com'' ''smtp.163.com'' 465)]"

text \<open>Where a passkey ceremony stands: asking the server, the device, or the server again.\<close>

datatype passkey_stage = PkBegin | PkDevice string | PkVerify

record login_form =
  lf_email :: string
  lf_password :: string
  lf_showPassword :: bool
  lf_challenge :: "string option"
  lf_twoFACode :: string
  lf_twoFALoading :: bool
  lf_methods :: "string list"
  lf_passkeyLoading :: bool
  lf_imapHost :: string
  lf_imapPort :: nat
  lf_smtpHost :: string
  lf_smtpPort :: nat
  lf_allowInsecureTls :: bool
  lf_serverDefaults :: "server_defaults option"
  lf_detectedDomain :: "string option"
  lf_showAdvanced :: bool
  lf_loading :: bool
  lf_error :: "message option"
  lf_passkey :: "passkey_stage option"
  lf_auth :: auth_state
  lf_calls :: "call list"

definition init_login :: "auth_state \<Rightarrow> login_form" where
  "init_login a =
     \<lparr>lf_email = [], lf_password = [], lf_showPassword = False, lf_challenge = None, lf_twoFACode = [],
      lf_twoFALoading = False, lf_methods = [], lf_passkeyLoading = False, lf_imapHost = [],
      lf_imapPort = 993, lf_smtpHost = [], lf_smtpPort = 587, lf_allowInsecureTls = False,
      lf_serverDefaults = None, lf_detectedDomain = None, lf_showAdvanced = False, lf_loading = False,
      lf_error = None, lf_passkey = None, lf_auth = a, lf_calls = []\<rparr>"

text \<open>The answer of \<open>/api/server-config\<close>; \<open>None\<close> when it failed or named no defaults.\<close>

definition config_arrives :: "server_defaults option \<Rightarrow> login_form \<Rightarrow> login_form" where
  "config_arrives res s =
     (case res of
        None \<Rightarrow> s
      | Some d \<Rightarrow>
          s\<lparr>lf_serverDefaults := Some d,
            lf_imapHost := (if sd_imapHost d \<noteq> [] then sd_imapHost d else lf_imapHost s),
            lf_imapPort := (if sd_imapPort d \<noteq> 0 then sd_imapPort d else lf_imapPort s),
            lf_smtpHost := (if sd_smtpHost d \<noteq> [] then sd_smtpHost d else lf_smtpHost s),
            lf_smtpPort := (if sd_smtpPort d \<noteq> 0 then sd_smtpPort d else lf_smtpPort s),
            lf_allowInsecureTls := sd_allowInsecureTls d\<rparr>)"

definition set_servers :: "server_defaults \<Rightarrow> login_form \<Rightarrow> login_form" where
  "set_servers d s =
     s\<lparr>lf_imapHost := sd_imapHost d, lf_imapPort := sd_imapPort d, lf_smtpHost := sd_smtpHost d,
       lf_smtpPort := sd_smtpPort d, lf_allowInsecureTls := sd_allowInsecureTls d\<rparr>"

definition resetServerSettings :: "login_form \<Rightarrow> login_form" where
  "resetServerSettings s =
     set_servers (case lf_serverDefaults s of
         None \<Rightarrow> \<lparr>sd_imapHost = [], sd_imapPort = 993, sd_smtpHost = [], sd_smtpPort = 587,
                  sd_allowInsecureTls = False\<rparr>
       | Some d \<Rightarrow> d) s"

text \<open>\<open>lastIndexOf\<close> of a character.\<close>

definition last_index :: "char \<Rightarrow> string \<Rightarrow> nat option" where
  "last_index c s =
     (if c \<in> set s then Some (length s - 1 - length (takeWhile (\<lambda>x. x \<noteq> c) (rev s))) else None)"

definition email_domain :: "string \<Rightarrow> string" where
  "email_domain v =
     (case last_index CHR ''@'' v of
        None \<Rightarrow> []
      | Some i \<Rightarrow> if 0 < i \<and> i < length v - 1 then trim (to_lower (drop (i + 1) v)) else [])"

definition handleEmailChange :: "string \<Rightarrow> login_form \<Rightarrow> login_form" where
  "handleEmailChange v s =
     (let s = s\<lparr>lf_email := v\<rparr>; domain = email_domain v
      in if domain = [] \<or> \<not> contains domain ''.'' then resetServerSettings (s\<lparr>lf_detectedDomain := None\<rparr>)
         else
           (case map_of KNOWN_DOMAINS domain of
              Some known \<Rightarrow> (set_servers known s)\<lparr>lf_detectedDomain := Some domain\<rparr>
            | None \<Rightarrow>
                (set_servers
                   (case lf_serverDefaults s of
                      None \<Rightarrow> \<lparr>sd_imapHost = domain, sd_imapPort = 993, sd_smtpHost = domain,
                               sd_smtpPort = 587, sd_allowInsecureTls = False\<rparr>
                    | Some d \<Rightarrow> d\<lparr>sd_imapHost := or_else (sd_imapHost d) domain,
                                 sd_smtpHost := or_else (sd_smtpHost d) domain\<rparr>) s)
                  \<lparr>lf_detectedDomain := Some domain\<rparr>))"

definition autofillHint :: "login_form \<Rightarrow> string" where
  "autofillHint s =
     (let v = trim (lf_email s)
      in if v = [] \<or> CHR ''@'' \<in> set v then []
         else if lf_imapHost s = [] then [] else v @ ''@'' @ lf_imapHost s)"

section \<open>The credentials\<close>

text \<open>The hosts of the request, with the domain of the address where the form has none.\<close>

definition final_hosts :: "login_form \<Rightarrow> string \<times> string" where
  "final_hosts s =
     (if lf_imapHost s = [] \<or> lf_smtpHost s = [] then
        (case last_index CHR ''@'' (lf_email s) of
           None \<Rightarrow> (lf_imapHost s, lf_smtpHost s)
         | Some i \<Rightarrow>
             if 0 < i then
               (let domain = trim (drop (i + 1) (lf_email s))
                in (or_else (lf_imapHost s) domain, or_else (lf_smtpHost s) domain))
             else (lf_imapHost s, lf_smtpHost s))
      else (lf_imapHost s, lf_smtpHost s))"

definition final_email :: "login_form \<Rightarrow> string \<Rightarrow> string" where
  "final_email s imap =
     (case last_index CHR ''@'' (lf_email s) of
        Some (Suc i) \<Rightarrow> trim (lf_email s)
      | _ \<Rightarrow> trim (lf_email s) @ ''@'' @ imap)"

definition or_port :: "nat \<Rightarrow> nat \<Rightarrow> nat" where
  "or_port p d = (if p = 0 then d else p)"

definition login_of :: "login_form \<Rightarrow> string \<Rightarrow> string \<Rightarrow> login_request" where
  "login_of s imap smtp =
     \<lparr>lr_email = final_email s imap, lr_username = None, lr_password = lf_password s, lr_imapHost = imap,
      lr_imapPort = Some (or_port (lf_imapPort s) 993), lr_imapUseTls = Some True,
      lr_imapAllowInsecureTls = Some (lf_allowInsecureTls s), lr_smtpHost = smtp,
      lr_smtpPort = Some (or_port (lf_smtpPort s) 587), lr_smtpUseTls = Some True,
      lr_smtpAllowInsecureTls = Some (lf_allowInsecureTls s)\<rparr>"

definition submit_login :: "login_form \<Rightarrow> login_form" where
  "submit_login s =
     (if trim (lf_email s) = [] \<or> lf_password s = []
      then s\<lparr>lf_error := Some (Tr ''login.needEmailPassword'' [])\<rparr>
      else
        (case final_hosts s of
           (imap, smtp) \<Rightarrow>
             if imap = [] \<or> smtp = []
             then s\<lparr>lf_error := Some (Tr ''login.needServer'' []), lf_showAdvanced := True\<rparr>
             else s\<lparr>lf_loading := True, lf_error := None,
                    lf_calls := lf_calls s @ [auth_login (login_of s imap smtp)]\<rparr>))"

definition login_ends :: "api_error + login_response \<Rightarrow> login_form \<Rightarrow> login_form" where
  "login_ends res s =
     (case login res (lf_auth s) of
        (Inl e, a) \<Rightarrow> s\<lparr>lf_auth := a, lf_error := Some (message_or ''login.loginFailed'' (emessage e)), lf_loading := False\<rparr>
      | (Inr None, a) \<Rightarrow> s\<lparr>lf_auth := a, lf_loading := False\<rparr>
      | (Inr (Some r), a) \<Rightarrow>
          s\<lparr>lf_auth := a, lf_challenge := lg_challenge r,
            lf_methods := (case lg_methods r of None \<Rightarrow> [] | Some ms \<Rightarrow> ms), lf_password := [],
            lf_loading := False\<rparr>)"

section \<open>The second factor\<close>

definition handleTwoFASubmit :: "login_form \<Rightarrow> login_form" where
  "handleTwoFASubmit s =
     (if \<not> truthy_opt (lf_challenge s) \<or> trim (lf_twoFACode s) = []
      then s\<lparr>lf_error := Some (Tr ''login.needCode'' [])\<rparr>
      else s\<lparr>lf_twoFALoading := True, lf_error := None,
             lf_calls := lf_calls s @ [auth_verify2fa
               \<lparr>v_challenge = opt_string (lf_challenge s), v_code = trim (lf_twoFACode s)\<rparr>]\<rparr>)"

definition code_ends :: "api_error + login_response \<Rightarrow> login_form \<Rightarrow> login_form" where
  "code_ends res s =
     (case verify2fa res (lf_auth s) of
        (Inl e, a) \<Rightarrow>
          s\<lparr>lf_auth := a, lf_error := Some (message_or ''login.codeError'' (emessage e)), lf_twoFACode := [],
            lf_twoFALoading := False\<rparr>
      | (Inr _, a) \<Rightarrow> s\<lparr>lf_auth := a, lf_twoFALoading := False\<rparr>)"

definition handleBackToCredentials :: "login_form \<Rightarrow> login_form" where
  "handleBackToCredentials s =
     s\<lparr>lf_challenge := None, lf_twoFACode := [], lf_methods := [], lf_error := None\<rparr>"

definition showPasskey :: "bool \<Rightarrow> login_form \<Rightarrow> bool" where
  "showPasskey passkeySupported s \<longleftrightarrow>
     truthy_opt (lf_challenge s) \<and> passkeySupported \<and> ''webauthn'' \<in> set (lf_methods s)"

definition showCodeForm :: "login_form \<Rightarrow> bool" where
  "showCodeForm s \<longleftrightarrow>
     \<not> truthy_opt (lf_challenge s) \<or> lf_methods s = [] \<or> ''totp'' \<in> set (lf_methods s)"

text \<open>\<open>handlePasskey\<close>, cut at its three \<open>await\<close>s.\<close>

definition handlePasskey :: "login_form \<Rightarrow> login_form" where
  "handlePasskey s =
     (if \<not> truthy_opt (lf_challenge s) then s
      else s\<lparr>lf_passkeyLoading := True, lf_error := None, lf_passkey := Some PkBegin,
             lf_calls := lf_calls s @ [loginBegin (opt_string (lf_challenge s))]\<rparr>)"

definition passkey_fails :: "message \<Rightarrow> login_form \<Rightarrow> login_form" where
  "passkey_fails m s =
     s\<lparr>lf_error := Some (message_or ''login.passkeyFailed'' m), lf_passkeyLoading := False, lf_passkey := None\<rparr>"

definition passkey_begun :: "api_error + string \<Rightarrow> login_form \<Rightarrow> login_form" where
  "passkey_begun res s =
     (case res of
        Inl e \<Rightarrow> passkey_fails (emessage e) s
      | Inr ceremony \<Rightarrow> s\<lparr>lf_passkey := Some (PkDevice ceremony)\<rparr>)"

definition device_answers :: "message + json \<Rightarrow> string \<Rightarrow> login_form \<Rightarrow> login_form" where
  "device_answers res ceremony s =
     (case res of
        Inl m \<Rightarrow> passkey_fails m s
      | Inr assertion \<Rightarrow>
          s\<lparr>lf_passkey := Some PkVerify, lf_calls := lf_calls s @ [loginVerify ceremony assertion]\<rparr>)"

definition passkey_ends :: "api_error + login_response \<Rightarrow> login_form \<Rightarrow> login_form" where
  "passkey_ends res s =
     (case loginWithWebAuthn res (lf_auth s) of
        (Inl e, a) \<Rightarrow> passkey_fails (emessage e) (s\<lparr>lf_auth := a\<rparr>)
      | (Inr _, a) \<Rightarrow> s\<lparr>lf_auth := a, lf_passkeyLoading := False, lf_passkey := None\<rparr>)"

section \<open>Events\<close>

datatype login_event =
    ConfigReply "server_defaults option"
  | TypeEmail string
  | TypePassword string
  | TogglePassword
  | ToggleAdvanced
  | TypeImapHost string
  | TypeImapPort nat
  | TypeSmtpHost string
  | TypeSmtpPort nat
  | CheckInsecure bool
  | Submit
  | LoginReply "api_error + login_response"
  | TypeCode string
  | SubmitCode
  | CodeReply "api_error + login_response"
  | Back
  | ClickPasskey
  | BeginReply "api_error + string"
  | DeviceReply "message + json"
  | PasskeyReply "api_error + login_response"

text \<open>The form of the credentials is shown until the server asks for a second factor; neither is shown
  to a user who is signed in.\<close>

definition at_credentials :: "login_form \<Rightarrow> bool" where
  "at_credentials s \<longleftrightarrow> \<not> isAuthenticated (lf_auth s) \<and> \<not> truthy_opt (lf_challenge s)"

definition at_second_factor :: "login_form \<Rightarrow> bool" where
  "at_second_factor s \<longleftrightarrow> \<not> isAuthenticated (lf_auth s) \<and> truthy_opt (lf_challenge s)"

definition on_credentials :: "(login_form \<Rightarrow> login_form) \<Rightarrow> login_form \<Rightarrow> login_form" where
  "on_credentials f s = (if at_credentials s then f s else s)"

definition on_advanced :: "(login_form \<Rightarrow> login_form) \<Rightarrow> login_form \<Rightarrow> login_form" where
  "on_advanced f s = (if at_credentials s \<and> lf_showAdvanced s then f s else s)"

fun login_step :: "bool \<Rightarrow> login_event \<Rightarrow> login_form \<Rightarrow> login_form" where
  "login_step pk (ConfigReply res) s = config_arrives res s"
| "login_step pk (TypeEmail v) s = on_credentials (handleEmailChange v) s"
| "login_step pk (TypePassword v) s = on_credentials (\<lambda>s. s\<lparr>lf_password := v\<rparr>) s"
| "login_step pk TogglePassword s = on_credentials (\<lambda>s. s\<lparr>lf_showPassword := \<not> lf_showPassword s\<rparr>) s"
| "login_step pk ToggleAdvanced s = on_credentials (\<lambda>s. s\<lparr>lf_showAdvanced := \<not> lf_showAdvanced s\<rparr>) s"
| "login_step pk (TypeImapHost v) s = on_advanced (\<lambda>s. s\<lparr>lf_imapHost := v\<rparr>) s"
| "login_step pk (TypeImapPort n) s = on_advanced (\<lambda>s. s\<lparr>lf_imapPort := or_port n 993\<rparr>) s"
| "login_step pk (TypeSmtpHost v) s = on_advanced (\<lambda>s. s\<lparr>lf_smtpHost := v\<rparr>) s"
| "login_step pk (TypeSmtpPort n) s = on_advanced (\<lambda>s. s\<lparr>lf_smtpPort := or_port n 587\<rparr>) s"
| "login_step pk (CheckInsecure b) s = on_advanced (\<lambda>s. s\<lparr>lf_allowInsecureTls := b\<rparr>) s"
| "login_step pk Submit s = (if lf_loading s then s else on_credentials submit_login s)"
| "login_step pk (LoginReply res) s = (if lf_loading s then login_ends res s else s)"
| "login_step pk (TypeCode v) s =
     (if at_second_factor s \<and> showCodeForm s then s\<lparr>lf_twoFACode := v\<rparr> else s)"
| "login_step pk SubmitCode s =
     (if at_second_factor s \<and> showCodeForm s \<and> \<not> lf_twoFALoading s then handleTwoFASubmit s else s)"
| "login_step pk (CodeReply res) s = (if lf_twoFALoading s then code_ends res s else s)"
| "login_step pk Back s = (if at_second_factor s then handleBackToCredentials s else s)"
| "login_step pk ClickPasskey s =
     (if at_second_factor s \<and> showPasskey pk s \<and> \<not> lf_passkeyLoading s then handlePasskey s else s)"
| "login_step pk (BeginReply res) s = (if lf_passkey s = Some PkBegin then passkey_begun res s else s)"
| "login_step pk (DeviceReply res) s =
     (case lf_passkey s of Some (PkDevice ceremony) \<Rightarrow> device_answers res ceremony s | _ \<Rightarrow> s)"
| "login_step pk (PasskeyReply res) s = (if lf_passkey s = Some PkVerify then passkey_ends res s else s)"

end
