(* ===== verification/LoginProps.thy ===== *)
theory LoginProps
  imports Login Machine
begin

text \<open>
  Properties of the login form: where a password goes, when certificates are not checked, and what must
  have happened before a user is signed in.
\<close>

section \<open>Servers\<close>

definition servers :: "login_form \<Rightarrow> server_defaults" where
  "servers s =
     \<lparr>sd_imapHost = lf_imapHost s, sd_imapPort = lf_imapPort s, sd_smtpHost = lf_smtpHost s,
      sd_smtpPort = lf_smtpPort s, sd_allowInsecureTls = lf_allowInsecureTls s\<rparr>"

text \<open>The servers for an address: those of a known provider, else those of the deployment, with the domain
  where it names no host.\<close>

definition servers_for :: "server_defaults option \<Rightarrow> string \<Rightarrow> server_defaults" where
  "servers_for defaults v =
     (let domain = email_domain v; complete = (domain \<noteq> [] \<and> contains domain ''.'');
          base = (case defaults of
              None \<Rightarrow> \<lparr>sd_imapHost = [], sd_imapPort = 993, sd_smtpHost = [], sd_smtpPort = 587,
                       sd_allowInsecureTls = False\<rparr>
            | Some d \<Rightarrow> d)
      in if \<not> complete then base
         else (case map_of KNOWN_DOMAINS domain of
             Some known \<Rightarrow> known
           | None \<Rightarrow> base\<lparr>sd_imapHost := or_else (sd_imapHost base) domain,
                          sd_smtpHost := or_else (sd_smtpHost base) domain\<rparr>))"

lemma servers_email: "servers (handleEmailChange v s) = servers_for (lf_serverDefaults s) v"
  by (auto simp: handleEmailChange_def servers_for_def servers_def set_servers_def resetServerSettings_def
      or_else_def Let_def split: option.split)

lemma email_change_keeps:
  "lf_auth (handleEmailChange v s) = lf_auth s" "lf_calls (handleEmailChange v s) = lf_calls s"
  "lf_challenge (handleEmailChange v s) = lf_challenge s" "lf_loading (handleEmailChange v s) = lf_loading s"
  "lf_password (handleEmailChange v s) = lf_password s" "lf_email (handleEmailChange v s) = v"
  "lf_serverDefaults (handleEmailChange v s) = lf_serverDefaults s"
  by (auto simp: handleEmailChange_def set_servers_def resetServerSettings_def Let_def split: option.split)

text \<open>Typing an address sets the servers from this address and the defaults of the deployment alone: no
  host, port or permission of an address typed before, or of the advanced settings, is left, whatever
  happened in the form.\<close>

theorem address_determines_servers:
  "case fold (login_step pk) es (init_login a) of s \<Rightarrow>
     at_credentials s \<longrightarrow>
       servers (login_step pk (TypeEmail v) s) = servers_for (lf_serverDefaults s) v
       \<and> lf_email (login_step pk (TypeEmail v) s) = v"
  by (simp add: on_credentials_def servers_email email_change_keeps)

theorem address_determines_servers_witness:
  "servers (login_step True (TypeEmail ''a@gmail.com'') (init_login init_auth)) = servers_for None ''a@gmail.com''"
proof -
  have "at_credentials (init_login init_auth)" "lf_serverDefaults (init_login init_auth) = None" by code_simp+
  then show ?thesis using address_determines_servers [of True "[]" init_auth "''a@gmail.com''"] by (simp del: login_step.simps)
qed

section \<open>Where the password goes\<close>

lemma known_hosts:
  "map_of KNOWN_DOMAINS domain = Some k \<Longrightarrow> sd_imapHost k \<noteq> [] \<and> sd_smtpHost k \<noteq> [] \<and> \<not> sd_allowInsecureTls k
     \<and> sd_imapPort k \<noteq> 0 \<and> sd_smtpPort k \<noteq> 0"
  by (auto simp: KNOWN_DOMAINS_def provider_def split: if_splits)

lemma final_hosts_given: "lf_imapHost s \<noteq> [] \<Longrightarrow> lf_smtpHost s \<noteq> [] \<Longrightarrow> final_hosts s = (lf_imapHost s, lf_smtpHost s)"
  by (simp add: final_hosts_def)

lemma known_detected:
  "map_of KNOWN_DOMAINS (email_domain v) = Some k \<Longrightarrow> email_domain v \<noteq> [] \<Longrightarrow> contains (email_domain v) ''.''
   \<Longrightarrow> lf_detectedDomain (handleEmailChange v s) = Some (email_domain v)"
  by (simp add: handleEmailChange_def Let_def)

text \<open>The defaults of the deployment may arrive after the address was typed, and then they replace the
  servers of the provider while the form still names the provider's domain: the password of a
  known provider goes to the host of the deployment.\<close>

theorem late_defaults_take_password:
  assumes "at_credentials s" and "\<not> lf_loading s" and "map_of KNOWN_DOMAINS (email_domain v) = Some known"
    and "email_domain v \<noteq> []" and "contains (email_domain v) ''.''" and "trim v \<noteq> []" and "pw \<noteq> []"
    and "sd_imapHost d \<noteq> []" and "sd_smtpHost d \<noteq> []"
  shows "case fold (login_step pk) [TypeEmail v, TypePassword pw, ConfigReply (Some d), Submit] s of s' \<Rightarrow>
     \<exists>req. lf_calls s' = lf_calls s @ [auth_login req] \<and> lr_imapHost req = sd_imapHost d
       \<and> lr_smtpHost req = sd_smtpHost d \<and> lr_password req = pw
       \<and> lf_detectedDomain s' = Some (email_domain v)"
proof -
  let ?s1 = "handleEmailChange v s"
  let ?s3 = "config_arrives (Some d) (?s1\<lparr>lf_password := pw\<rparr>)"
  have c: "at_credentials ?s1" "at_credentials (?s1\<lparr>lf_password := pw\<rparr>)" "at_credentials ?s3"
    using assms(1) by (simp_all add: at_credentials_def email_change_keeps config_arrives_def)
  have k: "lf_email ?s3 = v" "lf_password ?s3 = pw" "lf_loading ?s3 = lf_loading s" "lf_calls ?s3 = lf_calls s"
      "lf_imapHost ?s3 = sd_imapHost d" "lf_smtpHost ?s3 = sd_smtpHost d"
      "lf_detectedDomain ?s3 = Some (email_domain v)"
    using assms known_detected [OF assms(3-5), of s] by (simp_all add: config_arrives_def email_change_keeps)
  have f: "fold (login_step pk) [TypeEmail v, TypePassword pw, ConfigReply (Some d), Submit] s = submit_login ?s3"
    using c k assms(1,2) by (simp add: on_credentials_def)
  show ?thesis
    unfolding f using k assms(6-9)
    by (intro exI [of _ "login_of ?s3 (sd_imapHost d) (sd_smtpHost d)"])
      (simp add: submit_login_def final_hosts_given login_of_def)
qed

theorem late_defaults_take_password_witness:
  "\<exists>req. lf_calls (fold (login_step True) [TypeEmail ''a@gmail.com'', TypePassword ''pw'',
        ConfigReply (Some \<lparr>sd_imapHost = ''mail.corp'', sd_imapPort = 993, sd_smtpHost = ''mail.corp'',
          sd_smtpPort = 587, sd_allowInsecureTls = True\<rparr>), Submit] (init_login init_auth)) = [auth_login req]
     \<and> lr_imapHost req = ''mail.corp'' \<and> lr_password req = ''pw''"
proof -
  let ?d = "\<lparr>sd_imapHost = ''mail.corp'', sd_imapPort = 993, sd_smtpHost = ''mail.corp'', sd_smtpPort = 587,
      sd_allowInsecureTls = True\<rparr>"
  let ?s = "init_login init_auth"
  have "at_credentials ?s" "\<not> lf_loading ?s" "contains (email_domain ''a@gmail.com'') ''.''"
      "email_domain ''a@gmail.com'' \<noteq> []" "trim ''a@gmail.com'' \<noteq> []"
    by code_simp+
  moreover have "map_of KNOWN_DOMAINS (email_domain ''a@gmail.com'')
      = Some (provider ''imap.gmail.com'' ''smtp.gmail.com'' 587)"
    by code_simp
  ultimately show ?thesis
    using late_defaults_take_password [of ?s "''a@gmail.com''" _ "''pw''" ?d True]
    by (auto simp: init_login_def)
qed

section \<open>What is sent\<close>

text \<open>A login request that the server can use.\<close>

definition usable :: "login_request \<Rightarrow> bool" where
  "usable req \<longleftrightarrow>
     CHR ''@'' \<in> set (lr_email req) \<and> lr_password req \<noteq> [] \<and> lr_imapHost req \<noteq> [] \<and> lr_smtpHost req \<noteq> []
     \<and> (\<exists>p. lr_imapPort req = Some (Suc p)) \<and> (\<exists>p. lr_smtpPort req = Some (Suc p))
     \<and> lr_imapUseTls req = Some True \<and> lr_smtpUseTls req = Some True
     \<and> lr_imapAllowInsecureTls req = lr_smtpAllowInsecureTls req"

definition logins_ok :: "(login_request \<Rightarrow> bool) \<Rightarrow> login_form \<Rightarrow> bool" where
  "logins_ok P s \<longleftrightarrow>
     (\<forall>c \<in> set (lf_calls s). fst c = ''/auth/login'' \<longrightarrow> (\<exists>req. c = auth_login req \<and> P req))"

lemma call_paths:
  "fst (auth_login r) = ''/auth/login''" "fst (auth_verify2fa v) = ''/auth/verify-2fa''"
  "fst (loginBegin c) = ''/auth/webauthn/begin''" "fst (loginVerify c x) \<noteq> ''/auth/login''"
  "fst (loginVerify c x) \<noteq> ''/auth/verify-2fa''" "fst (loginVerify c x) \<noteq> ''/auth/webauthn/begin''"
  by (simp_all add: auth_login_def auth_verify2fa_def loginBegin_def loginVerify_def)

lemma at_sign_trim: "CHR ''@'' \<in> set s \<Longrightarrow> CHR ''@'' \<in> set (trim s)"
proof -
  have "\<not> is_ws CHR ''@''" by code_simp
  moreover have "x \<in> set (dropWhile P xs)" if "x \<in> set xs" "\<not> P x" for x P and xs :: string
    using that by (induction xs) auto
  moreover assume "CHR ''@'' \<in> set s"
  ultimately show ?thesis by (simp add: trim_def trim_end_def trim_start_def)
qed

lemma last_index_Some: "last_index c s = Some i \<Longrightarrow> c \<in> set s"
  by (simp add: last_index_def split: if_splits)

lemma final_email_at: "CHR ''@'' \<in> set (final_email s imap)"
  by (auto simp: final_email_def at_sign_trim last_index_Some split: option.split nat.split)

lemma submitted_usable:
  assumes "trim (lf_email s) \<noteq> []" "lf_password s \<noteq> []" "imap \<noteq> []" "smtp \<noteq> []"
  shows "usable (login_of s imap smtp)"
  using assms final_email_at by (auto simp: usable_def login_of_def or_port_def gr0_conv_Suc)

lemma logins_ok_submit:
  assumes "logins_ok P s" and "\<And>imap smtp. trim (lf_email s) \<noteq> [] \<Longrightarrow> lf_password s \<noteq> [] \<Longrightarrow> imap \<noteq> [] \<Longrightarrow> smtp \<noteq> []
    \<Longrightarrow> P (login_of s imap smtp)"
  shows "logins_ok P (submit_login s)"
  using assms by (auto simp: logins_ok_def submit_login_def split: prod.split)

lemma config_calls: "lf_calls (config_arrives res s) = lf_calls s"
  by (simp add: config_arrives_def split: option.split)

lemma login_ends_calls: "lf_calls (login_ends res s) = lf_calls s"
  by (auto simp: login_ends_def split: prod.split sum.split option.split)

lemma code_ends_calls: "lf_calls (code_ends res s) = lf_calls s"
  by (auto simp: code_ends_def split: prod.split sum.split)

lemma passkey_calls:
  "lf_calls (passkey_begun r1 s) = lf_calls s" "lf_calls (passkey_ends r2 s) = lf_calls s"
  by (auto simp: passkey_begun_def passkey_ends_def passkey_fails_def split: prod.split sum.split)

lemmas quiet_steps = on_credentials_def on_advanced_def config_calls login_ends_calls code_ends_calls passkey_calls
  email_change_keeps handleBackToCredentials_def passkey_fails_def

lemma logins_ok_step:
  assumes "logins_ok P s" and "e = Submit \<Longrightarrow> logins_ok P (submit_login s)"
  shows "logins_ok P (login_step pk e s)"
  using assms
  by (cases e) (auto simp: logins_ok_def quiet_steps handleTwoFASubmit_def handlePasskey_def device_answers_def call_paths
      split: option.split passkey_stage.split sum.split)

interpretation login_form: safe_machine "init_login a" "login_step pk" "logins_ok usable" for a pk
proof
  show "logins_ok usable (init_login a)" by (simp add: logins_ok_def init_login_def)
  show "logins_ok usable s \<Longrightarrow> logins_ok usable (login_step pk e s)" for e s
    by (intro logins_ok_step logins_ok_submit) (auto intro: submitted_usable)
qed



section \<open>Certificates\<close>

text \<open>Events in which neither the user nor the deployment gives up the check of certificates.\<close>

fun cautious :: "login_event \<Rightarrow> bool" where
  "cautious (ConfigReply (Some d)) \<longleftrightarrow> \<not> sd_allowInsecureTls d"
| "cautious (CheckInsecure b) \<longleftrightarrow> \<not> b"
| "cautious _ \<longleftrightarrow> True"

definition checks :: "login_request \<Rightarrow> bool" where
  "checks req \<longleftrightarrow> lr_imapAllowInsecureTls req = Some False \<and> lr_smtpAllowInsecureTls req = Some False"

definition careful :: "login_form \<Rightarrow> bool" where
  "careful s \<longleftrightarrow>
     \<not> lf_allowInsecureTls s \<and> (\<forall>d. lf_serverDefaults s = Some d \<longrightarrow> \<not> sd_allowInsecureTls d) \<and> logins_ok checks s"

lemma servers_for_careful:
  "(\<forall>d. defaults = Some d \<longrightarrow> \<not> sd_allowInsecureTls d) \<Longrightarrow> \<not> sd_allowInsecureTls (servers_for defaults v)"
  using known_hosts by (auto simp: servers_for_def Let_def split: option.split)

lemma careful_flag:
  assumes "careful s" and "cautious e"
  shows "\<not> lf_allowInsecureTls (login_step pk e s)
    \<and> (\<forall>d. lf_serverDefaults (login_step pk e s) = Some d \<longrightarrow> \<not> sd_allowInsecureTls d)"
proof (cases e)
  case (TypeEmail v)
  have "\<not> sd_allowInsecureTls (servers (handleEmailChange v s))"
    unfolding servers_email using assms(1) by (intro servers_for_careful) (simp add: careful_def)
  with TypeEmail assms(1) show ?thesis
    by (simp add: on_credentials_def careful_def servers_def email_change_keeps)
next
  case (ConfigReply res)
  with assms show ?thesis by (cases res) (auto simp: careful_def config_arrives_def)
qed (use assms in \<open>auto simp: careful_def on_credentials_def on_advanced_def submit_login_def login_ends_def
      handleTwoFASubmit_def code_ends_def handleBackToCredentials_def handlePasskey_def passkey_begun_def
      passkey_fails_def device_answers_def passkey_ends_def
      split: prod.split sum.split option.split passkey_stage.split\<close>)

lemma careful_step: "careful s \<Longrightarrow> cautious e \<Longrightarrow> careful (login_step pk e s)"
proof -
  assume c: "careful s" "cautious e"
  then have "logins_ok checks (submit_login s)"
    by (intro logins_ok_submit) (auto simp: careful_def checks_def login_of_def)
  with c have "logins_ok checks (login_step pk e s)" by (intro logins_ok_step) (simp_all add: careful_def)
  with careful_flag [OF c, of pk] show ?thesis by (simp add: careful_def)
qed

lemma careful_history: "careful s \<Longrightarrow> list_all cautious es \<Longrightarrow> careful (fold (login_step pk) es s)"
  by (induction es arbitrary: s) (auto intro: careful_step)

text \<open>Without consent certificates are checked: as long as the user does not tick the box and the defaults of
  the deployment do not allow it, no login request of any history lets a connection go through with
  a certificate that fails.\<close>

theorem certificates_are_checked:
  assumes "list_all cautious es" and "c \<in> set (lf_calls (fold (login_step pk) es (init_login a)))"
    and "fst c = ''/auth/login''"
  shows "\<exists>req. c = auth_login req \<and> lr_imapAllowInsecureTls req = Some False
    \<and> lr_smtpAllowInsecureTls req = Some False"
proof -
  have "careful (init_login a)" by (simp add: careful_def init_login_def logins_ok_def)
  from careful_history [OF this assms(1), of pk] assms(2,3) show ?thesis
    by (auto simp: careful_def logins_ok_def checks_def)
qed

theorem certificates_are_checked_witness:
  "\<exists>c \<in> set (lf_calls (fold (login_step True) [TypeEmail ''a@gmail.com'', TypePassword ''pw'', Submit] (init_login init_auth))).
     \<exists>req. c = auth_login req \<and> lr_imapAllowInsecureTls req = Some False"
proof -
  let ?es = "[TypeEmail ''a@gmail.com'', TypePassword ''pw'', Submit]"
  let ?s = "fold (login_step True) ?es (init_login init_auth)"
  have "map fst (lf_calls ?s) = [''/auth/login'']" by code_simp
  then obtain c where c: "c \<in> set (lf_calls ?s)" "fst c = ''/auth/login''" by (cases "lf_calls ?s") auto
  have "list_all cautious ?es" by simp
  from certificates_are_checked [OF this c] c(1) show ?thesis by blast
qed

section \<open>Who is signed in\<close>

text \<open>The answers of the server that sign a user in, and the challenges it gave out.\<close>

fun grants :: "login_event \<Rightarrow> bool" where
  "grants (LoginReply (Inr r)) \<longleftrightarrow> rs_requires2fa r \<noteq> Some True"
| "grants (CodeReply (Inr r)) \<longleftrightarrow> True"
| "grants (PasskeyReply (Inr r)) \<longleftrightarrow> True"
| "grants _ \<longleftrightarrow> False"

definition issued :: "login_event list \<Rightarrow> string set" where
  "issued es = {c. \<exists>r. LoginReply (Inr r) \<in> set es \<and> rs_requires2fa r = Some True \<and> rs_challenge r = Some c}"

definition answers_issued :: "string set \<Rightarrow> login_form \<Rightarrow> bool" where
  "answers_issued I s \<longleftrightarrow>
     (truthy_opt (lf_challenge s) \<longrightarrow> opt_string (lf_challenge s) \<in> I \<and> lf_password s = [])
     \<and> (\<forall>c \<in> set (lf_calls s). fst c = ''/auth/verify-2fa'' \<longrightarrow>
          (\<exists>ch \<in> I. \<exists>cod. cod \<noteq> [] \<and> c = auth_verify2fa \<lparr>v_challenge = ch, v_code = cod\<rparr>))
     \<and> (\<forall>c \<in> set (lf_calls s). fst c = ''/auth/webauthn/begin'' \<longrightarrow> (\<exists>ch \<in> I. c = loginBegin ch))"

lemma answers_issued_mono: "I \<subseteq> J \<Longrightarrow> answers_issued I s \<Longrightarrow> answers_issued J s"
  unfolding answers_issued_def by (meson subsetD)

lemma issued_snoc: "issued es \<subseteq> issued (es @ [e])"
  by (auto simp: issued_def)

lemma issued_reply:
  "rs_requires2fa r = Some True \<Longrightarrow> truthy_opt (rs_challenge r)
    \<Longrightarrow> opt_string (rs_challenge r) \<in> issued (es @ [LoginReply (Inr r)])"
  by (cases "rs_challenge r") (auto simp: issued_def truthy_opt_def opt_string_def)

lemma answers_issued_calls:
  "answers_issued I s \<Longrightarrow> lf_calls s' = lf_calls s \<Longrightarrow>
    (truthy_opt (lf_challenge s') \<Longrightarrow> opt_string (lf_challenge s') \<in> I \<and> lf_password s' = [])
    \<Longrightarrow> answers_issued I s'"
  by (simp add: answers_issued_def)

lemma answers_issued_init: "answers_issued {} (init_login a)"
  by (simp add: answers_issued_def init_login_def truthy_opt_def)

text \<open>A request of the second factor, with a challenge of the server and a code.\<close>

definition answer_call :: "string set \<Rightarrow> call \<Rightarrow> bool" where
  "answer_call I c \<longleftrightarrow>
     (fst c = ''/auth/verify-2fa'' \<longrightarrow>
        (\<exists>ch \<in> I. \<exists>cod. cod \<noteq> [] \<and> c = auth_verify2fa \<lparr>v_challenge = ch, v_code = cod\<rparr>))
     \<and> (fst c = ''/auth/webauthn/begin'' \<longrightarrow> (\<exists>ch \<in> I. c = loginBegin ch))"

lemma answers_issued_appends:
  assumes "answers_issued I s" and "lf_calls s' = lf_calls s @ [c]" and "answer_call I c"
    and "truthy_opt (lf_challenge s') \<Longrightarrow> opt_string (lf_challenge s') \<in> I \<and> lf_password s' = []"
  shows "answers_issued I s'"
  using assms by (simp add: answers_issued_def answer_call_def ball_Un)

lemma answers_issued_state:
  "answers_issued I s \<Longrightarrow> truthy_opt (lf_challenge s) \<Longrightarrow> opt_string (lf_challenge s) \<in> I \<and> lf_password s = []"
  by (simp add: answers_issued_def)

lemma answers_issued_quiet:
  assumes "answers_issued I s" and "lf_calls s' = lf_calls s"
    and "lf_challenge s' = lf_challenge s \<and> (lf_password s' = lf_password s \<or> lf_password s' = [] \<or> at_credentials s)
         \<and> (at_credentials s \<longrightarrow> \<not> truthy_opt (lf_challenge s))
       \<or> \<not> truthy_opt (lf_challenge s')"
  shows "answers_issued I s'"
  using assms by (intro answers_issued_calls [OF assms(1,2)]) (auto dest: answers_issued_state)

lemma quiet_fields:
  "lf_challenge (config_arrives res s) = lf_challenge s" "lf_password (config_arrives res s) = lf_password s"
  "lf_challenge (handleEmailChange v s) = lf_challenge s"
  "lf_challenge (code_ends r s) = lf_challenge s" "lf_password (code_ends r s) = lf_password s"
  "lf_challenge (passkey_begun b s) = lf_challenge s" "lf_password (passkey_begun b s) = lf_password s"
  "lf_challenge (passkey_ends r s) = lf_challenge s" "lf_password (passkey_ends r s) = lf_password s"
  by (auto simp: config_arrives_def email_change_keeps code_ends_def passkey_begun_def passkey_ends_def passkey_fails_def
      split: option.split prod.split sum.split)

lemma answers_issued_submit:
  assumes "answers_issued I s" and "at_credentials s"
  shows "answers_issued I (submit_login s)"
  using assms
  by (auto simp: submit_login_def answers_issued_def at_credentials_def call_paths split: prod.split)

lemma answers_issued_code:
  assumes "answers_issued I s" and "at_second_factor s"
  shows "answers_issued I (handleTwoFASubmit s)"
proof (cases "trim (lf_twoFACode s) = []")
  case True
  then show ?thesis using assms by (auto simp: handleTwoFASubmit_def at_second_factor_def at_credentials_def intro!: answers_issued_quiet [OF assms(1)])
next
  case False
  let ?s = "handleTwoFASubmit s"
  let ?v = "\<lparr>v_challenge = opt_string (lf_challenge s), v_code = trim (lf_twoFACode s)\<rparr>"
  have t: "truthy_opt (lf_challenge s)" using assms(2) by (simp add: at_second_factor_def)
  note ch = answers_issued_state [OF assms(1) t]
  show ?thesis
  proof (rule answers_issued_appends [OF assms(1), where c = "auth_verify2fa ?v"])
    show "lf_calls ?s = lf_calls s @ [auth_verify2fa ?v]" using False t by (simp add: handleTwoFASubmit_def)
    show "answer_call I (auth_verify2fa ?v)" using ch False by (auto simp: answer_call_def call_paths)
    show "opt_string (lf_challenge ?s) \<in> I \<and> lf_password ?s = []" using ch False t by (simp add: handleTwoFASubmit_def)
  qed
qed

lemma answers_issued_passkey:
  assumes "answers_issued I s" and "at_second_factor s"
  shows "answers_issued I (handlePasskey s)"
proof (rule answers_issued_appends [OF assms(1), where c = "loginBegin (opt_string (lf_challenge s))"])
  have t: "truthy_opt (lf_challenge s)" using assms(2) by (simp add: at_second_factor_def)
  note ch = answers_issued_state [OF assms(1) t]
  show "lf_calls (handlePasskey s) = lf_calls s @ [loginBegin (opt_string (lf_challenge s))]"
    using t by (simp add: handlePasskey_def)
  show "answer_call I (loginBegin (opt_string (lf_challenge s)))" using ch by (auto simp: answer_call_def call_paths)
  show "opt_string (lf_challenge (handlePasskey s)) \<in> I \<and> lf_password (handlePasskey s) = []"
    using ch t by (simp add: handlePasskey_def)
qed

lemma answers_issued_device: "answers_issued I s \<Longrightarrow> answers_issued I (device_answers res c s)"
  by (auto simp: answers_issued_def device_answers_def passkey_fails_def call_paths split: sum.split)

lemma answers_issued_login:
  assumes "answers_issued (issued es) s"
  shows "answers_issued (issued (es @ [LoginReply res])) (login_ends res s)"
proof (rule answers_issued_calls [OF answers_issued_mono [OF issued_snoc assms] login_ends_calls])
  assume t: "truthy_opt (lf_challenge (login_ends res s))"
  show "opt_string (lf_challenge (login_ends res s)) \<in> issued (es @ [LoginReply res]) \<and> lf_password (login_ends res s) = []"
  proof (cases "\<exists>r. res = Inr r \<and> rs_requires2fa r = Some True")
    case True
    then show ?thesis using t by (auto simp: login_ends_def login_def intro: issued_reply)
  next
    case False
    then have "lf_challenge (login_ends res s) = lf_challenge s \<and> lf_password (login_ends res s) = lf_password s"
      by (auto simp: login_ends_def login_def split: sum.split)
    with t answers_issued_state [OF answers_issued_mono [OF issued_snoc assms]] show ?thesis by simp
  qed
qed

lemma answers_issued_step:
  assumes a: "answers_issued (issued es) s"
  shows "answers_issued (issued (es @ [e])) (login_step pk e s)"
proof (cases "\<exists>res. e = LoginReply res")
  case True
  then show ?thesis using answers_issued_login [OF a] answers_issued_mono [OF issued_snoc a] by auto
next
  case False
  have "answers_issued (issued es) (login_step pk e s)"
  proof (cases e)
    case Submit
    with a answers_issued_submit show ?thesis by (simp add: on_credentials_def)
  next
    case SubmitCode
    with a answers_issued_code show ?thesis by simp
  next
    case ClickPasskey
    with a answers_issued_passkey show ?thesis by simp
  next
    case (DeviceReply res)
    with a answers_issued_device show ?thesis by (simp split: option.split passkey_stage.split)
  qed (use a False in \<open>auto intro!: answers_issued_quiet [OF a] simp: quiet_steps quiet_fields at_credentials_def
        truthy_opt_def\<close>)
  then show ?thesis by (rule answers_issued_mono [OF issued_snoc])
qed

lemma answers_issued_history: "answers_issued (issued es) (fold (login_step pk) es (init_login a))"
proof (induction es rule: rev_induct)
  case Nil
  show ?case using answers_issued_mono [OF empty_subsetI answers_issued_init] by simp
next
  case (snoc e es)
  then show ?case using answers_issued_step [OF snoc] by simp
qed

lemma signed_in_step:
  assumes "isAuthenticated (lf_auth (login_step pk e s))" and "\<not> isAuthenticated (lf_auth s)"
  shows "grants e"
  using assms
  by (cases e) (auto simp: quiet_steps config_arrives_def submit_login_def login_ends_def login_def handleTwoFASubmit_def
      code_ends_def verify2fa_def second_factor_def handlePasskey_def passkey_begun_def device_answers_def
      passkey_ends_def loginWithWebAuthn_def
      split: if_splits option.splits prod.splits sum.splits passkey_stage.splits)

lemma signed_in_history:
  "\<not> isAuthenticated (lf_auth s) \<Longrightarrow> isAuthenticated (lf_auth (fold (login_step pk) es s)) \<Longrightarrow> list_ex grants es"
proof (induction es arbitrary: s)
  case (Cons e es)
  then show ?case using signed_in_step [of pk e s] by (cases "isAuthenticated (lf_auth (login_step pk e s))") auto
qed simp



section \<open>Stuck\<close>

definition waits_for_passkey :: "login_form \<Rightarrow> bool" where
  "waits_for_passkey s \<longleftrightarrow>
     at_second_factor s \<and> lf_methods s \<noteq> [] \<and> ''totp'' \<notin> set (lf_methods s) \<and> \<not> lf_loading s \<and> \<not> lf_twoFALoading s
     \<and> lf_passkey s = None"

lemma waits_step:
  assumes "waits_for_passkey s" and "e \<noteq> Back"
  shows "waits_for_passkey (login_step False e s)" and "lf_calls (login_step False e s) = lf_calls s"
  using assms
  by (cases e; auto simp: waits_for_passkey_def quiet_steps at_second_factor_def at_credentials_def showCodeForm_def
      showPasskey_def config_arrives_def split: option.split)+

text \<open>A user whose only second factor is a passkey, in a browser without passkeys, gets nowhere: no event but Back
  sends a request or leaves the page, which shows neither a button nor a field.\<close>

theorem passkey_only_user_is_stuck:
  assumes "waits_for_passkey s" and "Back \<notin> set es"
  shows "case fold (login_step False) es s of s' \<Rightarrow>
     lf_calls s' = lf_calls s \<and> \<not> isAuthenticated (lf_auth s') \<and> at_second_factor s'
     \<and> \<not> showPasskey False s' \<and> \<not> showCodeForm s'"
proof -
  have "waits_for_passkey (fold (login_step False) es s) \<and> lf_calls (fold (login_step False) es s) = lf_calls s"
    using assms
  proof (induction es arbitrary: s)
    case (Cons e es)
    then have "e \<noteq> Back" "Back \<notin> set es" by auto
    with Cons.IH [of "login_step False e s"] waits_step [OF Cons.prems(1), of e] show ?case by simp
  qed simp
  then show ?thesis by (simp add: waits_for_passkey_def at_second_factor_def showPasskey_def showCodeForm_def)
qed

text \<open>A server that wants a passkey as the second factor.\<close>

definition passkey_wanted :: "login_event list" where
  "passkey_wanted =
     [TypeEmail ''a@gmail.com'', TypePassword ''pw'', Submit,
      LoginReply (Inr \<lparr>rs_token = None, rs_session = None, rs_requires2fa = Some True, rs_challenge = Some ''c'',
        rs_methods = Some [''webauthn'']\<rparr>)]"

theorem passkey_only_user_is_stuck_witness:
  "case fold (login_step False) (passkey_wanted @ [TypeCode ''1'', SubmitCode, ClickPasskey]) (init_login init_auth) of s \<Rightarrow>
     length (lf_calls s) = 1 \<and> at_second_factor s"
proof -
  let ?s = "fold (login_step False) passkey_wanted (init_login init_auth)"
  have "waits_for_passkey ?s" and "length (lf_calls ?s) = 1" by code_simp+
  then show ?thesis
    using passkey_only_user_is_stuck [of ?s "[TypeCode ''1'', SubmitCode, ClickPasskey]"] by simp
qed

end
