(* ===== verification/MimeProps.thy ===== *)
theory MimeProps
  imports Mime JsRegexFacts
begin

text \<open>
  Properties of the MIME reader: the nesting of parts is bounded by the text, so the fuel of
  \<open>processParts\<close> is never used up; what quoted-printable text becomes; and what the fallback for
  inline images can recover.
\<close>

section \<open>Parts are shorter than their text\<close>

lemma rxm_newline:
  "rxm newline k (p, s, g) =
     (case s of
        [] \<Rightarrow> None
      | c # cs \<Rightarrow>
          if c = nl then k (Some nl, cs, g)
          else if c = cr then
            (case cs of [] \<Rightarrow> None | d # ds \<Rightarrow> if d = nl then k (Some nl, ds, g) else None)
          else None)"
  by (auto simp: newline_def Opt_def lit_cs_def split: list.splits)

lemma rxm_newline_prev: "rxm newline k (p, s, g) = rxm newline k (None, s, g)"
  by (simp add: rxm_newline)

lemma newline_consumes:
  "rxm newline k p = Some x \<Longrightarrow> \<exists>p'. k p' = Some x \<and> length (rest_of p') < length (rest_of p)"
proof (cases p)
  case (fields pv s g)
  assume "rxm newline k p = Some x"
  then consider cs where "s = nl # cs" "k (Some nl, cs, g) = Some x"
    | ds where "s = cr # nl # ds" "k (Some nl, ds, g) = Some x"
    by (auto simp: fields rxm_newline split: list.splits if_splits)
  then show ?thesis
  proof cases
    case 1
    with fields show ?thesis by (intro exI [of _ "(Some nl, cs, g)"]) simp
  next
    case 2
    with fields show ?thesis by (intro exI [of _ "(Some nl, ds, g)"]) simp
  qed
qed

lemma rxm_two_newlines_prev:
  "rxm two_newlines k (prev, s, g) = rxm (Cat (Bol False) two_newlines) k (None, s, g)"
proof -
  have "rxm (Cat (Bol False) two_newlines) k (None, s, g) = rxm two_newlines k (None, s, g)"
    by simp
  moreover have "rxm two_newlines k (prev, s, g) = rxm two_newlines k (None, s, g)"
    unfolding two_newlines_def rxm.simps(3) by (rule rxm_newline_prev)
  ultimately show ?thesis by (simp only:)
qed

lemma two_newlines_consume:
  "rxm two_newlines Some p = Some q \<Longrightarrow> length (rest_of q) < length (rest_of p)"
proof -
  assume "rxm two_newlines Some p = Some q"
  then have "rxm newline (rxm newline Some) p = Some q" by (simp only: two_newlines_def rxm.simps(3))
  from newline_consumes [OF this] obtain u where u: "rxm newline Some u = Some q"
    "length (rest_of u) < length (rest_of p)" by blast
  from newline_consumes [OF u(1)] have "length (rest_of q) < length (rest_of u)" by blast
  from this u(2) show ?thesis by (rule less_trans)
qed

lemma match_two_newlines:
  assumes "match_here two_newlines prev s = Some (t, g, rest)"
  shows "match_here (Cat (Bol False) two_newlines) None s = Some (t, g, rest)" and "t \<noteq> []"
proof -
  from assms obtain p where p: "rxm two_newlines Some (prev, s, \<lambda>_. None) = Some p"
    and t: "t = take (length s - length (rest_of p)) s" "g = groups_of p" "rest = rest_of p"
    unfolding match_here_iff by blast
  from p t show "match_here (Cat (Bol False) two_newlines) None s = Some (t, g, rest)"
    unfolding match_here_iff rxm_two_newlines_prev [of Some prev s] by blast
  have "length (rest_of p) < length s"
    using two_newlines_consume [OF p] by (simp only: pos_simps)
  moreover have "length t = length s - length (rest_of p)" unfolding t(1) by simp
  ultimately show "t \<noteq> []" by auto
qed

lemma length_trim: "length (trim s) \<le> length s"
proof -
  have "length (trim_end u) \<le> length u" for u
    by (simp add: trim_end_def) (metis length_dropWhile_le length_rev)
  moreover have "length (trim_start s) \<le> length s"
    by (simp add: trim_start_def length_dropWhile_le)
  ultimately show ?thesis unfolding trim_def by (meson le_trans)
qed

lemma split_part_shorter:
  assumes "split_part s = Some (block, body)"
  shows "length body < length s"
proof -
  obtain m where m: "rx_exec two_newlines (trim s) = Some m"
    and body: "body = trim (rx_replace1 (Cat (Bol False) two_newlines) (\<lambda>_. []) (rm_text m @ rm_after m))"
    using assms by (auto simp: split_part_def Let_def split: if_splits option.splits)
  from rx_search_split [OF m [unfolded rx_exec_def]] obtain prev where
    s: "rm_before m @ rm_text m @ rm_after m = trim s"
    and h: "match_here two_newlines prev (rm_text m @ rm_after m)
      = Some (rm_text m, rm_groups m, rm_after m)" by blast
  note h' = match_two_newlines [OF h]
  have "rx_replace1 (Cat (Bol False) two_newlines) (\<lambda>_. []) (rm_text m @ rm_after m) = rm_after m"
    using h'(1) by (simp add: rx_replace1_def rx_exec_def rx_search.simps)
  then have "length body \<le> length (rm_after m)" using body length_trim by simp
  also have "length (rm_after m) < length (trim s)"
    using h'(2) s [symmetric] by simp
  also have "length (trim s) \<le> length s" by (rule length_trim)
  finally show ?thesis .
qed

lemma split_str_pieces: "x \<in> set (split_str n sep s) \<Longrightarrow> length x \<le> length s"
proof (induction n arbitrary: s)
  case (Suc n)
  then show ?case
  proof (cases "index_of sep s")
    case (Some k)
    with Suc.prems consider "x = take k s" | "x \<in> set (split_str n sep (drop (k + length sep) s))"
      by auto
    then show ?thesis
    proof cases
      case 2
      from Suc.IH [OF this] show ?thesis by simp
    qed simp
  qed simp
qed simp

lemma fold_cong_set: "(\<And>x st. x \<in> set xs \<Longrightarrow> f x st = g x st) \<Longrightarrow> fold f xs st = fold g xs st"
  by (rule fold_cong) auto

lemma processParts_fuel:
  "length s < n \<Longrightarrow> length s < n' \<Longrightarrow> processParts n td s b st = processParts n' td s b st"
proof (induction n arbitrary: n' s b st)
  case (Suc n)
  then obtain m where n': "n' = Suc m" by (cases n') auto
  show ?case
    unfolding n' processParts.simps
  proof (rule fold_cong_set)
    fix x st
    assume "x \<in> set (split_text (''--'' @ b) s)"
    then have x: "length x \<le> length s" by (auto simp: split_text_def dest: split_str_pieces)
    have "processParts n td body ib st = processParts m td body ib st"
      if "split_part x = Some (block, body)" for block body ib
      using split_part_shorter [OF that] x Suc.prems n' by (intro Suc.IH) simp_all
    then show "(case split_part x of None \<Rightarrow> st
          | Some (block, body) \<Rightarrow>
              (case inner_boundary block of Some ib \<Rightarrow> processParts n td body ib st
               | None \<Rightarrow> leaf_part td block body st))
        = (case split_part x of None \<Rightarrow> st
          | Some (block, body) \<Rightarrow>
              (case inner_boundary block of Some ib \<Rightarrow> processParts m td body ib st
               | None \<Rightarrow> leaf_part td block body st))"
      by (auto split: option.split)
  qed
qed simp

section \<open>Quoted-printable\<close>

definition qp_byte :: "nat \<Rightarrow> string" where
  "qp_byte b = [CHR ''='', hex_digit (b div 16), hex_digit (b mod 16)]"

lemma hex_digit_not: "n < 16 \<Longrightarrow> hex_digit n \<noteq> cr \<and> hex_digit n \<noteq> nl \<and> hex_digit n \<noteq> CHR ''=''"
  using is_hex_digit [of n] by (auto simp: is_hex_def is_digit_def in_range_def code_def)

lemma match_soft:
  "match_here (Cat (lit_cs ''='') newline) prev (c # cs) = None"
  if "c \<noteq> CHR ''='' \<or> (cs \<noteq> [] \<and> hd cs \<noteq> cr \<and> hd cs \<noteq> nl)"
  using that by (auto simp: match_here_def lit_cs_def rxm_newline split: list.splits)

lemma soft_breaks_qp:
  "\<forall>b \<in> set bs. b < 256 \<Longrightarrow> 3 * length bs < n \<Longrightarrow>
     replace_from n (Cat (lit_cs ''='') newline) (\<lambda>_. []) prev (concat (map qp_byte bs))
       = concat (map qp_byte bs)"
proof (induction bs arbitrary: n prev)
  case Nil
  then show ?case by (cases n) (simp_all add: match_here_def lit_cs_def)
next
  case (Cons b bs)
  obtain k where n: "n = Suc (Suc (Suc k))" and k: "3 * length bs < k"
    using Cons.prems(2) by (cases n; cases "n - 1"; cases "n - 2") auto
  have h: "b div 16 < 16" "b mod 16 < 16" using Cons.prems(1) by auto
  show ?case
    using Cons.IH [OF _ k] Cons.prems(1) hex_digit_not [OF h(1)] hex_digit_not [OF h(2)]
    by (simp add: n qp_byte_def match_soft)
qed

lemma match_escape:
  "is_hex a \<Longrightarrow> is_hex b \<Longrightarrow>
     match_here (cat [lit_cs ''='', Grp 1 (cat [hex_class, hex_class])]) prev (CHR ''='' # a # b # r)
       = Some ([CHR ''='', a, b], [1 \<mapsto> [a, b]], r)"
  by (simp add: match_here_def lit_cs_def hex_class_def)

lemma escapes_qp:
  "\<forall>b \<in> set bs. b < 256 \<Longrightarrow> 3 * length bs < n \<Longrightarrow>
     replace_from n (cat [lit_cs ''='', Grp 1 (cat [hex_class, hex_class])])
       (\<lambda>m. [char_of (parse_hex2 (group1 m))]) prev (concat (map qp_byte bs)) = map char_of bs"
proof (induction bs arbitrary: n prev)
  case Nil
  then show ?case by (cases n) (simp_all add: match_here_def lit_cs_def)
next
  case (Cons b bs)
  obtain k where n: "n = Suc k" and k: "3 * length bs < k"
    using Cons.prems(2) by (cases n) auto
  have h: "b div 16 < 16" "b mod 16 < 16" using Cons.prems(1) by auto
  have "char_of (16 * (b div 16) + b mod 16) = (char_of b :: char)" by simp
  then show ?case
    using Cons.IH [OF _ k] Cons.prems(1) h
    by (simp add: n qp_byte_def match_escape [simplified] group1_def parse_hex2_def)
qed

section \<open>Images found by the fallback\<close>

lemma image_data_group:
  assumes "rxm (Cat (Grp 3 (Lazy any)) (Ahead image_end)) Some p = Some x"
  shows "\<exists>w. groups_of x 3 = Some w \<and> CHR ''z'' \<notin> set w \<and> CHR ''Z'' \<notin> set w"
proof -
  obtain prev s g where p: "p = (prev, s, g)" by (cases p) auto
  let ?K = "\<lambda>p'. rxm (Ahead image_end) Some
     (set_group 3 (take (length s - length (rest_of p')) s) p')"
  have "iter_lazy (length s) (rxm any) ?K (prev, s, g) = Some x"
    using assms by (simp add: p del: rxm.simps(8))
  from iter_lazy_any [OF this] obtain j prev' where j: "j \<le> length s"
      "?K (prev', drop j s, g) = Some x"
      "\<forall>i < j. \<exists>prev'. ?K (prev', drop i s, g) = None" by blast
  have "groups_of x 3 = Some (take j s)"
    using j(1,2) by (auto split: option.splits)
  moreover have "c \<notin> set (take j s)" if "lower_char c = CHR ''z''" for c
  proof
    assume "c \<in> set (take j s)"
    then obtain i where i: "i < j" "i < length s" "s ! i = c"
      by (auto simp: in_set_conv_nth)
    then have "drop i s = c # drop (Suc i) s" by (metis Cons_nth_drop_Suc)
    moreover have "lower_char CHR ''Z'' = CHR ''z''" by code_simp
    ultimately have "rxm (Ahead image_end) Some (pv, drop i s, gr) \<noteq> None" for pv gr
      using that by (auto simp: image_end_def lit_def or_try_def split: option.splits)
    moreover from j(3) i(1) obtain pv where "?K (pv, drop i s, g) = None" by blast
    ultimately show False by (simp only: set_group_def fst_conv pos_simps)
  qed
  moreover have "lower_char CHR ''z'' = CHR ''z''" "lower_char CHR ''Z'' = CHR ''z''"
    by code_simp+
  ultimately show ?thesis by blast
qed

lemma imgRegex_group:
  assumes "match_here imgRegex prev u = Some (t, g, rest)"
  shows "\<exists>w. g 3 = Some w \<and> CHR ''z'' \<notin> set w \<and> CHR ''Z'' \<notin> set w"
proof -
  obtain x where x: "rxm imgRegex Some (prev, u, \<lambda>_. None) = Some x" "g = groups_of x"
    using assms by (auto simp: match_here_def split: option.splits)
  let ?tail = "[Grp 3 (Lazy any), Ahead image_end]"
  let ?front = "[lit ''Content-Type:'', Star ws,
       Grp 1 (cat [lit ''image/'', Plus (ncls [cr, nl, CHR '';''])]),
       Lazy any, lit ''Content-ID:'', Star ws, Opt (lit ''<''),
       Grp 2 (Plus (ncls [CHR ''>'', cr, nl])), Opt (lit ''>''), Lazy any, newline, newline]"
  have "imgRegex = cat (?front @ ?tail)" by (simp only: imgRegex_def append.simps)
  from x(1) [unfolded this] have "\<exists>p. rxm (cat ?tail) Some p = Some x"
    using rxm_cat_tail [OF list.distinct(2)] by blast
  then obtain p where "rxm (cat ?tail) Some p = Some x" by blast
  then have "rxm (Cat (Grp 3 (Lazy any)) (Ahead image_end)) Some p = Some x"
    by (simp only: cat.simps)
  then show ?thesis using image_data_group x(2) by blast
qed

section \<open>Properties\<close>


text \<open>Quoted-printable text is decoded byte by byte into characters, never as UTF-8: an accented
  letter, sent as the two escaped bytes of its encoding, becomes two wrong characters.\<close>

theorem quoted_printable_is_not_utf8:
  "decodeBody td (concat (map qp_byte (concat (map utf8 s)))) (Some ''quoted-printable'')
     = map char_of (concat (map utf8 s))"
proof -
  have b: "\<forall>b \<in> set (concat (map utf8 s)). b < 256" using utf8_bytes by auto
  have len: "length (concat (map qp_byte bs)) = 3 * length bs" for bs
    by (induction bs) (simp_all add: qp_byte_def)
  have "trim (to_lower ''quoted-printable'') = ''quoted-printable''" by code_simp
  then show ?thesis
    using soft_breaks_qp [OF b] escapes_qp [OF b]
    by (simp add: decodeBody_def truthy_opt_def qp_decode_def rx_replace_def len
        del: replace_from.simps)
qed

text \<open>An image that the fallback recovers never has the letter z in its data, in either case: the
  end marker of the expression is the letter Z, so the base64 text is cut before it.\<close>

theorem fallback_image_has_no_z:
  assumes "(cid, dataUrl) \<in> set (fallback_images s [])"
  shows "\<exists>ct b64. dataUrl = data_url ct b64 \<and> b64 \<noteq> [] \<and> CHR ''z'' \<notin> set b64 \<and> CHR ''Z'' \<notin> set b64"
proof -
  let ?ok = "\<lambda>p. \<exists>ct b64. snd p = data_url ct b64 \<and> b64 \<noteq> []
    \<and> CHR ''z'' \<notin> set b64 \<and> CHR ''Z'' \<notin> set b64"
  have step: "list_all ?ok (add_image m imgs)" if m: "m \<in> set (rx_all imgRegex s)" and "list_all ?ok imgs"
    for m imgs
  proof -
    from rx_all_match [OF m] imgRegex_group obtain w where w: "rm_groups m 3 = Some w"
      "CHR ''z'' \<notin> set w" "CHR ''Z'' \<notin> set w" by blast
    have "set (trim (remove_ws w)) \<subseteq> set w"
      using set_trim by (fastforce simp: remove_ws_def ws_def rx_remove_class)
    with w that(2) show ?thesis by (fastforce simp: add_image_def Let_def)
  qed
  have "list_all ?ok (fold add_image ms imgs)"
    if "set ms \<subseteq> set (rx_all imgRegex s)" "list_all ?ok imgs" for ms imgs
    using that by (induction ms arbitrary: imgs) (auto intro: step)
  from this [of "rx_all imgRegex s" "[]"] have "list_all ?ok (fallback_images s [])"
    by (simp add: fallback_images_def)
  with assms show ?thesis by (fastforce simp: list_all_iff)
qed

lemma fallback_image_has_no_z_witness:
  "\<exists>ct b64. data_url ''image/p'' ''AA'' = data_url ct b64 \<and> b64 \<noteq> []
     \<and> CHR ''z'' \<notin> set b64 \<and> CHR ''Z'' \<notin> set b64"
proof -
  have "fallback_images (''Content-Type:image/p'' @ [nl] @ ''Content-ID:c'' @ [nl, nl] @ ''AAZBB'') []
      = [(''c'', data_url ''image/p'' ''AA'')]" by code_simp
  then show ?thesis
    using fallback_image_has_no_z [of "''c''" "data_url ''image/p'' ''AA''"
      "''Content-Type:image/p'' @ [nl] @ ''Content-ID:c'' @ [nl, nl] @ ''AAZBB''"] by simp
qed

end
