(* ===== verification/PgpProps.thy ===== *)
theory PgpProps
  imports PgpCrypt MimeProps
begin

text \<open>
  Properties of the key service: the cache of the session key, the accounting of bulk imports,
  what leaves the browser when a key is created, what the cleaning of a plaintext removes, and
  the round trip of a message through \<open>encrypt\<close> and \<open>decrypt\<close>.
\<close>

section \<open>The cache of the session key\<close>

locale key_cache =
  fixes get :: "'w \<Rightarrow> 'k option"
    and put :: "'k \<Rightarrow> 'w \<Rightarrow> 'w"
    and clear :: "'w \<Rightarrow> 'w"
    and ensure :: "'w \<Rightarrow> 'k option \<times> 'w"
  assumes get_put: "get (put k w) = Some k"
    and get_clear: "get (clear w) = None"
    and ensure_hit: "get w = Some k \<Longrightarrow> ensure w = (Some k, w)"
    and ensure_fills: "get (snd (ensure w)) = fst (ensure w)"
begin

lemma ensure_put: "ensure (put k w) = (Some k, put k w)"
  by (rule ensure_hit) (rule get_put)

lemma ensure_stable: "ensure w = (Some k, w') \<Longrightarrow> ensure w' = (Some k, w')"
  using ensure_fills [of w] by (simp add: ensure_hit)

lemma ensure_None_empty: "ensure w = (None, w') \<Longrightarrow> get w' = None"
  using ensure_fills [of w] by simp

end

lemma fetchKeyring_memory:
  "memoryKeyPair w = None \<Longrightarrow>
     memoryKeyPair (snd (fetchKeyringFromCloud sv w)) = fst (fetchKeyringFromCloud sv w)"
  by (auto simp: fetchKeyringFromCloud_def Let_def saveKeyPair_def split: sum.splits option.splits)

lemma fetchKeyring_calls: "sentCalls (snd (fetchKeyringFromCloud sv w)) = sentCalls w @ [keyring_call]"
  by (auto simp: fetchKeyringFromCloud_def Let_def saveKeyPair_def split: sum.splits option.splits)

interpretation session_key:
  key_cache getKeyPair "\<lambda>kp. saveKeyPair (Some kp)" clearKey "ensureKey sv" for sv
  using fetchKeyring_memory [of _ sv]
  by unfold_locales
    (auto simp: getKeyPair_def saveKeyPair_def clearKey_def ensureKey_def split: option.split)

section \<open>Bulk import\<close>

lemma bulk_loop_append:
  "bulk_loop infos cs fs =
     (cs @ map contact_of (filter (\<lambda>i. \<not> ki_isPrivate i \<and> ki_email i \<noteq> []) infos),
      fs @ concat (map (\<lambda>i. if ki_isPrivate i then [(ki_email i, Tr ''pgp.privateNotContact'' [])]
         else if ki_email i = [] then [([], Tr ''pgp.noEmailInKey'' [])] else []) infos))"
  by (induction infos cs fs rule: bulk_loop.induct) auto

lemma bulk_loop_count:
  "bulk_loop infos [] [] = (cs, fs) \<Longrightarrow> length cs + length fs = length infos"
  by (induction infos arbitrary: cs fs) (auto simp: bulk_loop_append split: if_splits)

lemma bulk_loop_public: "bulk_loop infos [] [] = (cs, fs) \<Longrightarrow>
    c \<in> set cs \<Longrightarrow> \<exists>i \<in> set infos. \<not> ki_isPrivate i \<and> c = contact_of i"
  by (auto simp: bulk_loop_append)

lemma filter_compl_length: "length (filter P xs) + length (filter (\<lambda>x. \<not> P x) xs) = length xs"
  by (induction xs) auto

section \<open>The names of user ids\<close>

lemma strip_tags_fixed: "length s < n \<Longrightarrow> remove_tags (strip_tags n s) = strip_tags n s"
proof (induction n arbitrary: s)
  case (Suc n)
  show ?case
  proof (cases "remove_tags s = s")
    case False
    then have "length (remove_tags s) < length s"
      unfolding remove_tags_def rx_replace_def using rx_replace_shorter by blast
    with Suc False show ?thesis by (simp add: Let_def)
  qed simp
qed simp

section \<open>The markers of a block\<close>

lemma rxm_Opt_ne: "k p \<noteq> None \<Longrightarrow> rxm (Opt a) k p \<noteq> None"
  by (simp add: Opt_def or_try_ne del: not_None_eq)

lemma rxm_lit_ne:
  assumes "to_lower a = to_lower s" "s \<noteq> []" "\<And>pv. k (pv, b, g) \<noteq> None"
  shows "rxm (lit s) k (pv, a @ b, g) \<noteq> None"
proof -
  have "length a = length s" using arg_cong [OF assms(1), of length] by simp
  then show ?thesis using assms by (simp add: rxm_lit del: not_None_eq)
qed

lemma end_marker_matches:
  assumes "to_lower v = ''-----end pgp message-----'' @ z"
  shows "match_here end_marker pv v \<noteq> None"
proof -
  have low: "to_lower ''-----END PGP '' = ''-----end pgp ''" "to_lower ''MESSAGE-----'' = ''message-----''"
    by code_simp+
  obtain a b where v: "v = a @ b" "to_lower a = ''-----end pgp ''" "to_lower b = ''message-----'' @ z"
    using to_lower_split [of v "''-----end pgp ''" "''message-----'' @ z"] assms by auto
  obtain c d where b: "b = c @ d" "to_lower c = ''message-----''"
    using to_lower_split [OF v(3)] by blast
  let ?t1 = "cat [Star any, Eol]" and ?t2 = "cat [lit ''MESSAGE-----'', Star any, Eol]"
    and ?t3 = "cat [marker_kind, lit ''MESSAGE-----'', Star any, Eol]"
  have t1: "rxm ?t1 Some p \<noteq> None" for p
    unfolding cat.simps rxm.simps(3) by (rule rxm_ignores_groups_rest)
  have t2: "rxm ?t2 Some (pv', b, g) \<noteq> None" for pv' g
    unfolding rxm_cat_Cons [of "lit ''MESSAGE-----''"] b(1)
    by (rule rxm_lit_ne; (rule t1)?) (simp_all only: b(2) low list.distinct simp_thms)
  have t3: "rxm ?t3 Some (pv', b, g) \<noteq> None" for pv' g
    by (subst rxm_cat_Cons, unfold marker_kind_def) (rule rxm_Opt_ne, rule t2)
  have t4: "rxm (cat [lit ''-----END PGP '', marker_kind, lit ''MESSAGE-----'', Star any, Eol]) Some (pv', v, g) \<noteq> None"
    for pv' g
    unfolding rxm_cat_Cons [of "lit ''-----END PGP ''"] v(1)
    by (rule rxm_lit_ne; (rule t3)?) (simp_all only: v(2) low list.distinct simp_thms)
  have "rxm end_marker Some (pv, v, g) \<noteq> None" for g
    unfolding end_marker_def by (subst rxm_cat_Cons, rule rxm_Opt_ne)+ (rule t4)
  then show ?thesis by (simp add: match_here_def split: option.split)
qed

lemma no_end_marker:
  assumes "rx_exec end_marker s = None"
  shows "\<not> contains (to_lower s) ''-----end pgp message-----''"
proof
  assume "contains (to_lower s) ''-----end pgp message-----''"
  then obtain u z where "to_lower s = u @ ''-----end pgp message-----'' @ z" by (auto simp: contains_iff)
  from to_lower_split [OF this] obtain a v where "s = a @ v" "to_lower v = ''-----end pgp message-----'' @ z"
    by blast
  with rx_search_None assms end_marker_matches show False unfolding rx_exec_def by blast
qed

lemma before_end_marker:
  assumes "rx_exec end_marker s = Some m"
  shows "\<not> contains (to_lower (rm_before m)) ''-----end pgp message-----''"
proof
  assume "contains (to_lower (rm_before m)) ''-----end pgp message-----''"
  then obtain u z where "to_lower (rm_before m) = u @ ''-----end pgp message-----'' @ z"
    by (auto simp: contains_iff)
  from to_lower_split [OF this] obtain a v where av: "rm_before m = a @ v"
      "to_lower v = ''-----end pgp message-----'' @ z" by blast
  then have "v \<noteq> []" by auto
  with av(1) have "length a < length (rm_before m)" by simp
  moreover have "s = a @ (v @ rm_text m @ rm_after m)"
    using rx_search_split assms av(1) unfolding rx_exec_def by fastforce
  ultimately obtain pv where "match_here end_marker pv (v @ rm_text m @ rm_after m) = None"
    using rx_search_first assms unfolding rx_exec_def by blast
  moreover have "to_lower (v @ rm_text m @ rm_after m)
      = ''-----end pgp message-----'' @ (z @ to_lower (rm_text m @ rm_after m))" by (simp add: av(2))
  ultimately show False using end_marker_matches by blast
qed

lemma end_marker_to_end:
  assumes "rx_exec end_marker s = Some m"
  shows "rm_after m = []"
proof -
  from assms rx_search_split obtain pv where
    "match_here end_marker pv (rm_text m @ rm_after m) = Some (rm_text m, rm_groups m, rm_after m)"
    unfolding rx_exec_def by blast
  then obtain p q where p: "rxm end_marker Some q = Some p" "rest_of p = rm_after m"
    by (auto simp: match_here_iff)
  have "end_marker = cat ([Opt (lit_cs [cr]), Opt (lit_cs [nl]), lit ''-----END PGP '', marker_kind,
     lit ''MESSAGE-----'', Star any] @ [Eol])" by (simp add: end_marker_def)
  with p(1) rxm_cat_tail [of "[Eol]"] obtain p' where "rxm (cat [Eol]) Some p' = Some p"
    by (metis not_Cons_self2)
  with p(2) show ?thesis by (simp split: if_splits)
qed

lemma contains_trim: "contains (to_lower (trim s)) pat \<Longrightarrow> contains (to_lower s) pat"
proof -
  obtain a b where "s = a @ trim s @ b"
    unfolding trim_def trim_end_def trim_start_def
    by (metis append.assoc rev_append rev_rev_ident takeWhile_dropWhile_id)
  then have "to_lower s = to_lower a @ to_lower (trim s) @ to_lower b" by (metis to_lower_append)
  then show "contains (to_lower (trim s)) pat \<Longrightarrow> contains (to_lower s) pat"
    by (auto simp: contains_iff) (metis append.assoc)
qed

lemma strip_markers_no_end: "\<not> contains (to_lower (strip_markers s)) ''-----end pgp message-----''"
proof -
  let ?t = "rx_replace1 begin_marker (\<lambda>_. []) s"
  have "\<not> contains (to_lower (rx_replace1 end_marker (\<lambda>_. []) ?t)) ''-----end pgp message-----''"
    by (cases "rx_exec end_marker ?t")
      (simp_all add: rx_replace1_def no_end_marker before_end_marker end_marker_to_end)
  then show ?thesis unfolding strip_markers_def using contains_trim by blast
qed

section \<open>Plain messages\<close>

text \<open>A text without PGP blocks and without MIME headers, and without space around it.\<close>

definition plain_mail :: "string \<Rightarrow> bool" where
  "plain_mail msg \<longleftrightarrow>
     trim msg = msg
     \<and> \<not> contains (to_lower msg) (to_lower ''-----BEGIN PGP '')
     \<and> \<not> contains (to_lower msg) (to_lower ''-----END PGP '')
     \<and> \<not> contains (to_lower msg) (to_lower ''Content-Type:'')"

lemma no_literal:
  "\<not> contains (to_lower t) (to_lower s) \<Longrightarrow> rx_exec (cat (xs @ lit s # ys)) t = None"
  using rx_test_lit unfolding rx_test_def by blast

lemma plain_markers:
  assumes "plain_mail msg"
  shows "rx_exec begin_marker msg = None" "rx_exec end_marker msg = None" "\<not> rx_test (line_type ty) msg"
  using assms no_literal [of msg "''-----BEGIN PGP ''" "[Bol False]"]
    no_literal [of msg "''-----END PGP ''" "[Opt (lit_cs [cr]), Opt (lit_cs [nl])]"]
    no_literal [of msg "''Content-Type:''" "[Bol True]"]
  by (simp_all only: plain_mail_def begin_marker_def end_marker_def line_type_def append.simps
      rx_test_def simp_thms)

lemma plain_not_encrypted: "plain_mail msg \<Longrightarrow> \<not> isPgpEncrypted msg"
proof
  assume "plain_mail msg" "isPgpEncrypted msg"
  then have "contains (to_lower msg) (to_lower ''-----BEGIN PGP MESSAGE-----'')"
    using rx_test_lit [of "[]" "''-----BEGIN PGP MESSAGE-----''" "[]" msg]
    by (simp only: isPgpEncrypted_def append.simps cat.simps)
  then obtain u v where "to_lower msg = u @ to_lower ''-----BEGIN PGP '' @ (to_lower ''MESSAGE-----'' @ v)"
    by (auto simp: contains_iff to_lower_def)
  then have "contains (to_lower msg) (to_lower ''-----BEGIN PGP '')" unfolding contains_iff by blast
  with \<open>plain_mail msg\<close> show False by (simp only: plain_mail_def simp_thms)
qed

lemma plain_strip: "plain_mail msg \<Longrightarrow> strip_markers msg = msg"
  using plain_markers(1,2) [of msg] by (simp add: strip_markers_def rx_replace1_def plain_mail_def)

lemma plain_clean: "plain_mail msg \<Longrightarrow> clean_text td msg = msg"
  using plain_markers(3) [of msg] by (simp add: clean_text_def plain_strip)

section \<open>Decryption\<close>

lemma collectE_in:
  "collectE (map f xs) = Inr ys \<Longrightarrow> a \<in> set xs \<Longrightarrow> f a = Inr y \<Longrightarrow> y \<in> set ys"
proof (induction xs arbitrary: ys)
  case (Cons x xs)
  then show ?case by (cases "f x"; cases "collectE (map f xs)") auto
qed simp

lemma encrypt_Inr:
  assumes "encrypt lib msg recipients signer pass = Inr c"
  shows "\<exists>keys s. collectE (map (readKey lib) recipients) = Inr keys \<and> encryptText lib msg keys s = Inr c"
  using assms by (auto simp: encrypt_def bindE_Inr_iff of_lib_Inr_iff)

lemma unlock_Inr_iff:
  "unlock lib err pass k = Inr k' \<longleftrightarrow>
     (if isDecrypted lib k then k' = k else decryptKey lib k (opt_string pass) = Inr k')"
  by (auto simp: unlock_def split: sum.split)

lemma decrypt_once_args:
  "decrypt_once lib td sv (args\<lparr>da_armoredMessage := m\<rparr>) w = (Inr d, w') \<Longrightarrow>
     \<exists>k keys. decrypt_block lib td m k keys = Inr d"
  by (auto simp: decrypt_once_def Let_def split: sum.splits prod.splits)

text \<open>The fuel of \<open>decrypt\<close>: it is used up only by blocks whose plaintext is a block again.\<close>

lemma decrypt_enough:
  assumes dec: "\<And>m k keys d. decrypt_block lib td m k keys = Inr d \<Longrightarrow> isPgpEncrypted (dc_data d) \<Longrightarrow>
      rank (dc_data d) < (rank m :: nat)"
  shows "rank (da_armoredMessage args) < n \<Longrightarrow> decrypt n lib td sv args w \<noteq> None"
proof (induction n arbitrary: args w)
  case (Suc n)
  have "decrypt n lib td sv (args\<lparr>da_armoredMessage := dc_data d\<rparr>) w' \<noteq> None"
    if "decrypt_once lib td sv args w = (Inr d, w')" "isPgpEncrypted (dc_data d)" for d w'
  proof (rule Suc.IH)
    have "\<exists>k keys. decrypt_block lib td (da_armoredMessage args) k keys = Inr d"
      using decrypt_once_args [of lib td sv "da_armoredMessage args" args w] that(1) by simp
    with dec that(2) Suc.prems show "rank (da_armoredMessage (args\<lparr>da_armoredMessage := dc_data d\<rparr>)) < n"
      by fastforce
  qed
  then show ?case by (auto split: sum.splits prod.splits option.splits)
qed simp

text \<open>What the documentation of the library promises about one text: its encryption opens with every
  unlocked key whose public part is among the recipients, and unlocking keeps the public part.\<close>

definition recovers :: "('k, 'm) openpgp \<Rightarrow> string \<Rightarrow> bool" where
  "recovers lib msg \<longleftrightarrow>
     (\<forall>keys signer c k vks.
        encryptText lib msg keys signer = Inr c \<longrightarrow> toPublic lib k \<in> set keys \<longrightarrow> isDecrypted lib k \<longrightarrow>
        (\<exists>m sigs. readMessage lib (target_armored c) = Inr m
           \<and> decryptMessage lib m k vks = Inr (msg, sigs)))
     \<and> (\<forall>k p k'. decryptKey lib k p = Inr k' \<longrightarrow> isDecrypted lib k' \<and> toPublic lib k' = toPublic lib k)"

lemma recovers_block:
  assumes "recovers lib msg" "plain_mail msg" "encryptText lib msg keys s = Inr c"
    and "toPublic lib k \<in> set keys" "isDecrypted lib k"
  shows "\<exists>d. decrypt_block lib td c k vks = Inr d \<and> dc_data d = msg"
proof -
  from assms obtain m sigs where "readMessage lib (target_armored c) = Inr m"
      "decryptMessage lib m k (if vks \<noteq> [] then Some vks else None) = Inr (msg, sigs)"
    unfolding recovers_def by blast
  then show ?thesis
    using plain_clean [OF assms(2), of td] by (simp add: decrypt_block_def split: prod.split)
qed

text \<open>A library for the examples: a key is its armored text, a locked one starts with L.\<close>

definition toy_lib :: "(string, string) openpgp" where
  "toy_lib =
     \<lparr>readKey = Inr, readKeys = (\<lambda>s. Inr [s]), readBinaryKeys = (\<lambda>_. Inr []), readPrivateKey = Inr,
      readBinaryPrivateKey = (\<lambda>_. Inl []), armor = Inr, userIDs = (\<lambda>_. [''Bob <bob@example.org>'']),
      keyIdHex = (\<lambda>_. ''b0b''), fingerprintHex = (\<lambda>_. ''b0b''), toPublic = (\<lambda>k. ''pub''),
      isDecrypted = (\<lambda>k. \<not> starts_with k ''L''),
      decryptKey = (\<lambda>k p. if starts_with k ''L'' \<and> p = ''pw'' then Inr (''U'' @ tl k) else Inl ''wrong''),
      generateKeys = (\<lambda>n e p. Inr (''U1'', ''pub'')), encryptText = (\<lambda>m ks s. Inr (rev m)),
      encryptBytes = (\<lambda>m ks s. Inr m), readMessage = Inr,
      decryptMessage = (\<lambda>m k vs. Inr (rev m, []))\<rparr>"

definition silent_server :: pgp_server where
  "silent_server =
     \<lparr>sv_unit = (\<lambda>_. Inr ()), sv_bulk = (\<lambda>_. Inr (1, [])), sv_import = (\<lambda>_. Inr (0, [], 0)),
      sv_keyring = (\<lambda>_. Inr None), sv_contacts = (\<lambda>_. Inr []),
      sv_contact = (\<lambda>_. Inl (thrown (Raw ''down'')))\<rparr>"

definition new_world :: pgp_world where
  "new_world = \<lparr>memoryKeyPair = None, sentCalls = []\<rparr>"

section \<open>Properties\<close>


definition bob_key :: cloud_keyring_payload where
  "bob_key =
     \<lparr>cl_email = ''bob@example.org'', cl_publicKeyArmored = ''pub'', cl_encryptedPrivateKeyArmored = ''L1'',
      cl_fingerprint = ''B0B'', cl_keyId = ''B0B'', cl_updatedAt = ''2024''\<rparr>"


text \<open>A bulk import accounts for every key it was given: each is saved, skipped by the server or
  failed, private keys are never sent, and nothing is sent when no key can be a contact.\<close>

theorem bulk_import_accounts_for_every_key:
  "case (bulk_loop keys [] [], saveContactKeysBulk sv keys w) of ((contacts, _), (r, w')) \<Rightarrow>
     length (bk_saved r) + length (filter (\<lambda>c. ck_email c \<in> set (bk_skipped r)) contacts)
       + length (bk_failed r) = length keys
     \<and> list_all (\<lambda>c. c \<in> contact_of ` {i \<in> set keys. \<not> ki_isPrivate i}) contacts
     \<and> sentCalls w' = sentCalls w @ (if contacts = [] then [] else [bulk_call contacts])"
proof -
  obtain cs fs where b: "bulk_loop keys [] [] = (cs, fs)" by (cases "bulk_loop keys [] []")
  have "list_all (\<lambda>c. c \<in> contact_of ` {i \<in> set keys. \<not> ki_isPrivate i}) cs"
    using bulk_loop_public [OF b] by (auto simp: list_all_iff)
  moreover have "length (filter (\<lambda>c. ck_email c \<notin> S) cs) + (length (filter (\<lambda>c. ck_email c \<in> S) cs) + n)
      = length cs + n" for S n
    using filter_compl_length [of "\<lambda>c. ck_email c \<in> S" cs] by simp
  ultimately show ?thesis
    using bulk_loop_count [OF b]
    by (auto simp: saveContactKeysBulk_def b Let_def split: sum.split)
qed

text \<open>A private key without a passphrase is accepted as it is, and its unprotected text is sent to
  the server as the \<open>encryptedPrivateKeyArmored\<close> of the key ring.\<close>

theorem unprotected_key_is_uploaded:
  assumes "readPrivateKey lib priv = Inr k" and "isDecrypted lib k"
    and "import_public lib k pub = Inr p"
  shows "\<exists>kp. importPersonalKey lib sv now priv pub pass w
      = (Inr kp, (saveKeyPair (Some kp) w)\<lparr>sentCalls := sentCalls w @
          [(''/pgp/keyring'',
            json_body ''POST''
              [(''publicKeyArmored'', jstr p), (''encryptedPrivateKeyArmored'', jstr priv),
               (''fingerprint'', jstr (to_upper (fingerprintHex lib k))),
               (''keyId'', jstr (to_upper (keyIdHex lib k)))])]\<rparr>)"
  using assms
  by (simp add: importPersonalKey_def unlock_def store_new_key_def syncKeyringToCloud_def sync_call_def
      saveKeyPair_def send_def Let_def)

theorem unprotected_key_is_uploaded_witness:
  "\<exists>kp. importPersonalKey toy_lib silent_server ''now'' ''U1'' None None new_world
      = (Inr kp, (saveKeyPair (Some kp) new_world)\<lparr>sentCalls := sentCalls new_world @
          [(''/pgp/keyring'',
            json_body ''POST''
              [(''publicKeyArmored'', jstr ''pub''), (''encryptedPrivateKeyArmored'', jstr ''U1''),
               (''fingerprint'', jstr (to_upper (fingerprintHex toy_lib ''U1''))),
               (''keyId'', jstr (to_upper (keyIdHex toy_lib ''U1'')))])]\<rparr>)"
  by (rule unprotected_key_is_uploaded)
    (simp_all add: toy_lib_def starts_with_def import_public_def truthy_opt_def)

text \<open>Whatever a message says after the end line of a quoted PGP block is lost: the plaintext that
  is shown never contains such an end line, in any letter case, so the recursion into a nested
  message never sees a whole block outside a MIME part.\<close>

theorem text_after_quoted_block_is_lost:
  "\<not> contains (to_lower (strip_markers s)) ''-----end pgp message-----''"
  by (rule strip_markers_no_end)

text \<open>\<open>decrypt\<close> returns when the blocks that the plaintexts contain get smaller in some measure:
  the measure of the message bounds the depth of the recursion.\<close>

theorem decrypt_returns:
  assumes "\<And>m k keys d. decrypt_block lib td m k keys = Inr d \<Longrightarrow> isPgpEncrypted (dc_data d) \<Longrightarrow>
      rank (dc_data d) < (rank m :: nat)"
  shows "decrypt (rank (da_armoredMessage args) + 1) lib td sv args w \<noteq> None"
  using assms by (rule decrypt_enough) simp_all

lemma isPgpEncrypted_Nil: "\<not> isPgpEncrypted []"
  by code_simp

theorem decrypt_returns_witness:
  "decrypt 1 (toy_lib\<lparr>decryptMessage := (\<lambda>m k vs. Inr ([], []))\<rparr>) (\<lambda>s. s) silent_server
     \<lparr>da_armoredMessage = ''x'', da_privateKeyArmored = ''U1'', da_passphrase = None,
      da_senderPublicKeyArmored = None\<rparr> new_world \<noteq> None"
proof -
  let ?lib = "toy_lib\<lparr>decryptMessage := (\<lambda>m k vs. Inr ([], []))\<rparr>"
  have "clean_text (\<lambda>s. s) [] = []" by (rule plain_clean) code_simp
  then have "dc_data d = []" if "decrypt_block ?lib (\<lambda>s. s) m k keys = Inr d" for m k keys d
    using that by (auto simp: decrypt_block_def toy_lib_def)
  then have no_rest: "\<not> isPgpEncrypted (dc_data d)" if "decrypt_block ?lib (\<lambda>s. s) m k keys = Inr d" for m k keys d
    using that by (simp add: isPgpEncrypted_Nil)
  show ?thesis
    using decrypt_returns [of ?lib "\<lambda>s. s" "\<lambda>_. 0"
      "\<lparr>da_armoredMessage = ''x'', da_privateKeyArmored = ''U1'', da_passphrase = None,
        da_senderPublicKeyArmored = None\<rparr>" silent_server new_world] no_rest
    by simp
qed

text \<open>C24: a plain message that was encrypted for a list of recipients comes back unchanged for each of
  them, with a key that is unlocked or opens with the passphrase, whoever sent it and whatever
  the server knows about contacts; no recursion takes place.\<close>

theorem encrypted_message_comes_back:
  assumes "recovers lib msg" and "plain_mail msg"
    and "encrypt lib msg recipients signer pass = Inr c"
    and "a \<in> set recipients" and "readKey lib a = Inr (toPublic lib k)"
    and "readPrivateKey lib priv = Inr k"
    and "isDecrypted lib k \<or> decryptKey lib k (opt_string pw) = Inr k'"
  shows "\<exists>d w'. decrypt (Suc n) lib td sv
      \<lparr>da_armoredMessage = c, da_privateKeyArmored = priv, da_passphrase = pw,
       da_senderPublicKeyArmored = sender\<rparr> w = Some (Inr d, w') \<and> dc_data d = msg"
proof -
  obtain keys s where ks: "collectE (map (readKey lib) recipients) = Inr keys"
      "encryptText lib msg keys s = Inr c"
    using encrypt_Inr [OF assms(3)] by blast
  have k: "toPublic lib k \<in> set keys" by (rule collectE_in [OF ks(1) assms(4,5)])
  define kk where "kk = (if isDecrypted lib k then k else k')"
  have kk: "unlock lib err pw k = Inr kk" for err
    using assms(7) by (auto simp: unlock_Inr_iff kk_def)
  have op: "toPublic lib kk \<in> set keys" "isDecrypted lib kk"
    using assms(1,7) k unfolding recovers_def kk_def by auto
  obtain armors w' where va: "verification_armors sv sender w = (armors, w')" by fastforce
  obtain d where "decrypt_block lib td c kk (readable_keys lib armors) = Inr d" "dc_data d = msg"
    using recovers_block [OF assms(1,2) ks(2) op] by blast
  then show ?thesis
    using assms(6) by (simp add: decrypt_once_def kk va plain_not_encrypted [OF assms(2)])
qed

lemma toy_recovers: "recovers toy_lib ''Hi''"
proof -
  have "target_armored ''iH'' = ''iH''" by code_simp
  then show ?thesis by (auto simp: recovers_def toy_lib_def starts_with_def)
qed

theorem encrypted_message_comes_back_witness:
  "\<exists>d w'. decrypt 1 toy_lib (\<lambda>s. s) silent_server
      \<lparr>da_armoredMessage = ''iH'', da_privateKeyArmored = ''L1'', da_passphrase = Some ''pw'',
       da_senderPublicKeyArmored = None\<rparr> new_world = Some (Inr d, w') \<and> dc_data d = ''Hi''"
proof -
  have "plain_mail ''Hi''" by code_simp
  moreover have "encrypt toy_lib ''Hi'' [''pub''] None None = Inr ''iH''"
    by (simp add: encrypt_def toy_lib_def signing_key_def truthy_opt_def)
  ultimately show ?thesis
    using encrypted_message_comes_back [OF toy_recovers, of "[''pub'']" None None "''iH''" "''pub''"
      "''L1''" "''L1''" "Some ''pw''" "''U1''" 0]
    by (simp add: toy_lib_def starts_with_def)
qed

end
