(* ===== verification/Shell.thy ===== *)
theory Shell
  imports Stores PgpCrypt I18n
begin

text \<open>
  The shell of the application, \<open>frontend/src/App.tsx\<close> with \<open>frontend/src/api/sse.ts\<close>: the stores, the
  key in memory and the effects that follow a sign-in, as one machine.  An event is a callback
  (an answer that arrives, a notification of the server, a call of a store); after each event the
  effects whose dependencies changed run, as React runs them.  A request that is on its way is
  counted, and its answer may arrive at any later time, also after a sign-out.  \<open>initAuth\<close> is called
  once, when the shell is mounted, and nothing but its answer ends the loading screen.
\<close>

section \<open>State\<close>

record shell =
  sh_auth :: auth_state
  sh_mail :: "mail_state \<times> browser"
  sh_key :: "pgp_key_pair option"
  sh_pgp :: pgp_store
  sh_i18n :: i18n_state
  sh_showOnboarding :: bool
  sh_onboardingStatus :: "onboarding_status option"
  sh_keyringRequests :: nat
  sh_onboardingRequests :: nat
  sh_prefsRequests :: nat
  sh_subscribed :: bool
  sh_stale :: "string list list"
  sh_prefersDark :: bool
  sh_dark :: bool

definition init_shell :: "browser \<Rightarrow> i18n_state \<Rightarrow> bool \<Rightarrow> shell" where
  "init_shell b i dark =
     \<lparr>sh_auth = init_auth, sh_mail = (init_mail b, b), sh_key = None, sh_pgp = init_pgp None,
      sh_i18n = i, sh_showOnboarding = False, sh_onboardingStatus = None, sh_keyringRequests = 0,
      sh_onboardingRequests = 0, sh_prefsRequests = 0, sh_subscribed = False, sh_stale = [],
      sh_prefersDark = dark,
      sh_dark = (stored_theme b = Dark \<or> (stored_theme b = System \<and> dark))\<rparr>"

section \<open>Callbacks\<close>

text \<open>The answer to the request for the key ring.\<close>

definition keyring_arrives ::
    "api_error + cloud_keyring_payload option \<Rightarrow> pgp_key_pair option \<Rightarrow> pgp_key_pair option" where
  "keyring_arrives res key =
     (case res of
        Inr (Some p) \<Rightarrow>
          if cl_encryptedPrivateKeyArmored p = [] then key else Some (cloud_key_pair p)
      | _ \<Rightarrow> key)"

lemma keyring_arrives_fetch:
  "memoryKeyPair (snd (fetchKeyringFromCloud sv w))
     = keyring_arrives (sv_keyring sv (sentCalls w @ [keyring_call])) (memoryKeyPair w)"
  by (auto simp: fetchKeyringFromCloud_def keyring_arrives_def Let_def saveKeyPair_def
      split: sum.splits option.splits)

definition onboarding_arrives :: "api_error + onboarding_status \<Rightarrow> shell \<Rightarrow> shell" where
  "onboarding_arrives res s =
     (case res of
        Inl _ \<Rightarrow> s
      | Inr st \<Rightarrow>
          s\<lparr>sh_onboardingStatus := Some st,
            sh_showOnboarding := (if o_completed st then sh_showOnboarding s else True)\<rparr>)"

definition mode_of :: "string option \<Rightarrow> list_mode option" where
  "mode_of so =
     (if so = Some ''threads'' then Some Threads else if so = Some ''messages'' then Some Messages
      else None)"

definition theme_of :: "string option \<Rightarrow> theme_pref option" where
  "theme_of so =
     (if so = Some ''light'' then Some Light else if so = Some ''dark'' then Some Dark
      else if so = Some ''system'' then Some System else None)"

definition locale_of :: "string option \<Rightarrow> locale_id option" where
  "locale_of so =
     (if so = Some ''en'' then Some En else if so = Some ''zh-Hant'' then Some ZhHant else None)"

definition restore_theme :: "theme_pref \<Rightarrow> mail_state \<times> browser \<Rightarrow> mail_state \<times> browser" where
  "restore_theme th w =
     (case w of (m, b) \<Rightarrow> (m\<lparr>theme := th\<rparr>, set_item ''e2Mail_theme'' (theme_str th) b))"

definition prefs_arrive ::
    "api_error + string option \<times> string option \<times> string option \<Rightarrow> shell \<Rightarrow> shell" where
  "prefs_arrive res s =
     (case res of
        Inl _ \<Rightarrow> s
      | Inr (mode, savedTheme, savedLocale) \<Rightarrow>
          (let s = (case mode_of mode of None \<Rightarrow> s | Some m \<Rightarrow> s\<lparr>sh_mail := setListMode m (sh_mail s)\<rparr>);
               s = (case theme_of savedTheme of
                      None \<Rightarrow> s | Some th \<Rightarrow> s\<lparr>sh_mail := restore_theme th (sh_mail s)\<rparr>)
           in case locale_of savedLocale of
                None \<Rightarrow> s | Some l \<Rightarrow> s\<lparr>sh_i18n := applyDocumentLang (setLocale l (sh_i18n s))\<rparr>))"

text \<open>The queries that a notification of the server makes stale.\<close>

definition sse_keys :: "mailbox_event \<Rightarrow> string list list" where
  "sse_keys ev =
     (if ev_type ev = ''NEW_MESSAGE'' \<or> ev_type ev = ''FLAG_UPDATE'' \<or> ev_type ev = ''EXPUNGE'' then
        (if truthy_opt (ev_accountId ev)
         then [[''messages'', opt_string (ev_accountId ev)], [''folders'', opt_string (ev_accountId ev)]]
         else [[''messages''], [''folders'']])
      else [])"

text \<open>The key of the query for unread messages in \<open>MessageList.tsx\<close>; a key makes every query stale whose
  key it is a prefix of.\<close>

definition unread_query_key :: "string option \<Rightarrow> nat \<Rightarrow> nat \<Rightarrow> string list" where
  "unread_query_key account n m = [''unread-aggregate'', opt_string account, nat_str n, nat_str m]"

text \<open>\<open>connectEvents\<close>: a notification that is not JSON is dropped.\<close>

definition on_mailbox_event :: "mailbox_event option \<Rightarrow> shell \<Rightarrow> shell" where
  "on_mailbox_event parsed s =
     (case parsed of
        None \<Rightarrow> s
      | Some ev \<Rightarrow> if sh_subscribed s then s\<lparr>sh_stale := sh_stale s @ sse_keys ev\<rparr> else s)"

datatype shell_event =
    InitAuth "api_error + session"
  | LoggedIn login_response
  | LoggedOut "api_error + unit"
  | KeyringReply "api_error + cloud_keyring_payload option"
  | OnboardingReply "api_error + onboarding_status"
  | OnboardingComplete
  | PrefsReply "api_error + string option \<times> string option \<times> string option"
  | MediaChange bool
  | Notification "mailbox_event option"
  | Mail mail_event

fun handle :: "shell_event \<Rightarrow> shell \<Rightarrow> shell" where
  "handle (InitAuth res) s =
     (if isLoading (sh_auth s) then s\<lparr>sh_auth := initAuth res (sh_auth s)\<rparr> else s)"
| "handle (LoggedIn r) s = s\<lparr>sh_auth := applyLogin r (sh_auth s)\<rparr>"
| "handle (LoggedOut res) s =
     (case logout res (sh_auth s, sh_key s) of (a, k) \<Rightarrow> s\<lparr>sh_auth := a, sh_key := k\<rparr>)"
| "handle (KeyringReply res) s =
     (if sh_keyringRequests s = 0 then s
      else
        (let k = keyring_arrives res (sh_key s)
         in s\<lparr>sh_keyringRequests := sh_keyringRequests s - 1, sh_key := k,
              sh_pgp := pgp_refresh k (sh_pgp s)\<rparr>))"
| "handle (OnboardingReply res) s =
     (if sh_onboardingRequests s = 0 then s
      else onboarding_arrives res (s\<lparr>sh_onboardingRequests := sh_onboardingRequests s - 1\<rparr>))"
| "handle OnboardingComplete s =
     s\<lparr>sh_showOnboarding := False, sh_pgp := pgp_refresh (sh_key s) (sh_pgp s)\<rparr>"
| "handle (PrefsReply res) s =
     (if sh_prefsRequests s = 0 then s
      else prefs_arrive res (s\<lparr>sh_prefsRequests := sh_prefsRequests s - 1\<rparr>))"
| "handle (MediaChange b) s = s\<lparr>sh_prefersDark := b\<rparr>"
| "handle (Notification ev) s = on_mailbox_event ev s"
| "handle (Mail e) s = s\<lparr>sh_mail := mail_step e (sh_mail s)\<rparr>"

section \<open>Effects\<close>

definition signed_in :: "shell \<Rightarrow> bool" where
  "signed_in s \<longleftrightarrow> isAuthenticated (sh_auth s)"

definition shell_view :: "shell \<Rightarrow> app_view" where
  "shell_view s = view (fst (sh_mail s))"

definition accounts_of :: "shell \<Rightarrow> account list" where
  "accounts_of s = (case asession (sh_auth s) of None \<Rightarrow> [] | Some x \<Rightarrow> s_accounts x)"

text \<open>The effects that depend on \<open>isAuthenticated\<close>, with \<open>s0\<close> the state of the last render.\<close>

definition auth_effects :: "shell \<Rightarrow> shell \<Rightarrow> shell" where
  "auth_effects s0 s =
     (let fresh = signed_in s \<and> \<not> signed_in s0;
          status = signed_in s \<and> (\<not> signed_in s0 \<or> shell_view s \<noteq> shell_view s0)
      in s\<lparr>sh_keyringRequests := sh_keyringRequests s + (if fresh then 1 else 0),
           sh_prefsRequests := sh_prefsRequests s + (if fresh then 1 else 0),
           sh_onboardingRequests := sh_onboardingRequests s + (if status then 1 else 0),
           sh_subscribed := signed_in s\<rparr>)"

definition apply_theme :: "shell \<Rightarrow> shell" where
  "apply_theme s =
     s\<lparr>sh_dark := (theme (fst (sh_mail s)) = Dark
         \<or> (theme (fst (sh_mail s)) = System \<and> sh_prefersDark s))\<rparr>"

text \<open>The effect of \<open>useActiveAccount\<close>, which the shell calls in every render.\<close>

definition active_account_effect :: "shell \<Rightarrow> shell" where
  "active_account_effect s = s\<lparr>sh_mail := apfst (account_effect (accounts_of s)) (sh_mail s)\<rparr>"

text \<open>The effects of the commit, and those of the render that the account effect causes.\<close>

definition run_effects :: "shell \<Rightarrow> shell \<Rightarrow> shell" where
  "run_effects s0 s =
     (let s1 = auth_effects s0 s; s2 = active_account_effect s1
      in apply_theme (auth_effects s1 s2))"

definition shell_step :: "shell_event \<Rightarrow> shell \<Rightarrow> shell" where
  "shell_step e s = run_effects s (handle e s)"

section \<open>What is on the screen\<close>

datatype screen = LoadingScreen | LoginScreen | Workspace

definition screen_of :: "shell \<Rightarrow> screen" where
  "screen_of s =
     (if isLoading (sh_auth s) then LoadingScreen
      else if \<not> signed_in s then LoginScreen else Workspace)"

definition composer_shown :: "shell \<Rightarrow> partial_message option" where
  "composer_shown s =
     (if screen_of s = Workspace \<and> shell_view s = MailView
         \<and> useActiveAccount (accounts_of s) (fst (sh_mail s)) \<noteq> None
         \<and> isComposerOpen (fst (sh_mail s))
      then composerDraft (fst (sh_mail s)) else None)"

definition wizard_shown :: "shell \<Rightarrow> bool" where
  "wizard_shown s \<longleftrightarrow> screen_of s = Workspace \<and> sh_showOnboarding s"

end
