(* ===== verification/ShellProps.thy ===== *)
theory ShellProps
  imports Shell
begin

text \<open>
  Properties of the shell: what every history keeps, when the private key leaves the memory, what
  a sign-out leaves behind for the next user, and which queries a notification refreshes.
\<close>

section \<open>What the effects leave alone\<close>

lemma account_effect_view: "view (account_effect as m) = view m \<or> view (account_effect as m) = MailView"
  by (simp add: account_effect_def setActiveAccountId_def)

lemma account_effect_fields [simp]:
  "isComposerOpen (account_effect as m) = isComposerOpen m"
  "composerDraft (account_effect as m) = composerDraft m"
  "theme (account_effect as m) = theme m"
  by (simp_all add: account_effect_def setActiveAccountId_def)

lemma run_effects_fields [simp]:
  "sh_auth (run_effects s0 s) = sh_auth s"
  "sh_key (run_effects s0 s) = sh_key s"
  "sh_pgp (run_effects s0 s) = sh_pgp s"
  "sh_i18n (run_effects s0 s) = sh_i18n s"
  "sh_stale (run_effects s0 s) = sh_stale s"
  "sh_showOnboarding (run_effects s0 s) = sh_showOnboarding s"
  "sh_prefersDark (run_effects s0 s) = sh_prefersDark s"
  "sh_mail (run_effects s0 s) = apfst (account_effect (accounts_of s)) (sh_mail s)"
  "sh_subscribed (run_effects s0 s) = signed_in s"
  "signed_in (run_effects s0 s) = signed_in s"
  by (simp_all add: run_effects_def apply_theme_def auth_effects_def active_account_effect_def Let_def
      accounts_of_def signed_in_def)

lemma run_effects_requests:
  "sh_keyringRequests (run_effects s0 s)
     = sh_keyringRequests s + (if signed_in s \<and> \<not> signed_in s0 then 1 else 0)"
  by (simp add: run_effects_def apply_theme_def auth_effects_def active_account_effect_def Let_def
      signed_in_def)

lemma run_effects_dark:
  "sh_dark (run_effects s0 s) =
     (theme (fst (sh_mail s)) = Dark \<or> (theme (fst (sh_mail s)) = System \<and> sh_prefersDark s))"
  by (simp add: run_effects_def apply_theme_def auth_effects_def active_account_effect_def Let_def)

section \<open>The shell as a machine\<close>

definition shell_inv :: "shell \<Rightarrow> bool" where
  "shell_inv s \<longleftrightarrow>
     (isLoading (sh_auth s) \<longrightarrow> \<not> signed_in s)
     \<and> sh_subscribed s = signed_in s
     \<and> sh_dark s = (theme (fst (sh_mail s)) = Dark \<or> (theme (fst (sh_mail s)) = System \<and> sh_prefersDark s))"

lemma prefs_arrive_auth [simp]: "sh_auth (prefs_arrive res s) = sh_auth s"
  by (auto simp: prefs_arrive_def Let_def split: sum.split option.split)

lemma onboarding_arrives_auth [simp]: "sh_auth (onboarding_arrives res s) = sh_auth s"
  by (auto simp: onboarding_arrives_def split: sum.split)

lemma on_mailbox_event_auth [simp]: "sh_auth (on_mailbox_event ev s) = sh_auth s"
  by (auto simp: on_mailbox_event_def split: option.split)

lemma handle_loading:
  "(isLoading (sh_auth s) \<longrightarrow> \<not> signed_in s) \<Longrightarrow>
     isLoading (sh_auth (handle e s)) \<longrightarrow> \<not> signed_in (handle e s)"
  by (cases e) (auto simp: signed_in_def auth_setters Let_def split: sum.splits)

lemma loading_ends: "\<not> isLoading (sh_auth s) \<Longrightarrow> \<not> isLoading (sh_auth (handle e s))"
  by (cases e) (auto simp: auth_setters Let_def split: sum.splits)

interpretation shell_machine: safe_machine "init_shell b i dark" shell_step shell_inv for b i dark
proof
  show "shell_inv (init_shell b i dark)"
    by (simp add: shell_inv_def init_shell_def init_auth_def signed_in_def init_mail_def)
  show "shell_inv (shell_step e s)" if "shell_inv s" for s e
    using that handle_loading [of s e]
    by (simp add: shell_inv_def shell_step_def run_effects_dark apfst_def map_prod_def split: prod.split)
qed

lemma fold_not_loading: "\<not> isLoading (sh_auth s) \<Longrightarrow> \<not> isLoading (sh_auth (fold shell_step es s))"
  by (induction es arbitrary: s) (auto simp: shell_step_def loading_ends)

section \<open>The key in memory\<close>

text \<open>A history in which no answer about the key ring is outstanding when a sign-out ends.\<close>

fun no_answer_pending :: "shell_event list \<Rightarrow> shell \<Rightarrow> bool" where
  "no_answer_pending [] s = True"
| "no_answer_pending (e # es) s =
     ((case e of LoggedOut _ \<Rightarrow> sh_keyringRequests s = 0 | _ \<Rightarrow> True) \<and> no_answer_pending es (shell_step e s))"

definition key_inv :: "shell \<Rightarrow> bool" where
  "key_inv s \<longleftrightarrow>
     (isLoading (sh_auth s) \<longrightarrow> \<not> signed_in s) \<and> (\<not> signed_in s \<longrightarrow> sh_key s = None \<and> sh_keyringRequests s = 0)"

lemma prefs_arrive_fields [simp]:
  "sh_key (prefs_arrive res s) = sh_key s" "sh_keyringRequests (prefs_arrive res s) = sh_keyringRequests s"
  by (auto simp: prefs_arrive_def Let_def split: sum.split option.split)

lemma onboarding_arrives_fields [simp]:
  "sh_key (onboarding_arrives res s) = sh_key s"
  "sh_keyringRequests (onboarding_arrives res s) = sh_keyringRequests s"
  by (auto simp: onboarding_arrives_def split: sum.split)

lemma on_mailbox_event_fields [simp]:
  "sh_key (on_mailbox_event ev s) = sh_key s"
  "sh_keyringRequests (on_mailbox_event ev s) = sh_keyringRequests s"
  by (auto simp: on_mailbox_event_def split: option.split)

lemma key_inv_step:
  assumes "key_inv s" and "case e of LoggedOut _ \<Rightarrow> sh_keyringRequests s = 0 | _ \<Rightarrow> True"
  shows "key_inv (shell_step e s)"
proof -
  have "key_inv (run_effects s s') = (\<not> signed_in s' \<longrightarrow> sh_key s' = None \<and> sh_keyringRequests s' = 0)"
    if "isLoading (sh_auth s') \<longrightarrow> \<not> signed_in s'" for s'
    using that by (auto simp: key_inv_def run_effects_requests)
  moreover have "isLoading (sh_auth (handle e s)) \<longrightarrow> \<not> signed_in (handle e s)"
    using assms(1) handle_loading by (simp add: key_inv_def)
  moreover have "\<not> signed_in (handle e s) \<longrightarrow>
      sh_key (handle e s) = None \<and> sh_keyringRequests (handle e s) = 0"
    using assms by (cases e) (auto simp: key_inv_def signed_in_def auth_setters Let_def split: sum.splits)
  ultimately show ?thesis by (simp add: shell_step_def)
qed

lemma key_inv_history: "key_inv s \<Longrightarrow> no_answer_pending es s \<Longrightarrow> key_inv (fold shell_step es s)"
  by (induction es arbitrary: s) (auto intro: key_inv_step)

section \<open>After a sign-in\<close>

lemma active_after_effect:
  assumes "as \<noteq> []" "list_all (\<lambda>a. acc_id a \<noteq> []) as"
  shows "useActiveAccount as (account_effect as m) \<noteq> None"
proof -
  obtain a where a: "a \<in> set as" "activeAccountId (account_effect as m) = Some (acc_id a)"
    using account_effect_exists [OF assms(1)] by blast
  then have "find (\<lambda>c. Some (acc_id c) = Some (acc_id a)) as \<noteq> None" by (auto simp: find_None_iff)
  with a assms(2) show ?thesis by (auto simp: useActiveAccount_def truthy_opt_def list_all_iff)
qed

lemma sign_in_mail:
  "sh_mail (shell_step (LoggedIn x) s)
     = apfst (account_effect (case rs_session x of None \<Rightarrow> [] | Some y \<Rightarrow> s_accounts y)) (sh_mail s)"
  by (simp add: shell_step_def accounts_of_def applyLogin_def)

lemma sign_out_mail: "sh_mail (shell_step (LoggedOut r) s) = sh_mail s"
  by (cases "sh_mail s") (simp add: shell_step_def accounts_of_def logout_def account_effect_def)

lemma shell_step_onboarding:
  "sh_showOnboarding (shell_step (LoggedIn x) s) = sh_showOnboarding s"
  "sh_showOnboarding (shell_step (LoggedOut r) s) = sh_showOnboarding s"
  by (simp_all add: shell_step_def logout_def)

section \<open>Properties\<close>


definition anna :: session where
  "anna =
     \<lparr>s_id = ''s1'', s_email = ''anna@example.org'', s_username = ''anna'', s_accounts = [example_account],
      s_createdAt = [], s_lastActiveAt = []\<rparr>"

definition signed_in_as :: "session \<Rightarrow> login_response" where
  "signed_in_as x =
     \<lparr>rs_token = None, rs_session = Some x, rs_requires2fa = None, rs_challenge = None, rs_methods = None\<rparr>"

definition anna_key :: cloud_keyring_payload where
  "anna_key =
     \<lparr>cl_email = ''anna@example.org'', cl_publicKeyArmored = ''pub'', cl_encryptedPrivateKeyArmored = ''L1'',
      cl_fingerprint = ''A'', cl_keyId = ''A'', cl_updatedAt = ''2024''\<rparr>"

definition start_shell :: shell where
  "start_shell = init_shell empty_browser (init_i18n None ''en'' ''en'') False"

lemmas start_defs = start_shell_def init_shell_def init_auth_def init_mail_def empty_browser_def

lemmas step_defs =
  shell_step_def run_effects_def apply_theme_def auth_effects_def active_account_effect_def Let_def
  auth_setters signed_in_def keyring_arrives_def accounts_of_def


text \<open>An answer that arrives after the sign-out puts the private key back into memory, and the next
  user keeps it when the server has no key for that user.\<close>

theorem late_answer_hands_key_to_next_user:
  assumes "signed_in s" and "sh_keyringRequests s = 1" and "cl_encryptedPrivateKeyArmored p \<noteq> []"
  shows "case fold shell_step
      [LoggedOut r, KeyringReply (Inr (Some p)), LoggedIn x, KeyringReply (Inr None)] s of s' \<Rightarrow>
    signed_in s' \<and> asession (sh_auth s') = rs_session x
    \<and> sh_key s' = Some (cloud_key_pair p) \<and> hasKey (sh_pgp s')"
  using assms by (simp add: step_defs pgp_refresh_def split: prod.split)

definition ben :: session where
  "ben = anna\<lparr>s_id := ''s2'', s_email := ''ben@example.org'', s_username := ''ben''\<rparr>"

theorem late_answer_hands_key_to_next_user_witness:
  "sh_key (fold shell_step
     [InitAuth (Inr anna), LoggedOut (Inr ()), KeyringReply (Inr (Some anna_key)),
      LoggedIn (signed_in_as ben), KeyringReply (Inr None)] start_shell) = Some (cloud_key_pair anna_key)"
proof -
  let ?s = "shell_step (InitAuth (Inr anna)) start_shell"
  have "signed_in ?s" "sh_keyringRequests ?s = 1" "cl_encryptedPrivateKeyArmored anna_key \<noteq> []"
    by (simp_all add: step_defs start_defs anna_key_def split: prod.split)
  from late_answer_hands_key_to_next_user [OF this, of "Inr ()" "signed_in_as ben"] show ?thesis by simp
qed

text \<open>A sign-out leaves the draft of the composer and the onboarding wizard behind: the next user
  who signs in gets the composer of the previous one, opened with that user's draft, and the
  wizard that the previous user did not finish.\<close>

theorem next_user_gets_draft_and_wizard:
  assumes "isComposerOpen (fst (sh_mail s))" and "view (fst (sh_mail s)) = MailView"
    and "rs_session x = Some y" and "s_accounts y \<noteq> []" and "list_all (\<lambda>a. acc_id a \<noteq> []) (s_accounts y)"
  shows "case fold shell_step [LoggedOut r, LoggedIn x] s of s' \<Rightarrow>
    composer_shown s' = composerDraft (fst (sh_mail s)) \<and> wizard_shown s' = sh_showOnboarding s"
proof -
  let ?s1 = "shell_step (LoggedOut r) s" and ?s2 = "shell_step (LoggedIn x) (shell_step (LoggedOut r) s)"
  have m: "sh_mail ?s2 = apfst (account_effect (s_accounts y)) (sh_mail s)"
    by (simp add: sign_in_mail sign_out_mail assms(3))
  have a: "accounts_of ?s2 = s_accounts y" "screen_of ?s2 = Workspace"
    by (simp_all add: accounts_of_def screen_of_def signed_in_def shell_step_def applyLogin_def assms(3))
  have "view (account_effect (s_accounts y) (fst (sh_mail s))) = MailView"
    using account_effect_view [of "s_accounts y" "fst (sh_mail s)"] assms(2) by auto
  then show ?thesis
    using active_after_effect [OF assms(4,5)] assms(1)
    by (simp add: composer_shown_def wizard_shown_def shell_view_def m a shell_step_onboarding)
qed

definition private_draft :: partial_message where
  "private_draft =
     \<lparr>d_from = None, d_to = Some [''doctor@example.org''], d_cc = None, d_bcc = None,
      d_subject = Some ''Results'', d_inReplyTo = None, d_references = None, d_textBody = Some ''private'',
      d_htmlBody = None, d_attachments = None\<rparr>"

theorem next_user_gets_draft_and_wizard_witness:
  "composer_shown (fold shell_step
     [InitAuth (Inr anna), Mail (OpenComposer private_draft), LoggedOut (Inr ()),
      LoggedIn (signed_in_as ben)] start_shell) = Some private_draft"
proof -
  let ?s = "fold shell_step [InitAuth (Inr anna), Mail (OpenComposer private_draft)] start_shell"
  have m: "isComposerOpen (fst (sh_mail ?s))" "view (fst (sh_mail ?s)) = MailView"
      "composerDraft (fst (sh_mail ?s)) = Some private_draft"
    by (simp_all add: shell_step_def start_defs auth_setters anna_def openComposer_def accounts_of_def
        account_effect_def setActiveAccountId_def example_account_def default_account_def)
  have "s_accounts ben \<noteq> []" "list_all (\<lambda>a. acc_id a \<noteq> []) (s_accounts ben)"
      "rs_session (signed_in_as ben) = Some ben"
    by (simp_all add: ben_def anna_def example_account_def signed_in_as_def)
  from next_user_gets_draft_and_wizard [OF m(1,2) this(3,1,2), of "Inr ()"] m(3) show ?thesis by simp
qed

text \<open>No notification of the server refreshes the list of unread messages: its query key extends none
  of the keys that are made stale, while the lists of folders are refreshed.\<close>

theorem notification_never_refreshes_unread:
  "\<not> list_ex (\<lambda>k. prefix k (unread_query_key account n m)) (sse_keys ev)"
  by (auto simp: sse_keys_def unread_query_key_def)


end
