(* ===== verification/MailFrameProps.thy ===== *)
theory MailFrameProps
  imports MailFrame MimeProps
begin

text \<open>
  Properties of the mail frame: the bounds of its scale, what the guard of the styles of a mail lets
  through, and whose text the frame shows when messages change during a decryption.
\<close>

section \<open>The scale\<close>

lemma computeFitScale_cases:
  assumes "0 < paneW" "0 < intrinsicW"
  shows "computeFitScale paneW intrinsicW =
     (if intrinsicW \<le> paneW then 1
      else if 20 * paneW < 9 * intrinsicW then 9 / 20 else of_int paneW / of_int intrinsicW)"
proof -
  have "of_int paneW / of_int intrinsicW \<ge> (1 :: rat) \<longleftrightarrow> intrinsicW \<le> paneW"
    using assms by (simp add: le_divide_eq)
  moreover have "of_int paneW / of_int intrinsicW < (9 / 20 :: rat) \<longleftrightarrow> 20 * paneW < 9 * intrinsicW"
  proof -
    have "of_int paneW / of_int intrinsicW < (9 / 20 :: rat)
        \<longleftrightarrow> of_int (20 * paneW) < (of_int (9 * intrinsicW) :: rat)"
      using assms by (simp add: divide_less_eq field_simps)
    then show ?thesis by (simp only: of_int_less_iff)
  qed
  moreover have "min 1 (max q (9 / 20)) = (if 1 \<le> q then 1 else if q < 9 / 20 then 9 / 20 else q)"
    for q :: rat
    by (auto simp: min_def max_def)
  ultimately show ?thesis
    using assms by (simp add: computeFitScale_def WIDTH_MIN_SCALE_def)
qed

lemma fitScale_range: "9 / 20 \<le> fitScale paneW intrinsicW" "fitScale paneW intrinsicW \<le> 1"
  by (auto simp: fitScale_def computeFitScale_def WIDTH_MIN_SCALE_def min_def max_def)

lemma measure_loop_range: "measure_loop n f i best same \<in> insert best (f ` {i..<i + n})"
proof (induction n arbitrary: i best same)
  case (Suc n)
  have "insert (f i) (f ` {i + 1..<i + 1 + n}) \<subseteq> f ` {i..<i + Suc n}" by auto
  then show ?case
    using Suc.IH [of "i + 1" best "same + 1"] Suc.IH [of "i + 1" "f i" 0] by (auto simp: Let_def)
qed simp

text \<open>The measurement ends after at most eight frames with a size that was seen.\<close>

lemma measureStable_seen: "measureStable f \<in> f ` {0..8}"
proof -
  have "measureStable f \<in> insert (f 0) (f ` {1..<1 + 8})"
    unfolding measureStable_def WIDTH_MAX_FRAMES_def by (rule measure_loop_range)
  then show ?thesis by auto
qed

section \<open>The guard of the styles\<close>

lemma replace_lit_absent:
  "\<not> contains (to_lower t) (to_lower s) \<Longrightarrow> replace_from n (lit s) (\<lambda>_. []) pv t = t"
proof (induction n arbitrary: pv t)
  case (Suc n)
  have m: "match_here (lit s) pv t = None"
  proof (rule ccontr)
    assume "match_here (lit s) pv t \<noteq> None"
    then have "rxm (lit s) Some (pv, t, \<lambda>_. None) \<noteq> None"
      by (auto simp: match_here_def split: option.splits)
    then have "to_lower (take (length s) t) = to_lower s" by (auto simp: rxm_lit split: if_splits)
    then have "to_lower t = [] @ to_lower s @ to_lower (drop (length s) t)"
      by (metis append_Nil append_take_drop_id to_lower_append)
    with Suc.prems show False by (auto simp: contains_iff)
  qed
  show ?case
  proof (cases t)
    case (Cons c cs)
    then have "\<not> contains (to_lower cs) (to_lower s)"
      using Suc.prems by (auto simp: to_lower_def)
    with Suc.IH m Cons show ?thesis by simp
  qed (use m in simp)
qed simp

lemma remove_lit_absent: "\<not> contains (to_lower t) (to_lower s) \<Longrightarrow> remove_rx (lit s) t = t"
  unfolding remove_rx_def rx_replace_def by (rule replace_lit_absent)

lemma remove_until_stable_absent:
  "\<not> contains (to_lower t) (to_lower s) \<Longrightarrow> remove_until_stable n (lit s) t = t"
  by (cases n) (simp_all add: remove_lit_absent)

lemma remove_style_open:
  assumes "\<not> contains (to_lower x) ''<style''"
  shows "remove_rx (lit ''<style'') (''<<style/style>'' @ x) = ''</style>'' @ x"
proof -
  have low: "to_lower ''<style'' = ''<style''" "to_lower ''/style>'' = ''/style>''"
      "to_lower ''<<styl'' = ''<<styl''" by code_simp+
  have absent: "\<not> contains (to_lower (''/style>'' @ x)) (to_lower ''<style'')"
    unfolding to_lower_append low using assms by simp
  have m0: "match_here (lit ''<style'') pv (''<<style/style>'' @ x) = None" for pv
    using low(1,3) by (simp add: match_here_def rxm_lit)
  have m1: "match_here (lit ''<style'') pv (''<style'' @ (''/style>'' @ x))
      = Some (''<style'', \<lambda>_. None, ''/style>'' @ x)" for pv
    using low(1) by (simp add: match_here_def rxm_lit)
  have s0: "''<<style/style>'' @ x = CHR ''<'' # (''<style'' @ (''/style>'' @ x))" by simp
  have n: "length (''<<style/style>'' @ x) + 1 = Suc (Suc (length x + 13))" by simp
  have "replace_from (Suc (Suc k)) (lit ''<style'') (\<lambda>_. []) None (''<<style/style>'' @ x) = ''</style>'' @ x"
    for k
    using m0 [of None] m1 [of "Some CHR ''<''"] replace_lit_absent [OF absent] unfolding s0 by simp
  then show ?thesis unfolding remove_rx_def rx_replace_def n .
qed

text \<open>A mail whose style is such a text.\<close>

definition breakout_mail :: string where
  "breakout_mail = ''<style><<style/style><b></style>''"

lemma breakout_extracted: "extractMailStyles breakout_mail = (guard_css ''<<style/style><b>'', [])"
proof -
  have "map rm_text (rx_all style_block breakout_mail) = [breakout_mail]" by code_simp
  then have "map (\<lambda>m. style_inner (rm_text m)) (rx_all style_block breakout_mail) = [style_inner breakout_mail]"
    by (auto simp: map_eq_Cons_conv)
  moreover have "style_text breakout_mail = ''<<style/style><b>''" by code_simp
  then have "style_inner breakout_mail = ''<<style/style><b>''" by (simp add: style_inner_def)
  moreover have "trim ''<<style/style><b>'' \<noteq> []" "remove_rx style_block breakout_mail = []"
      "remove_rx style_block [] = []" "rx_all style_block [] = []" by code_simp+
  ultimately have "style_pass breakout_mail = ([''<<style/style><b>''], [])" "style_pass [] = ([], [])"
    by (simp_all add: style_pass_def)
  moreover have "length breakout_mail + 1 = Suc (Suc 31)" "breakout_mail \<noteq> []"
    by (simp_all add: breakout_mail_def)
  ultimately have "style_loop (length breakout_mail + 1) [] breakout_mail = ([''<<style/style><b>''], [])"
    by (simp only: style_loop.simps) simp
  then show ?thesis by (simp add: extractMailStyles_def)
qed

section \<open>Properties\<close>

text \<open>The scale of the frame stays between 0.45 and 1; a mail that is wider than the pane by more
  than 40 pixels is scaled to its width exactly, unless that would take it below 0.45, and the
  wrapper is as high as the scaled frame, rounded up.\<close>

theorem frame_fits_pane:
  "case fitScale paneW intrinsicW of s \<Rightarrow>
     9 / 20 \<le> s \<and> s \<le> 1
     \<and> (s * of_int intrinsicW = of_int paneW
        \<or> s = 1 \<and> (paneW \<le> 0 \<or> intrinsicW \<le> paneW + WIDTH_EPS)
        \<or> s = 9 / 20 \<and> of_int paneW < s * of_int intrinsicW)
     \<and> of_int (frameH h) * s \<le> of_int (wrapper_height paneW intrinsicW h)
     \<and> wrapper_height paneW intrinsicW h \<le> frameH h"
proof -
  let ?s = "fitScale paneW intrinsicW"
  have "?s * of_int intrinsicW = of_int paneW
      \<or> ?s = 1 \<and> (paneW \<le> 0 \<or> intrinsicW \<le> paneW + WIDTH_EPS)
      \<or> ?s = 9 / 20 \<and> of_int paneW < ?s * of_int intrinsicW"
  proof (cases "isWideEmail paneW intrinsicW")
    case True
    then have pos: "0 < paneW" "0 < intrinsicW" "\<not> intrinsicW \<le> paneW"
      by (auto simp: isWideEmail_def WIDTH_EPS_def)
    show ?thesis
    proof (cases "20 * paneW < 9 * intrinsicW")
      case True
      then have "of_int (20 * paneW) < (of_int (9 * intrinsicW) :: rat)" by (simp only: of_int_less_iff)
      with pos True \<open>isWideEmail paneW intrinsicW\<close> show ?thesis
        by (simp add: fitScale_def computeFitScale_cases)
    next
      case False
      with pos \<open>isWideEmail paneW intrinsicW\<close> show ?thesis
        by (simp add: fitScale_def computeFitScale_cases)
    qed
  next
    case False
    then have "paneW \<le> 0 \<or> intrinsicW \<le> paneW + WIDTH_EPS"
      by (auto simp: isWideEmail_def WIDTH_EPS_def)
    with False show ?thesis by (simp add: fitScale_def)
  qed
  moreover have "of_int (frameH h) * ?s \<le> of_int (frameH h)"
    using fitScale_range(2) [of paneW intrinsicW] by (simp add: frameH_def mult_left_le)
  then have "wrapper_height paneW intrinsicW h \<le> frameH h"
    by (simp add: wrapper_height_def ceiling_le_iff)
  ultimately show ?thesis
    using fitScale_range [of paneW intrinsicW] by (simp add: wrapper_height_def)
qed

text \<open>The guard against a style that ends early can be passed: it removes end tags before start
  tags, and removing a start tag can make an end tag.  Whatever follows it in the style of a mail
  is then markup of the frame that no sanitizer has seen.\<close>

theorem style_guard_lets_markup_through:
  assumes "\<not> contains (to_lower x) ''<style''" and "\<not> contains (to_lower x) ''</style''"
  shows "guard_css (''<<style/style>'' @ x) = take 60000 (''</style>'' @ x)
    \<and> extractMailStyles breakout_mail = (guard_css ''<<style/style><b>'', [])"
proof -
  have low: "to_lower ''</style'' = ''</style''" "to_lower ''<style'' = ''<style''"
      "to_lower ''<<style/style>'' = ''<<style/style>''" "to_lower ''</style>'' = ''</style>''"
    by code_simp+
  have "\<not> contains (to_lower (''<<style/style>'' @ x)) (to_lower ''</style'')"
    unfolding to_lower_append low using assms(2) by simp
  then have a: "remove_until_stable n (lit ''</style'') (''<<style/style>'' @ x) = ''<<style/style>'' @ x" for n
    by (rule remove_until_stable_absent)
  have "\<not> contains (to_lower (''</style>'' @ x)) (to_lower ''<style'')"
    unfolding to_lower_append low using assms(1) by simp
  then have "remove_until_stable n (lit ''<style'') (''</style>'' @ x) = ''</style>'' @ x" for n
    by (rule remove_until_stable_absent)
  moreover have "remove_rx (lit ''<style'') (''<<style/style>'' @ x) = ''</style>'' @ x"
    using assms(1) by (rule remove_style_open)
  ultimately have "remove_until_stable (Suc n) (lit ''<style'') (''<<style/style>'' @ x) = ''</style>'' @ x" for n
    by (simp add: Let_def)
  then have "guard_css (''<<style/style>'' @ x) = take 60000 (''</style>'' @ x)"
    unfolding guard_css_def Let_def a Suc_eq_plus1 [symmetric] by (simp only:)
  then show ?thesis using breakout_extracted by blast
qed

theorem style_guard_lets_markup_through_witness:
  "guard_css ''<<style/style><form>'' = ''</style><form>''"
proof -
  have "\<not> contains (to_lower ''<form>'') ''<style''" "\<not> contains (to_lower ''<form>'') ''</style''"
    by code_simp+
  from style_guard_lets_markup_through [OF this] show ?thesis by simp
qed

text \<open>A decryption that ends after another message was opened shows its text, marked as decrypted
  and verified, in the frame of the other message; and a text that is shown stays when another
  message with the same uid (of another folder) is opened.\<close>

theorem frame_shows_text_of_other_message:
  assumes "running s > 0" and "fp_uid q \<noteq> fp_uid (fs_props s)"
    and "fp_uid q' = fp_uid (fs_props s)" and "decryptedContent s = Some c"
  shows "(case fold frame_step [NewProps q, DecryptEnds (Shown d)] s of s' \<Rightarrow>
      fs_props s' = q \<and> shown_doc sanitize tr s' = Some (decrypted_doc sanitize (allowRemoteImages s') (dc_data d))
      \<and> isSignatureVerified s' = Some (dc_verified d))
    \<and> (case frame_step (NewProps q') s of s' \<Rightarrow>
      fs_props s' = q' \<and> shown_doc sanitize tr s' = Some (decrypted_doc sanitize (allowRemoteImages s') c))"
  using assms by (simp add: new_props_def finish_def shown_doc_def processedHtml_def Let_def)

definition mail_props :: "nat \<Rightarrow> string \<Rightarrow> frame_props" where
  "mail_props uid folder =
     \<lparr>fp_uid = uid, fp_folder = folder, fp_htmlBody = [], fp_textBody = ''-----BEGIN PGP MESSAGE-----'',
      fp_attachments = [], fp_trustedSender = False\<rparr>"

definition secret :: decrypted where
  "secret = \<lparr>dc_data = ''secret'', dc_verified = True, dc_signatureKeyId = Some ''A''\<rparr>"

text \<open>The frame after a first decryption of message 7, with a second one running.\<close>

definition after_secret :: frame_state where
  "after_secret = (init_frame (mail_props 7 ''INBOX''))\<lparr>running := 1, decryptedContent := Some ''secret''\<rparr>"

theorem frame_shows_text_of_other_message_witness:
  "case frame_step (NewProps (mail_props 7 ''Work'')) after_secret of s' \<Rightarrow>
     fs_props s' = mail_props 7 ''Work''
     \<and> shown_doc (\<lambda>h. h) (\<lambda>k. k) s' = Some (decrypted_doc (\<lambda>h. h) (allowRemoteImages s') ''secret'')"
proof -
  have "running after_secret > 0" "fp_uid (mail_props 8 ''Work'') \<noteq> fp_uid (fs_props after_secret)"
      "fp_uid (mail_props 7 ''Work'') = fp_uid (fs_props after_secret)"
      "decryptedContent after_secret = Some ''secret''"
    by (simp_all add: mail_props_def init_frame_def after_secret_def)
  from frame_shows_text_of_other_message [OF this, of secret "\<lambda>h. h" "\<lambda>k. k", THEN conjunct2]
  show ?thesis .
qed

section \<open>Inline images\<close>

text \<open>Two attachments whose ids start alike: the reference to the second is taken for the first, and no
  address names the account of the message.\<close>

definition inline_png :: "string \<Rightarrow> attachment_info" where
  "inline_png i =
     \<lparr>att_id = i, filename = i, contentType = ''image/png'', att_size = 1, contentId = Some i, isInline = True\<rparr>"

lemma inline_id_prefix:
  "inline_attachments 7 ''INBOX'' [inline_png ''a1'', inline_png ''a10''] ''cid:a10''
     = Some (getAttachmentUrl 7 ''a1'' ''INBOX'' None @ ''0'')"
  by code_simp

end
