(* ===== verification/ComposeFlow.thy ===== *)
theory ComposeFlow
  imports ComposerProps Machine
begin

text \<open>
  The component of \<open>Composer\<close> in time: the instance that \<open>App.tsx\<close> shows under the key of the store, its fields
  and dialogs, the timer that stores the form, and its asynchronous handlers.  A handler is cut where it
  waits for the server; it goes on with the form of the render that started it, and its setters reach only
  its own instance, while the mail store and \<open>localStorage\<close> are shared by all of them.
\<close>

section \<open>State\<close>

datatype address_field = ToField | CcField | BccField

text \<open>A handler that waits: for the own key, for the encryption, for the answer to the message or to the draft.
  The form is that of the render in which the handler was made.\<close>

datatype compose_task =
    Checking composer
  | Preparing composer "string option"
  | Sending
  | SavingDraft

record compose =
  cm_form :: composer
  cm_browser :: browser
  cm_key :: "nat option"
  cm_number :: nat
  cm_timer :: "nat option"
  cm_suggestOpen :: "address_field \<Rightarrow> bool"
  cm_minimized :: bool
  cm_lists :: "string \<Rightarrow> suggestion list option"
  cm_keys :: "pgp_contact_key list option"
  cm_tasks :: "(nat \<times> compose_task) list"
  cm_world :: pgp_world

record ('k, 'm) compose_env =
  cn_outside :: "('k, 'm) outside"
  cn_accounts :: "account list"

definition AUTOSAVE_DELAY :: nat where
  "AUTOSAVE_DELAY = 800"

text \<open>The account of a render, and the key under which \<open>App.tsx\<close> shows the component.\<close>

definition form_account :: "('k, 'm) compose_env \<Rightarrow> composer \<Rightarrow> account option" where
  "form_account env c = useActiveAccount (cn_accounts env) (co_mail c)"

definition wanted_key :: "('k, 'm) compose_env \<Rightarrow> mail_state \<Rightarrow> nat option" where
  "wanted_key env m =
     (if view m = MailView \<and> useActiveAccount (cn_accounts env) m \<noteq> None then Some (composerKey m) else None)"

definition start_timer :: "compose \<Rightarrow> compose" where
  "start_timer s = s\<lparr>cm_timer := (if isComposerOpen (co_mail (cm_form s)) then Some AUTOSAVE_DELAY else None)\<rparr>"

text \<open>A new instance starts from the draft of the store, and its effects run.\<close>

definition mount_instance :: "nat option \<Rightarrow> compose \<Rightarrow> compose" where
  "mount_instance key s =
     (case key of
        None \<Rightarrow> s\<lparr>cm_key := None, cm_timer := None\<rparr>
      | Some k \<Rightarrow>
          start_timer
            (s\<lparr>cm_key := Some k, cm_number := Suc (cm_number s),
               cm_form := sync_draft (mount_composer (co_mail (cm_form s)) (co_saved (cm_form s))),
               cm_suggestOpen := (\<lambda>_. False), cm_minimized := False\<rparr>))"

text \<open>What the effect of the timer depends on.\<close>

definition autosave_deps :: "composer \<Rightarrow> bool \<times> string \<times> string \<times> string \<times> string \<times> string" where
  "autosave_deps c = (isComposerOpen (co_mail c), co_to c, co_cc c, co_bcc c, co_subject c, co_body c)"

text \<open>The render after a change: another key gives a new instance; a new draft is taken over, and a changed form
  restarts the timer.\<close>

definition render_composer :: "('k, 'm) compose_env \<Rightarrow> compose \<Rightarrow> compose \<Rightarrow> compose" where
  "render_composer env old s =
     (let key = wanted_key env (co_mail (cm_form s))
      in if key \<noteq> cm_key s then mount_instance key s
         else if key = None then s
         else
           (let s = (if (isComposerOpen (co_mail (cm_form s)), composerDraft (co_mail (cm_form s)))
                          = (isComposerOpen (co_mail (cm_form old)), composerDraft (co_mail (cm_form old)))
                     then s else s\<lparr>cm_form := sync_draft (cm_form s)\<rparr>)
            in if autosave_deps (cm_form s) = autosave_deps (cm_form old) then s else start_timer s))"

definition init_compose :: "('k, 'm) compose_env \<Rightarrow> browser \<Rightarrow> local_draft option \<Rightarrow> pgp_world \<Rightarrow> compose" where
  "init_compose env b saved w =
     (let s = \<lparr>cm_form = mount_composer (init_mail b) saved, cm_browser = b, cm_key = None, cm_number = 0,
               cm_timer = None, cm_suggestOpen = (\<lambda>_. False), cm_minimized = False, cm_lists = (\<lambda>_. None),
               cm_keys = None, cm_tasks = [], cm_world = w\<rparr>
      in render_composer env s s)"

section \<open>Setters\<close>

definition on_composer :: "(composer \<Rightarrow> composer) \<Rightarrow> compose \<Rightarrow> compose" where
  "on_composer f s = s\<lparr>cm_form := f (cm_form s)\<rparr>"

text \<open>The setters of a handler do nothing once its instance is gone.\<close>

definition on_instance :: "nat \<Rightarrow> (composer \<Rightarrow> composer) \<Rightarrow> compose \<Rightarrow> compose" where
  "on_instance n f s = (if cm_key s \<noteq> None \<and> cm_number s = n then on_composer f s else s)"

definition forget_saved :: "composer \<Rightarrow> composer" where
  "forget_saved c = c\<lparr>co_saved := None\<rparr>"

definition add_task :: "nat \<Rightarrow> compose_task \<Rightarrow> compose \<Rightarrow> compose" where
  "add_task n t s = s\<lparr>cm_tasks := cm_tasks s @ [(n, t)]\<rparr>"

definition send_request :: "call \<Rightarrow> compose \<Rightarrow> compose" where
  "send_request c s = s\<lparr>cm_world := send c (cm_world s)\<rparr>"

section \<open>Sending\<close>

definition sending_starts :: "composer \<Rightarrow> composer" where
  "sending_starts c = c\<lparr>co_isSending := True, co_error := None, co_statusText := None\<rparr>"

definition status_text :: "message option \<Rightarrow> composer \<Rightarrow> composer" where
  "status_text m c = c\<lparr>co_statusText := m\<rparr>"

definition send_message ::
    "('k, 'm) compose_env \<Rightarrow> nat \<Rightarrow> composer \<Rightarrow> string \<Rightarrow> upload_file list \<Rightarrow> compose \<Rightarrow> compose" where
  "send_message env n c body files s =
     add_task n Sending
       (send_request (send_call (form_account env c) c body files)
          (on_instance n (status_text (Some (Tr ''composer.sending'' []))) s))"

text \<open>\<open>performSend\<close> up to its first wait: without PGP it sends the message at once.\<close>

definition start_send :: "('k, 'm) compose_env \<Rightarrow> nat \<Rightarrow> composer \<Rightarrow> string option \<Rightarrow> compose \<Rightarrow> compose" where
  "start_send env n c pass s =
     (let s = on_instance n sending_starts s
      in if co_encrypt c \<or> co_sign c then add_task n (Preparing c pass) s
         else send_message env n c (co_body c) (co_attachments c) s)"

definition sending_refused :: "message \<Rightarrow> composer \<Rightarrow> composer" where
  "sending_refused m c = c\<lparr>co_error := Some m, co_isSending := False, co_statusText := None\<rparr>"

definition prepared :: "('k, 'm) compose_env \<Rightarrow> nat \<Rightarrow> composer \<Rightarrow> string option \<Rightarrow> compose \<Rightarrow> compose" where
  "prepared env n c pass s =
     (case prepare (cn_outside env) pass c (cm_world s) of
        (r, w) \<Rightarrow>
          (let s = s\<lparr>cm_world := w\<rparr>
           in case r of
                Thrown a \<Rightarrow> on_instance n (status_text (Some (Tr ''composer.fetchingKey'' [(''recipient'', Raw a)]))) s
              | Refused m \<Rightarrow> on_instance n (sending_refused m) s
              | Ready body files \<Rightarrow> send_message env n c body files s))"

definition message_sent :: "composer \<Rightarrow> composer" where
  "message_sent c = c\<lparr>co_showSignPassModal := False, co_isSending := False, co_statusText := None\<rparr>"

text \<open>The stored draft and the store are changed whichever instance is there.\<close>

definition message_answered :: "nat \<Rightarrow> api_error + unit \<Rightarrow> compose \<Rightarrow> compose" where
  "message_answered n res s =
     (case res of
        Inr _ \<Rightarrow> on_composer (close_composer \<circ> forget_saved) (on_instance n message_sent s)
      | Inl e \<Rightarrow> on_instance n (sending_refused (message_or ''composer.sendFailed'' (emessage e))) s)"

definition submit_message :: "('k, 'm) compose_env \<Rightarrow> compose \<Rightarrow> compose" where
  "submit_message env s =
     (let c = cm_form s; n = cm_number s
      in if trim (co_to c) = [] then on_composer (\<lambda>c. c\<lparr>co_error := Some (Tr ''composer.needRecipient'' [])\<rparr>) s
         else if co_sign c then add_task n (Checking c) s
         else start_send env n c (Some (co_passphrase c)) s)"

definition key_checked :: "('k, 'm) compose_env \<Rightarrow> nat \<Rightarrow> composer \<Rightarrow> compose \<Rightarrow> compose" where
  "key_checked env n c s =
     (case ensureKey (w_server (cn_outside env)) (cm_world s) of
        (k, w) \<Rightarrow>
          (let s = s\<lparr>cm_world := w\<rparr>
           in case k of
                None \<Rightarrow> on_instance n (\<lambda>c. c\<lparr>co_error := Some (Tr ''composer.needPrivateKey'' [])\<rparr>) s
              | Some kp \<Rightarrow>
                  if isPrivateKeyEncrypted (w_lib (cn_outside env)) (kp_privateKeyArmored kp) \<and> co_passphrase c = []
                  then on_instance n (\<lambda>c. c\<lparr>co_showSignPassModal := True\<rparr>) s
                  else start_send env n c (Some (co_passphrase c)) s))"

section \<open>Drafts\<close>

definition start_draft :: "('k, 'm) compose_env \<Rightarrow> compose \<Rightarrow> compose" where
  "start_draft env s =
     (let c = cm_form s; n = cm_number s
      in add_task n SavingDraft
           (send_request (draft_call (form_account env c) c)
              (on_composer (\<lambda>c. c\<lparr>co_savingDraft := True, co_error := None\<rparr>) s)))"

definition draft_answered :: "nat \<Rightarrow> api_error + unit \<Rightarrow> compose \<Rightarrow> compose" where
  "draft_answered n res s =
     (case res of
        Inr _ \<Rightarrow>
          on_composer (close_composer \<circ> forget_saved)
            (on_instance n (\<lambda>c. c\<lparr>co_confirmClose := False, co_savingDraft := False\<rparr>) s)
      | Inl e \<Rightarrow>
          on_instance n
            (\<lambda>c. c\<lparr>co_error := Some (message_or ''composer.draftFailed'' (emessage e)), co_confirmClose := False,
                   co_savingDraft := False\<rparr>) s)"

section \<open>The stored draft\<close>

definition autosave_time :: "nat \<Rightarrow> compose \<Rightarrow> compose" where
  "autosave_time n s =
     (case cm_timer s of
        None \<Rightarrow> s
      | Some left \<Rightarrow>
          if left \<le> n then on_composer autosave (s\<lparr>cm_timer := None\<rparr>) else s\<lparr>cm_timer := Some (left - n)\<rparr>)"

section \<open>Fields and suggestions\<close>

fun field_text :: "address_field \<Rightarrow> composer \<Rightarrow> string" where
  "field_text ToField c = co_to c"
| "field_text CcField c = co_cc c"
| "field_text BccField c = co_bcc c"

fun set_field_text :: "address_field \<Rightarrow> string \<Rightarrow> composer \<Rightarrow> composer" where
  "set_field_text ToField v c = c\<lparr>co_to := v\<rparr>"
| "set_field_text CcField v c = c\<lparr>co_cc := v\<rparr>"
| "set_field_text BccField v c = c\<lparr>co_bcc := v\<rparr>"

fun field_shown :: "address_field \<Rightarrow> composer \<Rightarrow> bool" where
  "field_shown ToField c = True"
| "field_shown CcField c = co_showCc c"
| "field_shown BccField c = co_showBcc c"

definition suggest_open :: "address_field \<Rightarrow> bool \<Rightarrow> compose \<Rightarrow> compose" where
  "suggest_open f b s = s\<lparr>cm_suggestOpen := (cm_suggestOpen s)(f := b)\<rparr>"

definition shown_suggestions :: "address_field \<Rightarrow> compose \<Rightarrow> suggestion list" where
  "shown_suggestions f s =
     (if field_shown f (cm_form s) \<and> cm_suggestOpen s f
      then let token = getLastToken (field_text f (cm_form s)) in mergeSuggest (cm_lists s token) (cm_keys s) token
      else [])"

definition type_address :: "address_field \<Rightarrow> string \<Rightarrow> compose \<Rightarrow> compose" where
  "type_address f v s = suggest_open f True (on_composer (set_field_text f v) s)"

definition pick_suggestion :: "address_field \<Rightarrow> string \<Rightarrow> compose \<Rightarrow> compose" where
  "pick_suggestion f em s =
     suggest_open f False (on_composer (\<lambda>c. set_field_text f (applySuggest (field_text f c) em) c) s)"

section \<open>Events\<close>

datatype compose_event =
    MailEvent mail_event
  | TypeAddress address_field string
  | FocusAddress address_field
  | BlurAddress address_field
  | PickSuggestion address_field string
  | SuggestAnswer string "suggestion list"
  | ContactKeysAnswer "pgp_contact_key list"
  | ShowField address_field
  | TypeSubject string
  | TypeBody string
  | AddFiles "upload_file list"
  | RemoveFile nat
  | ToggleEncrypt
  | ToggleSign
  | ToggleMinimized
  | SubmitMessage
  | TypeSignPassphrase string
  | SubmitSignPassphrase
  | CancelSignPassphrase
  | ClickSaveDraft
  | ClickClose
  | ConfirmDiscard
  | DismissDiscard bool
  | GoOn nat
  | ServerReply nat "api_error + unit"
  | ComposeTime nat

text \<open>The component is on the screen; and its form is, which a minimized composer hides.\<close>

definition composer_on_screen :: "compose \<Rightarrow> bool" where
  "composer_on_screen s \<longleftrightarrow> cm_key s \<noteq> None \<and> isComposerOpen (co_mail (cm_form s))"

definition form_on_screen :: "compose \<Rightarrow> bool" where
  "form_on_screen s \<longleftrightarrow> composer_on_screen s \<and> \<not> cm_minimized s"

definition if_form :: "(compose \<Rightarrow> compose) \<Rightarrow> compose \<Rightarrow> compose" where
  "if_form f s = (if form_on_screen s then f s else s)"

definition if_composer :: "(compose \<Rightarrow> compose) \<Rightarrow> compose \<Rightarrow> compose" where
  "if_composer f s = (if composer_on_screen s then f s else s)"

definition drop_task :: "nat \<Rightarrow> compose \<Rightarrow> compose" where
  "drop_task i s = s\<lparr>cm_tasks := take i (cm_tasks s) @ drop (Suc i) (cm_tasks s)\<rparr>"

definition mail_event_on :: "mail_event \<Rightarrow> compose \<Rightarrow> compose" where
  "mail_event_on e s =
     (case mail_step e (co_mail (cm_form s), cm_browser s) of
        (m, b) \<Rightarrow> on_composer (\<lambda>c. c\<lparr>co_mail := m\<rparr>) (s\<lparr>cm_browser := b\<rparr>))"

text \<open>A handler goes on with what it waited for: \<open>GoOn\<close> for the service of the keys, \<open>ServerReply\<close> for an answer.
  The buttons of the dialog are disabled while a draft is saved; its cross and its background are not.\<close>

fun compose_handle :: "('k, 'm) compose_env \<Rightarrow> compose_event \<Rightarrow> compose \<Rightarrow> compose" where
  "compose_handle env (MailEvent e) s = mail_event_on e s"
| "compose_handle env (TypeAddress f v) s = if_form (\<lambda>s. if field_shown f (cm_form s) then type_address f v s else s) s"
| "compose_handle env (FocusAddress f) s = if_form (\<lambda>s. if field_shown f (cm_form s) then suggest_open f True s else s) s"
| "compose_handle env (BlurAddress f) s = (if cm_key s \<noteq> None then suggest_open f False s else s)"
| "compose_handle env (PickSuggestion f em) s =
     if_form (\<lambda>s. if em \<in> set (map sg_email (shown_suggestions f s)) then pick_suggestion f em s else s) s"
| "compose_handle env (SuggestAnswer token xs) s = (if token = [] then s else s\<lparr>cm_lists := (cm_lists s)(token := Some xs)\<rparr>)"
| "compose_handle env (ContactKeysAnswer ks) s = s\<lparr>cm_keys := Some ks\<rparr>"
| "compose_handle env (ShowField f) s =
     if_form (on_composer (\<lambda>c. case f of ToField \<Rightarrow> c | CcField \<Rightarrow> c\<lparr>co_showCc := True\<rparr> | BccField \<Rightarrow> c\<lparr>co_showBcc := True\<rparr>)) s"
| "compose_handle env (TypeSubject v) s = if_form (on_composer (\<lambda>c. c\<lparr>co_subject := v\<rparr>)) s"
| "compose_handle env (TypeBody v) s = if_form (on_composer (\<lambda>c. c\<lparr>co_body := v\<rparr>)) s"
| "compose_handle env (AddFiles fs) s = if_form (on_composer (addFiles fs)) s"
| "compose_handle env (RemoveFile i) s = if_form (on_composer (removeAttachment i)) s"
| "compose_handle env ToggleEncrypt s = if_form (on_composer (\<lambda>c. c\<lparr>co_encrypt := \<not> co_encrypt c\<rparr>)) s"
| "compose_handle env ToggleSign s = if_form (on_composer (\<lambda>c. c\<lparr>co_sign := \<not> co_sign c\<rparr>)) s"
| "compose_handle env ToggleMinimized s = if_composer (\<lambda>s. s\<lparr>cm_minimized := \<not> cm_minimized s\<rparr>) s"
| "compose_handle env SubmitMessage s = if_form (\<lambda>s. if co_isSending (cm_form s) then s else submit_message env s) s"
| "compose_handle env (TypeSignPassphrase v) s =
     if_composer (on_composer (\<lambda>c. if co_showSignPassModal c then c\<lparr>co_passphrase := v\<rparr> else c)) s"
| "compose_handle env SubmitSignPassphrase s =
     if_composer (\<lambda>s. if co_showSignPassModal (cm_form s) \<and> \<not> co_isSending (cm_form s)
        then start_send env (cm_number s) (cm_form s) (Some (co_passphrase (cm_form s))) s else s) s"
| "compose_handle env CancelSignPassphrase s = if_composer (on_composer (\<lambda>c. c\<lparr>co_showSignPassModal := False\<rparr>)) s"
| "compose_handle env ClickSaveDraft s =
     if_form (\<lambda>s. if co_savingDraft (cm_form s) \<or> co_isSending (cm_form s) then s else start_draft env s) s"
| "compose_handle env ClickClose s = if_composer (on_composer requestClose) s"
| "compose_handle env ConfirmDiscard s =
     if_composer (\<lambda>s. if co_confirmClose (cm_form s) \<and> \<not> co_savingDraft (cm_form s) then on_composer discardAndClose s else s) s"
| "compose_handle env (DismissDiscard button) s =
     if_composer (\<lambda>s. if co_confirmClose (cm_form s) \<and> \<not> (button \<and> co_savingDraft (cm_form s))
        then start_draft env (on_composer (\<lambda>c. c\<lparr>co_confirmClose := False\<rparr>) s) else s) s"
| "compose_handle env (GoOn i) s =
     (if i < length (cm_tasks s)
      then case cm_tasks s ! i of
             (n, Checking c) \<Rightarrow> key_checked env n c (drop_task i s)
           | (n, Preparing c pass) \<Rightarrow> prepared env n c pass (drop_task i s)
           | _ \<Rightarrow> s
      else s)"
| "compose_handle env (ServerReply i res) s =
     (if i < length (cm_tasks s)
      then case cm_tasks s ! i of
             (n, Sending) \<Rightarrow> message_answered n res (drop_task i s)
           | (n, SavingDraft) \<Rightarrow> draft_answered n res (drop_task i s)
           | _ \<Rightarrow> s
      else s)"
| "compose_handle env (ComposeTime n) s = autosave_time n s"

definition compose_step :: "('k, 'm) compose_env \<Rightarrow> compose_event \<Rightarrow> compose \<Rightarrow> compose" where
  "compose_step env e s = render_composer env s (compose_handle env e s)"

end
