(* ===== verification/ComposeFlowProps.thy ===== *)
theory ComposeFlowProps
  imports ComposeFlow "HOL-Library.Multiset"
begin

text \<open>
  Properties of the composer over all its histories: an undisturbed submit does what the handlers of \<open>Composer\<close> do
  in one go, only what the user submitted is sent, and never more often than it was submitted; the stored draft
  comes back, and what a late answer or a visit of the settings does to a form.
\<close>

section \<open>Renders\<close>

lemma sync_draft_keeps [simp]: "co_mail (sync_draft c) = co_mail c" "co_saved (sync_draft c) = co_saved c"
  by (simp_all add: sync_draft_def split: bool.split option.split)

lemma mount_composer_keeps [simp]: "co_mail (mount_composer m x) = m" "co_saved (mount_composer m x) = x"
  by (simp_all add: mount_composer_def Let_def)

lemma start_timer_keeps [simp]:
  "cm_form (start_timer s) = cm_form s" "cm_world (start_timer s) = cm_world s" "cm_tasks (start_timer s) = cm_tasks s"
  "cm_key (start_timer s) = cm_key s" "cm_number (start_timer s) = cm_number s"
  "cm_minimized (start_timer s) = cm_minimized s"
  by (simp_all add: start_timer_def)

lemma mount_instance_keeps [simp]:
  "cm_world (mount_instance k s) = cm_world s" "cm_tasks (mount_instance k s) = cm_tasks s"
  "co_mail (cm_form (mount_instance k s)) = co_mail (cm_form s)"
  "co_saved (cm_form (mount_instance k s)) = co_saved (cm_form s)" "cm_key (mount_instance k s) = k"
  by (simp_all add: mount_instance_def split: option.split)

lemma render_composer_keeps [simp]:
  "cm_world (render_composer env old s) = cm_world s" "cm_tasks (render_composer env old s) = cm_tasks s"
  "co_mail (cm_form (render_composer env old s)) = co_mail (cm_form s)"
  "co_saved (cm_form (render_composer env old s)) = co_saved (cm_form s)"
  "cm_key (render_composer env old s) = wanted_key env (co_mail (cm_form s))"
  by (simp_all add: render_composer_def Let_def)

text \<open>The instance on the screen is the one that \<open>App.tsx\<close> wants, and its timer runs unless its form is stored.\<close>

definition stored_form :: "composer \<Rightarrow> local_draft" where
  "stored_form c = \<lparr>ld_to = co_to c, ld_cc = co_cc c, ld_bcc = co_bcc c, ld_subject = co_subject c, ld_body = co_body c\<rparr>"

definition form_kept_or_due :: "compose \<Rightarrow> bool" where
  "form_kept_or_due s \<longleftrightarrow>
     (case cm_timer s of
        None \<Rightarrow> co_saved (cm_form s) = Some (stored_form (cm_form s))
      | Some left \<Rightarrow> left \<le> AUTOSAVE_DELAY)"

definition compose_inv :: "('k, 'm) compose_env \<Rightarrow> compose \<Rightarrow> bool" where
  "compose_inv env s \<longleftrightarrow>
     cm_key s = wanted_key env (co_mail (cm_form s))
     \<and> (isComposerOpen (co_mail (cm_form s)) \<longleftrightarrow> composerDraft (co_mail (cm_form s)) \<noteq> None)
     \<and> (composer_on_screen s \<longrightarrow> form_kept_or_due s)"

lemmas composer_setters =
  on_composer_def on_instance_def add_task_def send_request_def send_message_def start_send_def forget_saved_def
  sending_starts_def status_text_def sending_refused_def message_sent_def close_composer_def closeComposer_def

section \<open>What a handler changes\<close>

text \<open>A handler keeps the instance and its timer; it keeps the store and the stored draft too, or closes the composer.\<close>

definition same_frame :: "compose \<Rightarrow> compose \<Rightarrow> bool" where
  "same_frame s s' \<longleftrightarrow>
     cm_key s' = cm_key s \<and> cm_number s' = cm_number s \<and> cm_timer s' = cm_timer s
     \<and> (co_mail (cm_form s') = co_mail (cm_form s) \<and> co_saved (cm_form s') = co_saved (cm_form s)
        \<or> co_mail (cm_form s') = closeComposer (co_mail (cm_form s)))"

definition keeps_store :: "(composer \<Rightarrow> composer) \<Rightarrow> bool" where
  "keeps_store f \<longleftrightarrow> (\<forall>c. co_mail (f c) = co_mail c \<and> co_saved (f c) = co_saved c)"

definition closes_store :: "(composer \<Rightarrow> composer) \<Rightarrow> bool" where
  "closes_store f \<longleftrightarrow> (\<forall>c. co_mail (f c) = closeComposer (co_mail c))"

lemma closeComposer_twice [simp]: "closeComposer (closeComposer m) = closeComposer m"
  by (simp add: closeComposer_def)

lemma same_frame_refl [simp]: "same_frame s s"
  by (simp add: same_frame_def)

lemma same_frame_keeps: "same_frame s0 s \<Longrightarrow> keeps_store f \<Longrightarrow> same_frame s0 (on_composer f s)"
  by (auto simp: same_frame_def keeps_store_def on_composer_def)

lemma same_frame_closes: "same_frame s0 s \<Longrightarrow> closes_store f \<Longrightarrow> same_frame s0 (on_composer f s)"
  by (auto simp: same_frame_def closes_store_def on_composer_def)

lemma same_frame_instance: "same_frame s0 s \<Longrightarrow> keeps_store f \<Longrightarrow> same_frame s0 (on_instance n f s)"
  by (simp add: on_instance_def same_frame_keeps)

lemma same_frame_fields [simp]:
  "same_frame s0 (s\<lparr>cm_world := w\<rparr>) = same_frame s0 s" "same_frame s0 (s\<lparr>cm_minimized := b\<rparr>) = same_frame s0 s"
  "same_frame s0 (s\<lparr>cm_lists := l\<rparr>) = same_frame s0 s" "same_frame s0 (s\<lparr>cm_keys := k\<rparr>) = same_frame s0 s"
  "same_frame s0 (s\<lparr>cm_suggestOpen := g\<rparr>) = same_frame s0 s" "same_frame s0 (s\<lparr>cm_tasks := ts\<rparr>) = same_frame s0 s"
  by (simp_all add: same_frame_def)

lemma set_field_text_keeps [simp]:
  "co_mail (set_field_text fld v c) = co_mail c" "co_saved (set_field_text fld v c) = co_saved c"
  by (cases fld; simp)+

lemma file_setters_keep [simp]:
  "co_mail (addFiles fs c) = co_mail c" "co_saved (addFiles fs c) = co_saved c"
  "co_mail (removeAttachment i c) = co_mail c" "co_saved (removeAttachment i c) = co_saved c"
  by (simp_all add: addFiles_def removeAttachment_def)

lemma store_keepers [simp]:
  "keeps_store sending_starts" "keeps_store (status_text m)" "keeps_store (sending_refused r)" "keeps_store message_sent"
  "closes_store (close_composer \<circ> forget_saved)" "closes_store discardAndClose"
  by (simp_all add: keeps_store_def closes_store_def sending_starts_def status_text_def sending_refused_def message_sent_def
      close_composer_def forget_saved_def discardAndClose_def)

lemma same_frame_send: "same_frame s0 s \<Longrightarrow> same_frame s0 (send_message env n c body files s)"
  by (simp add: send_message_def add_task_def send_request_def same_frame_instance)

lemma same_frame_start: "same_frame s0 s \<Longrightarrow> same_frame s0 (start_send env n c pass s)"
  by (simp add: start_send_def Let_def add_task_def same_frame_send same_frame_instance)

lemma same_frame_prepared: "same_frame s0 s \<Longrightarrow> same_frame s0 (prepared env n c pass s)"
  by (auto simp: prepared_def Let_def intro!: same_frame_instance same_frame_send split: prod.split pgp_part.split)

lemma same_frame_checked: "same_frame s0 s \<Longrightarrow> same_frame s0 (key_checked env n c s)"
  by (auto simp: key_checked_def Let_def keeps_store_def intro!: same_frame_instance same_frame_start
      split: prod.split option.split)

lemma same_frame_submit: "same_frame s (submit_message env s)"
  by (auto simp: submit_message_def Let_def add_task_def keeps_store_def intro!: same_frame_start same_frame_keeps)

lemma same_frame_draft: "same_frame s0 s \<Longrightarrow> same_frame s0 (start_draft env s)"
  by (auto simp: start_draft_def Let_def add_task_def send_request_def keeps_store_def intro!: same_frame_keeps)

lemma same_frame_sent: "same_frame s0 s \<Longrightarrow> same_frame s0 (message_answered n res s)"
  by (auto simp: message_answered_def intro!: same_frame_closes same_frame_instance split: sum.split)

lemma same_frame_drafted: "same_frame s0 s \<Longrightarrow> same_frame s0 (draft_answered n res s)"
  by (cases res) (simp_all add: draft_answered_def keeps_store_def same_frame_closes same_frame_instance)

lemma same_frame_discard: "same_frame s (on_composer discardAndClose s)"
  by (rule same_frame_closes) simp_all

lemma same_frame_requestClose: "same_frame s (on_composer requestClose s)"
  by (auto simp: same_frame_def on_composer_def requestClose_def close_composer_def)

lemmas same_frame_intros =
  same_frame_keeps same_frame_start same_frame_prepared same_frame_checked
  same_frame_submit same_frame_draft same_frame_sent same_frame_drafted

lemma handle_frame:
  assumes "\<forall>x. e \<noteq> MailEvent x" and "\<forall>n. e \<noteq> ComposeTime n"
  shows "same_frame s (compose_handle env e s)"
proof (cases e)
  case (GoOn i)
  then show ?thesis
    by (auto simp: drop_task_def intro!: same_frame_intros split: prod.split compose_task.split)
next
  case (ServerReply i res)
  then show ?thesis
    by (auto simp: drop_task_def intro!: same_frame_intros split: prod.split compose_task.split)
next
  case (ShowField f)
  then show ?thesis by (auto simp: if_form_def keeps_store_def intro!: same_frame_intros split: address_field.split)
next
  case ClickClose
  then show ?thesis by (simp add: if_composer_def same_frame_requestClose)
next
  case ConfirmDiscard
  then show ?thesis by (simp add: if_composer_def same_frame_discard)
qed (use assms in \<open>auto simp: if_form_def if_composer_def type_address_def suggest_open_def pick_suggestion_def keeps_store_def
      intro!: same_frame_intros\<close>)

section \<open>The invariant\<close>

lemma wanted_key_close [simp]: "wanted_key env (closeComposer m) = wanted_key env m"
  by (simp add: wanted_key_def closeComposer_def useActiveAccount_def)

lemma stored_form_deps: "autosave_deps c = autosave_deps c' \<Longrightarrow> stored_form c = stored_form c'"
  by (simp add: autosave_deps_def stored_form_def)

lemma start_timer_due: "isComposerOpen (co_mail (cm_form s)) \<Longrightarrow> form_kept_or_due (start_timer s)"
  by (simp add: start_timer_def form_kept_or_due_def)

lemma mount_due: "isComposerOpen (co_mail (cm_form s)) \<Longrightarrow> form_kept_or_due (mount_instance (Some k) s)"
  by (simp add: mount_instance_def start_timer_due)

text \<open>A render keeps the stored draft up to date when the handler left the timer and the stored draft alone.\<close>

lemma render_due:
  assumes "composer_on_screen (render_composer env s t)" and "cm_key t = cm_key s"
    and "wanted_key env (co_mail (cm_form t)) = cm_key t \<Longrightarrow> isComposerOpen (co_mail (cm_form t)) \<Longrightarrow>
      isComposerOpen (co_mail (cm_form s)) \<and> composerDraft (co_mail (cm_form t)) = composerDraft (co_mail (cm_form s))"
    and "composer_on_screen s \<Longrightarrow> isComposerOpen (co_mail (cm_form t)) \<Longrightarrow>
      autosave_deps (cm_form t) = autosave_deps (cm_form s) \<Longrightarrow> form_kept_or_due t"
  shows "form_kept_or_due (render_composer env s t)"
proof -
  let ?key = "wanted_key env (co_mail (cm_form t))"
  have shown: "?key \<noteq> None" "isComposerOpen (co_mail (cm_form t))"
    using assms(1) by (simp_all add: composer_on_screen_def)
  show ?thesis
  proof (cases "?key = cm_key t")
    case False
    with shown show ?thesis by (auto simp: render_composer_def Let_def mount_due)
  next
    case True
    with shown assms(3) have "isComposerOpen (co_mail (cm_form s))"
      "composerDraft (co_mail (cm_form t)) = composerDraft (co_mail (cm_form s))" by simp_all
    moreover from this True shown assms(2) have "composer_on_screen s" by (simp add: composer_on_screen_def)
    moreover have "render_composer env s t = (if autosave_deps (cm_form t) = autosave_deps (cm_form s) then t else start_timer t)"
      using True shown calculation(1,2) by (auto simp: render_composer_def Let_def)
    ultimately show ?thesis using assms(4) shown by (simp add: start_timer_due)
  qed
qed

lemma mail_step_draft:
  assumes "isComposerOpen m \<longleftrightarrow> composerDraft m \<noteq> None" and "mail_step e (m, b) = (m', b')"
  shows "(isComposerOpen m' \<longleftrightarrow> composerDraft m' \<noteq> None)
     \<and> (isComposerOpen m' \<longrightarrow> composerKey m' = composerKey m \<longrightarrow> isComposerOpen m \<and> composerDraft m' = composerDraft m)"
  using assms by (cases e) (auto simp: mail_setters send_pref_def)

lemma mail_event_frame:
  "cm_key (mail_event_on e s) = cm_key s" "cm_timer (mail_event_on e s) = cm_timer s"
  "co_saved (cm_form (mail_event_on e s)) = co_saved (cm_form s)"
  "autosave_deps (cm_form (mail_event_on e s)) = autosave_deps (cm_form s) \<Longrightarrow>
     stored_form (cm_form (mail_event_on e s)) = stored_form (cm_form s)"
  "co_mail (cm_form (mail_event_on e s)) = fst (mail_step e (co_mail (cm_form s), cm_browser s))"
  by (simp_all add: mail_event_on_def on_composer_def stored_form_def split: prod.split)

lemma autosave_time_keeps [simp]:
  "cm_key (autosave_time n s) = cm_key s" "co_mail (cm_form (autosave_time n s)) = co_mail (cm_form s)"
  "cm_tasks (autosave_time n s) = cm_tasks s" "cm_world (autosave_time n s) = cm_world s"
  "cm_number (autosave_time n s) = cm_number s"
  by (simp_all add: autosave_time_def on_composer_def autosave_def split: option.split)

lemma autosave_time_due:
  "form_kept_or_due s \<Longrightarrow> isComposerOpen (co_mail (cm_form s)) \<Longrightarrow> form_kept_or_due (autosave_time n s)"
  by (auto simp: form_kept_or_due_def autosave_time_def on_composer_def autosave_def stored_form_def split: option.splits)

lemma compose_inv_step:
  assumes inv: "compose_inv env s"
  shows "compose_inv env (compose_step env e s)"
proof -
  let ?t = "compose_handle env e s"
  have key: "cm_key s = wanted_key env (co_mail (cm_form s))"
    and draft: "isComposerOpen (co_mail (cm_form s)) \<longleftrightarrow> composerDraft (co_mail (cm_form s)) \<noteq> None"
    and due: "composer_on_screen s \<Longrightarrow> form_kept_or_due s"
    using inv by (auto simp: compose_inv_def)
  have "cm_key ?t = cm_key s
      \<and> (isComposerOpen (co_mail (cm_form ?t)) \<longleftrightarrow> composerDraft (co_mail (cm_form ?t)) \<noteq> None)
      \<and> (composer_on_screen (compose_step env e s) \<longrightarrow> form_kept_or_due (compose_step env e s))"
  proof (cases "\<exists>x. e = MailEvent x")
    case True
    then obtain x where e: "e = MailEvent x" by blast
    obtain m b where m: "mail_step x (co_mail (cm_form s), cm_browser s) = (m, b)" by fastforce
    note d = mail_step_draft [OF draft m]
    have t: "co_mail (cm_form ?t) = m" "cm_key ?t = cm_key s" by (simp_all add: e mail_event_frame m)
    have "form_kept_or_due (compose_step env e s)" if on: "composer_on_screen (compose_step env e s)"
      unfolding compose_step_def
    proof (rule render_due [OF on [unfolded compose_step_def] t(2)])
      assume "wanted_key env (co_mail (cm_form ?t)) = cm_key ?t" "isComposerOpen (co_mail (cm_form ?t))"
      moreover from on t have "wanted_key env m \<noteq> None" by (simp add: composer_on_screen_def compose_step_def)
      ultimately have "composerKey m = composerKey (co_mail (cm_form s))"
        by (auto simp: t key wanted_key_def split: if_splits)
      with d show "isComposerOpen (co_mail (cm_form s)) \<and> composerDraft (co_mail (cm_form ?t)) = composerDraft (co_mail (cm_form s))"
        using \<open>isComposerOpen (co_mail (cm_form ?t))\<close> by (simp add: t)
    next
      assume "composer_on_screen s" "autosave_deps (cm_form ?t) = autosave_deps (cm_form s)"
      with due mail_event_frame [of x s] show "form_kept_or_due ?t" by (auto simp: e form_kept_or_due_def split: option.splits)
    qed
    with t d show ?thesis by simp
  next
    case mail: False
    have t: "cm_key ?t = cm_key s \<and> (co_mail (cm_form ?t) = co_mail (cm_form s) \<or> co_mail (cm_form ?t) = closeComposer (co_mail (cm_form s)))"
    proof (cases "\<exists>n. e = ComposeTime n")
      case False
      with handle_frame [of e s env] mail show ?thesis by (auto simp: same_frame_def)
    qed auto
    have kept: "form_kept_or_due ?t" if "composer_on_screen s" "isComposerOpen (co_mail (cm_form ?t))"
      "autosave_deps (cm_form ?t) = autosave_deps (cm_form s)"
    proof (cases "\<exists>n. e = ComposeTime n")
      case True
      with due that autosave_time_due show ?thesis by (auto simp: composer_on_screen_def)
    next
      case False
      with handle_frame [of e s env] mail have f: "same_frame s ?t" by blast
      with that(2) have "co_saved (cm_form ?t) = co_saved (cm_form s)"
        by (auto simp: same_frame_def closeComposer_def)
      with f due [OF that(1)] stored_form_deps [OF that(3)] show ?thesis
        by (auto simp: form_kept_or_due_def same_frame_def split: option.splits)
    qed
    have "form_kept_or_due (compose_step env e s)" if on: "composer_on_screen (compose_step env e s)"
      unfolding compose_step_def
      by (rule render_due [OF on [unfolded compose_step_def]]) (use t kept in \<open>auto simp: closeComposer_def\<close>)
    with t draft show ?thesis by (auto simp: closeComposer_def)
  qed
  then show ?thesis by (simp add: compose_inv_def compose_step_def)
qed

lemma compose_inv_init: "compose_inv env (init_compose env b saved w)"
proof -
  have "\<not> isComposerOpen (init_mail b)" "composerDraft (init_mail b) = None" by (simp_all add: init_mail_def)
  then show ?thesis by (simp add: compose_inv_def init_compose_def Let_def composer_on_screen_def)
qed

interpretation compose_flow: safe_machine "init_compose env b saved w" "compose_step env" "compose_inv env"
  for env :: "('k, 'm) compose_env" and b saved w
  by unfold_locales (simp_all add: compose_inv_init compose_inv_step)

section \<open>The stored draft\<close>

lemma reachable_inv: "compose_inv env (fold (compose_step env) es (init_compose env b saved w))"
  by (rule compose_flow.inv_history)

text \<open>A new message opens a new instance, which starts from the stored draft, or from the draft it is given.\<close>

lemma open_composer_form:
  assumes "cm_key s = wanted_key env (co_mail (cm_form s))" and "cm_key s \<noteq> None"
  shows "cm_form (compose_step env (MailEvent (OpenComposer d)) s)
    = sync_draft (mount_composer (openComposer d (co_mail (cm_form s))) (co_saved (cm_form s)))"
proof -
  let ?m = "openComposer d (co_mail (cm_form s))"
  have "wanted_key env ?m = Some (composerKey (co_mail (cm_form s)) + 1)"
    using assms by (auto simp: wanted_key_def openComposer_def useActiveAccount_def split: if_splits)
  moreover have "cm_key s = Some (composerKey (co_mail (cm_form s)))"
    using assms by (auto simp: wanted_key_def split: if_splits)
  ultimately show ?thesis
    by (simp add: compose_step_def mail_event_on_def on_composer_def render_composer_def mount_instance_def)
qed

lemma render_same:
  assumes "cm_key t = wanted_key env (co_mail (cm_form t))" and "co_mail (cm_form t) = co_mail (cm_form s)"
    and "autosave_deps (cm_form t) = autosave_deps (cm_form s)"
  shows "render_composer env s t = t"
  using assms by (simp add: render_composer_def Let_def)

lemma time_step:
  assumes "cm_key s = wanted_key env (co_mail (cm_form s))"
  shows "compose_step env (ComposeTime n) s = autosave_time n s"
  unfolding compose_step_def compose_handle.simps
  by (rule render_same)
    (use assms in \<open>simp_all add: autosave_deps_def autosave_time_def on_composer_def autosave_def split: option.split\<close>)

lemma saved_same: "co_saved c = x \<Longrightarrow> c\<lparr>co_saved := x\<rparr> = c"
  by auto

lemma autosave_delay_form:
  assumes "form_kept_or_due s" and "isComposerOpen (co_mail (cm_form s))"
  shows "cm_form (autosave_time AUTOSAVE_DELAY s) = (cm_form s)\<lparr>co_saved := Some (stored_form (cm_form s))\<rparr>"
  using assms by (auto simp: form_kept_or_due_def autosave_time_def on_composer_def autosave_def stored_form_def saved_same
      split: option.splits)

text \<open>C38: what was typed comes back: after 800 milliseconds without a change the fields of the form are stored, and an
  empty message that is opened after that, in a new instance of the component, has the same recipients,
  subject and text; only the files are gone.\<close>

theorem stored_draft_comes_back:
  assumes "s = fold (compose_step env) es (init_compose env b saved w)" and "composer_on_screen s" and "incoming_empty d"
  shows "case cm_form (fold (compose_step env) [ComposeTime AUTOSAVE_DELAY, MailEvent (OpenComposer d)] s) of c \<Rightarrow>
     co_to c = co_to (cm_form s) \<and> co_cc c = co_cc (cm_form s) \<and> co_bcc c = co_bcc (cm_form s)
     \<and> co_subject c = co_subject (cm_form s) \<and> co_body c = co_body (cm_form s) \<and> co_attachments c = []"
proof -
  have inv: "compose_inv env s" using reachable_inv assms(1) by metis
  then have key: "cm_key s = wanted_key env (co_mail (cm_form s))" and due: "form_kept_or_due s"
    using assms(2) by (auto simp: compose_inv_def)
  have on: "cm_key s \<noteq> None" "isComposerOpen (co_mail (cm_form s))"
    using assms(2) by (auto simp: composer_on_screen_def)
  let ?s = "autosave_time AUTOSAVE_DELAY s"
  have "cm_form (compose_step env (MailEvent (OpenComposer d)) ?s)
      = sync_draft (mount_composer (openComposer d (co_mail (cm_form s))) (Some (stored_form (cm_form s))))"
    using open_composer_form [of ?s env d] key on autosave_delay_form [OF due on(2)] by simp
  moreover have "isComposerOpen (openComposer d m)" "composerDraft (openComposer d m) = Some d" for m
    by (simp_all add: openComposer_def)
  ultimately show ?thesis
    using assms(3) by (simp add: time_step [OF key] sync_draft_def stored_form_def)
qed

text \<open>A visit of the settings loses a reply: on the way back the component is a new instance that starts from the
  draft it was opened with; what the user changed is gone, with the files, and after 800 milliseconds the
  stored draft is overwritten as well.\<close>

theorem settings_visit_loses_reply:
  assumes "s = fold (compose_step env) es (init_compose env b saved w)" and "composer_on_screen s"
    and "composerDraft (co_mail (cm_form s)) = Some d" and "\<not> incoming_empty d"
  shows "case fold (compose_step env)
       [MailEvent (OpenSettings None), MailEvent (SetView MailView), ComposeTime AUTOSAVE_DELAY] s of s1 \<Rightarrow>
     composer_on_screen s1 \<and> co_attachments (cm_form s1) = []
     \<and> stored_form (cm_form s1)
         = \<lparr>ld_to = join '', '' (opt_list (d_to d)), ld_cc = join '', '' (opt_list (d_cc d)),
            ld_bcc = join '', '' (opt_list (d_bcc d)), ld_subject = opt_string (d_subject d),
            ld_body = opt_string (d_textBody d)\<rparr>
     \<and> co_saved (cm_form s1) = Some (stored_form (cm_form s1))"
proof -
  have inv: "compose_inv env s" using reachable_inv assms(1) by metis
  then have key: "cm_key s = wanted_key env (co_mail (cm_form s))" by (simp add: compose_inv_def)
  have on: "cm_key s \<noteq> None" "isComposerOpen (co_mail (cm_form s))"
    using assms(2) by (auto simp: composer_on_screen_def)
  define s1 where "s1 = compose_step env (MailEvent (OpenSettings None)) s"
  define s2 where "s2 = compose_step env (MailEvent (SetView MailView)) s1"
  let ?m = "openSettings None (co_mail (cm_form s))"
  have s1: "co_mail (cm_form s1) = ?m" "cm_key s1 = None" "co_saved (cm_form s1) = co_saved (cm_form s)"
    by (simp_all add: s1_def compose_step_def mail_event_frame wanted_key_def openSettings_def)
  let ?m2 = "setView MailView ?m"
  have wanted: "wanted_key env ?m2 \<noteq> None" "isComposerOpen ?m2" "composerDraft ?m2 = Some d"
    using key on assms(3)
    by (auto simp: wanted_key_def openSettings_def setView_def useActiveAccount_def split: if_splits)
  have form: "cm_form s2 = sync_draft (mount_composer ?m2 (co_saved (cm_form s)))"
    using wanted(1) s1 by (auto simp: s2_def compose_step_def mail_event_on_def on_composer_def render_composer_def
        mount_instance_def)
  have inv2: "compose_inv env s2" unfolding s1_def s2_def by (intro compose_inv_step inv)
  have key2: "cm_key s2 = wanted_key env (co_mail (cm_form s2))" using inv2 by (simp add: compose_inv_def)
  have on2: "composer_on_screen s2"
    using key2 wanted form by (simp add: composer_on_screen_def)
  let ?t = "autosave_time AUTOSAVE_DELAY s2"
  have "form_kept_or_due s2" using inv2 on2 by (simp add: compose_inv_def)
  then have t: "cm_form ?t = (cm_form s2)\<lparr>co_saved := Some (stored_form (cm_form s2))\<rparr>"
    using on2 by (simp add: autosave_delay_form composer_on_screen_def)
  have "fold (compose_step env)
       [MailEvent (OpenSettings None), MailEvent (SetView MailView), ComposeTime AUTOSAVE_DELAY] s = ?t"
    by (simp add: s1_def [symmetric] s2_def [symmetric] time_step [OF key2])
  moreover have "composer_on_screen ?t" using on2 by (simp add: composer_on_screen_def)
  ultimately show ?thesis
    using wanted(2,3) assms(4) by (simp add: t form sync_draft_def stored_form_def)
qed

section \<open>An undisturbed submit\<close>

text \<open>The events of a submit, whose handlers do not look at the timer.\<close>

fun submit_event :: "compose_event \<Rightarrow> bool" where
  "submit_event SubmitMessage = True"
| "submit_event (GoOn i) = True"
| "submit_event (ServerReply i res) = True"
| "submit_event _ = False"

lemma timer_parts [simp]:
  "on_composer f (s\<lparr>cm_timer := x\<rparr>) = (on_composer f s)\<lparr>cm_timer := x\<rparr>"
  "on_instance n f (s\<lparr>cm_timer := x\<rparr>) = (on_instance n f s)\<lparr>cm_timer := x\<rparr>"
  "add_task n t (s\<lparr>cm_timer := x\<rparr>) = (add_task n t s)\<lparr>cm_timer := x\<rparr>"
  "send_request c (s\<lparr>cm_timer := x\<rparr>) = (send_request c s)\<lparr>cm_timer := x\<rparr>"
  "drop_task i (s\<lparr>cm_timer := x\<rparr>) = (drop_task i s)\<lparr>cm_timer := x\<rparr>"
  by (simp_all add: on_composer_def on_instance_def add_task_def send_request_def drop_task_def)

lemma timer_world: "s\<lparr>cm_timer := x, cm_world := w\<rparr> = (s\<lparr>cm_world := w\<rparr>)\<lparr>cm_timer := x\<rparr>"
  by simp

lemma timer_sends [simp]:
  "send_message env n c body files (s\<lparr>cm_timer := x\<rparr>) = (send_message env n c body files s)\<lparr>cm_timer := x\<rparr>"
  "start_send env n c pass (s\<lparr>cm_timer := x\<rparr>) = (start_send env n c pass s)\<lparr>cm_timer := x\<rparr>"
  by (simp_all add: send_message_def start_send_def Let_def)

lemma timer_handlers [simp]:
  "prepared env n c pass (s\<lparr>cm_timer := x\<rparr>) = (prepared env n c pass s)\<lparr>cm_timer := x\<rparr>"
  "key_checked env n c (s\<lparr>cm_timer := x\<rparr>) = (key_checked env n c s)\<lparr>cm_timer := x\<rparr>"
  "message_answered n res (s\<lparr>cm_timer := x\<rparr>) = (message_answered n res s)\<lparr>cm_timer := x\<rparr>"
  "draft_answered n res (s\<lparr>cm_timer := x\<rparr>) = (draft_answered n res s)\<lparr>cm_timer := x\<rparr>"
  "submit_message env (s\<lparr>cm_timer := x\<rparr>) = (submit_message env s)\<lparr>cm_timer := x\<rparr>"
  unfolding prepared_def key_checked_def message_answered_def draft_answered_def submit_message_def timer_world Let_def
  by (auto split: prod.split pgp_part.split option.split sum.split)

lemma timer_handle:
  "submit_event e \<Longrightarrow> compose_handle env e (s\<lparr>cm_timer := x\<rparr>) = (compose_handle env e s)\<lparr>cm_timer := x\<rparr>"
  by (cases e) (auto simp: if_form_def form_on_screen_def composer_on_screen_def split: prod.split compose_task.split)

lemma submit_event_frame: "submit_event e \<Longrightarrow> same_frame s (compose_handle env e s)"
  by (rule handle_frame) auto

lemma same_frame_key:
  "same_frame s t \<Longrightarrow> cm_key s = wanted_key env (co_mail (cm_form s)) \<Longrightarrow> cm_key t = wanted_key env (co_mail (cm_form t))"
  by (auto simp: same_frame_def)

lemma timer_exists: "\<exists>x. s = s\<lparr>cm_timer := x\<rparr>"
  by (rule exI [of _ "cm_timer s"]) simp

lemma render_timer:
  assumes "cm_key s = wanted_key env (co_mail (cm_form s))" and "same_frame s t"
  shows "\<exists>x. render_composer env s t = t\<lparr>cm_timer := x\<rparr>"
proof -
  have key: "cm_key t = wanted_key env (co_mail (cm_form t))" by (rule same_frame_key [OF assms(2,1)])
  let ?p = "\<lambda>s. (isComposerOpen (co_mail (cm_form s)), composerDraft (co_mail (cm_form s)))"
  have "(if ?p t = ?p s then t else t\<lparr>cm_form := sync_draft (cm_form t)\<rparr>) = t"
    using assms(2) by (auto simp: same_frame_def closeComposer_def sync_draft_def)
  then have "render_composer env s t \<in> {t, start_timer t}"
    using key by (auto simp: render_composer_def Let_def)
  then consider "render_composer env s t = t" | "render_composer env s t = start_timer t" by blast
  then show ?thesis
  proof cases
    case 1
    with timer_exists [of t] show ?thesis by (simp only:)
  next
    case 2
    show ?thesis unfolding 2 start_timer_def by (rule exI, rule refl)
  qed
qed

lemma submit_steps:
  "list_all submit_event es \<Longrightarrow> cm_key s = wanted_key env (co_mail (cm_form s)) \<Longrightarrow>
     \<exists>x. fold (compose_step env) es s = (fold (compose_handle env) es s)\<lparr>cm_timer := x\<rparr>"
proof (induction es arbitrary: s)
  case Nil
  show ?case unfolding fold_simps id_apply by (rule timer_exists)
next
  case (Cons e es)
  let ?t = "compose_handle env e s"
  have frame: "same_frame s ?t" using Cons.prems by (simp add: submit_event_frame)
  obtain x where x: "compose_step env e s = ?t\<lparr>cm_timer := x\<rparr>"
    using render_timer [OF Cons.prems(2) frame] unfolding compose_step_def by blast
  have "cm_key (?t\<lparr>cm_timer := x\<rparr>) = wanted_key env (co_mail (cm_form (?t\<lparr>cm_timer := x\<rparr>)))"
    using same_frame_key [OF frame Cons.prems(2)] by simp
  with Cons.IH [of "?t\<lparr>cm_timer := x\<rparr>"] Cons.prems(1) obtain y where
    "fold (compose_step env) es (?t\<lparr>cm_timer := x\<rparr>) = (fold (compose_handle env) es (?t\<lparr>cm_timer := x\<rparr>))\<lparr>cm_timer := y\<rparr>"
    by auto
  moreover have "fold (compose_handle env) es (t\<lparr>cm_timer := x\<rparr>) = (fold (compose_handle env) es t)\<lparr>cm_timer := x\<rparr>" for t
    using Cons.prems(1) by (induction es arbitrary: t) (simp_all add: timer_handle)
  ultimately show ?case by (simp add: x) blast
qed

lemma go_on_settled: "set (map snd (cm_tasks s)) \<subseteq> {Sending, SavingDraft} \<Longrightarrow> compose_handle env (GoOn i) s = s"
  by (cases "i < length (cm_tasks s)") (force split: prod.split compose_task.split dest!: nth_mem)+

lemma performSend_runs:
  fixes env :: "('k, 'm) compose_env" and pass :: "string option"
  assumes "cm_key s \<noteq> None" and "cm_tasks s = []"
  defines "t \<equiv> compose_handle env (GoOn 0) (start_send env (cm_number s) (cm_form s) pass s)"
  defines "u \<equiv> compose_handle env (ServerReply 0 (w_reply (cn_outside env) (sentCalls (cm_world t)))) t"
  shows "(cm_form u, cm_world u)
      = performSend (cn_outside env) (form_account env (cm_form s)) pass (cm_form s, cm_world s)
    \<and> cm_tasks u = [] \<and> set (map snd (cm_tasks t)) \<subseteq> {Sending}"
proof (cases "co_encrypt (cm_form s) \<or> co_sign (cm_form s)")
  case False
  then show ?thesis
    using assms(1,2) unfolding t_def u_def
    by (simp add: composer_setters drop_task_def message_answered_def performSend_def prepare_def Let_def split: sum.split)
next
  case True
  obtain r w where p: "prepare (cn_outside env) pass (cm_form s) (cm_world s) = (r, w)" by fastforce
  show ?thesis
  proof (cases r)
    case (Ready body files)
    with True p show ?thesis
      using assms(1,2) unfolding t_def u_def
      by (simp add: composer_setters drop_task_def message_answered_def prepared_def performSend_def Let_def split: sum.split)
  qed (use True p assms(1,2) in \<open>simp_all add: t_def u_def composer_setters drop_task_def prepared_def performSend_def Let_def\<close>)
qed

lemma fold_snoc: "fold f (xs @ [x]) s = f x (fold f xs s)"
  by simp

lemma tasks_same: "cm_tasks s = [] \<Longrightarrow> s\<lparr>cm_tasks := []\<rparr> = s"
  by auto

lemma submit_handlers:
  fixes env :: "('k, 'm) compose_env"
  assumes "form_on_screen s" and "\<not> co_isSending (cm_form s)" and "cm_tasks s = []"
  defines "t \<equiv> fold (compose_handle env) [SubmitMessage, GoOn 0, GoOn 0] s"
  defines "u \<equiv> compose_handle env (ServerReply 0 (w_reply (cn_outside env) (sentCalls (cm_world t)))) t"
  shows "(cm_form u, cm_world u)
      = handleSubmit (cn_outside env) (form_account env (cm_form s)) (cm_form s, cm_world s) \<and> cm_tasks u = []"
proof -
  let ?c = "cm_form s"
  have on: "cm_key s \<noteq> None" using assms(1) by (simp add: form_on_screen_def composer_on_screen_def)
  have submit: "compose_handle env SubmitMessage s = submit_message env s" using assms(1,2) by (simp add: if_form_def)
  let ?run = "\<lambda>s. compose_handle env (GoOn 0) (start_send env (cm_number s) (cm_form s) (Some (co_passphrase ?c)) s)"
  let ?reply = "\<lambda>t. compose_handle env (ServerReply 0 (w_reply (cn_outside env) (sentCalls (cm_world t)))) t"
  have run: "(cm_form (?reply (?run x)), cm_world (?reply (?run x)))
      = performSend (cn_outside env) (form_account env (cm_form x)) (Some (co_passphrase ?c)) (cm_form x, cm_world x)
      \<and> cm_tasks (?reply (?run x)) = [] \<and> compose_handle env (GoOn 0) (?run x) = ?run x"
    if "cm_key x \<noteq> None" "cm_tasks x = []" for x
    using performSend_runs [OF that, of env "Some (co_passphrase ?c)"] go_on_settled [of "?run x" env 0] by blast
  show ?thesis
  proof (cases "trim (co_to ?c) = []")
    case True
    then have "compose_handle env SubmitMessage s = on_composer (\<lambda>c. c\<lparr>co_error := Some (Tr ''composer.needRecipient'' [])\<rparr>) s"
      unfolding submit by (simp add: submit_message_def)
    with assms(3) have "t = on_composer (\<lambda>c. c\<lparr>co_error := Some (Tr ''composer.needRecipient'' [])\<rparr>) s"
      unfolding t_def fold_simps by (simp add: on_composer_def)
    with assms(3) True show ?thesis by (simp add: u_def on_composer_def handleSubmit_def)
  next
    case to: False
    show ?thesis
    proof (cases "co_sign ?c")
      case False
      then have "compose_handle env SubmitMessage s = start_send env (cm_number s) ?c (Some (co_passphrase ?c)) s"
        using to by (simp only: submit submit_message_def Let_def if_False)
      then have "t = ?run s" unfolding t_def using run [OF on assms(3)] by (simp only: fold_simps)
      with run [OF on assms(3)] to False show ?thesis by (simp only: u_def handleSubmit_def prod.case if_False)
    next
      case sign: True
      obtain k w where e: "ensureKey (w_server (cn_outside env)) (cm_world s) = (k, w)" by fastforce
      let ?s = "s\<lparr>cm_world := w\<rparr>"
      have "compose_handle env SubmitMessage s = s\<lparr>cm_tasks := [(cm_number s, Checking ?c)]\<rparr>"
        using to sign assms(3) by (simp only: submit submit_message_def Let_def if_False if_True add_task_def append_Nil)
      moreover have "compose_handle env (GoOn 0) (s\<lparr>cm_tasks := [(cm_number s, Checking ?c)]\<rparr>) = key_checked env (cm_number s) ?c s"
        using assms(3) by (simp add: drop_task_def tasks_same)
      ultimately have t: "t = compose_handle env (GoOn 0) (key_checked env (cm_number s) ?c s)"
        by (simp only: t_def fold_simps)
      show ?thesis
      proof (cases "\<exists>kp. k = Some kp
          \<and> \<not> (isPrivateKeyEncrypted (w_lib (cn_outside env)) (kp_privateKeyArmored kp) \<and> co_passphrase ?c = [])")
        case True
        then obtain kp where k: "k = Some kp"
          "\<not> (isPrivateKeyEncrypted (w_lib (cn_outside env)) (kp_privateKeyArmored kp) \<and> co_passphrase ?c = [])" by blast
        have "cm_key ?s \<noteq> None" "cm_tasks ?s = []" using on assms(3) by simp_all
        note r = run [OF this]
        have "t = ?run ?s" unfolding t key_checked_def e using k by (simp only: prod.case option.case Let_def if_False) simp
        moreover have "handleSubmit (cn_outside env) (form_account env ?c) (?c, cm_world s)
            = performSend (cn_outside env) (form_account env ?c) (Some (co_passphrase ?c)) (?c, w)"
          by (simp only: handleSubmit_def prod.case if_not_P [OF to] sign if_True e k(1) option.case if_not_P [OF k(2)])
        ultimately show ?thesis using r by (simp add: u_def del: compose_handle.simps)
      next
        case False
        then show ?thesis
          using on to sign assms(3)
          by (cases k) (auto simp: t u_def key_checked_def e handleSubmit_def on_instance_def on_composer_def)
      qed
    qed
  qed
qed

text \<open>C36: a submit that is not disturbed does what its handler does in one go: when no other handler waits, submitting
  the form, letting its handler go on and answering its request leaves the form, the store, the stored draft
  and the requests exactly as \<open>handleSubmit\<close> of \<open>Composer\<close> does with the same answer, and nothing waits any more.\<close>

theorem undisturbed_submit:
  fixes env :: "('k, 'm) compose_env"
  assumes "s = fold (compose_step env) es (init_compose env b saved w)"
    and "form_on_screen s" and "\<not> co_isSending (cm_form s)" and "cm_tasks s = []"
  shows "case fold (compose_step env) [SubmitMessage, GoOn 0, GoOn 0] s of s1 \<Rightarrow>
     case compose_step env (ServerReply 0 (w_reply (cn_outside env) (sentCalls (cm_world s1)))) s1 of s2 \<Rightarrow>
       (cm_form s2, cm_world s2)
         = handleSubmit (cn_outside env) (form_account env (cm_form s)) (cm_form s, cm_world s)
       \<and> cm_tasks s2 = []"
proof -
  have "compose_inv env s" using reachable_inv assms(1) by metis
  then have key: "cm_key s = wanted_key env (co_mail (cm_form s))" by (simp add: compose_inv_def)
  have on: "cm_key s \<noteq> None" using assms(2) by (simp add: form_on_screen_def composer_on_screen_def)
  let ?h = "compose_handle env"
  let ?c = "cm_form s"
  let ?r = "\<lambda>t. ServerReply 0 (w_reply (cn_outside env) (sentCalls (cm_world t)))"
  let ?es = "[SubmitMessage, GoOn 0, GoOn 0]"
  define t where "t = fold ?h ?es s"
  have "\<exists>x. fold (compose_step env) ?es s = t\<lparr>cm_timer := x\<rparr>"
    unfolding t_def by (rule submit_steps [OF _ key]) simp
  then obtain x where x: "fold (compose_step env) ?es s = t\<lparr>cm_timer := x\<rparr>" ..
  have "\<exists>y. fold (compose_step env) (?es @ [?r t]) s = (fold ?h (?es @ [?r t]) s)\<lparr>cm_timer := y\<rparr>"
    by (rule submit_steps [OF _ key]) simp
  then obtain y where "compose_step env (?r t) (fold (compose_step env) ?es s) = (?h (?r t) t)\<lparr>cm_timer := y\<rparr>"
    unfolding fold_snoc t_def [symmetric] by blast
  then have "compose_step env (?r t) (t\<lparr>cm_timer := x\<rparr>) = (?h (?r t) t)\<lparr>cm_timer := y\<rparr>"
    unfolding x .
  moreover have "(cm_form (?h (?r t) t), cm_world (?h (?r t) t))
        = handleSubmit (cn_outside env) (form_account env ?c) (?c, cm_world s) \<and> cm_tasks (?h (?r t) t) = []"
    unfolding t_def by (rule submit_handlers [OF assms(2-4)])
  ultimately show ?thesis unfolding x by simp
qed

section \<open>What leaves the composer\<close>

definition message_call :: "call \<Rightarrow> bool" where
  "message_call c \<longleftrightarrow> starts_with (fst c) ''/mail/send''"

fun submits :: "compose_event \<Rightarrow> bool" where
  "submits SubmitMessage = True"
| "submits SubmitSignPassphrase = True"
| "submits _ = False"

text \<open>The handlers that may still send a message, and their forms.\<close>

fun task_form :: "compose_task \<Rightarrow> composer option" where
  "task_form (Checking c) = Some c"
| "task_form (Preparing c pass) = Some c"
| "task_form _ = None"

definition waiting_forms :: "compose \<Rightarrow> composer list" where
  "waiting_forms s = List.map_filter (task_form \<circ> snd) (cm_tasks s)"

text \<open>A message that is made of a form: as it was typed, or sealed for the recipients.\<close>

definition made_of :: "('k, 'm) compose_env \<Rightarrow> composer \<Rightarrow> call \<Rightarrow> bool" where
  "made_of env c m \<longleftrightarrow>
     (\<exists>body files. m = send_call (form_account env c) c body files
       \<and> (co_encrypt c \<longrightarrow> sealed (w_lib (cn_outside env)) c body files)
       \<and> (\<not> co_encrypt c \<and> \<not> co_sign c \<longrightarrow> body = co_body c \<and> files = co_attachments c))"

text \<open>From \<open>s\<close> to \<open>s'\<close> messages are made of waiting forms and of the forms \<open>cs\<close>, each of at most one.\<close>

definition sends_from :: "('k, 'm) compose_env \<Rightarrow> composer list \<Rightarrow> compose \<Rightarrow> compose \<Rightarrow> bool" where
  "sends_from env cs s s' \<longleftrightarrow>
     (\<exists>calls. sentCalls (cm_world s') = sentCalls (cm_world s) @ calls
       \<and> set (waiting_forms s') \<subseteq> set (waiting_forms s) \<union> set cs
       \<and> (\<forall>m \<in> set (filter message_call calls). \<exists>c \<in> set (waiting_forms s) \<union> set cs. made_of env c m)
       \<and> length (filter message_call calls) + length (waiting_forms s') \<le> length (waiting_forms s) + length cs)"

lemma call_is_message [simp]:
  "message_call (send_call acc c body files)" "\<not> message_call (draft_call acc c)"
  by (simp_all add: message_call_def send_call_def draft_call_def sendMessage_def saveDraft_def postOutgoing_def
      starts_with_def split: option.split list.split)

lemma pgp_call_no_message: "pgp_call c \<Longrightarrow> \<not> message_call c"
  by (auto simp: pgp_call_def message_call_def starts_with_def elim!: prefixE)

lemma only_pgp_messages: "only_pgp w w' \<Longrightarrow> \<exists>cs. sentCalls w' = sentCalls w @ cs \<and> filter message_call cs = []"
  by (auto simp: only_pgp_def list_all_iff pgp_call_no_message filter_empty_conv)

lemma kept_parts [simp]:
  "cm_tasks (on_composer f s) = cm_tasks s" "cm_world (on_composer f s) = cm_world s"
  "cm_tasks (on_instance n f s) = cm_tasks s" "cm_world (on_instance n f s) = cm_world s"
  by (simp_all add: on_composer_def on_instance_def)

lemma sends_same:
  assumes "cm_tasks s' = cm_tasks s" and "only_pgp (cm_world s) (cm_world s')"
  shows "sends_from env cs s s'"
proof -
  obtain calls where "sentCalls (cm_world s') = sentCalls (cm_world s) @ calls" "filter message_call calls = []"
    using only_pgp_messages [OF assms(2)] by blast
  with assms(1) show ?thesis unfolding sends_from_def waiting_forms_def by (intro exI [of _ calls]) auto
qed

lemma sends_after:
  assumes "cm_tasks s1 = cm_tasks s" and "only_pgp (cm_world s) (cm_world s1)" and "sends_from env cs s1 s'"
  shows "sends_from env cs s s'"
proof -
  obtain a where a: "sentCalls (cm_world s1) = sentCalls (cm_world s) @ a" "filter message_call a = []"
    using only_pgp_messages [OF assms(2)] by blast
  from assms(3) obtain b where b: "sentCalls (cm_world s') = sentCalls (cm_world s1) @ b"
      "set (waiting_forms s') \<subseteq> set (waiting_forms s1) \<union> set cs"
      "\<forall>m \<in> set (filter message_call b). \<exists>c \<in> set (waiting_forms s1) \<union> set cs. made_of env c m"
      "length (filter message_call b) + length (waiting_forms s') \<le> length (waiting_forms s1) + length cs"
    unfolding sends_from_def by blast
  have "waiting_forms s1 = waiting_forms s" using assms(1) by (simp add: waiting_forms_def)
  with a b show ?thesis unfolding sends_from_def by (intro exI [of _ "a @ b"]) simp
qed

lemma sends_message:
  assumes "co_encrypt c \<longrightarrow> sealed (w_lib (cn_outside env)) c body files"
    and "\<not> co_encrypt c \<and> \<not> co_sign c \<longrightarrow> body = co_body c \<and> files = co_attachments c"
  shows "sends_from env [c] s (send_message env n c body files s)"
  using assms unfolding sends_from_def
  by (intro exI [of _ "[send_call (form_account env c) c body files]"])
    (auto simp: send_message_def add_task_def send_request_def waiting_forms_def map_filter_def send_def made_of_def)

lemma sends_start: "sends_from env [c] s (start_send env n c pass s)"
proof (cases "co_encrypt c \<or> co_sign c")
  case True
  then show ?thesis unfolding sends_from_def
    by (intro exI [of _ "[]"]) (simp add: start_send_def add_task_def waiting_forms_def map_filter_def)
next
  case False
  then have "sends_from env [c] (on_instance n sending_starts s) (start_send env n c pass s)"
    using sends_message [of c env] by (auto simp: start_send_def Let_def)
  then show ?thesis by (rule sends_after [rotated 2]) simp_all
qed

lemma sends_prepared: "sends_from env [c] s (prepared env n c pass s)"
proof -
  obtain r w where p: "prepare (cn_outside env) pass c (cm_world s) = (r, w)" by fastforce
  have w: "only_pgp (cm_world s) w" using only_pgp_prepare [of "cm_world s" "cn_outside env" pass c] p by simp
  show ?thesis
  proof (cases r)
    case (Ready body files)
    have "sends_from env [c] (s\<lparr>cm_world := w\<rparr>) (send_message env n c body files (s\<lparr>cm_world := w\<rparr>))"
      using p Ready by (intro sends_message) (auto simp: prepare_def intro: prepare_sealed)
    then have "sends_from env [c] s (send_message env n c body files (s\<lparr>cm_world := w\<rparr>))"
      by (rule sends_after [rotated 2]) (simp_all add: w)
    with p Ready show ?thesis by (simp add: prepared_def)
  qed (auto simp: prepared_def p w intro: sends_same)
qed

lemma sends_checked: "sends_from env [c] s (key_checked env n c s)"
proof -
  obtain k w where e: "ensureKey (w_server (cn_outside env)) (cm_world s) = (k, w)" by fastforce
  have w: "only_pgp (cm_world s) w" using only_pgp_ensureKey [of "cm_world s" "w_server (cn_outside env)"] e by simp
  have "sends_from env [c] s (start_send env n c pass (s\<lparr>cm_world := w\<rparr>))" for pass
    by (rule sends_after [OF _ _ sends_start]) (simp_all add: w)
  with w show ?thesis by (auto simp: key_checked_def e Let_def intro: sends_same split: option.split)
qed

lemma waiting_drop:
  assumes "i < length (cm_tasks s)" and "cm_tasks s ! i = (n, t)"
  shows "mset (waiting_forms s) = mset (waiting_forms (drop_task i s)) + (case task_form t of None \<Rightarrow> {#} | Some c \<Rightarrow> {#c#})"
proof -
  have "cm_tasks s = take i (cm_tasks s) @ (n, t) # drop (Suc i) (cm_tasks s)"
    using id_take_nth_drop [OF assms(1)] assms(2) by simp
  then have "waiting_forms s = List.map_filter (task_form \<circ> snd) (take i (cm_tasks s) @ (n, t) # drop (Suc i) (cm_tasks s))"
    by (simp only: waiting_forms_def)
  then show ?thesis
    by (cases "task_form t") (simp_all add: drop_task_def waiting_forms_def map_filter_def)
qed

lemma sends_dropped:
  assumes "i < length (cm_tasks s)" and "cm_tasks s ! i = (n, t)"
    and "sends_from env (case task_form t of None \<Rightarrow> [] | Some c \<Rightarrow> [c]) (drop_task i s) s'"
  shows "sends_from env cs s s'"
proof -
  let ?c = "case task_form t of None \<Rightarrow> [] | Some c \<Rightarrow> [c]"
  have m: "mset (waiting_forms s) = mset (waiting_forms (drop_task i s) @ ?c)"
    using waiting_drop [OF assms(1,2)] by (cases "task_form t") simp_all
  have set: "set (waiting_forms (drop_task i s)) \<union> set ?c = set (waiting_forms s)"
    using mset_eq_setD [OF m] by simp
  have len: "length (waiting_forms (drop_task i s)) + length ?c = length (waiting_forms s)"
    using mset_eq_length [OF m] by simp
  have "sentCalls (cm_world (drop_task i s)) = sentCalls (cm_world s)" by (simp add: drop_task_def)
  with assms(3) show ?thesis unfolding sends_from_def set len by fastforce
qed

lemma sends_draft: "sends_from env cs s (start_draft env s)"
  unfolding sends_from_def
  by (intro exI [of _ "[draft_call (form_account env (cm_form s)) (cm_form s)]"])
    (auto simp: start_draft_def Let_def add_task_def send_request_def send_def waiting_forms_def map_filter_def)

lemma sends_submit: "sends_from env [cm_form s] s (submit_message env s)"
proof (cases "trim (co_to (cm_form s)) \<noteq> [] \<and> co_sign (cm_form s)")
  case True
  then show ?thesis unfolding sends_from_def
    by (intro exI [of _ "[]"]) (simp add: submit_message_def add_task_def waiting_forms_def map_filter_def)
next
  case False
  then show ?thesis by (auto simp: submit_message_def Let_def intro: sends_same sends_start)
qed

lemma sends_answered:
  "sends_from env [] s (message_answered n res s)" "sends_from env [] s (draft_answered n res s)"
  by (auto simp: message_answered_def draft_answered_def intro!: sends_same split: sum.split)

lemma sends_unchanged:
  "cm_tasks s' = cm_tasks s \<Longrightarrow> cm_world s' = cm_world s \<Longrightarrow> sends_from env cs s s'"
  by (rule sends_same) simp_all

lemma sends_step: "sends_from env (if submits e then [cm_form s] else []) s (compose_handle env e s)"
proof (cases e)
  case SubmitMessage
  then show ?thesis by (auto simp: if_form_def intro: sends_submit sends_unchanged)
next
  case SubmitSignPassphrase
  then show ?thesis by (auto simp: if_composer_def intro: sends_start sends_unchanged)
next
  case ClickSaveDraft
  then show ?thesis by (auto simp: if_form_def intro: sends_draft sends_unchanged)
next
  case (DismissDiscard b)
  have "sends_from env [] s (start_draft env (on_composer f s))" for f
    by (rule sends_after [OF _ _ sends_draft]) simp_all
  with DismissDiscard show ?thesis by (auto simp: if_composer_def intro: sends_unchanged)
next
  case (GoOn i)
  show ?thesis
  proof (cases "i < length (cm_tasks s)")
    case True
    obtain n t where t: "cm_tasks s ! i = (n, t)" by fastforce
    have "sends_from env (case task_form t of None \<Rightarrow> [] | Some c \<Rightarrow> [c]) (drop_task i s) (compose_handle env e s)" if "task_form t \<noteq> None"
      using that True t GoOn by (cases t) (auto intro: sends_checked sends_prepared)
    with sends_dropped [OF True t] GoOn t show ?thesis
      by (cases t) (auto intro: sends_unchanged)
  qed (simp add: GoOn sends_unchanged)
next
  case (ServerReply i res)
  show ?thesis
  proof (cases "i < length (cm_tasks s)")
    case True
    obtain n t where t: "cm_tasks s ! i = (n, t)" by fastforce
    have "sends_from env (case task_form t of None \<Rightarrow> [] | Some c \<Rightarrow> [c]) (drop_task i s) (compose_handle env e s)" if "task_form t = None"
      using that True t ServerReply by (cases t) (auto intro: sends_answered)
    with sends_dropped [OF True t] ServerReply t show ?thesis
      by (cases t) (auto intro: sends_unchanged)
  qed (simp add: ServerReply sends_unchanged)
qed (auto simp: if_form_def if_composer_def type_address_def suggest_open_def pick_suggestion_def mail_event_on_def
    intro!: sends_unchanged split: prod.split)

text \<open>The forms that were submitted in a history, each as it was at that moment.\<close>

fun submitted_forms :: "('k, 'm) compose_env \<Rightarrow> compose_event list \<Rightarrow> compose \<Rightarrow> composer list" where
  "submitted_forms env [] s = []"
| "submitted_forms env (e # es) s =
     (if submits e then [cm_form s] else []) @ submitted_forms env es (compose_step env e s)"

lemma sends_trans:
  assumes "sends_from env cs s s1" and "sends_from env ds s1 s2"
  shows "sends_from env (cs @ ds) s s2"
proof -
  from assms(1) obtain a where a: "sentCalls (cm_world s1) = sentCalls (cm_world s) @ a"
      "set (waiting_forms s1) \<subseteq> set (waiting_forms s) \<union> set cs"
      "\<forall>m \<in> set (filter message_call a). \<exists>c \<in> set (waiting_forms s) \<union> set cs. made_of env c m"
      "length (filter message_call a) + length (waiting_forms s1) \<le> length (waiting_forms s) + length cs"
    unfolding sends_from_def by blast
  from assms(2) obtain b where b: "sentCalls (cm_world s2) = sentCalls (cm_world s1) @ b"
      "set (waiting_forms s2) \<subseteq> set (waiting_forms s1) \<union> set ds"
      "\<forall>m \<in> set (filter message_call b). \<exists>c \<in> set (waiting_forms s1) \<union> set ds. made_of env c m"
      "length (filter message_call b) + length (waiting_forms s2) \<le> length (waiting_forms s1) + length ds"
    unfolding sends_from_def by blast
  have "\<forall>m \<in> set (filter message_call (a @ b)). \<exists>c \<in> set (waiting_forms s) \<union> set (cs @ ds). made_of env c m"
    using a(2,3) b(3) unfolding filter_append set_append by blast
  moreover have "set (waiting_forms s2) \<subseteq> set (waiting_forms s) \<union> set (cs @ ds)"
    using a(2) b(2) unfolding set_append by blast
  ultimately show ?thesis unfolding sends_from_def
    using a(1,4) b(1,4) by (intro exI [of _ "a @ b"]) simp
qed

lemma sends_history: "sends_from env (submitted_forms env es s) s (fold (compose_step env) es s)"
proof (induction es arbitrary: s)
  case Nil
  show ?case by (simp add: sends_unchanged)
next
  case (Cons e es)
  have "sends_from env (if submits e then [cm_form s] else []) s (compose_step env e s)"
    using sends_step [of env e s] by (simp add: sends_from_def waiting_forms_def compose_step_def)
  from sends_trans [OF this Cons.IH] show ?case by simp
qed

lemma submitted_length: "length (submitted_forms env es s) = length (filter submits es)"
  by (induction es arbitrary: s) auto

text \<open>C37: over every history of the composer, whatever happens between the events of a submit, the messages that leave are
  made of forms as they were when the user submitted them: sealed for the recipients when encryption was
  on, as typed when neither switch was; and there are at most as many as submits.\<close>

theorem messages_are_as_submitted:
  fixes env :: "('k, 'm) compose_env" and b saved w
  defines "init \<equiv> init_compose env b saved w"
  shows "\<exists>calls. sentCalls (cm_world (fold (compose_step env) es init)) = sentCalls w @ calls
     \<and> list_all (\<lambda>m. message_call m \<longrightarrow> list_ex (\<lambda>c. made_of env c m) (submitted_forms env es init)) calls
     \<and> length (filter message_call calls) \<le> length (filter submits es)"
proof -
  have init: "waiting_forms init = []" "cm_world init = w"
    by (simp_all add: init_def init_compose_def Let_def waiting_forms_def map_filter_def)
  have "sends_from env (submitted_forms env es init) init (fold (compose_step env) es init)"
    by (rule sends_history)
  then obtain calls where "sentCalls (cm_world (fold (compose_step env) es init)) = sentCalls w @ calls"
      "\<forall>m \<in> set (filter message_call calls). \<exists>c \<in> set (submitted_forms env es init). made_of env c m"
      "length (filter message_call calls) \<le> length (filter submits es)"
    unfolding sends_from_def init by (auto simp: submitted_length)
  then show ?thesis by (intro exI [of _ calls]) (auto simp: list_all_iff list_ex_iff)
qed

section \<open>Late answers\<close>

text \<open>C39: while a message is being sent its composer can be closed and a new one opened; the answer that then arrives
  closes this new composer and removes its stored draft, so that what was typed there can neither be seen nor
  brought back.\<close>

theorem late_answer_closes_new_composer:
  assumes "i < length (cm_tasks s)" and "cm_tasks s ! i = (n, Sending)" and "n \<noteq> cm_number s" and "composer_on_screen s"
    and "s = fold (compose_step env) es (init_compose env b saved w)" and "incoming_empty d"
  shows "case compose_step env (ServerReply i (Inr ())) s of s1 \<Rightarrow>
     \<not> composer_on_screen s1 \<and> co_saved (cm_form s1) = None
     \<and> stored_form (cm_form (compose_step env (MailEvent (OpenComposer d)) s1))
         = \<lparr>ld_to = [], ld_cc = [], ld_bcc = [], ld_subject = [], ld_body = []\<rparr>"
proof -
  have inv: "compose_inv env s" using reachable_inv assms(5) by metis
  let ?s1 = "compose_step env (ServerReply i (Inr ())) s"
  have key: "cm_key s = wanted_key env (co_mail (cm_form s))" using inv by (simp add: compose_inv_def)
  have t: "compose_handle env (ServerReply i (Inr ())) s = on_composer (close_composer \<circ> forget_saved) (drop_task i s)"
    using assms(1-3) by (simp add: message_answered_def on_instance_def drop_task_def)
  have s1: "co_mail (cm_form ?s1) = closeComposer (co_mail (cm_form s))" "co_saved (cm_form ?s1) = None"
    unfolding compose_step_def t by (simp_all add: on_composer_def close_composer_def forget_saved_def drop_task_def)
  have "compose_inv env ?s1" by (rule compose_inv_step [OF inv])
  then have key1: "cm_key ?s1 = wanted_key env (co_mail (cm_form ?s1))" by (simp add: compose_inv_def)
  moreover have "cm_key ?s1 \<noteq> None" using key1 assms(4) key by (simp add: s1 composer_on_screen_def)
  ultimately have form: "cm_form (compose_step env (MailEvent (OpenComposer d)) ?s1)
      = sync_draft (mount_composer (openComposer d (co_mail (cm_form ?s1))) None)"
    using open_composer_form [of ?s1 env d] s1(2) by simp
  have "isComposerOpen (openComposer d m)" "composerDraft (openComposer d m) = Some d" for m
    by (simp_all add: openComposer_def)
  moreover have "opt_string (d_subject d) = []" "opt_string (d_textBody d) = []"
    using assms(6) by (cases "d_subject d"; cases "d_textBody d"; simp add: incoming_empty_def truthy_opt_def)+
  ultimately have "stored_form (cm_form (compose_step env (MailEvent (OpenComposer d)) ?s1))
         = \<lparr>ld_to = [], ld_cc = [], ld_bcc = [], ld_subject = [], ld_body = []\<rparr>"
    using assms(6) unfolding form by (simp add: sync_draft_def stored_form_def incoming_empty_def)
  moreover have "\<not> composer_on_screen ?s1" by (simp only: composer_on_screen_def s1) (simp add: closeComposer_def)
  ultimately show ?thesis using s1(2) by blast
qed

text \<open>The dialog that asks about unsaved text has no way back to the form: closing it saves a draft.\<close>

lemma dismissed_dialog_saves:
  assumes "composer_on_screen s" and "co_confirmClose (cm_form s)"
  shows "case (cm_form s)\<lparr>co_confirmClose := False\<rparr> of c \<Rightarrow>
    sentCalls (cm_world (compose_step env (DismissDiscard False) s)) = sentCalls (cm_world s) @ [draft_call (form_account env c) c]"
  using assms
  by (simp add: compose_step_def if_composer_def start_draft_def Let_def add_task_def send_request_def send_def
      on_composer_def)

section \<open>Examples\<close>

definition writer_env :: "(string, string) compose_env" where
  "writer_env = \<lparr>cn_outside = bob_outside, cn_accounts = [example_account\<lparr>acc_id := ''a1''\<rparr>]\<rparr>"

definition blank_message :: partial_message where
  "blank_message =
     \<lparr>d_from = None, d_to = None, d_cc = None, d_bcc = None, d_subject = None, d_inReplyTo = None, d_references = None,
      d_textBody = None, d_htmlBody = None, d_attachments = None\<rparr>"

definition reply_message :: partial_message where
  "reply_message = blank_message\<lparr>d_to := Some [''bob@x''], d_subject := Some ''Re''\<rparr>"

definition writing :: "partial_message \<Rightarrow> compose_event list" where
  "writing d =
     [MailEvent (SetActiveAccountId (Some ''a1'')), MailEvent (OpenComposer d), TypeAddress ToField ''bob@x'', TypeBody ''Hi'']"

definition wrote :: "compose_event list \<Rightarrow> compose" where
  "wrote es = fold (compose_step writer_env) es (init_compose writer_env empty_browser None idle_world)"

text \<open>What the examples look at.\<close>

definition sight :: "compose \<Rightarrow> bool \<times> nat \<times> string \<times> bool \<times> nat \<times> partial_message option" where
  "sight s =
     (form_on_screen s, cm_number s, co_body (cm_form s), co_isSending (cm_form s), length (cm_tasks s),
      composerDraft (co_mail (cm_form s)))"

lemma form_composer_on_screen: "form_on_screen s \<Longrightarrow> composer_on_screen s"
  by (simp add: form_on_screen_def)

text \<open>With the signature switch on, a second click before the key has been checked sends the message twice.\<close>

lemma second_click_sends_again:
  "length (filter message_call (sentCalls (cm_world
     (wrote (writing blank_message @ [ToggleSign, SubmitMessage, SubmitMessage, GoOn 0, GoOn 0, GoOn 0, GoOn 0]))))) = 2"
  by code_simp

lemma written_sight:
  "sight (wrote (writing blank_message)) = (True, 2, ''Hi'', False, 0, Some blank_message)"
  "sight (wrote (writing reply_message)) = (True, 2, ''Hi'', False, 0, Some reply_message)"
  by code_simp+

lemma message_kinds:
  "incoming_empty blank_message" "\<not> incoming_empty reply_message" "opt_string (d_textBody reply_message) = []"
  by code_simp+

lemma written_form:
  "composer_on_screen (wrote (writing blank_message))" "co_body (cm_form (wrote (writing blank_message))) = ''Hi''"
  "form_on_screen (wrote (writing blank_message))" "\<not> co_isSending (cm_form (wrote (writing blank_message)))"
  "cm_tasks (wrote (writing blank_message)) = []"
  using written_sight(1) form_composer_on_screen by (simp_all add: sight_def)

lemma written_reply:
  "composer_on_screen (wrote (writing reply_message))" "co_body (cm_form (wrote (writing reply_message))) = ''Hi''"
  "composerDraft (co_mail (cm_form (wrote (writing reply_message)))) = Some reply_message"
  using written_sight(2) form_composer_on_screen by (simp_all add: sight_def)

theorem stored_draft_comes_back_witness:
  "co_body (cm_form (fold (compose_step writer_env) [ComposeTime AUTOSAVE_DELAY, MailEvent (OpenComposer blank_message)]
     (wrote (writing blank_message)))) = ''Hi''"
  using stored_draft_comes_back [OF wrote_def written_form(1) message_kinds(1)] written_form(2) by simp

theorem settings_visit_loses_reply_witness:
  "case fold (compose_step writer_env)
       [MailEvent (OpenSettings None), MailEvent (SetView MailView), ComposeTime AUTOSAVE_DELAY] (wrote (writing reply_message))
     of s1 \<Rightarrow> composer_on_screen s1 \<and> ld_body (stored_form (cm_form s1)) = []"
  using settings_visit_loses_reply [OF wrote_def written_reply(1,3) message_kinds(2)] message_kinds(3) by simp

theorem undisturbed_submit_witness:
  "case fold (compose_step writer_env) [SubmitMessage, GoOn 0, GoOn 0] (wrote (writing blank_message)) of s1 \<Rightarrow>
     cm_tasks (compose_step writer_env (ServerReply 0 (w_reply bob_outside (sentCalls (cm_world s1)))) s1) = []"
  using undisturbed_submit [OF wrote_def written_form(3-5)] by (simp add: writer_env_def del: fold_simps)

theorem messages_are_as_submitted_witness:
  "\<exists>m \<in> set (sentCalls (cm_world (wrote (writing blank_message @ [SubmitMessage])))).
     message_call m \<and> list_ex (\<lambda>c. made_of writer_env c m)
       (submitted_forms writer_env (writing blank_message @ [SubmitMessage]) (init_compose writer_env empty_browser None idle_world))"
proof -
  let ?es = "writing blank_message @ [SubmitMessage]"
  obtain calls where calls: "sentCalls (cm_world (wrote ?es)) = sentCalls idle_world @ calls"
      "list_all (\<lambda>m. message_call m \<longrightarrow> list_ex (\<lambda>c. made_of writer_env c m)
         (submitted_forms writer_env ?es (init_compose writer_env empty_browser None idle_world))) calls"
    using messages_are_as_submitted [of writer_env ?es empty_browser None idle_world] unfolding wrote_def by blast
  have "list_ex message_call (sentCalls (cm_world (wrote ?es)))" by code_simp
  then obtain m where "m \<in> set calls" "message_call m"
    by (auto simp: calls(1) idle_world_def list_ex_iff)
  with calls show ?thesis by (auto simp: list_all_iff)
qed

theorem late_answer_closes_new_composer_witness:
  "let es = writing blank_message @ [SubmitMessage, ClickClose, ConfirmDiscard, MailEvent (OpenComposer blank_message),
        TypeBody ''New'', ComposeTime 800]
   in co_body (cm_form (wrote es)) = ''New'' \<and> composer_on_screen (wrote es)
      \<and> \<not> composer_on_screen (compose_step writer_env (ServerReply 0 (Inr ())) (wrote es))"
proof -
  let ?es = "writing blank_message @ [SubmitMessage, ClickClose, ConfirmDiscard, MailEvent (OpenComposer blank_message),
        TypeBody ''New'', ComposeTime 800]"
  have "sight (wrote ?es) = (True, 3, ''New'', False, 1, Some blank_message)" by code_simp
  moreover have "cm_tasks (wrote ?es) ! 0 = (2, Sending)" by code_simp
  ultimately have h: "0 < length (cm_tasks (wrote ?es))" "cm_tasks (wrote ?es) ! 0 = (2, Sending)" "2 \<noteq> cm_number (wrote ?es)"
      "composer_on_screen (wrote ?es)" "co_body (cm_form (wrote ?es)) = ''New''"
    by (simp_all add: sight_def form_composer_on_screen)
  show ?thesis
    using late_answer_closes_new_composer [OF h(1-4) wrote_def message_kinds(1)] h(4,5) unfolding Let_def by blast
qed

end
