(* ===== verification/RuleEditor.thy ===== *)
theory RuleEditor
  imports SieveParse Api
begin

text \<open>
  The editors of a Sieve script: the visual one, \<open>frontend/src/components/sieve/RuleBuilder.tsx\<close>, whose
  operations change the list of rules that the page holds, and the text editor \<open>SieveEditor.tsx\<close>.
  Random ids are arguments.  A request that an editor waits for is a value; its answer comes
  later.
\<close>

section \<open>Operations on rules\<close>

definition newCondition :: "string \<Rightarrow> sieve_condition" where
  "newCondition i =
     \<lparr>cond_id = i, test = THeader, part = NoPart, cop = Contains, negated = False, hdr = ''Subject'', val = []\<rparr>"

definition newAction :: "string \<Rightarrow> sieve_action" where
  "newAction i =
     \<lparr>act_id = i, atype = Fileinto, mailbox = Some ''INBOX'', copy = None, address = None, rtext = None,
      flag = None\<rparr>"

definition FLAG_OPTIONS :: "string list" where
  "FLAG_OPTIONS = [bslash # ''Seen'', bslash # ''Flagged'', bslash # ''Answered'', ''$Junk'', ''$NotJunk'']"

text \<open>The new rule with the ids of the rule, its condition and its action; \<open>t\<close> gives its name from its number.\<close>

definition addRule :: "(nat \<Rightarrow> string) \<Rightarrow> string \<Rightarrow> string \<Rightarrow> string \<Rightarrow> sieve_rule list \<Rightarrow> sieve_rule list" where
  "addRule t i j k rules =
     rules @ [\<lparr>rule_id = i, rname = t (length rules + 1), enabled = True, conditionJoin = Allof,
               conditions = [newCondition j], actions = [newAction k]\<rparr>]"

text \<open>The patches that the fields of the form make.\<close>

datatype rule_patch = PName string | PEnabled bool | PJoin rule_join

datatype cond_patch = PTest sieve_test | PPart address_part | PHeader string | POp cond_op | PNegated bool | PValue string

datatype act_patch = PType action_type | PMailbox string | PCopy bool | PAddress string | PText string | PFlag string

fun patch_rule :: "rule_patch \<Rightarrow> sieve_rule \<Rightarrow> sieve_rule" where
  "patch_rule (PName x) r = r\<lparr>rname := x\<rparr>"
| "patch_rule (PEnabled x) r = r\<lparr>enabled := x\<rparr>"
| "patch_rule (PJoin x) r = r\<lparr>conditionJoin := x\<rparr>"

fun patch_cond :: "cond_patch \<Rightarrow> sieve_condition \<Rightarrow> sieve_condition" where
  "patch_cond (PTest x) c = c\<lparr>test := x\<rparr>"
| "patch_cond (PPart x) c = c\<lparr>part := x\<rparr>"
| "patch_cond (PHeader x) c = c\<lparr>hdr := x\<rparr>"
| "patch_cond (POp x) c = c\<lparr>cop := x\<rparr>"
| "patch_cond (PNegated x) c = c\<lparr>negated := x\<rparr>"
| "patch_cond (PValue x) c = c\<lparr>val := x\<rparr>"

fun patch_act :: "act_patch \<Rightarrow> sieve_action \<Rightarrow> sieve_action" where
  "patch_act (PType x) a = a\<lparr>atype := x\<rparr>"
| "patch_act (PMailbox x) a = a\<lparr>mailbox := Some x\<rparr>"
| "patch_act (PCopy x) a = a\<lparr>copy := Some x\<rparr>"
| "patch_act (PAddress x) a = a\<lparr>address := Some x\<rparr>"
| "patch_act (PText x) a = a\<lparr>rtext := Some x\<rparr>"
| "patch_act (PFlag x) a = a\<lparr>flag := Some x\<rparr>"

text \<open>\<open>prev.map((r) => (r.id === id ? f(r) : r))\<close>\<close>

definition map_rule :: "string \<Rightarrow> (sieve_rule \<Rightarrow> sieve_rule) \<Rightarrow> sieve_rule list \<Rightarrow> sieve_rule list" where
  "map_rule i f rules = map (\<lambda>r. if rule_id r = i then f r else r) rules"

definition updateRule :: "string \<Rightarrow> rule_patch \<Rightarrow> sieve_rule list \<Rightarrow> sieve_rule list" where
  "updateRule i p = map_rule i (patch_rule p)"

definition removeRule :: "string \<Rightarrow> sieve_rule list \<Rightarrow> sieve_rule list" where
  "removeRule i rules = filter (\<lambda>r. rule_id r \<noteq> i) rules"

definition addCondition :: "string \<Rightarrow> string \<Rightarrow> sieve_rule list \<Rightarrow> sieve_rule list" where
  "addCondition j i = map_rule i (\<lambda>r. r\<lparr>conditions := conditions r @ [newCondition j]\<rparr>)"

definition updateCondition :: "string \<Rightarrow> string \<Rightarrow> cond_patch \<Rightarrow> sieve_rule list \<Rightarrow> sieve_rule list" where
  "updateCondition i ci p =
     map_rule i (\<lambda>r. r\<lparr>conditions := map (\<lambda>c. if cond_id c = ci then patch_cond p c else c) (conditions r)\<rparr>)"

definition removeCondition :: "string \<Rightarrow> string \<Rightarrow> sieve_rule list \<Rightarrow> sieve_rule list" where
  "removeCondition i ci = map_rule i (\<lambda>r. r\<lparr>conditions := filter (\<lambda>c. cond_id c \<noteq> ci) (conditions r)\<rparr>)"

definition addAction :: "string \<Rightarrow> string \<Rightarrow> sieve_rule list \<Rightarrow> sieve_rule list" where
  "addAction j i = map_rule i (\<lambda>r. r\<lparr>actions := actions r @ [newAction j]\<rparr>)"

definition updateAction :: "string \<Rightarrow> string \<Rightarrow> act_patch \<Rightarrow> sieve_rule list \<Rightarrow> sieve_rule list" where
  "updateAction i ai p =
     map_rule i (\<lambda>r. r\<lparr>actions := map (\<lambda>a. if act_id a = ai then patch_act p a else a) (actions r)\<rparr>)"

definition removeAction :: "string \<Rightarrow> string \<Rightarrow> sieve_rule list \<Rightarrow> sieve_rule list" where
  "removeAction i ai = map_rule i (\<lambda>r. r\<lparr>actions := filter (\<lambda>a. act_id a \<noteq> ai) (actions r)\<rparr>)"

text \<open>One edit of the form.\<close>

datatype rule_edit =
    AddRule string string string
  | UpdateRule string rule_patch
  | RemoveRule string
  | AddCondition string string
  | UpdateCondition string string cond_patch
  | RemoveCondition string string
  | AddAction string string
  | UpdateAction string string act_patch
  | RemoveAction string string

fun edit_rules :: "(nat \<Rightarrow> string) \<Rightarrow> rule_edit \<Rightarrow> sieve_rule list \<Rightarrow> sieve_rule list" where
  "edit_rules t (AddRule i j k) rs = addRule t i j k rs"
| "edit_rules t (UpdateRule i p) rs = updateRule i p rs"
| "edit_rules t (RemoveRule i) rs = removeRule i rs"
| "edit_rules t (AddCondition i j) rs = addCondition j i rs"
| "edit_rules t (UpdateCondition i ci p) rs = updateCondition i ci p rs"
| "edit_rules t (RemoveCondition i ci) rs = removeCondition i ci rs"
| "edit_rules t (AddAction i j) rs = addAction j i rs"
| "edit_rules t (UpdateAction i ai p) rs = updateAction i ai p rs"
| "edit_rules t (RemoveAction i ai) rs = removeAction i ai rs"

text \<open>Which fields of a condition and of an action the form shows.\<close>

definition needsValue :: "sieve_condition \<Rightarrow> bool" where
  "needsValue c \<longleftrightarrow> test c \<noteq> TExists \<and> test c \<noteq> TTrue"

definition needsHeader :: "sieve_condition \<Rightarrow> bool" where
  "needsHeader c \<longleftrightarrow> test c \<noteq> TTrue"

definition shows_negated :: "sieve_condition \<Rightarrow> bool" where
  "shows_negated c \<longleftrightarrow> needsValue c \<or> test c = TExists"

section \<open>The text editor and the state of both\<close>

record builder =
  bu_key :: nat
  bu_saving :: bool
  bu_error :: "message option"

definition init_builder :: "nat \<Rightarrow> builder" where
  "init_builder k = \<lparr>bu_key = k, bu_saving = False, bu_error = None\<rparr>"

record editor =
  ed_key :: nat
  ed_content :: string
  ed_saving :: bool
  ed_checking :: bool
  ed_checkResult :: "(bool \<times> message) option"
  ed_error :: "message option"
  ed_deps :: "string \<times> string"

definition init_editor :: "nat \<Rightarrow> string \<Rightarrow> string \<Rightarrow> editor" where
  "init_editor k initialContent scriptName =
     \<lparr>ed_key = k, ed_content = initialContent, ed_saving = False, ed_checking = False, ed_checkResult = None,
      ed_error = None, ed_deps = (initialContent, scriptName)\<rparr>"

text \<open>The effect that resets the editor when it gets another text or script.\<close>

definition editor_effect :: "string \<Rightarrow> string \<Rightarrow> editor \<Rightarrow> editor" where
  "editor_effect initialContent scriptName e =
     (if ed_deps e = (initialContent, scriptName) then e
      else e\<lparr>ed_content := initialContent, ed_checkResult := None, ed_error := None,
             ed_deps := (initialContent, scriptName)\<rparr>)"

definition handleCheck :: "string \<Rightarrow> editor \<Rightarrow> editor \<times> call" where
  "handleCheck accountId e =
     (e\<lparr>ed_checking := True, ed_checkResult := None, ed_error := None\<rparr>,
      sieve_check (ed_content e) (Some accountId))"

definition check_ends :: "message + unit \<Rightarrow> editor \<Rightarrow> editor" where
  "check_ends res e =
     e\<lparr>ed_checkResult :=
         Some (case res of Inr _ \<Rightarrow> (True, Tr ''sieve.syntaxOk'' []) | Inl m \<Rightarrow> (False, message_or ''sieve.syntaxBad'' m)),
       ed_checking := False\<rparr>"

end
