(* ===== verification/SievePage.thy ===== *)
theory SievePage
  imports RuleEditor Machine
begin

text \<open>
  The page of the Sieve scripts, \<open>frontend/src/components/sieve/SievePage.tsx\<close>, with the two editors that it
  shows.  The queries are the caches of the lists and of the texts; their answers are events, and the
  effects run after each render until nothing changes.  A handler is cut at its \<open>await\<close>: what it waits for
  is a \<open>waiting\<close> value with the variables of its closure.  \<open>u\<close> gives the random ids of the parser.
\<close>

section \<open>State\<close>

record script_info =
  si_name :: string
  si_active :: bool

datatype sieve_mode = RulesMode | RawMode

text \<open>What is awaited: the account and the script, and what the closure remembers.\<close>

datatype waiting =
    WCreate string string
  | WDeactivate string string bool
  | WRemove string string bool
  | WActivate string string
  | WPut string string bool bool nat
  | WPutActivate string string bool nat
  | WCheck nat

record sieve_page =
  sp_account :: string
  sp_mode :: sieve_mode
  sp_selected :: string
  sp_newName :: string
  sp_showNew :: bool
  sp_deleteTarget :: "string option"
  sp_rules :: "sieve_rule list"
  sp_rawFallback :: bool
  sp_lists :: "string \<Rightarrow> script_info list option"
  sp_failed :: "string \<Rightarrow> bool"
  sp_texts :: "string \<times> string \<Rightarrow> string option"
  sp_seen :: "((string \<times> string) \<times> string) option"
  sp_builder :: "builder option"
  sp_editor :: "editor option"
  sp_mounts :: nat
  sp_waiting :: "waiting list"
  sp_requests :: "call list"
  sp_toasts :: "message list"

definition init_page :: "string \<Rightarrow> sieve_page" where
  "init_page a =
     \<lparr>sp_account = a, sp_mode = RulesMode, sp_selected = [], sp_newName = [], sp_showNew = False,
      sp_deleteTarget = None, sp_rules = [], sp_rawFallback = False, sp_lists = (\<lambda>_. None),
      sp_failed = (\<lambda>_. False), sp_texts = (\<lambda>_. None), sp_seen = None, sp_builder = None, sp_editor = None,
      sp_mounts = 0, sp_waiting = [], sp_requests = [], sp_toasts = []\<rparr>"

definition page_scripts :: "sieve_page \<Rightarrow> script_info list option" where
  "page_scripts s = sp_lists s (sp_account s)"

definition scriptContent :: "sieve_page \<Rightarrow> string option" where
  "scriptContent s = sp_texts s (sp_account s, sp_selected s)"

section \<open>Effects\<close>

definition has_script :: "string \<Rightarrow> script_info list \<Rightarrow> bool" where
  "has_script n xs \<longleftrightarrow> list_ex (\<lambda>x. si_name x = n) xs"

text \<open>The selection follows the list.\<close>

definition select_effect :: "sieve_page \<Rightarrow> sieve_page" where
  "select_effect s =
     (case page_scripts s of
        None \<Rightarrow> s\<lparr>sp_selected := []\<rparr>
      | Some [] \<Rightarrow> s\<lparr>sp_selected := []\<rparr>
      | Some (x # xs) \<Rightarrow>
          if sp_selected s = [] \<or> \<not> has_script (sp_selected s) (x # xs)
          then s\<lparr>sp_selected := (case find si_active (x # xs) of Some a \<Rightarrow> si_name a | None \<Rightarrow> si_name x)\<rparr>
          else s)"

text \<open>The text that arrives becomes rules, or the page falls back to the source.\<close>

definition load_rules :: "(nat \<Rightarrow> string) \<Rightarrow> string option \<Rightarrow> sieve_page \<Rightarrow> sieve_page" where
  "load_rules u c s =
     (case c of
        None \<Rightarrow> s\<lparr>sp_rules := [], sp_rawFallback := False\<rparr>
      | Some content \<Rightarrow>
          if content = [] then s\<lparr>sp_rules := [], sp_rawFallback := False\<rparr>
          else
            (case sieveToRules u content of
               Some parsed \<Rightarrow> s\<lparr>sp_rules := parsed, sp_rawFallback := False\<rparr>
             | None \<Rightarrow> s\<lparr>sp_rules := [], sp_rawFallback := True, sp_mode := RawMode\<rparr>))"

definition content_key :: "sieve_page \<Rightarrow> ((string \<times> string) \<times> string) option" where
  "content_key s = map_option (Pair (sp_account s, sp_selected s)) (scriptContent s)"

definition content_effect :: "(nat \<Rightarrow> string) \<Rightarrow> sieve_page \<Rightarrow> sieve_page" where
  "content_effect u s =
     (if content_key s = sp_seen s then s
      else (load_rules u (scriptContent s) s)\<lparr>sp_seen := content_key s\<rparr>)"

section \<open>What is shown\<close>

definition page_shown :: "sieve_page \<Rightarrow> bool" where
  "page_shown s \<longleftrightarrow> sp_account s \<noteq> [] \<and> \<not> sp_failed s (sp_account s)"

definition builder_shown :: "sieve_page \<Rightarrow> bool" where
  "builder_shown s \<longleftrightarrow>
     page_shown s \<and> sp_selected s \<noteq> [] \<and> scriptContent s \<noteq> None \<and> sp_mode s = RulesMode \<and> \<not> sp_rawFallback s"

definition editor_shown :: "sieve_page \<Rightarrow> bool" where
  "editor_shown s \<longleftrightarrow>
     page_shown s \<and> sp_selected s \<noteq> [] \<and> scriptContent s \<noteq> None \<and> \<not> (sp_mode s = RulesMode \<and> \<not> sp_rawFallback s)"

text \<open>An editor that comes into view starts afresh; one that goes is forgotten.\<close>

definition mount :: "sieve_page \<Rightarrow> sieve_page" where
  "mount s =
     s\<lparr>sp_builder := (if builder_shown s
         then Some (case sp_builder s of Some b \<Rightarrow> b | None \<Rightarrow> init_builder (sp_mounts s)) else None),
       sp_editor := (if editor_shown s
         then Some (case sp_editor s of
             Some e \<Rightarrow> editor_effect (opt_string (scriptContent s)) (sp_selected s) e
           | None \<Rightarrow> init_editor (sp_mounts s) (opt_string (scriptContent s)) (sp_selected s))
         else None),
       sp_mounts := Suc (sp_mounts s)\<rparr>"

text \<open>Renders follow one another until the effects change nothing: the first may change the selection and the
  second reads the text of the new one.\<close>

definition render_page :: "(nat \<Rightarrow> string) \<Rightarrow> sieve_page \<Rightarrow> sieve_page" where
  "render_page u s = select_effect (content_effect u (mount s))"

definition settle :: "(nat \<Rightarrow> string) \<Rightarrow> sieve_page \<Rightarrow> sieve_page" where
  "settle u s = mount (render_page u (render_page u s))"

section \<open>Handlers\<close>

definition send_and_wait :: "call \<Rightarrow> waiting \<Rightarrow> sieve_page \<Rightarrow> sieve_page" where
  "send_and_wait c w s = s\<lparr>sp_requests := sp_requests s @ [c], sp_waiting := sp_waiting s @ [w]\<rparr>"

definition notice :: "message \<Rightarrow> sieve_page \<Rightarrow> sieve_page" where
  "notice m s = s\<lparr>sp_toasts := sp_toasts s @ [m]\<rparr>"

text \<open>\<open>raw.replace(/\.sieve$/i, '')\<close>\<close>

definition strip_extension :: "string \<Rightarrow> string" where
  "strip_extension raw =
     (if 6 \<le> length raw \<and> to_lower (drop (length raw - 6) raw) = ''.sieve'' then take (length raw - 6) raw else raw)"

definition handleCreate :: "sieve_page \<Rightarrow> sieve_page" where
  "handleCreate s =
     (let raw = trim (sp_newName s); safe = strip_extension raw
      in if raw = [] then s
         else if safe = [] then notice (Tr ''sieve.invalidName'' []) s
         else if (case page_scripts s of None \<Rightarrow> False | Some xs \<Rightarrow> has_script safe xs)
         then notice (Tr ''sieve.duplicateName'' []) s
         else send_and_wait
           (sieve_put safe (if sp_mode s = RulesMode then rulesToSieve [] else ''# New sieve script'' @ [nl])
              (Some (sp_account s)))
           (WCreate (sp_account s) safe) s)"

definition create_ends :: "string \<Rightarrow> message + unit \<Rightarrow> sieve_page \<Rightarrow> sieve_page" where
  "create_ends safe res s =
     (case res of
        Inl m \<Rightarrow> notice (Tr ''sieve.createFailed'' [(''error'', m)]) s
      | Inr _ \<Rightarrow> notice (Tr ''sieve.created'' [(''name'', Raw safe)])
          (s\<lparr>sp_selected := safe, sp_showNew := False, sp_newName := []\<rparr>))"

definition remove_script :: "string \<Rightarrow> string \<Rightarrow> bool \<Rightarrow> sieve_page \<Rightarrow> sieve_page" where
  "remove_script acc name wasSelected = send_and_wait (sieve_remove name (Some acc)) (WRemove acc name wasSelected)"

definition is_active_script :: "string \<Rightarrow> sieve_page \<Rightarrow> bool" where
  "is_active_script name s \<longleftrightarrow>
     (case page_scripts s of
        None \<Rightarrow> False
      | Some xs \<Rightarrow> (case find (\<lambda>x. si_name x = name) xs of None \<Rightarrow> False | Some x \<Rightarrow> si_active x))"

definition handleDelete :: "string \<Rightarrow> sieve_page \<Rightarrow> sieve_page" where
  "handleDelete name s =
     (let acc = sp_account s; wasSelected = (sp_selected s = name)
      in if is_active_script name s
         then send_and_wait (sieve_deactivate (Some acc)) (WDeactivate acc name wasSelected) s
         else remove_script acc name wasSelected s)"

definition delete_fails :: "message \<Rightarrow> sieve_page \<Rightarrow> sieve_page" where
  "delete_fails m = notice (Tr ''sieve.deleteFailed'' [(''error'', m)])"

definition delete_ends :: "string \<Rightarrow> bool \<Rightarrow> message + unit \<Rightarrow> sieve_page \<Rightarrow> sieve_page" where
  "delete_ends name wasSelected res s =
     (case res of
        Inl m \<Rightarrow> delete_fails m s
      | Inr _ \<Rightarrow> notice (Tr ''sieve.deleted'' [(''name'', Raw name)])
          (s\<lparr>sp_deleteTarget := None, sp_selected := (if wasSelected then [] else sp_selected s)\<rparr>))"

definition handleActivate :: "string \<Rightarrow> sieve_page \<Rightarrow> sieve_page" where
  "handleActivate name s =
     send_and_wait (sieve_activate name (Some (sp_account s))) (WActivate (sp_account s) name) s"

definition activate_ends :: "string \<Rightarrow> message + unit \<Rightarrow> sieve_page \<Rightarrow> sieve_page" where
  "activate_ends name res s =
     (case res of
        Inl m \<Rightarrow> notice (Tr ''sieve.activateFailed'' [(''error'', m)]) s
      | Inr _ \<Rightarrow> notice (Tr ''sieve.activated'' [(''name'', Raw name)]) s)"

subsection \<open>Saving\<close>

text \<open>The state of the editor that waits, if it is still the same one.\<close>

definition on_builder :: "nat \<Rightarrow> (builder \<Rightarrow> builder) \<Rightarrow> sieve_page \<Rightarrow> sieve_page" where
  "on_builder k f s = s\<lparr>sp_builder := map_option (\<lambda>b. if bu_key b = k then f b else b) (sp_builder s)\<rparr>"

definition on_editor :: "nat \<Rightarrow> (editor \<Rightarrow> editor) \<Rightarrow> sieve_page \<Rightarrow> sieve_page" where
  "on_editor k f s = s\<lparr>sp_editor := map_option (\<lambda>e. if ed_key e = k then f e else e) (sp_editor s)\<rparr>"

definition save_rules :: "bool \<Rightarrow> builder \<Rightarrow> sieve_page \<Rightarrow> sieve_page" where
  "save_rules activate b s =
     send_and_wait (sieve_put (sp_selected s) (rulesToSieve (sp_rules s)) (Some (sp_account s)))
       (WPut (sp_account s) (sp_selected s) activate True (bu_key b))
       (on_builder (bu_key b) (\<lambda>b. b\<lparr>bu_saving := True, bu_error := None\<rparr>) s)"

definition save_content :: "bool \<Rightarrow> editor \<Rightarrow> sieve_page \<Rightarrow> sieve_page" where
  "save_content activate e s =
     send_and_wait (sieve_put (sp_selected s) (ed_content e) (Some (sp_account s)))
       (WPut (sp_account s) (sp_selected s) activate False (ed_key e))
       (on_editor (ed_key e) (\<lambda>e. e\<lparr>ed_saving := True, ed_error := None\<rparr>) s)"

definition not_saving :: "bool \<Rightarrow> nat \<Rightarrow> message option \<Rightarrow> sieve_page \<Rightarrow> sieve_page" where
  "not_saving visual k err s =
     (if visual
      then on_builder k (\<lambda>b. b\<lparr>bu_saving := False, bu_error := (if err = None then bu_error b else err)\<rparr>) s
      else on_editor k (\<lambda>e. e\<lparr>ed_saving := False, ed_error := (if err = None then ed_error e else err)\<rparr>) s)"

definition onSaved :: "bool \<Rightarrow> nat \<Rightarrow> sieve_page \<Rightarrow> sieve_page" where
  "onSaved visual k s =
     not_saving visual k None (notice (Tr (if visual then ''sieve.savedReload'' else ''sieve.saved'') []) s)"

definition save_fails :: "bool \<Rightarrow> nat \<Rightarrow> message \<Rightarrow> sieve_page \<Rightarrow> sieve_page" where
  "save_fails visual k m = not_saving visual k (Some (message_or ''sieve.saveFailed'' m))"

section \<open>Events\<close>

fun arrives :: "waiting \<Rightarrow> message + unit \<Rightarrow> sieve_page \<Rightarrow> sieve_page" where
  "arrives (WCreate acc n) res s = create_ends n res s"
| "arrives (WDeactivate acc n was) res s =
     (case res of Inl m \<Rightarrow> delete_fails m s | Inr _ \<Rightarrow> remove_script acc n was s)"
| "arrives (WRemove acc n was) res s = delete_ends n was res s"
| "arrives (WActivate acc n) res s = activate_ends n res s"
| "arrives (WPut acc n activate visual k) res s =
     (case res of
        Inl m \<Rightarrow> save_fails visual k m s
      | Inr _ \<Rightarrow>
          if activate then send_and_wait (sieve_activate n (Some acc)) (WPutActivate acc n visual k) s
          else onSaved visual k s)"
| "arrives (WPutActivate acc n visual k) res s =
     (case res of Inl m \<Rightarrow> save_fails visual k m s | Inr _ \<Rightarrow> onSaved visual k s)"
| "arrives (WCheck k) res s = on_editor k (check_ends res) s"

datatype page_event =
    ListReply string "message + script_info list"
  | TextReply string string string
  | PickAccount string
  | PickScript string
  | ToggleNew
  | TypeName string
  | Create
  | AskDelete string
  | CancelDelete
  | ConfirmDelete
  | ActivateScript string
  | PickMode sieve_mode
  | EditRules rule_edit
  | SaveRules bool
  | TypeContent string
  | CheckContent
  | SaveContent bool
  | Arrives waiting "message + unit"

definition listed :: "string \<Rightarrow> sieve_page \<Rightarrow> bool" where
  "listed n s \<longleftrightarrow> page_shown s \<and> (case page_scripts s of None \<Rightarrow> False | Some xs \<Rightarrow> has_script n xs)"

definition list_arrives :: "string \<Rightarrow> message + script_info list \<Rightarrow> sieve_page \<Rightarrow> sieve_page" where
  "list_arrives acc res s =
     (case res of
        Inl _ \<Rightarrow> s\<lparr>sp_failed := (sp_failed s)(acc := True)\<rparr>
      | Inr xs \<Rightarrow> s\<lparr>sp_failed := (sp_failed s)(acc := False), sp_lists := (sp_lists s)(acc \<mapsto> xs)\<rparr>)"

definition pick_mode :: "sieve_mode \<Rightarrow> sieve_page \<Rightarrow> sieve_page" where
  "pick_mode m s =
     (if (builder_shown s \<or> editor_shown s) \<and> \<not> (m = RulesMode \<and> sp_rawFallback s) then s\<lparr>sp_mode := m\<rparr> else s)"

text \<open>The events of the page: what happens before the next render.  \<open>t\<close> names new rules.\<close>

fun on_event :: "(nat \<Rightarrow> string) \<Rightarrow> page_event \<Rightarrow> sieve_page \<Rightarrow> sieve_page" where
  "on_event t (ListReply acc res) s = (if acc = [] then s else list_arrives acc res s)"
| "on_event t (TextReply acc n content) s =
     (if acc = [] \<or> n = [] then s else s\<lparr>sp_texts := (sp_texts s)((acc, n) \<mapsto> content)\<rparr>)"
| "on_event t (PickAccount acc) s = s\<lparr>sp_account := acc\<rparr>"
| "on_event t (PickScript n) s = (if listed n s then s\<lparr>sp_selected := n\<rparr> else s)"
| "on_event t ToggleNew s = (if page_shown s then s\<lparr>sp_showNew := \<not> sp_showNew s\<rparr> else s)"
| "on_event t (TypeName v) s = (if page_shown s \<and> sp_showNew s then s\<lparr>sp_newName := v\<rparr> else s)"
| "on_event t Create s = (if page_shown s \<and> sp_showNew s then handleCreate s else s)"
| "on_event t (AskDelete n) s = (if listed n s then s\<lparr>sp_deleteTarget := Some n\<rparr> else s)"
| "on_event t CancelDelete s = s\<lparr>sp_deleteTarget := None\<rparr>"
| "on_event t ConfirmDelete s =
     (if truthy_opt (sp_deleteTarget s) then handleDelete (opt_string (sp_deleteTarget s)) s else s)"
| "on_event t (ActivateScript n) s =
     (if listed n s \<and> \<not> is_active_script n s then handleActivate n s else s)"
| "on_event t (PickMode m) s = pick_mode m s"
| "on_event t (EditRules e) s =
     (if sp_builder s = None then s else s\<lparr>sp_rules := edit_rules t e (sp_rules s)\<rparr>)"
| "on_event t (SaveRules activate) s =
     (case sp_builder s of None \<Rightarrow> s | Some b \<Rightarrow> if bu_saving b then s else save_rules activate b s)"
| "on_event t (TypeContent v) s =
     (case sp_editor s of None \<Rightarrow> s | Some e \<Rightarrow> on_editor (ed_key e) (\<lambda>e. e\<lparr>ed_content := v\<rparr>) s)"
| "on_event t CheckContent s =
     (case sp_editor s of
        None \<Rightarrow> s
      | Some e \<Rightarrow>
          if ed_checking e then s
          else send_and_wait (snd (handleCheck (sp_account s) e)) (WCheck (ed_key e))
                 (on_editor (ed_key e) (\<lambda>e. fst (handleCheck (sp_account s) e)) s))"
| "on_event t (SaveContent activate) s =
     (case sp_editor s of None \<Rightarrow> s | Some e \<Rightarrow> if ed_saving e then s else save_content activate e s)"
| "on_event t (Arrives w res) s =
     (if w \<in> set (sp_waiting s) then arrives w res (s\<lparr>sp_waiting := remove1 w (sp_waiting s)\<rparr>) else s)"

definition page_step :: "(nat \<Rightarrow> string) \<Rightarrow> (nat \<Rightarrow> string) \<Rightarrow> page_event \<Rightarrow> sieve_page \<Rightarrow> sieve_page" where
  "page_step u t e s = settle u (on_event t e s)"

definition start_page :: "(nat \<Rightarrow> string) \<Rightarrow> string \<Rightarrow> sieve_page" where
  "start_page u a = settle u (init_page a)"

end
