(* ===== verification/RuleEditorProps.thy ===== *)
theory RuleEditorProps
  imports RuleEditor SieveReparse
begin

text \<open>
  Properties of the editing of rules: an edit changes only what it names, the ids stay distinct, and
  what becomes of the rules of the form when they are saved and read back.
\<close>

section \<open>Edits\<close>

text \<open>The rule that an edit names.\<close>

fun edited :: "rule_edit \<Rightarrow> string" where
  "edited (AddRule i j k) = i"
| "edited (UpdateRule i p) = i"
| "edited (RemoveRule i) = i"
| "edited (AddCondition i j) = i"
| "edited (UpdateCondition i c p) = i"
| "edited (RemoveCondition i c) = i"
| "edited (AddAction i j) = i"
| "edited (UpdateAction i a p) = i"
| "edited (RemoveAction i a) = i"

definition rule_ids :: "sieve_rule list \<Rightarrow> string list" where
  "rule_ids rs = map rule_id rs"

definition part_ids :: "sieve_rule \<Rightarrow> string list" where
  "part_ids r = map cond_id (conditions r) @ map act_id (actions r)"

text \<open>No id is used twice among the rules, nor among the parts of one rule.\<close>

definition distinct_ids :: "sieve_rule list \<Rightarrow> bool" where
  "distinct_ids rs \<longleftrightarrow> distinct (rule_ids rs) \<and> list_all (\<lambda>r. distinct (part_ids r)) rs"

text \<open>The ids that an edit draws have not been used.\<close>

fun fresh_ids :: "rule_edit \<Rightarrow> sieve_rule list \<Rightarrow> bool" where
  "fresh_ids (AddRule i j k) rs \<longleftrightarrow> i \<notin> set (rule_ids rs) \<and> j \<noteq> k"
| "fresh_ids (AddCondition i j) rs \<longleftrightarrow> list_all (\<lambda>r. j \<notin> set (part_ids r)) rs"
| "fresh_ids (AddAction i j) rs \<longleftrightarrow> list_all (\<lambda>r. j \<notin> set (part_ids r)) rs"
| "fresh_ids _ rs \<longleftrightarrow> True"

lemma patch_rule_ids [simp]: "rule_id (patch_rule p r) = rule_id r \<and> part_ids (patch_rule p r) = part_ids r"
  by (cases p) (simp_all add: part_ids_def)

lemma patch_cond_id [simp]: "cond_id (patch_cond q c) = cond_id c"
  by (cases q) simp_all

lemma patch_act_id [simp]: "act_id (patch_act v a) = act_id a"
  by (cases v) simp_all

lemma map_rule_ids: "(\<And>r. rule_id (f r) = rule_id r) \<Longrightarrow> rule_ids (map_rule i f rs) = rule_ids rs"
  by (simp add: rule_ids_def map_rule_def comp_def if_distrib cong: if_cong)

lemma map_rule_distinct:
  assumes "distinct_ids rs" and "\<And>r. rule_id (f r) = rule_id r"
    and "\<And>r. r \<in> set rs \<Longrightarrow> distinct (part_ids r) \<Longrightarrow> distinct (part_ids (f r))"
  shows "distinct_ids (map_rule i f rs)"
  using assms(1) assms(3) map_rule_ids [OF assms(2)]
  by (auto simp: distinct_ids_def list_all_iff map_rule_def)

lemma map_rule_others:
  "(\<And>r. rule_id (f r) = rule_id r) \<Longrightarrow> filter (\<lambda>r. rule_id r \<noteq> i) (map_rule i f rs) = filter (\<lambda>r. rule_id r \<noteq> i) rs"
  by (induction rs) (simp_all add: map_rule_def)

lemmas rule_edits =
  updateRule_def removeRule_def addCondition_def updateCondition_def removeCondition_def addAction_def
  updateAction_def removeAction_def addRule_def

lemma edit_others:
  "filter (\<lambda>r. rule_id r \<noteq> edited e) (edit_rules t e rs) = filter (\<lambda>r. rule_id r \<noteq> edited e) rs"
  by (cases e) (simp_all add: rule_edits map_rule_others)

lemma map_if_ids:
  "(\<And>c. g (h c) = g c) \<Longrightarrow> map g (map (\<lambda>c. if P c then h c else c) cs) = map g cs"
  by (induction cs) simp_all

text \<open>What an edit makes of the ids of the parts.\<close>

lemma part_ids_edits:
  "part_ids (r\<lparr>conditions := map (\<lambda>c. if cond_id c = ci then patch_cond p c else c) (conditions r)\<rparr>) = part_ids r"
  "part_ids (r\<lparr>actions := map (\<lambda>a. if act_id a = ai then patch_act q a else a) (actions r)\<rparr>) = part_ids r"
  "part_ids (r\<lparr>conditions := conditions r @ [newCondition j]\<rparr>)
     = map cond_id (conditions r) @ j # map act_id (actions r)"
  "part_ids (r\<lparr>actions := actions r @ [newAction j]\<rparr>) = part_ids r @ [j]"
  by (simp_all only: part_ids_def sieve_rule.simps map_if_ids patch_cond_id patch_act_id) (simp_all add: newCondition_def newAction_def)

lemma distinct_part_filter:
  "distinct (part_ids r) \<Longrightarrow> distinct (part_ids (r\<lparr>conditions := filter P (conditions r)\<rparr>))"
  "distinct (part_ids r) \<Longrightarrow> distinct (part_ids (r\<lparr>actions := filter Q (actions r)\<rparr>))"
  by (auto simp: part_ids_def distinct_map_filter)

lemma edit_distinct:
  assumes "distinct_ids rs" and "fresh_ids e rs"
  shows "distinct_ids (edit_rules t e rs)"
proof (cases e)
  case (RemoveRule i)
  with assms show ?thesis
    by (auto simp: distinct_ids_def removeRule_def rule_ids_def list_all_iff distinct_map_filter)
next
  case (AddRule i j k)
  with assms show ?thesis
    by (auto simp: distinct_ids_def addRule_def rule_ids_def part_ids_def newCondition_def newAction_def)
next
  case (AddCondition i j)
  with assms show ?thesis
    by (auto simp: addCondition_def part_ids_edits list_all_iff intro!: map_rule_distinct) (auto simp: part_ids_def)
next
  case (AddAction i j)
  with assms show ?thesis
    by (auto simp: addAction_def part_ids_edits list_all_iff intro!: map_rule_distinct)
qed (use assms in \<open>auto simp: rule_edits part_ids_edits intro!: map_rule_distinct distinct_part_filter\<close>)

text \<open>An edit of the form changes only the rule that it names, leaves the others in their order, and keeps the
  ids of rules and parts distinct when the ids that it draws are new.\<close>

theorem edits_are_local:
  assumes "distinct_ids rs" and "fresh_ids e rs"
  shows "filter (\<lambda>r. rule_id r \<noteq> edited e) (edit_rules t e rs) = filter (\<lambda>r. rule_id r \<noteq> edited e) rs
    \<and> distinct_ids (edit_rules t e rs)"
  using edit_others edit_distinct [OF assms] by blast

section \<open>What is saved\<close>

text \<open>The comma-separated field as it is read back.\<close>

definition tidy_field :: "string \<Rightarrow> string" where
  "tidy_field h = join '','' (splitList (Some h))"

lemma splitList_tidy: "splitList (Some (tidy_field h)) = splitList (Some h)"
proof (cases "splitList (Some h) = []")
  case True
  then show ?thesis by (simp add: tidy_field_def splitList_def opt_string_def)
next
  case False
  then show ?thesis unfolding tidy_field_def by (intro splitList_join) (auto dest: splitList_pieces)
qed

lemma canon_tidy: "splitList (Some h) \<noteq> [] \<Longrightarrow> canon_list (tidy_field h)"
  unfolding canon_list_def by (simp only: splitList_tidy) (simp add: tidy_field_def)

text \<open>A condition that the text can say, and what is left of it.\<close>

definition sayable_cond :: "sieve_condition \<Rightarrow> bool" where
  "sayable_cond c \<longleftrightarrow>
     (case test c of
        TTrue \<Rightarrow> \<not> negated c
      | TAddress \<Rightarrow> True
      | _ \<Rightarrow> splitList (Some (hdr c)) \<noteq> [])"

definition saved_cond :: "sieve_condition \<Rightarrow> sieve_condition" where
  "saved_cond c =
     (case test c of
        TTrue \<Rightarrow> c\<lparr>part := NoPart, cop := Is, hdr := [], val := []\<rparr>
      | TExists \<Rightarrow> c\<lparr>part := NoPart, cop := Is, hdr := tidy_field (hdr c), val := []\<rparr>
      | TAddress \<Rightarrow> c\<lparr>hdr := tidy_field (hdr c)\<rparr>
      | THeader \<Rightarrow> c\<lparr>part := NoPart, hdr := tidy_field (hdr c)\<rparr>)"

lemma saved_cond_text: "conditionTest (saved_cond c) = conditionTest c"
  by (cases "test c") (simp_all add: saved_cond_def conditionTest_def splitList_tidy cong: if_cong)

lemma tidy_empty: "splitList (Some h) = [] \<Longrightarrow> tidy_field h = []"
  by (simp add: tidy_field_def)

lemma saved_cond_canon: "sayable_cond c \<Longrightarrow> canon_cond (saved_cond c)"
  by (cases "test c"; cases "splitList (Some (hdr c)) = []")
    (simp_all add: saved_cond_def canon_cond_def sayable_cond_def canon_tidy tidy_empty)

definition sayable_action :: "sieve_action \<Rightarrow> bool" where
  "sayable_action a \<longleftrightarrow>
     (case atype a of
        Fileinto \<Rightarrow> splitList (mailbox a) \<noteq> []
      | Redirect \<Rightarrow> opt_string (address a) \<noteq> []
      | Setflag \<Rightarrow> splitList (flag a) \<noteq> [] \<and> list_all (\<lambda>f. one_backslash f = f) (splitList (flag a))
      | Addflag \<Rightarrow> splitList (flag a) \<noteq> [] \<and> list_all (\<lambda>f. one_backslash f = f) (splitList (flag a))
      | Removeflag \<Rightarrow> splitList (flag a) \<noteq> [] \<and> list_all (\<lambda>f. one_backslash f = f) (splitList (flag a))
      | _ \<Rightarrow> True)"

definition saved_action :: "sieve_action \<Rightarrow> sieve_action" where
  "saved_action a =
     (let b = blank_action (act_id a) (atype a)
      in case atype a of
           Fileinto \<Rightarrow> b\<lparr>mailbox := Some (tidy_field (opt_string (mailbox a))), copy := Some (copy a = Some True)\<rparr>
         | Redirect \<Rightarrow> b\<lparr>address := Some (opt_string (address a))\<rparr>
         | Reject \<Rightarrow> b\<lparr>rtext := Some (or_else (opt_string (rtext a)) ''Rejected'')\<rparr>
         | Setflag \<Rightarrow> b\<lparr>flag := Some (tidy_field (opt_string (flag a)))\<rparr>
         | Addflag \<Rightarrow> b\<lparr>flag := Some (tidy_field (opt_string (flag a)))\<rparr>
         | Removeflag \<Rightarrow> b\<lparr>flag := Some (tidy_field (opt_string (flag a)))\<rparr>
         | _ \<Rightarrow> b)"

lemma splitList_opt: "splitList (Some (opt_string so)) = splitList so"
  by (simp add: splitList_def opt_string_def split: option.split)

lemma saved_action_type [simp]: "atype (saved_action a) = atype a"
  by (cases "atype a") (simp_all add: saved_action_def blank_action_def)

lemma saved_action_text: "actionToSieve (saved_action a) = actionToSieve a"
  by (cases "atype a")
    (simp_all add: saved_action_def blank_action_def actionToSieve_def splitList_tidy splitList_opt or_else_def
      cong: if_cong)

lemma saved_action_requires: "actionRequires (saved_action a) = actionRequires a"
  by (cases "atype a") (simp_all add: saved_action_def blank_action_def actionRequires_def fun_eq_iff)

lemma saved_action_canon: "sayable_action a \<Longrightarrow> canon_action (saved_action a)"
  by (cases "atype a")
    (simp_all add: saved_action_def blank_action_def canon_action_def sayable_action_def canon_opt_def canon_tidy
      splitList_tidy splitList_opt or_else_def)

definition saved_actions :: "sieve_action list \<Rightarrow> sieve_action list" where
  "saved_actions acts =
     map saved_action acts
     @ (if list_ex is_terminal acts \<and> \<not> list_ex (\<lambda>a. atype a = Stop) acts then [blank_action [] Stop] else [])"

definition sayable_rule :: "sieve_rule \<Rightarrow> bool" where
  "sayable_rule r \<longleftrightarrow>
     canon_name (rname r) \<and> conditions r \<noteq> [] \<and> list_all sayable_cond (conditions r)
     \<and> list_all sayable_action (actions r)"

text \<open>The rule that is read back for a rule of the form.\<close>

definition saved_rule :: "sieve_rule \<Rightarrow> sieve_rule" where
  "saved_rule r =
     r\<lparr>conditionJoin := (if length (conditions r) = 1 then Allof else conditionJoin r),
       conditions := map saved_cond (conditions r), actions := saved_actions (actions r)\<rparr>"

lemma is_terminal_saved [simp]: "is_terminal (saved_action a) = is_terminal a"
  by (simp add: is_terminal_def)

lemma list_ex_map_comp: "list_ex P (map f xs) = list_ex (\<lambda>x. P (f x)) xs"
  by (induction xs) simp_all

lemma stop_action [simp]:
  "\<not> is_terminal (blank_action i Stop)" "atype (blank_action i Stop) = Stop"
  "actionToSieve (blank_action i Stop) = Some ''stop''"
  by (simp_all add: is_terminal_def blank_action_def actionToSieve_def)

lemma list_ex_saved:
  "list_ex is_terminal (saved_actions acts) = list_ex is_terminal acts"
  "list_ex (\<lambda>a. atype a = Stop) (saved_actions acts)
     = (list_ex is_terminal acts \<or> list_ex (\<lambda>a. atype a = Stop) acts)"
  by (auto simp: saved_actions_def list_ex_map_comp)

lemma saved_body: "rule_body (saved_rule r) = rule_body r"
  by (simp add: rule_body_def saved_rule_def list_ex_saved)
    (simp add: saved_actions_def saved_action_text comp_def)

lemma saved_rule_text:
  assumes "sayable_rule r"
  shows "rule_text (saved_rule r) = rule_text r"
proof -
  have tests: "map conditionTest (conditions (saved_rule r)) = map conditionTest (conditions r)"
    by (simp add: saved_rule_def saved_cond_text)
  have name: "rname (saved_rule r) = rname r" by (simp add: saved_rule_def)
  have join: "conditionJoin (saved_rule r) = conditionJoin r" if "length (conditions r) \<noteq> 1"
    using that by (simp add: saved_rule_def)
  show ?thesis
  proof (cases "length (conditions r) = 1")
    case True
    then obtain c where "conditions r = [c]" by (auto simp: length_Suc_conv)
    with tests show ?thesis by (auto simp: rule_text_def name saved_body Let_def)
  next
    case False
    show ?thesis unfolding rule_text_def tests name saved_body join [OF False] ..
  qed
qed

lemma saved_actions_requires:
  "fold actionRequires (concat (map actions (map saved_rule rs))) req = fold actionRequires (concat (map actions rs)) req"
  by (induction rs arbitrary: req)
    (simp_all add: saved_rule_def saved_actions_def fold_map comp_def saved_action_requires actionRequires_def
      blank_action_def)

lemma enabled_saved: "filter enabled (map saved_rule rs) = map saved_rule (filter enabled rs)"
  by (induction rs) (simp_all add: saved_rule_def)

lemma saved_text:
  assumes "list_all sayable_rule rs" and "list_all enabled rs"
  shows "rulesToSieve (map saved_rule rs) = rulesToSieve rs"
proof -
  have f: "filter enabled rs = rs" "filter enabled (map saved_rule rs) = map saved_rule rs"
    using assms(2) by (simp_all add: enabled_saved filter_id_conv list_all_iff)
  have "map (rule_text \<circ> saved_rule) rs = map rule_text rs"
    using assms(1) by (simp add: list_all_iff saved_rule_text)
  then have "concat (map rule_text (map saved_rule rs)) = concat (map rule_text rs)" by (simp del: map_eq_conv)
  moreover have "require_line (map saved_rule rs) = require_line rs"
    unfolding require_line_def saved_actions_requires ..
  ultimately show ?thesis
    unfolding rulesToSieve_def f Let_def by simp
qed

lemma saved_rule_canon:
  assumes "sayable_rule r" and "enabled r"
  shows "canon_rule (saved_rule r)"
proof -
  have "list_all canon_action (saved_actions (actions r))"
    using assms(1) by (auto simp: sayable_rule_def saved_actions_def list_all_iff saved_action_canon)
      (auto simp: canon_action_def blank_action_def)
  moreover have "list_all canon_cond (map saved_cond (conditions r))"
    using assms(1) by (auto simp: sayable_rule_def list_all_iff saved_cond_canon)
  ultimately show ?thesis
    using assms by (simp add: canon_rule_def sayable_rule_def list_ex_saved) (simp add: saved_rule_def list_ex_saved)
qed

lemma saved_rules_read_back:
  assumes "list_all sayable_rule (filter enabled rs)"
  shows "\<exists>rs'. sieveToRules u (rulesToSieve rs) = Some rs'
    \<and> map strip_rule rs' = map (strip_rule \<circ> saved_rule) (filter enabled rs)"
proof -
  let ?en = "filter enabled rs"
  have en: "list_all enabled ?en" by (simp add: list_all_iff)
  have "rulesToSieve rs = rulesToSieve ?en" by (simp add: rulesToSieve_def filter_filter)
  moreover have "list_all canon_rule (map saved_rule ?en)"
    using assms by (auto simp: list_all_iff saved_rule_canon)
  ultimately show ?thesis
    using sieve_reads_back [of "map saved_rule ?en" u] saved_text [OF assms en] by simp
qed

section \<open>A negation that the form does not show\<close>

lemma updateCondition_in:
  "r \<in> set rs \<Longrightarrow> rule_id r = i \<Longrightarrow>
     r\<lparr>conditions := map (\<lambda>c. if cond_id c = ci then patch_cond p c else c) (conditions r)\<rparr>
     \<in> set (updateCondition i ci p rs)"
  by (force simp: updateCondition_def map_rule_def image_iff)

text \<open>A condition that is negated and then changed to "always" stays negated, without a box that shows it:
  the text of the rule has the test "not true", so that it never applies.\<close>

theorem hidden_not_is_saved:
  assumes "r \<in> set rs" and "conditions r = [c]"
  shows "\<exists>r' \<in> set (fold (edit_rules t) [UpdateCondition (rule_id r) (cond_id c) (PNegated True),
        UpdateCondition (rule_id r) (cond_id c) (PTest TTrue)] rs).
     rule_id r' = rule_id r \<and> \<not> list_ex shows_negated (conditions r')
     \<and> rule_text r' = ''# rule:['' @ rname r @ '']'' @ [nl] @ ''if not true {'' @ [nl] @ rule_body r @ ''}'' @ [nl, nl]"
proof -
  let ?f = "\<lambda>p r. r\<lparr>conditions := map (\<lambda>c'. if cond_id c' = cond_id c then patch_cond p c' else c') (conditions r)\<rparr>"
  let ?r = "?f (PTest TTrue) (?f (PNegated True) r)"
  have "?r \<in> set (updateCondition (rule_id r) (cond_id c) (PTest TTrue)
      (updateCondition (rule_id r) (cond_id c) (PNegated True) rs))"
    by (intro updateCondition_in assms(1)) simp_all
  moreover have "conditions ?r = [c\<lparr>negated := True, test := TTrue\<rparr>]" by (simp add: assms(2))
  moreover have "conditionTest (c\<lparr>negated := True, test := TTrue\<rparr>) = Some ''not true''"
    by (simp add: conditionTest_def)
  moreover have "rule_body ?r = rule_body r" by (simp add: rule_body_def)
  ultimately show ?thesis
    by (intro bexI [of _ ?r]) (simp_all add: rule_text_def Let_def shows_negated_def needsValue_def)
qed

theorem hidden_not_is_saved_witness:
  "\<exists>r' \<in> set (fold (edit_rules (\<lambda>_. ''Rule 1'')) [UpdateCondition ''r'' ''c'' (PNegated True),
        UpdateCondition ''r'' ''c'' (PTest TTrue)] (addRule (\<lambda>_. ''Rule 1'') ''r'' ''c'' ''a'' [])).
     \<not> list_ex shows_negated (conditions r')"
proof -
  let ?r = "hd (addRule (\<lambda>_. ''Rule 1'') ''r'' ''c'' ''a'' [])"
  have r: "?r \<in> set (addRule (\<lambda>_. ''Rule 1'') ''r'' ''c'' ''a'' [])" "conditions ?r = [newCondition ''c'']"
      "rule_id ?r = ''r''" "cond_id (newCondition ''c'') = ''c''"
    by (simp_all add: addRule_def newCondition_def)
  show ?thesis using hidden_not_is_saved [OF r(1,2), of "\<lambda>_. ''Rule 1''"] unfolding r(3,4) by blast
qed

theorem edits_are_local_witness:
  "distinct_ids (edit_rules (\<lambda>_. ''Rule 1'') (AddRule ''r'' ''c'' ''a'') [])"
  using edits_are_local [of "[]" "AddRule ''r'' ''c'' ''a''" "\<lambda>_. ''Rule 1''"]
  by (simp add: distinct_ids_def rule_ids_def)

end
