(* ===== verification/SievePageProps.thy ===== *)
theory SievePageProps
  imports SievePage RuleEditorProps
begin

text \<open>
  Properties of the page of scripts over all its histories: the effects come to rest, the selection follows
  the list, the visual editor is never open on a script that it cannot read, what is saved comes back,
  and what is left when an operation fails half way.
\<close>

section \<open>Effects\<close>

definition rejected :: "(nat \<Rightarrow> string) \<Rightarrow> string option \<Rightarrow> bool" where
  "rejected u c \<longleftrightarrow> (case c of None \<Rightarrow> False | Some t \<Rightarrow> t \<noteq> [] \<and> sieveToRules u t = None)"

text \<open>The rules of a text that has been seen.\<close>

definition loaded :: "(nat \<Rightarrow> string) \<Rightarrow> sieve_page \<Rightarrow> bool" where
  "loaded u s \<longleftrightarrow>
     sp_rawFallback s = rejected u (map_option snd (sp_seen s)) \<and> (sp_rawFallback s \<longrightarrow> sp_mode s = RawMode)"

definition selection_ok :: "sieve_page \<Rightarrow> bool" where
  "selection_ok s \<longleftrightarrow>
     (case page_scripts s of
        None \<Rightarrow> sp_selected s = []
      | Some xs \<Rightarrow> if xs = [] then sp_selected s = [] else has_script (sp_selected s) xs)"

definition mounted :: "sieve_page \<Rightarrow> bool" where
  "mounted s \<longleftrightarrow> (sp_builder s \<noteq> None) = builder_shown s \<and> (sp_editor s \<noteq> None) = editor_shown s"

lemma load_rules_fields:
  "sp_account (load_rules u c s) = sp_account s" "sp_selected (load_rules u c s) = sp_selected s"
  "sp_texts (load_rules u c s) = sp_texts s" "sp_lists (load_rules u c s) = sp_lists s"
  "sp_failed (load_rules u c s) = sp_failed s" "sp_seen (load_rules u c s) = sp_seen s"
  "sp_waiting (load_rules u c s) = sp_waiting s" "sp_requests (load_rules u c s) = sp_requests s"
  "sp_toasts (load_rules u c s) = sp_toasts s" "sp_deleteTarget (load_rules u c s) = sp_deleteTarget s"
  by (auto simp: load_rules_def split: option.split)

lemma content_effect_fields [simp]:
  "sp_account (content_effect u s) = sp_account s" "sp_selected (content_effect u s) = sp_selected s"
  "sp_texts (content_effect u s) = sp_texts s" "sp_lists (content_effect u s) = sp_lists s"
  "sp_failed (content_effect u s) = sp_failed s" "sp_seen (content_effect u s) = content_key s"
  "sp_waiting (content_effect u s) = sp_waiting s" "sp_requests (content_effect u s) = sp_requests s"
  "sp_toasts (content_effect u s) = sp_toasts s" "sp_deleteTarget (content_effect u s) = sp_deleteTarget s"
  by (auto simp: content_effect_def load_rules_fields)

definition chosen :: "script_info list \<Rightarrow> string" where
  "chosen xs = (case find si_active xs of Some a \<Rightarrow> si_name a | None \<Rightarrow> si_name (hd xs))"

definition select :: "script_info list option \<Rightarrow> string \<Rightarrow> string" where
  "select xso n =
     (case xso of
        None \<Rightarrow> []
      | Some xs \<Rightarrow> if xs = [] then [] else if n = [] \<or> \<not> has_script n xs then chosen xs else n)"

lemma select_effect_eq: "select_effect s = s\<lparr>sp_selected := select (page_scripts s) (sp_selected s)\<rparr>"
  by (auto simp: select_effect_def select_def chosen_def split: option.split list.split)

lemma chosen_in: "xs \<noteq> [] \<Longrightarrow> has_script (chosen xs) xs"
  by (cases xs) (auto simp: chosen_def has_script_def list_ex_iff split: option.split dest: find_Some_set)

lemma select_idem [simp]: "select xso (select xso n) = select xso n"
  using chosen_in by (cases xso) (auto simp: select_def)

lemma select_in: "xs \<noteq> [] \<Longrightarrow> has_script (select (Some xs) n) xs"
  by (simp add: select_def chosen_in)

lemma mount_fields [simp]:
  "sp_account (mount s) = sp_account s" "sp_selected (mount s) = sp_selected s"
  "sp_texts (mount s) = sp_texts s" "sp_lists (mount s) = sp_lists s" "sp_failed (mount s) = sp_failed s"
  "sp_seen (mount s) = sp_seen s" "sp_waiting (mount s) = sp_waiting s" "sp_requests (mount s) = sp_requests s"
  "sp_toasts (mount s) = sp_toasts s" "sp_deleteTarget (mount s) = sp_deleteTarget s"
  "sp_rules (mount s) = sp_rules s" "sp_rawFallback (mount s) = sp_rawFallback s" "sp_mode (mount s) = sp_mode s"
  "sp_newName (mount s) = sp_newName s" "sp_showNew (mount s) = sp_showNew s"
  by (simp_all add: mount_def)

lemma page_scripts_cong: "sp_lists s = sp_lists s' \<Longrightarrow> sp_account s = sp_account s' \<Longrightarrow> page_scripts s = page_scripts s'"
  by (simp add: page_scripts_def)

lemma render_fields:
  "sp_account (render_page u s) = sp_account s" "sp_texts (render_page u s) = sp_texts s"
  "sp_lists (render_page u s) = sp_lists s" "sp_failed (render_page u s) = sp_failed s"
  "sp_waiting (render_page u s) = sp_waiting s" "sp_requests (render_page u s) = sp_requests s"
  "sp_toasts (render_page u s) = sp_toasts s" "sp_deleteTarget (render_page u s) = sp_deleteTarget s"
  "sp_selected (render_page u s) = select (page_scripts s) (sp_selected s)"
  "page_scripts (render_page u s) = page_scripts s"
  by (simp_all add: render_page_def select_effect_eq page_scripts_def)

lemma shown_mount [simp]:
  "content_key (mount s) = content_key s" "builder_shown (mount s) = builder_shown s"
  "editor_shown (mount s) = editor_shown s" "page_shown (mount s) = page_shown s"
  "scriptContent (mount s) = scriptContent s" "page_scripts (mount s) = page_scripts s"
  by (simp_all add: content_key_def builder_shown_def editor_shown_def page_shown_def scriptContent_def page_scripts_def)

lemma mounted_mount: "mounted (mount s)"
  by (simp add: mounted_def) (simp add: mount_def)

lemma loaded_mount [simp]: "loaded u (mount s) = loaded u s"
  by (simp add: loaded_def)

lemma loaded_select [simp]: "loaded u (select_effect s) = loaded u s"
  by (simp add: loaded_def select_effect_eq)

lemma loaded_content: "loaded u s \<Longrightarrow> loaded u (content_effect u s)"
  by (auto simp: loaded_def content_effect_def load_rules_def rejected_def content_key_def option.map_comp comp_def
      split: option.split)

lemma loaded_render: "loaded u s \<Longrightarrow> loaded u (render_page u s)"
  by (simp add: render_page_def loaded_content)

lemma render_seen: "sp_seen (render_page u s) = content_key s"
  by (simp add: render_page_def select_effect_eq)

lemma key_of_fields: "content_key s = map_option (Pair (sp_account s, sp_selected s)) (sp_texts s (sp_account s, sp_selected s))"
  by (simp add: content_key_def scriptContent_def)

lemma settle_fields:
  "sp_account (settle u s) = sp_account s" "sp_texts (settle u s) = sp_texts s"
  "sp_lists (settle u s) = sp_lists s" "sp_failed (settle u s) = sp_failed s"
  "sp_waiting (settle u s) = sp_waiting s" "sp_requests (settle u s) = sp_requests s"
  "sp_toasts (settle u s) = sp_toasts s" "sp_deleteTarget (settle u s) = sp_deleteTarget s"
  "sp_selected (settle u s) = select (page_scripts s) (sp_selected s)"
  "page_scripts (settle u s) = page_scripts s" "sp_seen (settle u s) = content_key (settle u s)"
  by (simp_all add: settle_def render_fields render_seen key_of_fields)

definition page_inv :: "(nat \<Rightarrow> string) \<Rightarrow> sieve_page \<Rightarrow> bool" where
  "page_inv u s \<longleftrightarrow> loaded u s \<and> selection_ok s \<and> sp_seen s = content_key s \<and> mounted s"

lemma settle_inv: "loaded u s \<Longrightarrow> page_inv u (settle u s)"
proof -
  assume "loaded u s"
  then have "loaded u (settle u s)" by (simp add: settle_def loaded_render)
  moreover have "selection_ok (settle u s)"
    by (auto simp: selection_ok_def settle_fields select_def chosen_in split: option.split)
  moreover have "mounted (settle u s)" by (simp add: settle_def mounted_mount)
  ultimately show ?thesis using settle_fields(11) by (simp add: page_inv_def)
qed

text \<open>A page at rest stays as it is.\<close>

lemma selection_select: "selection_ok s \<Longrightarrow> select (page_scripts s) (sp_selected s) = sp_selected s \<or> sp_selected s = []"
  by (auto simp: selection_ok_def select_def split: option.splits)

section \<open>Events\<close>

lemmas page_handlers =
  handleCreate_def create_ends_def remove_script_def handleDelete_def delete_fails_def delete_ends_def
  handleActivate_def activate_ends_def on_builder_def on_editor_def save_rules_def save_content_def
  not_saving_def onSaved_def save_fails_def send_and_wait_def notice_def list_arrives_def pick_mode_def Let_def

lemma arrives_loaded:
  "sp_rawFallback (arrives w res s) = sp_rawFallback s \<and> sp_seen (arrives w res s) = sp_seen s
    \<and> sp_mode (arrives w res s) = sp_mode s"
  by (cases w) (auto simp: page_handlers split: sum.split)

lemma not_rules_mode [simp]: "m \<noteq> RulesMode \<longleftrightarrow> m = RawMode"
  by (cases m) simp_all

lemma event_loaded: "loaded u s \<Longrightarrow> loaded u (on_event t e s)"
proof (cases e)
  case (Arrives w res)
  then show "loaded u s \<Longrightarrow> loaded u (on_event t e s)" by (simp add: loaded_def arrives_loaded)
qed (auto simp: loaded_def page_handlers split: sum.split option.split)

interpretation sieve_pages: safe_machine "start_page u a" "page_step u t" "page_inv u" for u t a
proof
  show "page_inv u (start_page u a)"
    unfolding start_page_def by (rule settle_inv) (simp add: loaded_def init_page_def rejected_def)
  show "page_inv u s \<Longrightarrow> page_inv u (page_step u t e s)" for e s
    unfolding page_step_def by (intro settle_inv event_loaded) (simp add: page_inv_def)
qed

text \<open>After every history the selected script is one of the list, or none when there is no list, and the list
  of an account that is asked for again moves the selection to the active script, else to the first, when
  the selected one is gone.\<close>

theorem selection_follows_list:
  "case fold (page_step u t) es (start_page u a) of s \<Rightarrow>
     (case page_scripts s of
        None \<Rightarrow> sp_selected s = []
      | Some xs \<Rightarrow> if xs = [] then sp_selected s = [] else has_script (sp_selected s) xs)
     \<and> (case page_step u t (ListReply (sp_account s) (Inr xs')) s of s' \<Rightarrow>
          sp_account s \<noteq> [] \<and> xs' \<noteq> [] \<and> \<not> has_script (sp_selected s) xs' \<longrightarrow> sp_selected s' = chosen xs')"
proof -
  let ?s = "fold (page_step u t) es (start_page u a)"
  have "selection_ok ?s" using sieve_pages.inv_history [where u = u and t = t and a = a and es = es] by (simp add: page_inv_def)
  then show ?thesis
    by (auto simp: selection_ok_def page_step_def settle_fields list_arrives_def select_def page_scripts_def
        split: option.splits)
qed

text \<open>C5: after every history the visual editor is only open on a script that the parser reads, or on an empty one:
  saving rules never replaces a script that the page could not show.\<close>

theorem visual_editor_reads_script:
  "case fold (page_step u t) es (start_page u a) of s \<Rightarrow>
     sp_builder s \<noteq> None \<longrightarrow>
       (\<exists>c. scriptContent s = Some c \<and> (c = [] \<or> sieveToRules u c \<noteq> None)) \<and> sp_editor s = None"
proof -
  let ?s = "fold (page_step u t) es (start_page u a)"
  have i: "page_inv u ?s" by (rule sieve_pages.inv_history)
  show ?thesis
  proof (simp, intro impI)
    assume "\<exists>b. sp_builder ?s = Some b"
    with i have b: "builder_shown ?s" by (auto simp: page_inv_def mounted_def)
    with i have "\<not> rejected u (scriptContent ?s)"
      by (auto simp: page_inv_def loaded_def builder_shown_def content_key_def option.map_comp comp_def)
    moreover have "\<not> editor_shown ?s" using b by (auto simp: builder_shown_def editor_shown_def)
    ultimately show "(\<exists>c. scriptContent ?s = Some c \<and> (c = [] \<or> (\<exists>y. sieveToRules u c = Some y))) \<and> sp_editor ?s = None"
      using b i by (auto simp: builder_shown_def rejected_def page_inv_def mounted_def)
  qed
qed

section \<open>Steps at rest\<close>

text \<open>When the selection stays, the renders after an event only read the text.\<close>

lemma select_effect_id: "select (page_scripts s) (sp_selected s) = sp_selected s \<Longrightarrow> select_effect s = s"
  by (simp add: select_effect_eq)

lemma page_scripts_content [simp]: "page_scripts (content_effect u s) = page_scripts s"
  by (simp add: page_scripts_def)

definition rules_of :: "(nat \<Rightarrow> string) \<Rightarrow> string option \<Rightarrow> sieve_rule list" where
  "rules_of u c =
     (case c of None \<Rightarrow> [] | Some t \<Rightarrow> if t = [] then [] else (case sieveToRules u t of None \<Rightarrow> [] | Some rs \<Rightarrow> rs))"

lemma content_rules:
  "sp_rules (content_effect u s) = (if content_key s = sp_seen s then sp_rules s else rules_of u (scriptContent s))"
  by (auto simp: content_effect_def load_rules_def rules_of_def split: option.split)

lemma settle_rules:
  assumes "select (page_scripts s) (sp_selected s) = sp_selected s"
  shows "sp_rules (settle u s) = (if content_key s = sp_seen s then sp_rules s else rules_of u (scriptContent s))"
proof -
  let ?s = "content_effect u (mount s)"
  have r: "render_page u s = ?s"
    unfolding render_page_def using assms by (intro select_effect_id) simp
  have k: "content_key (mount ?s) = content_key s" by (simp add: key_of_fields)
  have "render_page u ?s = content_effect u (mount ?s)"
    unfolding render_page_def using assms by (intro select_effect_id) simp
  also have "\<dots> = mount ?s" using k by (simp add: content_effect_def [of u "mount ?s"])
  finally show ?thesis using content_rules [of u "mount s"] by (simp add: settle_def r)
qed

lemma selection_at_rest:
  assumes "page_inv u s" and "sp_selected s \<noteq> []"
  shows "select (page_scripts s) (sp_selected s) = sp_selected s"
  using assms selection_select [of s] by (simp add: page_inv_def)

text \<open>An event that leaves lists, texts, account and selection alone leaves the rules of a page at rest.\<close>

lemma quiet_rules:
  assumes "page_inv u s" and "sp_selected s \<noteq> []" and "sp_selected s' = sp_selected s" and "sp_account s' = sp_account s"
    and "sp_lists s' = sp_lists s" and "sp_texts s' = sp_texts s" and "sp_seen s' = sp_seen s"
  shows "sp_rules (settle u s') = sp_rules s'" and "sp_selected (settle u s') = sp_selected s"
proof -
  have p: "page_scripts s' = page_scripts s" using assms(4,5) by (simp add: page_scripts_def)
  have sel: "select (page_scripts s') (sp_selected s') = sp_selected s'"
    using selection_at_rest [OF assms(1,2)] p assms(3) by simp
  moreover have "content_key s' = sp_seen s'"
    using assms by (simp add: key_of_fields page_inv_def)
  ultimately show "sp_rules (settle u s') = sp_rules s'" by (simp add: settle_rules)
  show "sp_selected (settle u s') = sp_selected s" using sel assms(3) by (simp add: settle_fields)
qed

lemma builder_selected: "page_inv u s \<Longrightarrow> sp_builder s = Some b \<Longrightarrow> sp_selected s \<noteq> [] \<and> sp_account s \<noteq> []"
  by (auto simp: page_inv_def mounted_def builder_shown_def page_shown_def)

section \<open>Saving\<close>

lemma script_text_nonempty: "rulesToSieve rs \<noteq> []"
  by (simp add: rulesToSieve_def Let_def)

lemma page_step_inv: "page_inv u s \<Longrightarrow> page_inv u (page_step u t e s)"
  by (rule sieve_pages.inv_step)

lemma save_step:
  assumes "page_inv u s" and "sp_builder s = Some b" and "\<not> bu_saving b"
  shows "case page_step u t (SaveRules activate) s of s1 \<Rightarrow>
    page_inv u s1 \<and> sp_rules s1 = sp_rules s \<and> sp_selected s1 = sp_selected s \<and> sp_account s1 = sp_account s
    \<and> sp_texts s1 = sp_texts s \<and> sp_lists s1 = sp_lists s
    \<and> sp_requests s1 = sp_requests s @ [sieve_put (sp_selected s) (rulesToSieve (sp_rules s)) (Some (sp_account s))]"
proof -
  let ?e = "on_event t (SaveRules activate) s"
  have e: "?e = save_rules activate b s" using assms(2,3) by simp
  have f: "sp_selected ?e = sp_selected s" "sp_account ?e = sp_account s" "sp_lists ?e = sp_lists s"
      "sp_texts ?e = sp_texts s" "sp_seen ?e = sp_seen s" "sp_rules ?e = sp_rules s"
    unfolding e by (simp_all add: page_handlers)
  have r: "sp_requests ?e = sp_requests s @ [sieve_put (sp_selected s) (rulesToSieve (sp_rules s)) (Some (sp_account s))]"
    unfolding e by (simp add: page_handlers)
  note q = quiet_rules [OF assms(1) _ f(1-5)]
  have "sp_selected s \<noteq> []" using builder_selected [OF assms(1,2)] by simp
  with q f r show ?thesis
    using page_step_inv [OF assms(1), of t "SaveRules activate"]
    by (simp add: page_step_def settle_fields(1-8) del: on_event.simps)
qed

lemma text_step:
  assumes "page_inv u s" and "sp_selected s \<noteq> []" and "sp_account s \<noteq> []" and "scriptContent s \<noteq> Some c"
  shows "sp_rules (page_step u t (TextReply (sp_account s) (sp_selected s) c) s) = rules_of u (Some c)"
proof -
  let ?e = "on_event t (TextReply (sp_account s) (sp_selected s) c) s"
  have e: "?e = s\<lparr>sp_texts := (sp_texts s)((sp_account s, sp_selected s) \<mapsto> c)\<rparr>" using assms(2,3) by simp
  have sel: "select (page_scripts ?e) (sp_selected ?e) = sp_selected ?e"
    using selection_at_rest [OF assms(1,2)] unfolding e by (simp add: page_scripts_def)
  have c: "scriptContent ?e = Some c" unfolding e by (simp add: scriptContent_def)
  have "sp_seen ?e \<noteq> content_key ?e"
    using assms(1,4) unfolding e by (auto simp: page_inv_def key_of_fields scriptContent_def)
  then show ?thesis
    unfolding page_step_def settle_rules [OF sel] c by (simp add: eq_commute del: on_event.simps)
qed


text \<open>A page whose script is empty, with a new rule.\<close>

definition example_events :: "page_event list" where
  "example_events =
     [ListReply ''acc'' (Inr [\<lparr>si_name = ''main'', si_active = True\<rparr>, \<lparr>si_name = ''old'', si_active = False\<rparr>]),
      TextReply ''acc'' ''main'' [], EditRules (AddRule ''r'' ''c'' ''a'')]"

definition example_page :: sieve_page where
  "example_page = fold (page_step nat_str (\<lambda>_. ''Rule 1'')) example_events (start_page nat_str ''acc'')"

lemma example_page_builder:
  "(case sp_builder example_page of None \<Rightarrow> False | Some b \<Rightarrow> \<not> bu_saving b) \<and> scriptContent example_page = Some []
   \<and> list_all sayable_rule (filter enabled (sp_rules example_page)) \<and> length (sp_rules example_page) = 1"
  by code_simp


section \<open>What goes wrong\<close>

lemma find_append: "find P (xs @ ys) = (case find P xs of None \<Rightarrow> find P ys | Some x \<Rightarrow> Some x)"
  by (induction xs) simp_all

text \<open>A script that was made is not selected: the answer of the server selects it before the list has it, and
  the effect moves the selection back to the active script, where it stays when the list comes.\<close>

theorem created_script_is_not_selected:
  assumes "page_scripts s = Some xs" and "xs \<noteq> []" and "\<not> has_script n xs" and "WCreate acc n \<in> set (sp_waiting s)"
    and "xs' = xs @ [\<lparr>si_name = n, si_active = False\<rparr>]" and "sp_account s \<noteq> []"
  shows "case page_step u t (Arrives (WCreate acc n) (Inr ())) s of s1 \<Rightarrow>
     case page_step u t (ListReply (sp_account s) (Inr xs')) s1 of s2 \<Rightarrow>
       sp_toasts s1 = sp_toasts s @ [Tr ''sieve.created'' [(''name'', Raw n)]]
       \<and> sp_selected s1 = chosen xs \<and> sp_selected s2 = chosen xs \<and> chosen xs \<noteq> n"
proof -
  let ?e = "on_event t (Arrives (WCreate acc n) (Inr ())) s"
  let ?s1 = "page_step u t (Arrives (WCreate acc n) (Inr ())) s"
  have p: "page_scripts ?e = Some xs" "sp_selected ?e = n" "sp_account ?e = sp_account s"
      "sp_toasts ?e = sp_toasts s @ [Tr ''sieve.created'' [(''name'', Raw n)]]"
    using assms(1,4) by (simp_all add: page_handlers page_scripts_def)
  have s1: "sp_selected ?s1 = chosen xs" "sp_account ?s1 = sp_account s"
      "sp_toasts ?s1 = sp_toasts s @ [Tr ''sieve.created'' [(''name'', Raw n)]]"
    using p assms(2,3) by (simp_all add: page_step_def settle_fields select_def del: on_event.simps)
  have "has_script (chosen xs) xs'" using chosen_in [OF assms(2)] assms(5) by (auto simp: has_script_def)
  moreover have "chosen xs' = chosen xs" using assms(2,5) by (cases xs) (auto simp: chosen_def find_append split: option.split)
  ultimately have "sp_selected (page_step u t (ListReply (sp_account s) (Inr xs')) ?s1) = chosen xs"
    using s1 assms(2,5,6) by (simp add: page_step_def settle_fields page_scripts_def list_arrives_def select_def)
  then show ?thesis using s1 chosen_in [OF assms(2)] assms(3) by auto
qed

text \<open>Deleting the active script turns it off first; when the deletion then fails the script stays, but no
  script is active, so that no mail is sorted any more, and nothing turns it on again.\<close>

theorem failed_deletion_leaves_script_off:
  assumes "sp_deleteTarget s = Some n" and "n \<noteq> []" and "is_active_script n s"
  shows "case (sp_account s, sp_selected s = n) of (acc, was) \<Rightarrow>
     case fold (page_step u t) [ConfirmDelete, Arrives (WDeactivate acc n was) (Inr ()), Arrives (WRemove acc n was) (Inl m)] s of
       s' \<Rightarrow>
         sp_requests s' = sp_requests s @ [sieve_deactivate (Some acc), sieve_remove n (Some acc)]
         \<and> sp_toasts s' = sp_toasts s @ [Tr ''sieve.deleteFailed'' [(''error'', m)]]
         \<and> sp_deleteTarget s' = Some n"
  using assms by (simp add: page_step_def settle_fields page_handlers truthy_opt_def)

text \<open>The two witnesses start from the example.\<close>

definition creating_page :: sieve_page where
  "creating_page = fold (page_step nat_str (\<lambda>_. ''Rule 1'')) [ToggleNew, TypeName ''new.sieve'', Create] example_page"

lemma creating_page_facts:
  "sp_waiting creating_page = [WCreate ''acc'' ''new''] \<and> sp_account creating_page = ''acc''
   \<and> page_scripts creating_page = Some [\<lparr>si_name = ''main'', si_active = True\<rparr>, \<lparr>si_name = ''old'', si_active = False\<rparr>]"
  by code_simp

theorem created_script_is_not_selected_witness:
  "sp_selected (page_step nat_str (\<lambda>_. ''Rule 1'') (Arrives (WCreate ''acc'' ''new'') (Inr ())) creating_page) = ''main''"
proof -
  let ?xs = "[\<lparr>si_name = ''main'', si_active = True\<rparr>, \<lparr>si_name = ''old'', si_active = False\<rparr>]"
  have "\<not> has_script ''new'' ?xs" "chosen ?xs = ''main''" by code_simp+
  then show ?thesis
    using created_script_is_not_selected [of creating_page ?xs "''new''" "''acc''" _ nat_str "\<lambda>_. ''Rule 1''", OF _ _ _ _ refl]
      creating_page_facts by simp
qed

definition deleting_page :: sieve_page where
  "deleting_page = page_step nat_str (\<lambda>_. ''Rule 1'') (AskDelete ''main'') example_page"

lemma deleting_page_facts:
  "sp_deleteTarget deleting_page = Some ''main'' \<and> is_active_script ''main'' deleting_page \<and> sp_account deleting_page = ''acc''
   \<and> sp_selected deleting_page = ''main'' \<and> sp_requests deleting_page = []"
  by code_simp

theorem failed_deletion_leaves_script_off_witness:
  "sp_requests (fold (page_step nat_str (\<lambda>_. ''Rule 1''))
      [ConfirmDelete, Arrives (WDeactivate ''acc'' ''main'' True) (Inr ()),
       Arrives (WRemove ''acc'' ''main'' True) (Inl (Raw ''no''))] deleting_page)
    = [sieve_deactivate (Some ''acc''), sieve_remove ''main'' (Some ''acc'')]"
  using failed_deletion_leaves_script_off [of deleting_page "''main''" nat_str "\<lambda>_. ''Rule 1''" "Raw ''no''"]
    deleting_page_facts by (simp del: fold.simps)

theorem selection_follows_list_witness:
  "sp_selected (page_step nat_str (\<lambda>_. ''Rule 1'') (ListReply ''acc'' (Inr [\<lparr>si_name = ''x'', si_active = False\<rparr>])) example_page) = ''x''"
proof -
  let ?xs = "[\<lparr>si_name = ''x'', si_active = False\<rparr>]"
  have "sp_account example_page = ''acc''" "\<not> has_script (sp_selected example_page) ?xs" "chosen ?xs = ''x''" by code_simp+
  then show ?thesis
    using selection_follows_list [of nat_str "\<lambda>_. ''Rule 1''" example_events "''acc''" ?xs]
    unfolding example_page_def [symmetric] by simp
qed

theorem visual_editor_reads_script_witness:
  "\<exists>c. scriptContent example_page = Some c \<and> (c = [] \<or> sieveToRules nat_str c \<noteq> None)"
  using visual_editor_reads_script [of nat_str "\<lambda>_. ''Rule 1''" example_events "''acc''"] example_page_builder
  unfolding example_page_def [symmetric] by (auto split: option.splits)

end
