(* ===== verification/KeyPage.thy ===== *)
theory KeyPage
  imports PgpCrypt
begin

text \<open>
  The dialog of the keys, \<open>frontend/src/components/mail/PgpKeyModal.tsx\<close>, over \<open>pgpService\<close>: the own key pair
  with making, importing, saving, loading and removing it, and the keys of contacts with files, the
  key servers and the preview of a pasted key.  A handler runs to its end before the next event, so that the
  flags of running requests are never seen; a message of the dialog is the list of its parts.
\<close>

section \<open>State\<close>

record ('k, 'm) key_env =
  ke_lib :: "('k, 'm) openpgp"
  ke_td :: "nat list \<Rightarrow> string"
  ke_sv :: pgp_server
  ke_fetched :: "string \<Rightarrow> (nat \<times> string) option"
  ke_now :: string
  ke_email :: "string option"

record key_page =
  km_contactsTab :: bool
  km_keyPair :: "pgp_key_pair option"
  km_contacts :: "pgp_contact_key list"
  km_contactToRemove :: "string option"
  km_confirmRemoveKey :: bool
  km_name :: string
  km_passphrase :: string
  km_showImport :: bool
  km_personalKeyInput :: string
  km_importPassphrase :: string
  km_contactEmail :: string
  km_contactPublicKey :: string
  km_previews :: "parsed_key_info list"
  km_msg :: "(bool \<times> message list) option"
  km_refreshes :: nat
  km_world :: pgp_world

definition init_keys :: "pgp_world \<Rightarrow> key_page" where
  "init_keys w =
     \<lparr>km_contactsTab = False, km_keyPair = None, km_contacts = [], km_contactToRemove = None,
      km_confirmRemoveKey = False, km_name = [], km_passphrase = [], km_showImport = False,
      km_personalKeyInput = [], km_importPassphrase = [], km_contactEmail = [], km_contactPublicKey = [],
      km_previews = [], km_msg = None, km_refreshes = 0, km_world = w\<rparr>"

definition say :: "bool \<Rightarrow> message \<Rightarrow> key_page \<Rightarrow> key_page" where
  "say ok m s = s\<lparr>km_msg := Some (ok, [m])\<rparr>"

definition loadKeys :: "('k, 'm) key_env \<Rightarrow> key_page \<Rightarrow> key_page" where
  "loadKeys env s =
     (let (kp, w) = ensureKey (ke_sv env) (km_world s);
          (cs, w) = getContactKeys (ke_sv env) w
      in s\<lparr>km_keyPair := kp, km_contacts := cs, km_world := w\<rparr>)"

text \<open>The effect of the dialog that opens, and of the one that closes.\<close>

definition open_keys :: "('k, 'm) key_env \<Rightarrow> key_page \<Rightarrow> key_page" where
  "open_keys env s =
     (let s = loadKeys env s
      in if truthy_opt (ke_email env)
         then s\<lparr>km_name := takeWhile (\<lambda>c. c \<noteq> CHR ''@'') (opt_string (ke_email env))\<rparr> else s)"

definition close_keys :: "key_page \<Rightarrow> key_page" where
  "close_keys s = s\<lparr>km_msg := None\<rparr>"

section \<open>The own key\<close>

definition refreshPgp :: "key_page \<Rightarrow> key_page" where
  "refreshPgp s = s\<lparr>km_refreshes := Suc (km_refreshes s)\<rparr>"

definition file_bytes :: "upload_file \<Rightarrow> nat list" where
  "file_bytes f = map code (f_data f)"

definition handlePersonalFileUpload :: "('k, 'm) key_env \<Rightarrow> upload_file \<Rightarrow> key_page \<Rightarrow> key_page" where
  "handlePersonalFileUpload env f s =
     (case fileToPrivateKeyArmor (ke_lib env) (ke_td env) (file_bytes f) of
        Inr armored \<Rightarrow> s\<lparr>km_personalKeyInput := armored\<rparr>
      | Inl e \<Rightarrow> say False (Tr ''pgp.readPrivateFailed'' [(''error'', emessage e)]) s)"

definition handleImportPersonalKey :: "('k, 'm) key_env \<Rightarrow> key_page \<Rightarrow> key_page" where
  "handleImportPersonalKey env s =
     (if trim (km_personalKeyInput s) = [] then s
      else
        (case importPersonalKey (ke_lib env) (ke_sv env) (ke_now env) (km_personalKeyInput s) None
                (Some (km_importPassphrase s)) (km_world s) of
           (Inl e, w) \<Rightarrow> say False (Tr ''pgp.importPrivateFailed'' [(''error'', emessage e)]) (s\<lparr>km_world := w\<rparr>)
         | (Inr imported, w) \<Rightarrow>
             say True (Tr ''pgp.importedPersonal'' [(''userId'', Raw (kp_userId imported))])
               ((refreshPgp (s\<lparr>km_keyPair := Some imported, km_world := w\<rparr>))
                 \<lparr>km_showImport := False, km_personalKeyInput := [], km_importPassphrase := []\<rparr>)))"

definition handleGenerateKey :: "('k, 'm) key_env \<Rightarrow> key_page \<Rightarrow> key_page" where
  "handleGenerateKey env s =
     (if \<not> truthy_opt (ke_email env) then s
      else
        (case generateKey (ke_lib env) (ke_sv env) (ke_now env) (or_else (km_name s) ''User'')
                (opt_string (ke_email env)) (Some (km_passphrase s)) (km_world s) of
           (Inl e, w) \<Rightarrow> say False (Tr ''pgp.generateFailed'' [(''error'', emessage e)]) (s\<lparr>km_world := w\<rparr>)
         | (Inr generated, w) \<Rightarrow>
             say True (Tr ''pgp.generated'' []) (refreshPgp (s\<lparr>km_keyPair := Some generated, km_world := w\<rparr>))))"

definition handleManualSyncToCloud :: "('k, 'm) key_env \<Rightarrow> key_page \<Rightarrow> key_page" where
  "handleManualSyncToCloud env s =
     (case km_keyPair s of
        None \<Rightarrow> s
      | Some kp \<Rightarrow>
          (case syncKeyringToCloud (ke_sv env) kp (km_world s) of
             (Inr _, w) \<Rightarrow> say True (Tr ''pgp.backedUp'' []) (s\<lparr>km_world := w\<rparr>)
           | (Inl e, w) \<Rightarrow> say False (Tr ''pgp.backupFailed'' [(''error'', emessage e)]) (s\<lparr>km_world := w\<rparr>)))"

text \<open>\<open>fetchKeyringFromCloud\<close> catches every error, so that the \<open>catch\<close> of its caller is never reached.\<close>

definition handleFetchFromCloud :: "('k, 'm) key_env \<Rightarrow> key_page \<Rightarrow> key_page" where
  "handleFetchFromCloud env s =
     (case fetchKeyringFromCloud (ke_sv env) (km_world s) of
        (Some cloudKey, w) \<Rightarrow>
          say True (Tr ''pgp.fetched'' [(''keyId'', Raw (kp_keyId cloudKey))])
            (refreshPgp (s\<lparr>km_keyPair := Some cloudKey, km_world := w\<rparr>))
      | (None, w) \<Rightarrow> say False (Tr ''pgp.noCloudKey'' []) (s\<lparr>km_world := w\<rparr>))"

text \<open>The name and the content of the file that is saved.\<close>

definition handleDownloadPublicKey :: "('k, 'm) key_env \<Rightarrow> key_page \<Rightarrow> (string \<times> string) option" where
  "handleDownloadPublicKey env s =
     (case km_keyPair s of
        None \<Rightarrow> None
      | Some kp \<Rightarrow>
          if kp_publicKeyArmored kp = [] then None
          else Some (or_else (opt_string (ke_email env)) ''publickey'' @ ''.public.asc'', kp_publicKeyArmored kp))"

definition handleDownloadPrivateKey :: "('k, 'm) key_env \<Rightarrow> key_page \<Rightarrow> (string \<times> string) option" where
  "handleDownloadPrivateKey env s =
     (case km_keyPair s of
        None \<Rightarrow> None
      | Some kp \<Rightarrow>
          if kp_privateKeyArmored kp = [] then None
          else Some (or_else (opt_string (ke_email env)) ''privatekey'' @ ''.private.asc'', kp_privateKeyArmored kp))"

text \<open>The removal does not wait for the server, and drops its error.\<close>

definition handleRemoveKey :: "('k, 'm) key_env \<Rightarrow> key_page \<Rightarrow> key_page" where
  "handleRemoveKey env s =
     refreshPgp
       (s\<lparr>km_confirmRemoveKey := False, km_keyPair := None,
          km_world := snd (deleteKeyringFromCloud (ke_sv env) (clearKey (km_world s)))\<rparr>)"

section \<open>The keys of contacts\<close>

definition is_block :: "string \<Rightarrow> bool" where
  "is_block t \<longleftrightarrow> contains t ''BEGIN PGP PUBLIC KEY BLOCK'' \<or> contains t ''BEGIN PGP PRIVATE KEY BLOCK''"

text \<open>The address of the key fills an empty field.\<close>

definition fill_email :: "string \<Rightarrow> key_page \<Rightarrow> key_page" where
  "fill_email email s = (if email \<noteq> [] \<and> km_contactEmail s = [] then s\<lparr>km_contactEmail := email\<rparr> else s)"

definition handlePublicKeyChange :: "('k, 'm) key_env \<Rightarrow> string \<Rightarrow> key_page \<Rightarrow> key_page" where
  "handlePublicKeyChange env t s =
     (let s = s\<lparr>km_contactPublicKey := t\<rparr>
      in if \<not> is_block t then s\<lparr>km_previews := []\<rparr>
         else
           (case parseKeyInfo (ke_lib env) t of
              Inr info \<Rightarrow> fill_email (ki_email info) (s\<lparr>km_previews := [info]\<rparr>)
            | Inl _ \<Rightarrow>
                (case parseMultipleKeys (ke_lib env) t of
                   Inr infos \<Rightarrow>
                     (let s = s\<lparr>km_previews := infos\<rparr>
                      in case infos of [info] \<Rightarrow> fill_email (ki_email info) s | _ \<Rightarrow> s)
                 | Inl _ \<Rightarrow> s\<lparr>km_previews := []\<rparr>)))"

text \<open>The counters of the upload of several files.\<close>

record upload_tally =
  ut_saved :: nat
  ut_invalid :: nat
  ut_skipped :: "string list"
  ut_failed :: "message list"
  ut_world :: pgp_world

definition file_failed :: "upload_file \<Rightarrow> api_error \<Rightarrow> upload_tally \<Rightarrow> upload_tally" where
  "file_failed f e u =
     u\<lparr>ut_failed := ut_failed u
         @ [Tr ''pgp.fileFailed'' [(''name'', Raw (f_name f)), (''error'', message_or ''pgp.uploadFailed'' (emessage e))]]\<rparr>"

definition upload_one :: "('k, 'm) key_env \<Rightarrow> upload_file \<Rightarrow> upload_tally \<Rightarrow> upload_tally" where
  "upload_one env f u =
     (case fileToPublicKeyArmor (ke_lib env) (ke_td env) (file_bytes f) of
        Inl e \<Rightarrow> file_failed f e u
      | Inr armored \<Rightarrow>
          if armored = []
          then u\<lparr>ut_failed := ut_failed u @ [Tr ''pgp.fileEmpty'' [(''name'', Raw (f_name f))]]\<rparr>
          else
            (case importContactKeysFromFile (ke_sv env) armored (ut_world u) of
               (Inl e, w) \<Rightarrow> file_failed f e (u\<lparr>ut_world := w\<rparr>)
             | (Inr (saved, skipped, invalid), w) \<Rightarrow>
                 u\<lparr>ut_saved := ut_saved u + saved, ut_invalid := ut_invalid u + invalid,
                   ut_skipped := ut_skipped u @ skipped, ut_world := w\<rparr>))"

definition count_var :: "nat \<Rightarrow> string \<times> message" where
  "count_var n = (''count'', Raw (nat_str n))"

text \<open>The list of skipped addresses, cut after five; the ellipsis is written with three dots.\<close>

definition short_list :: "string list \<Rightarrow> string" where
  "short_list xs = join '', '' (take 5 xs) @ (if length xs > 5 then ''...'' else [])"

definition upload_parts :: "upload_tally \<Rightarrow> message list" where
  "upload_parts u =
     (let parts =
        (if ut_saved u > 0 then [Tr ''pgp.importedKeys'' [count_var (ut_saved u)]] else [])
        @ (if ut_skipped u \<noteq> []
           then [Tr ''pgp.skippedDup'' [count_var (length (ut_skipped u)), (''list'', Raw (short_list (ut_skipped u)))]]
           else [])
        @ (if ut_invalid u > 0 then [Tr ''pgp.noEmailCount'' [count_var (ut_invalid u)]] else [])
        @ (if ut_failed u \<noteq> [] then [Tr ''pgp.filesFailed'' [count_var (length (ut_failed u))]] else [])
      in if parts = [] then [Tr ''pgp.nothingImported'' []] else parts)"

definition clear_contact_form :: "key_page \<Rightarrow> key_page" where
  "clear_contact_form s = s\<lparr>km_contactPublicKey := [], km_previews := [], km_contactEmail := []\<rparr>"

definition tally_files :: "('k, 'm) key_env \<Rightarrow> upload_file list \<Rightarrow> pgp_world \<Rightarrow> upload_tally" where
  "tally_files env files w =
     fold (upload_one env) files \<lparr>ut_saved = 0, ut_invalid = 0, ut_skipped = [], ut_failed = [], ut_world = w\<rparr>"

definition handleFileUpload :: "('k, 'm) key_env \<Rightarrow> upload_file list \<Rightarrow> key_page \<Rightarrow> key_page" where
  "handleFileUpload env files s =
     (if files = [] then s
      else
        (let u = tally_files env files (km_world s)
         in loadKeys env (clear_contact_form
              (s\<lparr>km_world := ut_world u,
                 km_msg := Some (ut_saved u > 0 \<or> ut_skipped u \<noteq> [], upload_parts u)\<rparr>))))"

definition handleSearchKeyserver :: "('k, 'm) key_env \<Rightarrow> key_page \<Rightarrow> key_page" where
  "handleSearchKeyserver env s =
     (let email = km_contactEmail s
      in if email = [] \<or> \<not> contains email ''@'' then say False (Tr ''pgp.needValidEmail'' []) s
         else
           (case fetchPublicKeyFromKeyserver (ke_fetched env) email of
              Some key \<Rightarrow> say True (Tr ''pgp.foundOnKeyserver'' [(''email'', Raw email)]) (handlePublicKeyChange env key s)
            | None \<Rightarrow> say False (Tr ''pgp.notOnKeyserver'' [(''email'', Raw email)]) s))"

definition save_parts :: "nat \<Rightarrow> string list \<Rightarrow> nat \<Rightarrow> message list" where
  "save_parts saved skipped invalid =
     (if saved > 0 then [Tr ''pgp.importedKeys'' [count_var saved]] else [])
     @ (if skipped \<noteq> [] then [Tr ''pgp.skippedDupShort'' [count_var (length skipped)]] else [])
     @ (if invalid > 0 then [Tr ''pgp.noEmailCount'' [count_var invalid]] else [])"

definition handleSaveContactKey :: "('k, 'm) key_env \<Rightarrow> key_page \<Rightarrow> key_page" where
  "handleSaveContactKey env s =
     (if km_contactPublicKey s = [] then s
      else
        (case importContactKeysFromFile (ke_sv env) (km_contactPublicKey s) (km_world s) of
           (Inl e, w) \<Rightarrow> say False (Tr ''pgp.invalidFormat'' [(''error'', emessage e)]) (s\<lparr>km_world := w\<rparr>)
         | (Inr (saved, skipped, invalid), w) \<Rightarrow>
             (loadKeys env (clear_contact_form (s\<lparr>km_world := w\<rparr>)))
               \<lparr>km_msg := Some (saved > 0, save_parts saved skipped invalid)\<rparr>))"

definition handleRemoveContact :: "('k, 'm) key_env \<Rightarrow> string \<Rightarrow> key_page \<Rightarrow> key_page" where
  "handleRemoveContact env email s =
     (case removeContactKey (ke_sv env) email (km_world s) of
        (Inl e, w) \<Rightarrow>
          say False (Tr ''pgp.deleteFailed'' [(''error'', emessage e)]) (s\<lparr>km_world := w, km_contactToRemove := None\<rparr>)
      | (Inr _, w) \<Rightarrow>
          say True (Tr ''pgp.deletedContact'' [(''email'', Raw email)])
            ((loadKeys env (s\<lparr>km_world := w\<rparr>))\<lparr>km_contactToRemove := None\<rparr>))"

section \<open>Events\<close>

datatype key_event =
    OpenKeys
  | CloseKeys
  | PickTab bool
  | TypeKeyName string
  | TypePassphrase string
  | Generate
  | ShowImport bool
  | TypePersonalKey string
  | TypeImportPassphrase string
  | PersonalFile upload_file
  | ImportKey
  | SyncKey
  | FetchKey
  | AskRemoveKey
  | CancelRemoveKey
  | ConfirmRemoveKey
  | TypeContactEmail string
  | TypeContactKey string
  | SearchKey
  | UploadFiles "upload_file list"
  | SaveContact
  | AskRemoveContact string
  | CancelRemoveContact
  | ConfirmRemoveContact

text \<open>What the tab of the own key offers with and without a key.\<close>

definition has_key_form :: "key_page \<Rightarrow> bool" where
  "has_key_form s \<longleftrightarrow> \<not> km_contactsTab s \<and> km_keyPair s \<noteq> None"

definition new_key_form :: "bool \<Rightarrow> key_page \<Rightarrow> bool" where
  "new_key_form importing s \<longleftrightarrow> \<not> km_contactsTab s \<and> km_keyPair s = None \<and> km_showImport s = importing"

fun key_step :: "('k, 'm) key_env \<Rightarrow> key_event \<Rightarrow> key_page \<Rightarrow> key_page" where
  "key_step env OpenKeys s = open_keys env s"
| "key_step env CloseKeys s = close_keys s"
| "key_step env (PickTab contacts) s = s\<lparr>km_contactsTab := contacts, km_msg := None\<rparr>"
| "key_step env (TypeKeyName v) s = (if new_key_form False s then s\<lparr>km_name := v\<rparr> else s)"
| "key_step env (TypePassphrase v) s = (if new_key_form False s then s\<lparr>km_passphrase := v\<rparr> else s)"
| "key_step env Generate s = (if new_key_form False s then handleGenerateKey env s else s)"
| "key_step env (ShowImport b) s = (if new_key_form (\<not> b) s then s\<lparr>km_showImport := b\<rparr> else s)"
| "key_step env (TypePersonalKey v) s = (if new_key_form True s then s\<lparr>km_personalKeyInput := v\<rparr> else s)"
| "key_step env (TypeImportPassphrase v) s = (if new_key_form True s then s\<lparr>km_importPassphrase := v\<rparr> else s)"
| "key_step env (PersonalFile f) s = (if new_key_form True s then handlePersonalFileUpload env f s else s)"
| "key_step env ImportKey s = (if new_key_form True s then handleImportPersonalKey env s else s)"
| "key_step env SyncKey s = (if has_key_form s then handleManualSyncToCloud env s else s)"
| "key_step env FetchKey s =
     (if \<not> km_contactsTab s \<and> km_keyPair s = None then handleFetchFromCloud env s else s)"
| "key_step env AskRemoveKey s = (if has_key_form s then s\<lparr>km_confirmRemoveKey := True\<rparr> else s)"
| "key_step env CancelRemoveKey s = s\<lparr>km_confirmRemoveKey := False\<rparr>"
| "key_step env ConfirmRemoveKey s = (if km_confirmRemoveKey s then handleRemoveKey env s else s)"
| "key_step env (TypeContactEmail v) s = (if km_contactsTab s then s\<lparr>km_contactEmail := v\<rparr> else s)"
| "key_step env (TypeContactKey v) s = (if km_contactsTab s then handlePublicKeyChange env v s else s)"
| "key_step env SearchKey s = (if km_contactsTab s then handleSearchKeyserver env s else s)"
| "key_step env (UploadFiles fs) s = (if km_contactsTab s then handleFileUpload env fs s else s)"
| "key_step env SaveContact s =
     (if km_contactsTab s \<and> km_previews s \<noteq> [] then handleSaveContactKey env s else s)"
| "key_step env (AskRemoveContact email) s =
     (if km_contactsTab s \<and> list_ex (\<lambda>c. ck_email c = email) (km_contacts s)
      then s\<lparr>km_contactToRemove := Some email\<rparr> else s)"
| "key_step env CancelRemoveContact s = s\<lparr>km_contactToRemove := None\<rparr>"
| "key_step env ConfirmRemoveContact s =
     (if truthy_opt (km_contactToRemove s) then handleRemoveContact env (opt_string (km_contactToRemove s)) s else s)"

end
