(* ===== verification/KeyPageProps.thy ===== *)
theory KeyPageProps
  imports KeyPage PgpProps
begin

text \<open>
  Properties of the dialog of the keys: the key it shows is the key of the session, the preview is that of the
  text that is saved, every file of an upload is tried, and what a failed request does to the own key.
\<close>

section \<open>The key that is shown\<close>

text \<open>The preview of a pasted text.\<close>

definition preview_of :: "('k, 'm) key_env \<Rightarrow> string \<Rightarrow> parsed_key_info list" where
  "preview_of env t =
     (if \<not> is_block t then []
      else case parseKeyInfo (ke_lib env) t of
        Inr info \<Rightarrow> [info]
      | Inl _ \<Rightarrow> (case parseMultipleKeys (ke_lib env) t of Inr infos \<Rightarrow> infos | Inl _ \<Rightarrow> []))"

definition keys_inv :: "('k, 'm) key_env \<Rightarrow> key_page \<Rightarrow> bool" where
  "keys_inv env s \<longleftrightarrow>
     km_keyPair s = memoryKeyPair (km_world s) \<and> km_previews s = preview_of env (km_contactPublicKey s)"

lemma no_block [simp]: "\<not> is_block []"
  by (simp add: is_block_def contains_def)

lemma getContactKeys_memory [simp]: "memoryKeyPair (snd (getContactKeys sv w)) = memoryKeyPair w"
  by (simp add: getContactKeys_def Let_def)

lemma ensureKey_memory: "fst (ensureKey sv w) = memoryKeyPair (snd (ensureKey sv w))"
  by (auto simp: ensureKey_def fetchKeyringFromCloud_def saveKeyPair_def Let_def send_def
      split: option.split sum.split)

lemma loadKeys_key: "km_keyPair (loadKeys env s) = memoryKeyPair (km_world (loadKeys env s))"
proof -
  obtain kp w where e: "ensureKey (ke_sv env) (km_world s) = (kp, w)" by fastforce
  obtain cs w' where c: "getContactKeys (ke_sv env) w = (cs, w')" by fastforce
  have "memoryKeyPair w' = memoryKeyPair w" using getContactKeys_memory [of "ke_sv env" w] c by simp
  moreover have "kp = memoryKeyPair w" using ensureKey_memory [of "ke_sv env" "km_world s"] e by simp
  ultimately show ?thesis by (simp add: loadKeys_def e c)
qed

lemma loadKeys_fields [simp]:
  "km_previews (loadKeys env s) = km_previews s" "km_contactPublicKey (loadKeys env s) = km_contactPublicKey s"
  "km_msg (loadKeys env s) = km_msg s" "km_contactsTab (loadKeys env s) = km_contactsTab s"
  "km_showImport (loadKeys env s) = km_showImport s"
  by (simp_all add: loadKeys_def split: prod.split)

lemma loadKeys_inv: "km_previews s = preview_of env (km_contactPublicKey s) \<Longrightarrow> keys_inv env (loadKeys env s)"
  by (simp add: keys_inv_def loadKeys_key)

lemma preview_change: "keys_inv env s \<Longrightarrow> keys_inv env (handlePublicKeyChange env t s)"
  by (auto simp: keys_inv_def handlePublicKeyChange_def preview_of_def fill_email_def Let_def split: sum.split list.split)

lemma preview_empty [simp]: "preview_of env [] = []"
  by (simp add: preview_of_def)

lemma store_memory: "memoryKeyPair (store_new_key sv kp w) = Some kp"
  by (simp add: store_new_key_def syncKeyringToCloud_def saveKeyPair_def Let_def)

lemma generate_memory:
  "generateKey lib sv now nm email pass w = (Inr kp, w') \<Longrightarrow> memoryKeyPair w' = Some kp"
  "generateKey lib sv now nm email pass w = (Inl e, w') \<Longrightarrow> w' = w"
  by (auto simp: generateKey_def Let_def store_memory split: sum.splits)

lemma import_memory:
  "importPersonalKey lib sv now priv pub pass w = (Inr kp, w') \<Longrightarrow> memoryKeyPair w' = Some kp"
  "importPersonalKey lib sv now priv pub pass w = (Inl e, w') \<Longrightarrow> w' = w"
  by (auto simp: importPersonalKey_def Let_def store_memory split: sum.splits)

lemma fetch_memory:
  "fetchKeyringFromCloud sv w = (Some kp, w') \<Longrightarrow> memoryKeyPair w' = Some kp"
  "fetchKeyringFromCloud sv w = (None, w') \<Longrightarrow> memoryKeyPair w' = memoryKeyPair w"
  by (auto simp: fetchKeyringFromCloud_def Let_def saveKeyPair_def split: sum.splits option.splits if_splits)

lemma other_memory:
  "memoryKeyPair (snd (syncKeyringToCloud sv kp w)) = memoryKeyPair w"
  "memoryKeyPair (snd (importContactKeysFromFile sv a w)) = memoryKeyPair w"
  "memoryKeyPair (snd (removeContactKey sv em w)) = memoryKeyPair w"
  "memoryKeyPair (snd (deleteKeyringFromCloud sv (clearKey w))) = None"
  by (simp_all add: syncKeyringToCloud_def importContactKeysFromFile_def removeContactKey_def
      deleteKeyringFromCloud_def clearKey_def Let_def)

lemma keys_inv_world:
  "keys_inv env s \<Longrightarrow> memoryKeyPair w = memoryKeyPair (km_world s) \<Longrightarrow> keys_inv env (s\<lparr>km_world := w\<rparr>)"
  by (simp add: keys_inv_def)

lemma keys_inv_own:
  assumes "keys_inv env s"
  shows "keys_inv env (handleImportPersonalKey env s)" and "keys_inv env (handleGenerateKey env s)"
    and "keys_inv env (handleFetchFromCloud env s)" and "keys_inv env (handleManualSyncToCloud env s)"
    and "keys_inv env (handleRemoveKey env s)" and "keys_inv env (handlePersonalFileUpload env f s)"
proof -
  show "keys_inv env (handleImportPersonalKey env s)"
    using assms by (auto simp: handleImportPersonalKey_def keys_inv_def say_def refreshPgp_def
        dest: import_memory split: prod.split sum.split)
  show "keys_inv env (handleGenerateKey env s)"
    using assms by (auto simp: handleGenerateKey_def keys_inv_def say_def refreshPgp_def
        dest: generate_memory split: prod.split sum.split)
  show "keys_inv env (handleFetchFromCloud env s)"
    using assms by (auto simp: handleFetchFromCloud_def keys_inv_def say_def refreshPgp_def
        dest: fetch_memory split: prod.split option.split)
  show "keys_inv env (handleManualSyncToCloud env s)"
    using assms other_memory(1) [of "ke_sv env"]
    by (auto simp: handleManualSyncToCloud_def keys_inv_def say_def split: prod.split sum.split option.split)
      (metis snd_conv)+
  show "keys_inv env (handleRemoveKey env s)"
    using assms by (simp add: handleRemoveKey_def keys_inv_def refreshPgp_def other_memory)
  show "keys_inv env (handlePersonalFileUpload env f s)"
    using assms by (simp add: handlePersonalFileUpload_def keys_inv_def say_def split: sum.split)
qed

lemma keys_inv_contacts:
  assumes "keys_inv env s"
  shows "keys_inv env (handleFileUpload env fs s)" and "keys_inv env (handleSaveContactKey env s)"
    and "keys_inv env (handleRemoveContact env email s)" and "keys_inv env (handleSearchKeyserver env s)"
proof -
  show "keys_inv env (handleFileUpload env fs s)"
    using assms by (auto simp: handleFileUpload_def Let_def clear_contact_form_def intro!: loadKeys_inv)
  have msg: "keys_inv env (x\<lparr>km_msg := m\<rparr>) = keys_inv env x" for x m by (simp add: keys_inv_def)
  show "keys_inv env (handleSaveContactKey env s)"
    using assms other_memory(2) [of "ke_sv env" "km_contactPublicKey s" "km_world s"]
    by (auto simp: handleSaveContactKey_def say_def msg clear_contact_form_def
        intro!: loadKeys_inv keys_inv_world split: prod.split sum.split)
  have rm: "keys_inv env (x\<lparr>km_contactToRemove := m\<rparr>) = keys_inv env x" for x m by (simp add: keys_inv_def)
  show "keys_inv env (handleRemoveContact env email s)"
    using assms other_memory(3) [of "ke_sv env" email "km_world s"]
    by (auto simp: handleRemoveContact_def say_def msg rm keys_inv_def loadKeys_key split: prod.split sum.split)
  show "keys_inv env (handleSearchKeyserver env s)"
    using assms preview_change by (auto simp: handleSearchKeyserver_def say_def msg Let_def split: option.split)
qed

lemma key_step_inv: "keys_inv env s \<Longrightarrow> keys_inv env (key_step env e s)"
proof (cases e)
  case OpenKeys
  then show "keys_inv env s \<Longrightarrow> keys_inv env (key_step env e s)"
    by (simp add: open_keys_def Let_def) (simp add: keys_inv_def loadKeys_key)
qed (auto simp: keys_inv_own keys_inv_contacts preview_change close_keys_def, auto simp: keys_inv_def)

interpretation key_dialog: safe_machine "open_keys env (init_keys w)" "key_step env" "keys_inv env" for env w
proof
  show "keys_inv env (open_keys env (init_keys w))"
    by (simp add: open_keys_def Let_def keys_inv_def loadKeys_key init_keys_def)
  show "keys_inv env s \<Longrightarrow> keys_inv env (key_step env e s)" for e s by (rule key_step_inv)
qed


section \<open>Uploads\<close>

text \<open>The text of a file that can be read, and is not empty.\<close>

definition readable :: "('k, 'm) key_env \<Rightarrow> upload_file \<Rightarrow> string list" where
  "readable env f =
     (case fileToPublicKeyArmor (ke_lib env) (ke_td env) (file_bytes f) of
        Inl _ \<Rightarrow> [] | Inr a \<Rightarrow> if a = [] then [] else [a])"

text \<open>How many of the requests of an upload the server refused.\<close>

fun refused :: "pgp_server \<Rightarrow> call list \<Rightarrow> string list \<Rightarrow> nat" where
  "refused sv calls [] = 0"
| "refused sv calls (a # as) =
     (let calls = calls @ [import_call a]
      in (case sv_import sv calls of Inl _ \<Rightarrow> 1 | Inr _ \<Rightarrow> 0) + refused sv calls as)"

lemma upload_one_effect:
  "sentCalls (ut_world (upload_one env f u)) = sentCalls (ut_world u) @ map import_call (readable env f)
   \<and> length (ut_failed (upload_one env f u))
     = length (ut_failed u) + (if readable env f = [] then 1 else refused (ke_sv env) (sentCalls (ut_world u)) (readable env f))"
  by (auto simp: upload_one_def readable_def file_failed_def importContactKeysFromFile_def Let_def
      split: sum.split prod.split)

lemma refused_append:
  "refused sv calls (as @ bs) = refused sv calls as + refused sv (calls @ map import_call as) bs"
  by (induction as arbitrary: calls) (simp_all add: Let_def)

lemma upload_all:
  "sentCalls (ut_world (fold (upload_one env) fs u)) = sentCalls (ut_world u) @ map import_call (concat (map (readable env) fs))
   \<and> length (ut_failed (fold (upload_one env) fs u))
     = length (ut_failed u) + length (filter (\<lambda>f. readable env f = []) fs)
       + refused (ke_sv env) (sentCalls (ut_world u)) (concat (map (readable env) fs))"
proof (induction fs arbitrary: u)
  case (Cons f fs)
  show ?case using upload_one_effect [of env f u] Cons.IH [of "upload_one env f u"] by (auto simp: refused_append)
qed simp

text \<open>Every file of an upload is tried: the files that can be read are sent to the server in their order,
  whatever happens to the others, and the number of failures is that of the files that cannot be read and
  of the requests that the server refused.\<close>

theorem every_file_is_tried:
  "case tally_files env fs w of u \<Rightarrow>
     sentCalls (ut_world u) = sentCalls w @ map import_call (concat (map (readable env) fs))
     \<and> length (ut_failed u) = length (filter (\<lambda>f. readable env f = []) fs)
         + refused (ke_sv env) (sentCalls w) (concat (map (readable env) fs))"
  using upload_all [of env fs "\<lparr>ut_saved = 0, ut_invalid = 0, ut_skipped = [], ut_failed = [], ut_world = w\<rparr>"]
  by (simp add: tally_files_def)

section \<open>Failed requests\<close>

text \<open>When the request for the stored key fails, the dialog shows the form for a new key, as if there were
  none, and making a key sends it to the server in place of the stored one, without a question.\<close>

theorem failed_load_replaces_stored_key:
  assumes "memoryKeyPair w = None" and "sv_keyring (ke_sv env) (sentCalls w @ [keyring_call]) = Inl e"
    and "ke_email env = Some email" and "email \<noteq> []"
    and "\<And>nm pass. \<exists>pub. generateKeys (ke_lib env) nm email pass = Inr (priv, pub) \<and> (\<exists>k. readKey (ke_lib env) pub = Inr k)"
  shows "case open_keys env (init_keys w) of s \<Rightarrow>
     new_key_form False s \<and> km_msg s = None
     \<and> (case key_step env Generate s of s' \<Rightarrow>
          \<exists>kp. km_keyPair s' = Some kp \<and> kp_privateKeyArmored kp = priv
            \<and> sentCalls (km_world s') = sentCalls (km_world s) @ [sync_call kp])"
proof -
  let ?s = "open_keys env (init_keys w)"
  have n: "new_key_form False ?s" "km_msg ?s = None"
    using assms(1-4)
    by (simp_all add: open_keys_def loadKeys_def ensureKey_def fetchKeyringFromCloud_def init_keys_def getContactKeys_def
        new_key_form_def Let_def truthy_opt_def)
  obtain pub k where g: "generateKeys (ke_lib env) (or_else (km_name ?s) ''User'') email (nonempty_opt (Some (km_passphrase ?s)))
      = Inr (priv, pub)" "readKey (ke_lib env) pub = Inr k"
    using assms(5) by blast
  then show ?thesis
    using n assms(3,4)
    by (simp add: handleGenerateKey_def truthy_opt_def generateKey_def say_def refreshPgp_def store_new_key_def
        syncKeyringToCloud_def saveKeyPair_def Let_def)
qed

text \<open>Removing the key drops the error of the server: the dialog shows no key and no message, and when it is
  opened again the key is back, in the dialog and in memory.\<close>

theorem removed_key_comes_back:
  assumes "has_key_form s"
    and "\<And>calls. sv_keyring (ke_sv env) calls = Inr (Some p)" and "cl_encryptedPrivateKeyArmored p \<noteq> []"
  shows "case fold (key_step env) [AskRemoveKey, ConfirmRemoveKey] s of s1 \<Rightarrow>
     km_keyPair s1 = None \<and> km_msg s1 = km_msg s
     \<and> sentCalls (km_world s1) = sentCalls (km_world s) @ [delete_keyring_call]
     \<and> (case key_step env OpenKeys s1 of s2 \<Rightarrow>
          km_keyPair s2 = Some (cloud_key_pair p) \<and> memoryKeyPair (km_world s2) = Some (cloud_key_pair p))"
  using assms
  by (simp add: handleRemoveKey_def refreshPgp_def deleteKeyringFromCloud_def clearKey_def Let_def open_keys_def loadKeys_def
      ensureKey_def fetchKeyringFromCloud_def saveKeyPair_def getContactKeys_def)

section \<open>Examples\<close>

definition key_server :: "(call list \<Rightarrow> api_error + cloud_keyring_payload option) \<Rightarrow> pgp_server" where
  "key_server keyring = silent_server\<lparr>sv_keyring := keyring\<rparr>"

definition stored_key :: cloud_keyring_payload where
  "stored_key =
     \<lparr>cl_email = ''a@b'', cl_publicKeyArmored = ''pub'', cl_encryptedPrivateKeyArmored = ''priv'',
      cl_fingerprint = ''F'', cl_keyId = ''K'', cl_updatedAt = ''now''\<rparr>"

definition key_env_of :: "pgp_server \<Rightarrow> (string, string) key_env" where
  "key_env_of sv =
     \<lparr>ke_lib = toy_lib\<lparr>generateKeys := (\<lambda>_ _ _. Inr (''Unew'', ''pub''))\<rparr>, ke_td = (\<lambda>bs. map char_of bs), ke_sv = sv,
      ke_fetched = (\<lambda>_. None), ke_now = ''now'', ke_email = Some ''a@b''\<rparr>"

theorem failed_load_replaces_stored_key_witness:
  "case open_keys (key_env_of (key_server (\<lambda>_. Inl (thrown (Raw ''down''))))) (init_keys new_world) of s \<Rightarrow>
     new_key_form False s"
proof -
  let ?env = "key_env_of (key_server (\<lambda>_. Inl (thrown (Raw ''down''))))"
  have "memoryKeyPair new_world = None"
    "sv_keyring (ke_sv ?env) (sentCalls new_world @ [keyring_call]) = Inl (thrown (Raw ''down''))"
    "ke_email ?env = Some ''a@b''" "''a@b'' \<noteq> []"
    by (simp_all add: new_world_def key_env_of_def key_server_def)
  moreover have "\<exists>pub. generateKeys (ke_lib ?env) nm email pass = Inr (''Unew'', pub) \<and> (\<exists>k. readKey (ke_lib ?env) pub = Inr k)"
    for nm email pass
    by (simp add: key_env_of_def toy_lib_def)
  ultimately show ?thesis
    using failed_load_replaces_stored_key [of new_world ?env _ "''a@b''" "''Unew''"] by simp
qed

theorem removed_key_comes_back_witness:
  "case open_keys (key_env_of (key_server (\<lambda>_. Inr (Some stored_key)))) (init_keys new_world) of s \<Rightarrow>
     km_keyPair (fold (key_step (key_env_of (key_server (\<lambda>_. Inr (Some stored_key)))))
       [AskRemoveKey, ConfirmRemoveKey, OpenKeys] s) = Some (cloud_key_pair stored_key)"
proof -
  let ?env = "key_env_of (key_server (\<lambda>_. Inr (Some stored_key)))"
  let ?s = "open_keys ?env (init_keys new_world)"
  have "has_key_form ?s"
    by (simp add: has_key_form_def open_keys_def loadKeys_def ensureKey_def fetchKeyringFromCloud_def new_world_def
        key_env_of_def key_server_def stored_key_def getContactKeys_def init_keys_def Let_def)
  moreover have "sv_keyring (ke_sv ?env) calls = Inr (Some stored_key)" for calls
    by (simp add: key_env_of_def key_server_def)
  moreover have "cl_encryptedPrivateKeyArmored stored_key \<noteq> []" by (simp add: stored_key_def)
  ultimately show ?thesis using removed_key_comes_back [of ?s ?env stored_key] by simp
qed


end
