(* ===== verification/Security.thy ===== *)
theory Security
  imports Stores Pgp
begin

text \<open>
  The security settings, \<open>frontend/src/components/mail/SecurityTab.tsx\<close>: the change of the password, the second
  factor with its backup codes, and the passkeys.  Each section is a record with its events; a handler is cut
  at its \<open>await\<close>, and what a section waits for is in its state.  The checks that the browser makes of the
  fields of a form, the clipboard and the format of dates are not modelled; a secret is ASCII text.
\<close>

type_synonym form_note = "(bool \<times> message) option"

definition good :: "message \<Rightarrow> form_note" where
  "good m = Some (True, m)"

definition bad :: "message \<Rightarrow> form_note" where
  "bad m = Some (False, m)"

section \<open>The password\<close>

record password_form =
  pw_enabled :: bool
  pw_accountId :: string
  pw_old :: string
  pw_new :: string
  pw_confirm :: string
  pw_show :: bool
  pw_waiting :: "(bool \<times> string) option"
  pw_msg :: form_note
  pw_calls :: "call list"

definition init_password :: password_form where
  "init_password =
     \<lparr>pw_enabled = False, pw_accountId = [], pw_old = [], pw_new = [], pw_confirm = [], pw_show = False,
      pw_waiting = None, pw_msg = None, pw_calls = []\<rparr>"

definition isLoginEmail :: "string \<Rightarrow> string \<Rightarrow> bool" where
  "isLoginEmail loginEmail email \<longleftrightarrow> to_lower loginEmail \<noteq> [] \<and> to_lower email = to_lower loginEmail"

definition selected_account :: "string \<Rightarrow> account list \<Rightarrow> password_form \<Rightarrow> account option" where
  "selected_account loginEmail accounts s =
     (case find (\<lambda>a. acc_id a = pw_accountId s) accounts of
        Some a \<Rightarrow> Some a
      | None \<Rightarrow>
          (case find (\<lambda>a. isLoginEmail loginEmail (acc_email a)) accounts of
             Some a \<Rightarrow> Some a
           | None \<Rightarrow>
               (case find acc_isDefault accounts of
                  Some a \<Rightarrow> Some a
                | None \<Rightarrow> (case accounts of [] \<Rightarrow> None | a # _ \<Rightarrow> Some a))))"

definition isLoginAccount :: "string \<Rightarrow> account list \<Rightarrow> password_form \<Rightarrow> bool" where
  "isLoginAccount loginEmail accounts s \<longleftrightarrow>
     (case selected_account loginEmail accounts s of None \<Rightarrow> True | Some a \<Rightarrow> isLoginEmail loginEmail (acc_email a))"

definition account_label :: "account option \<Rightarrow> string" where
  "account_label a = (case a of None \<Rightarrow> [] | Some a \<Rightarrow> or_else (acc_label a) (acc_email a))"

definition submit_password :: "string \<Rightarrow> account list \<Rightarrow> password_form \<Rightarrow> password_form" where
  "submit_password loginEmail accounts s0 =
     (let s = s0\<lparr>pw_msg := None\<rparr>; sel = selected_account loginEmail accounts s
      in if length (pw_new s) < 8 then s\<lparr>pw_msg := bad (Tr ''security.needLength'' [])\<rparr>
         else if pw_new s \<noteq> pw_confirm s then s\<lparr>pw_msg := bad (Tr ''security.mismatch'' [])\<rparr>
         else if pw_new s = pw_old s then s\<lparr>pw_msg := bad (Tr ''security.sameAsOld'' [])\<rparr>
         else s\<lparr>pw_waiting := Some (isLoginAccount loginEmail accounts s, account_label sel),
                pw_calls := pw_calls s
                  @ [changePassword (pw_old s) (pw_new s) (pw_confirm s) (map_option acc_id sel)]\<rparr>)"

definition password_ends :: "message + unit \<Rightarrow> bool \<times> string \<Rightarrow> password_form \<Rightarrow> password_form" where
  "password_ends res closure s =
     (case res of
        Inl m \<Rightarrow> s\<lparr>pw_waiting := None, pw_msg := bad (message_or ''security.changeFailed'' m)\<rparr>
      | Inr _ \<Rightarrow>
          s\<lparr>pw_waiting := None, pw_old := [], pw_new := [], pw_confirm := [],
            pw_msg := good (if fst closure then Tr ''security.changed'' []
                            else Tr ''security.changedAccount'' [(''name'', Raw (snd closure))])\<rparr>)"

datatype password_event =
    ConfigSays bool
  | PickPasswordAccount string
  | TypeOld string
  | TypeNew string
  | TypeConfirm string
  | ToggleShowPassword
  | SubmitPassword
  | PasswordReply "message + unit"

definition on_password :: "(password_form \<Rightarrow> password_form) \<Rightarrow> password_form \<Rightarrow> password_form" where
  "on_password f s = (if pw_enabled s then f s else s)"

fun password_step :: "string \<Rightarrow> account list \<Rightarrow> password_event \<Rightarrow> password_form \<Rightarrow> password_form" where
  "password_step em accs (ConfigSays b) s = s\<lparr>pw_enabled := b\<rparr>"
| "password_step em accs (PickPasswordAccount i) s =
     on_password (\<lambda>s. if length accs > 1 then s\<lparr>pw_accountId := i, pw_msg := None\<rparr> else s) s"
| "password_step em accs (TypeOld v) s = on_password (\<lambda>s. s\<lparr>pw_old := v\<rparr>) s"
| "password_step em accs (TypeNew v) s = on_password (\<lambda>s. s\<lparr>pw_new := v\<rparr>) s"
| "password_step em accs (TypeConfirm v) s = on_password (\<lambda>s. s\<lparr>pw_confirm := v\<rparr>) s"
| "password_step em accs ToggleShowPassword s = on_password (\<lambda>s. s\<lparr>pw_show := \<not> pw_show s\<rparr>) s"
| "password_step em accs SubmitPassword s =
     on_password (\<lambda>s. if pw_waiting s = None then submit_password em accs s else s) s"
| "password_step em accs (PasswordReply res) s =
     (case pw_waiting s of None \<Rightarrow> s | Some closure \<Rightarrow> password_ends res closure s)"

section \<open>The second factor\<close>

record factor_setup =
  su_secret :: string
  su_otpauthUrl :: string
  su_issuer :: string
  su_account :: string

datatype factor_wait = WSetup | WEnable | WDisable | WRegenerate

record two_factor =
  tf_statusPending :: bool
  tf_status :: "bool option"
  tf_msg :: form_note
  tf_setup :: "factor_setup option"
  tf_verifyCode :: string
  tf_backupCodes :: "string list option"
  tf_showSecret :: bool
  tf_actionCode :: string
  tf_disableMode :: bool
  tf_regenerateMode :: bool
  tf_useCustom :: bool
  tf_customSecret :: string
  tf_waiting :: "factor_wait option"
  tf_calls :: "call list"

definition init_factor :: two_factor where
  "init_factor =
     \<lparr>tf_statusPending = True, tf_status = None, tf_msg = None, tf_setup = None, tf_verifyCode = [],
      tf_backupCodes = None, tf_showSecret = False, tf_actionCode = [], tf_disableMode = False,
      tf_regenerateMode = False, tf_useCustom = False, tf_customSecret = [], tf_waiting = None,
      tf_calls = [twofa_getStatus]\<rparr>"

datatype factor_screen = LoadingView | CodesView | SetupView | OffView | OnView

definition factor_view :: "two_factor \<Rightarrow> factor_screen" where
  "factor_view s =
     (case tf_status s of
        None \<Rightarrow> LoadingView
      | Some on \<Rightarrow>
          if tf_backupCodes s \<noteq> None then CodesView
          else if on then OnView else if tf_setup s \<noteq> None then SetupView else OffView)"

text \<open>\<open>loadStatus\<close>: an error counts as off.\<close>

definition status_ends :: "message + bool \<Rightarrow> two_factor \<Rightarrow> two_factor" where
  "status_ends res s =
     s\<lparr>tf_statusPending := False, tf_status := Some (case res of Inr on \<Rightarrow> on | Inl _ \<Rightarrow> False)\<rparr>"

definition ask_server :: "factor_wait \<Rightarrow> call \<Rightarrow> two_factor \<Rightarrow> two_factor" where
  "ask_server w c s = s\<lparr>tf_waiting := Some w, tf_msg := None, tf_calls := tf_calls s @ [c]\<rparr>"

definition handleSetup :: "two_factor \<Rightarrow> two_factor" where
  "handleSetup s =
     (let secretToUse = (if tf_useCustom s then Some (to_upper (trim (tf_customSecret s))) else None)
      in if tf_useCustom s \<and> \<not> truthy_opt secretToUse
         then s\<lparr>tf_msg := bad (Tr ''security.needOldSecret'' [])\<rparr>
         else ask_server WSetup (twofa_setup secretToUse) s)"

definition factor_fails :: "string \<Rightarrow> message \<Rightarrow> two_factor \<Rightarrow> two_factor" where
  "factor_fails key m s = s\<lparr>tf_waiting := None, tf_msg := bad (message_or key m)\<rparr>"

definition setup_ends :: "message + factor_setup \<Rightarrow> two_factor \<Rightarrow> two_factor" where
  "setup_ends res s =
     (case res of
        Inl m \<Rightarrow> factor_fails ''security.setupFailed'' m s
      | Inr su \<Rightarrow> s\<lparr>tf_waiting := None, tf_setup := Some su, tf_backupCodes := None, tf_verifyCode := []\<rparr>)"

definition handleEnable :: "two_factor \<Rightarrow> two_factor" where
  "handleEnable s =
     (case tf_setup s of
        None \<Rightarrow> s
      | Some su \<Rightarrow>
          if trim (tf_verifyCode s) = [] then s
          else ask_server WEnable (twofa_enable (su_secret su) (trim (tf_verifyCode s))) s)"

definition enable_ends :: "message + string list \<Rightarrow> two_factor \<Rightarrow> two_factor" where
  "enable_ends res s =
     (case res of
        Inl m \<Rightarrow> factor_fails ''security.codeError'' m s
      | Inr codes \<Rightarrow>
          s\<lparr>tf_waiting := None, tf_backupCodes := Some codes, tf_status := Some True,
            tf_msg := good (Tr ''security.enabled'' [])\<rparr>)"

definition handleDisable :: "two_factor \<Rightarrow> two_factor" where
  "handleDisable s =
     (if trim (tf_actionCode s) = [] then s else ask_server WDisable (twofa_disable (trim (tf_actionCode s))) s)"

definition disable_ends :: "message + unit \<Rightarrow> two_factor \<Rightarrow> two_factor" where
  "disable_ends res s =
     (case res of
        Inl m \<Rightarrow> factor_fails ''security.codeError'' m s
      | Inr _ \<Rightarrow>
          s\<lparr>tf_waiting := None, tf_status := Some False, tf_actionCode := [], tf_disableMode := False,
            tf_msg := good (Tr ''security.disabled'' [])\<rparr>)"

definition handleRegenerate :: "two_factor \<Rightarrow> two_factor" where
  "handleRegenerate s =
     (if trim (tf_actionCode s) = [] then s
      else ask_server WRegenerate (regenerateBackupCodes (trim (tf_actionCode s))) s)"

definition regenerate_ends :: "message + string list \<Rightarrow> two_factor \<Rightarrow> two_factor" where
  "regenerate_ends res s =
     (case res of
        Inl m \<Rightarrow> factor_fails ''security.codeError'' m s
      | Inr codes \<Rightarrow>
          s\<lparr>tf_waiting := None, tf_backupCodes := Some codes, tf_regenerateMode := False, tf_actionCode := [],
            tf_msg := good (Tr ''security.codesRegen'' [])\<rparr>)"

definition cancelSetup :: "two_factor \<Rightarrow> two_factor" where
  "cancelSetup s = s\<lparr>tf_setup := None, tf_verifyCode := [], tf_backupCodes := None, tf_msg := None\<rparr>"

text \<open>\<open>value.replace(/\D/g, '').slice(0, 6)\<close>\<close>

definition six_digits :: "string \<Rightarrow> string" where
  "six_digits v = take 6 (filter (\<lambda>c. in_range 48 57 c) v)"

datatype factor_event =
    StatusReply "message + bool"
  | PickCustom bool
  | TypeSecret string
  | ClickSetup
  | SetupReply "message + factor_setup"
  | ToggleSecret
  | TypeVerify string
  | SubmitEnable
  | EnableReply "message + string list"
  | ClickCancelSetup
  | CodesSaved
  | ClickDisable
  | TypeAction string
  | SubmitDisable
  | DisableReply "message + unit"
  | CancelDisable
  | ClickRegenerate
  | SubmitRegenerate
  | RegenerateReply "message + string list"
  | CancelRegenerate

definition in_view :: "factor_screen \<Rightarrow> (two_factor \<Rightarrow> two_factor) \<Rightarrow> two_factor \<Rightarrow> two_factor" where
  "in_view v f s = (if factor_view s = v then f s else s)"

definition idle :: "(two_factor \<Rightarrow> two_factor) \<Rightarrow> two_factor \<Rightarrow> two_factor" where
  "idle f s = (if tf_waiting s = None then f s else s)"

fun factor_step :: "factor_event \<Rightarrow> two_factor \<Rightarrow> two_factor" where
  "factor_step (StatusReply res) s = (if tf_statusPending s then status_ends res s else s)"
| "factor_step (PickCustom b) s = in_view OffView (\<lambda>s. s\<lparr>tf_useCustom := b\<rparr>) s"
| "factor_step (TypeSecret v) s =
     in_view OffView (\<lambda>s. if tf_useCustom s then s\<lparr>tf_customSecret := to_upper v\<rparr> else s) s"
| "factor_step ClickSetup s = in_view OffView (idle handleSetup) s"
| "factor_step (SetupReply res) s = (if tf_waiting s = Some WSetup then setup_ends res s else s)"
| "factor_step ToggleSecret s = in_view SetupView (\<lambda>s. s\<lparr>tf_showSecret := \<not> tf_showSecret s\<rparr>) s"
| "factor_step (TypeVerify v) s = in_view SetupView (\<lambda>s. s\<lparr>tf_verifyCode := six_digits v\<rparr>) s"
| "factor_step SubmitEnable s = in_view SetupView (idle handleEnable) s"
| "factor_step (EnableReply res) s = (if tf_waiting s = Some WEnable then enable_ends res s else s)"
| "factor_step ClickCancelSetup s = in_view SetupView cancelSetup s"
| "factor_step CodesSaved s = in_view CodesView (\<lambda>s. s\<lparr>tf_backupCodes := None\<rparr>) s"
| "factor_step ClickDisable s = in_view OnView (\<lambda>s. s\<lparr>tf_disableMode := True\<rparr>) s"
| "factor_step (TypeAction v) s =
     in_view OnView (\<lambda>s. if tf_disableMode s \<or> tf_regenerateMode s then s\<lparr>tf_actionCode := six_digits v\<rparr> else s) s"
| "factor_step SubmitDisable s = in_view OnView (idle (\<lambda>s. if tf_disableMode s then handleDisable s else s)) s"
| "factor_step (DisableReply res) s = (if tf_waiting s = Some WDisable then disable_ends res s else s)"
| "factor_step CancelDisable s =
     in_view OnView (\<lambda>s. if tf_disableMode s then s\<lparr>tf_disableMode := False, tf_actionCode := []\<rparr> else s) s"
| "factor_step ClickRegenerate s = in_view OnView (\<lambda>s. s\<lparr>tf_regenerateMode := True\<rparr>) s"
| "factor_step SubmitRegenerate s =
     in_view OnView (idle (\<lambda>s. if tf_regenerateMode s then handleRegenerate s else s)) s"
| "factor_step (RegenerateReply res) s = (if tf_waiting s = Some WRegenerate then regenerate_ends res s else s)"
| "factor_step CancelRegenerate s =
     in_view OnView (\<lambda>s. if tf_regenerateMode s then s\<lparr>tf_regenerateMode := False, tf_actionCode := []\<rparr> else s) s"

section \<open>Passkeys\<close>

record passkey_cred =
  pc_id :: string
  pc_name :: "string option"
  pc_createdAt :: string
  pc_lastUsedAt :: string

text \<open>\<open>load\<close> asks for the status and then for the list.\<close>

datatype load_stage = AskStatus | AskList

datatype passkey_wait =
    AddBegin string
  | AddDevice string string
  | AddFinish
  | RenameWait
  | RemoveWait
  | Reloading load_stage

record passkeys =
  pk_enabled :: bool
  pk_creds :: "passkey_cred list"
  pk_loading :: bool
  pk_waiting :: "passkey_wait option"
  pk_initial :: "load_stage option"
  pk_msg :: form_note
  pk_newName :: string
  pk_renamingId :: "string option"
  pk_renameVal :: string
  pk_deleteId :: "string option"
  pk_calls :: "call list"

definition init_passkeys :: passkeys where
  "init_passkeys =
     \<lparr>pk_enabled = False, pk_creds = [], pk_loading = True, pk_waiting = None, pk_initial = Some AskStatus,
      pk_msg = None, pk_newName = [], pk_renamingId = None, pk_renameVal = [], pk_deleteId = None,
      pk_calls = [twofa_getStatus]\<rparr>"

definition busy :: "passkeys \<Rightarrow> bool" where
  "busy s \<longleftrightarrow> pk_waiting s \<noteq> None"

definition pk_send :: "call \<Rightarrow> passkeys \<Rightarrow> passkeys" where
  "pk_send c s = s\<lparr>pk_calls := pk_calls s @ [c]\<rparr>"

text \<open>Where a load goes on, for the first one and for that after an operation.\<close>

definition load_at :: "bool \<Rightarrow> load_stage option \<Rightarrow> passkeys \<Rightarrow> passkeys" where
  "load_at first st s =
     (if first then s\<lparr>pk_initial := st\<rparr> else s\<lparr>pk_waiting := map_option Reloading st\<rparr>)"

definition load_done :: "bool \<Rightarrow> passkeys \<Rightarrow> passkeys" where
  "load_done first s = load_at first None (s\<lparr>pk_loading := False\<rparr>)"

definition load_status :: "bool \<Rightarrow> message + bool \<Rightarrow> passkeys \<Rightarrow> passkeys" where
  "load_status first res s =
     (case res of
        Inl _ \<Rightarrow> load_done first s
      | Inr on \<Rightarrow>
          (let s = s\<lparr>pk_enabled := on\<rparr>
           in if on then load_at first (Some AskList) (pk_send webauthn_list s) else load_done first s))"

definition load_list :: "bool \<Rightarrow> message + passkey_cred list \<Rightarrow> passkeys \<Rightarrow> passkeys" where
  "load_list first res s =
     load_done first (case res of Inl _ \<Rightarrow> s | Inr creds \<Rightarrow> s\<lparr>pk_creds := creds\<rparr>)"

definition pk_fails :: "message \<Rightarrow> passkeys \<Rightarrow> passkeys" where
  "pk_fails m s = s\<lparr>pk_waiting := None, pk_msg := bad m\<rparr>"

text \<open>After an operation: its message, and the load that is awaited.\<close>

definition pk_reload :: "string \<Rightarrow> passkeys \<Rightarrow> passkeys" where
  "pk_reload key s = pk_send twofa_getStatus (s\<lparr>pk_waiting := Some (Reloading AskStatus), pk_msg := good (Tr key [])\<rparr>)"

definition handleAdd :: "passkeys \<Rightarrow> passkeys" where
  "handleAdd s = pk_send registerBegin (s\<lparr>pk_waiting := Some (AddBegin (trim (pk_newName s))), pk_msg := None\<rparr>)"

definition begin_ends :: "message + string \<Rightarrow> string \<Rightarrow> passkeys \<Rightarrow> passkeys" where
  "begin_ends res nm s =
     (case res of
        Inl m \<Rightarrow> pk_fails (message_or ''security.passkeyAddFailed'' m) s
      | Inr challenge \<Rightarrow> s\<lparr>pk_waiting := Some (AddDevice challenge nm)\<rparr>)"

text \<open>The device: an error comes with whether its name is \<open>NotAllowedError\<close>.\<close>

definition device_ends :: "(bool \<times> message) + json \<Rightarrow> string \<Rightarrow> string \<Rightarrow> passkeys \<Rightarrow> passkeys" where
  "device_ends res challenge nm s =
     (case res of
        Inl (cancelled, m) \<Rightarrow>
          pk_fails (if cancelled then Tr ''security.passkeyNotAllowed'' []
                    else message_or ''security.passkeyAddFailed'' m) s
      | Inr credential \<Rightarrow>
          pk_send (registerFinish challenge credential (if nm = [] then None else Some nm))
            (s\<lparr>pk_waiting := Some AddFinish\<rparr>))"

definition finish_ends :: "message + unit \<Rightarrow> passkeys \<Rightarrow> passkeys" where
  "finish_ends res s =
     (case res of
        Inl m \<Rightarrow> pk_fails (message_or ''security.passkeyAddFailed'' m) s
      | Inr _ \<Rightarrow> pk_reload ''security.passkeyAdded'' (s\<lparr>pk_newName := []\<rparr>))"

definition handleRename :: "string \<Rightarrow> passkeys \<Rightarrow> passkeys" where
  "handleRename i s =
     (let nm = trim (pk_renameVal s)
      in if nm = [] then s
         else pk_send (webauthn_rename i nm) (s\<lparr>pk_waiting := Some RenameWait, pk_msg := None\<rparr>))"

definition rename_ends :: "message + unit \<Rightarrow> passkeys \<Rightarrow> passkeys" where
  "rename_ends res s =
     (case res of
        Inl m \<Rightarrow> pk_fails (message_or ''security.passkeyRenameFailed'' m) s
      | Inr _ \<Rightarrow> pk_reload ''security.passkeyRenamed'' (s\<lparr>pk_renamingId := None, pk_renameVal := []\<rparr>))"

definition doRemove :: "string \<Rightarrow> passkeys \<Rightarrow> passkeys" where
  "doRemove i s = pk_send (webauthn_remove i) (s\<lparr>pk_waiting := Some RemoveWait, pk_msg := None\<rparr>)"

definition remove_ends :: "message + unit \<Rightarrow> passkeys \<Rightarrow> passkeys" where
  "remove_ends res s =
     (case res of
        Inl m \<Rightarrow> pk_fails (message_or ''security.passkeyDeleteFailed'' m) s
      | Inr _ \<Rightarrow> pk_reload ''security.passkeyDeleted'' (s\<lparr>pk_deleteId := None\<rparr>))"

definition has_cred :: "string \<Rightarrow> passkeys \<Rightarrow> bool" where
  "has_cred i s \<longleftrightarrow> list_ex (\<lambda>c. pc_id c = i) (pk_creds s)"

datatype passkey_event =
    InitialStatus "message + bool"
  | InitialList "message + passkey_cred list"
  | TypeNewName string
  | ClickAdd
  | RegisterReply "message + string"
  | RegisterDevice "(bool \<times> message) + json"
  | FinishReply "message + unit"
  | StartRename string
  | TypeRename string
  | SaveRename
  | StopRename
  | RenameReply "message + unit"
  | AskRemove string
  | CancelRemove
  | ConfirmRemove
  | RemoveReply "message + unit"
  | ReloadStatus "message + bool"
  | ReloadList "message + passkey_cred list"

text \<open>The section is shown when the browser and the server have passkeys; its list after the first load.\<close>

definition section_shown :: "bool \<Rightarrow> passkeys \<Rightarrow> bool" where
  "section_shown supported s \<longleftrightarrow> supported \<and> pk_enabled s"

definition list_shown :: "bool \<Rightarrow> passkeys \<Rightarrow> bool" where
  "list_shown supported s \<longleftrightarrow> section_shown supported s \<and> \<not> pk_loading s"

fun passkey_step :: "bool \<Rightarrow> passkey_event \<Rightarrow> passkeys \<Rightarrow> passkeys" where
  "passkey_step has (InitialStatus res) s =
     (if pk_initial s = Some AskStatus then load_status True res s else s)"
| "passkey_step has (InitialList res) s = (if pk_initial s = Some AskList then load_list True res s else s)"
| "passkey_step has (TypeNewName v) s = (if list_shown has s then s\<lparr>pk_newName := v\<rparr> else s)"
| "passkey_step has ClickAdd s = (if list_shown has s \<and> \<not> busy s then handleAdd s else s)"
| "passkey_step has (RegisterReply res) s =
     (case pk_waiting s of Some (AddBegin nm) \<Rightarrow> begin_ends res nm s | _ \<Rightarrow> s)"
| "passkey_step has (RegisterDevice res) s =
     (case pk_waiting s of Some (AddDevice challenge nm) \<Rightarrow> device_ends res challenge nm s | _ \<Rightarrow> s)"
| "passkey_step has (FinishReply res) s = (if pk_waiting s = Some AddFinish then finish_ends res s else s)"
| "passkey_step has (StartRename i) s =
     (if list_shown has s \<and> pk_renamingId s \<noteq> Some i then
        (case find (\<lambda>c. pc_id c = i) (pk_creds s) of
           None \<Rightarrow> s
         | Some c \<Rightarrow> s\<lparr>pk_renamingId := Some i, pk_renameVal := opt_string (pc_name c)\<rparr>)
      else s)"
| "passkey_step has (TypeRename v) s =
     (if list_shown has s \<and> pk_renamingId s \<noteq> None then s\<lparr>pk_renameVal := v\<rparr> else s)"
| "passkey_step has SaveRename s =
     (case pk_renamingId s of
        None \<Rightarrow> s
      | Some i \<Rightarrow> if list_shown has s \<and> has_cred i s \<and> \<not> busy s then handleRename i s else s)"
| "passkey_step has StopRename s =
     (if list_shown has s then s\<lparr>pk_renamingId := None, pk_renameVal := []\<rparr> else s)"
| "passkey_step has (RenameReply res) s = (if pk_waiting s = Some RenameWait then rename_ends res s else s)"
| "passkey_step has (AskRemove i) s =
     (if list_shown has s \<and> has_cred i s \<and> \<not> busy s then s\<lparr>pk_deleteId := Some i\<rparr> else s)"
| "passkey_step has CancelRemove s = (if section_shown has s then s\<lparr>pk_deleteId := None\<rparr> else s)"
| "passkey_step has ConfirmRemove s =
     (case pk_deleteId s of
        None \<Rightarrow> s
      | Some i \<Rightarrow> if section_shown has s \<and> i \<noteq> [] \<and> \<not> busy s then doRemove i s else s)"
| "passkey_step has (RemoveReply res) s = (if pk_waiting s = Some RemoveWait then remove_ends res s else s)"
| "passkey_step has (ReloadStatus res) s =
     (if pk_waiting s = Some (Reloading AskStatus) then load_status False res s else s)"
| "passkey_step has (ReloadList res) s =
     (if pk_waiting s = Some (Reloading AskList) then load_list False res s else s)"

end
