(* ===== verification/SecurityProps.thy ===== *)
theory SecurityProps
  imports Security Machine
begin

text \<open>
  Properties of the security settings over all their histories: which requests are sent, what the section of
  the second factor knows from the server, and what a disabled factor leaves behind.
\<close>

section \<open>The password\<close>

definition checked_change :: "account list \<Rightarrow> call \<Rightarrow> bool" where
  "checked_change accounts c \<longleftrightarrow>
     (\<exists>old new sel. c = changePassword old new new (map_option acc_id sel) \<and> 8 \<le> length new \<and> new \<noteq> old
        \<and> (case sel of None \<Rightarrow> accounts = [] | Some a \<Rightarrow> a \<in> set accounts))"

lemma selected_from: "case selected_account em accounts s of None \<Rightarrow> accounts = [] | Some a \<Rightarrow> a \<in> set accounts"
  by (auto simp: selected_account_def split: option.split list.split dest: find_Some_set)

lemma submit_checked:
  assumes "list_all (checked_change accounts) (pw_calls s)"
  shows "list_all (checked_change accounts) (pw_calls (submit_password em accounts s))"
proof -
  let ?sel = "selected_account em accounts s"
  have sel: "selected_account em accounts (s\<lparr>pw_msg := None\<rparr>) = ?sel" by (simp add: selected_account_def)
  have "checked_change accounts (changePassword (pw_old s) (pw_new s) (pw_confirm s) (map_option acc_id ?sel))"
    if "\<not> length (pw_new s) < 8" "pw_new s = pw_confirm s" "pw_new s \<noteq> pw_old s"
    unfolding checked_change_def
    by (rule exI [of _ "pw_old s"], rule exI [of _ "pw_new s"], rule exI [of _ ?sel])
      (use that selected_from [where em = em and accounts = accounts and s = s] in simp)
  with assms show ?thesis by (auto simp: submit_password_def Let_def sel)
qed

interpretation password_changes:
  safe_machine init_password "password_step em accounts" "\<lambda>s. list_all (checked_change accounts) (pw_calls s)"
  for em accounts
proof
  show "list_all (checked_change accounts) (pw_calls init_password)" by (simp add: init_password_def)
  show "list_all (checked_change accounts) (pw_calls s) \<Longrightarrow>
      list_all (checked_change accounts) (pw_calls (password_step em accounts e s))" for e s
    by (cases e) (auto simp: on_password_def submit_checked password_ends_def split: option.split sum.split)
qed

text \<open>C21: every request of every history that changes a password has a new password of at least eight characters,
  the same twice and other than the old one, and is for an account of the session, or for the user when
  the session has no accounts.\<close>

theorem password_changes_are_checked:
  "\<forall>c \<in> set (pw_calls (fold (password_step em accounts) es init_password)).
     \<exists>old new sel. c = changePassword old new new (map_option acc_id sel) \<and> 8 \<le> length new \<and> new \<noteq> old
       \<and> (case sel of None \<Rightarrow> accounts = [] | Some a \<Rightarrow> a \<in> set accounts)"
  using password_changes.inv_history [where em = em and accounts = accounts and es = es] by (simp add: list_all_iff checked_change_def)

text \<open>A user without accounts who first repeats the old password and then picks a new one.\<close>

definition changing :: "password_event list" where
  "changing =
     [ConfigSays True, TypeOld ''oldsecret'', TypeNew ''oldsecret'', TypeConfirm ''oldsecret'', SubmitPassword,
      TypeNew ''newsecret'', TypeConfirm ''newsecret'', SubmitPassword]"

theorem password_changes_are_checked_witness:
  "\<exists>c. pw_calls (fold (password_step ''a@b'' []) changing init_password) = [c]
     \<and> (\<exists>old new (sel :: account option). c = changePassword old new new (map_option acc_id sel) \<and> 8 \<le> length new)"
proof -
  let ?s = "fold (password_step ''a@b'' []) changing init_password"
  have "map fst (pw_calls ?s) = [fst (changePassword ''oldsecret'' ''newsecret'' ''newsecret'' None)]" by code_simp
  then obtain c where c: "pw_calls ?s = [c]" by (auto simp: map_eq_Cons_conv)
  with bspec [OF password_changes_are_checked, of c "''a@b''" "[]" changing] show ?thesis by auto
qed

section \<open>The second factor\<close>

definition is_code :: "string \<Rightarrow> bool" where
  "is_code v \<longleftrightarrow> length v \<le> 6 \<and> list_all (\<lambda>c. in_range 48 57 c) v"

definition coded_call :: "factor_event list \<Rightarrow> call \<Rightarrow> bool" where
  "coded_call es c \<longleftrightarrow>
     (fst c = ''/2fa/enable'' \<longrightarrow>
        (\<exists>su cod. SetupReply (Inr su) \<in> set es \<and> is_code cod \<and> cod \<noteq> [] \<and> c = twofa_enable (su_secret su) cod))
     \<and> (fst c = ''/2fa/disable'' \<longrightarrow> (\<exists>cod. is_code cod \<and> cod \<noteq> [] \<and> c = twofa_disable cod))
     \<and> (fst c = ''/2fa/regenerate-backup-codes'' \<longrightarrow> (\<exists>cod. is_code cod \<and> cod \<noteq> [] \<and> c = regenerateBackupCodes cod))"

definition factor_codes :: "factor_event list \<Rightarrow> two_factor \<Rightarrow> bool" where
  "factor_codes es s \<longleftrightarrow>
     is_code (tf_verifyCode s) \<and> is_code (tf_actionCode s)
     \<and> (\<forall>su. tf_setup s = Some su \<longrightarrow> SetupReply (Inr su) \<in> set es)"

definition factor_calls :: "factor_event list \<Rightarrow> two_factor \<Rightarrow> bool" where
  "factor_calls es s \<longleftrightarrow> list_all (coded_call es) (tf_calls s)"

lemma is_code_Nil [simp]: "is_code []"
  by (simp add: is_code_def)

lemma six_digits_code [simp]: "is_code (six_digits v)"
  by (auto simp: is_code_def six_digits_def list_all_iff dest: in_set_takeD)

lemma is_code_trim: "is_code v \<Longrightarrow> is_code (trim v)"
proof -
  have "length (trim v) \<le> length v"
    unfolding trim_def trim_end_def trim_start_def by (metis length_dropWhile_le length_rev order_trans)
  then show "is_code v \<Longrightarrow> is_code (trim v)" using set_trim [of v] by (auto simp: is_code_def list_all_iff)
qed

lemma factor_paths [simp]:
  "fst twofa_getStatus = ''/2fa/status''" "fst (twofa_setup x) = ''/2fa/setup''" "fst (twofa_enable a b) = ''/2fa/enable''"
  "fst (twofa_disable d) = ''/2fa/disable''" "fst (regenerateBackupCodes d) = ''/2fa/regenerate-backup-codes''"
  by (simp_all add: twofa_getStatus_def twofa_setup_def twofa_enable_def twofa_disable_def regenerateBackupCodes_def)

lemma coded_call_mono: "set es \<subseteq> set es' \<Longrightarrow> coded_call es c \<Longrightarrow> coded_call es' c"
  unfolding coded_call_def by blast

lemmas factor_defs =
  in_view_def idle_def status_ends_def ask_server_def handleSetup_def factor_fails_def setup_ends_def
  handleEnable_def enable_ends_def handleDisable_def disable_ends_def handleRegenerate_def regenerate_ends_def
  cancelSetup_def

lemma factor_codes_step: "factor_codes es s \<Longrightarrow> factor_codes (es @ [e]) (factor_step e s)"
  by (cases e) (auto simp: factor_codes_def factor_defs Let_def split: sum.split option.split)

lemma factor_calls_step:
  assumes "factor_codes es s" and "factor_calls es s"
  shows "factor_calls (es @ [e]) (factor_step e s)"
proof -
  have m: "factor_calls (es @ [e]) s"
    using assms(2) coded_call_mono [of es "es @ [e]"] by (auto simp: factor_calls_def list_all_iff)
  have su: "SetupReply (Inr su) \<in> set (es @ [e])" if "tf_setup s = Some su" for su
    using assms(1) that by (simp add: factor_codes_def)
  have v: "is_code (trim (tf_verifyCode s))" "is_code (trim (tf_actionCode s))"
    using assms(1) by (auto simp: factor_codes_def intro: is_code_trim)
  have en: "factor_calls (es @ [e]) (handleEnable s)"
    using m su v(1) by (auto simp: handleEnable_def ask_server_def factor_calls_def coded_call_def split: option.split)
  have di: "factor_calls (es @ [e]) (handleDisable s)" "factor_calls (es @ [e]) (handleRegenerate s)"
    using m v(2) by (auto simp: handleDisable_def handleRegenerate_def ask_server_def factor_calls_def coded_call_def)
  have se: "factor_calls (es @ [e]) (handleSetup s)"
    using m by (auto simp: handleSetup_def ask_server_def factor_calls_def coded_call_def Let_def)
  show ?thesis
  proof (cases "e \<in> {SubmitEnable, SubmitDisable, SubmitRegenerate, ClickSetup}")
    case True
    with m en di se show ?thesis by (auto simp: in_view_def idle_def)
  next
    case False
    then have "tf_calls (factor_step e s) = tf_calls s"
      by (cases e) (auto simp: in_view_def status_ends_def factor_fails_def setup_ends_def enable_ends_def
          disable_ends_def regenerate_ends_def cancelSetup_def split: sum.split)
    with m show ?thesis by (simp add: factor_calls_def)
  qed
qed

lemma factor_history: "factor_codes es (fold factor_step es init_factor) \<and> factor_calls es (fold factor_step es init_factor)"
proof (induction es rule: rev_induct)
  case Nil
  show ?case by (simp add: factor_codes_def factor_calls_def init_factor_def coded_call_def)
next
  case (snoc e es)
  then show ?case using factor_codes_step factor_calls_step by simp
qed

text \<open>C20: every request of every history that turns the second factor on or off, or makes new backup codes, has a
  code of one to six digits, and it is turned on with a secret that the server made.\<close>

theorem factor_requests_have_codes:
  "\<forall>c \<in> set (tf_calls (fold factor_step es init_factor)).
     (fst c = ''/2fa/enable'' \<longrightarrow>
        (\<exists>su cod. SetupReply (Inr su) \<in> set es \<and> is_code cod \<and> cod \<noteq> [] \<and> c = twofa_enable (su_secret su) cod))
     \<and> (fst c = ''/2fa/disable'' \<longrightarrow> (\<exists>cod. is_code cod \<and> cod \<noteq> [] \<and> c = twofa_disable cod))
     \<and> (fst c = ''/2fa/regenerate-backup-codes'' \<longrightarrow> (\<exists>cod. is_code cod \<and> cod \<noteq> [] \<and> c = regenerateBackupCodes cod))"
  using factor_history [of es] by (simp add: factor_calls_def list_all_iff coded_call_def)

definition known_factor :: "factor_event list \<Rightarrow> two_factor \<Rightarrow> bool" where
  "known_factor es s \<longleftrightarrow>
     (tf_status s = Some True \<longrightarrow> StatusReply (Inr True) \<in> set es \<or> (\<exists>cs. EnableReply (Inr cs) \<in> set es))
     \<and> (\<forall>cs. tf_backupCodes s = Some cs \<longrightarrow> EnableReply (Inr cs) \<in> set es \<or> RegenerateReply (Inr cs) \<in> set es)"

lemma known_factor_step: "known_factor es s \<Longrightarrow> known_factor (es @ [e]) (factor_step e s)"
  by (cases e) (auto simp: known_factor_def factor_defs Let_def split: sum.split option.split)

lemma known_factor_history: "known_factor es (fold factor_step es init_factor)"
proof (induction es rule: rev_induct)
  case Nil
  show ?case by (simp add: known_factor_def init_factor_def)
next
  case (snoc e es)
  then show ?case using known_factor_step by simp
qed

text \<open>The section shows the second factor as on, and backup codes, only when the server said so: backup codes
  on the screen are those of an answer of the server.\<close>

theorem factor_state_is_from_server:
  "case fold factor_step es init_factor of s \<Rightarrow>
     (tf_status s = Some True \<longrightarrow> StatusReply (Inr True) \<in> set es \<or> (\<exists>cs. EnableReply (Inr cs) \<in> set es))
     \<and> (\<forall>cs. tf_backupCodes s = Some cs \<longrightarrow> EnableReply (Inr cs) \<in> set es \<or> RegenerateReply (Inr cs) \<in> set es)"
  using known_factor_history [of es] by (simp add: known_factor_def)

lemma call_with_path: "map fst cs = ps \<Longrightarrow> p \<in> set ps \<Longrightarrow> \<exists>c \<in> set cs. fst c = p"
  by auto

text \<open>A user who turns the second factor on.\<close>

definition example_setup :: factor_setup where
  "example_setup = \<lparr>su_secret = ''SECRET'', su_otpauthUrl = ''otpauth:'', su_issuer = ''e2Mail'', su_account = ''a@b''\<rparr>"

definition enabling :: "factor_event list" where
  "enabling =
     [StatusReply (Inr False), ClickSetup, SetupReply (Inr example_setup), TypeVerify ''123456'', SubmitEnable,
      EnableReply (Inr [''AAAAABBBBB'']), CodesSaved]"

theorem factor_requests_have_codes_witness:
  "\<exists>c \<in> set (tf_calls (fold factor_step enabling init_factor)).
     \<exists>(su :: factor_setup) cod. c = twofa_enable (su_secret su) cod \<and> is_code cod"
proof -
  have paths: "map fst (tf_calls (fold factor_step enabling init_factor)) = [''/2fa/status'', ''/2fa/setup'', ''/2fa/enable'']"
    by code_simp
  have "''/2fa/enable'' \<in> set [''/2fa/status'', ''/2fa/setup'', ''/2fa/enable'']" by simp
  from call_with_path [OF paths this] obtain c
    where c: "c \<in> set (tf_calls (fold factor_step enabling init_factor))" "fst c = ''/2fa/enable''" ..
  from bspec [OF factor_requests_have_codes c(1), THEN conjunct1, THEN mp, OF c(2)] c(1) show ?thesis by blast
qed

theorem factor_state_is_from_server_witness:
  "tf_status (fold factor_step enabling init_factor) = Some True \<and> EnableReply (Inr [''AAAAABBBBB'']) \<in> set enabling
   \<and> (\<exists>cs. EnableReply (Inr cs) \<in> set enabling)"
proof -
  have "tf_status (fold factor_step enabling init_factor) = Some True" by code_simp
  moreover have "StatusReply (Inr True) \<notin> set enabling" by (simp add: enabling_def)
  ultimately show ?thesis using factor_state_is_from_server [of enabling] by (auto simp: enabling_def)
qed

text \<open>Turning the second factor off leaves the secret in the form: the section then shows the old secret
  with its code, and the next request turns the factor on again with the secret that was given up, instead of
  asking the server for a new one.\<close>

theorem disabled_factor_offers_old_secret:
  assumes "factor_view s = OnView" and "tf_setup s = Some su" and "tf_waiting s = None" and "six_digits v \<noteq> []"
    and "trim (six_digits v) = six_digits v"
  shows "case fold factor_step [ClickDisable, TypeAction v, SubmitDisable, DisableReply (Inr ())] s of s1 \<Rightarrow>
     factor_view s1 = SetupView \<and> tf_setup s1 = Some su
     \<and> (case fold factor_step [TypeVerify v, SubmitEnable] s1 of s2 \<Rightarrow>
          tf_calls s2 = tf_calls s @ [twofa_disable (six_digits v), twofa_enable (su_secret su) (six_digits v)])"
  using assms
  by (simp add: factor_view_def in_view_def idle_def handleDisable_def ask_server_def disable_ends_def handleEnable_def
      split: option.splits if_splits)

theorem disabled_factor_offers_old_secret_witness:
  "factor_view (fold factor_step [ClickDisable, TypeAction ''654321'', SubmitDisable, DisableReply (Inr ())]
     (fold factor_step enabling init_factor)) = SetupView"
proof -
  let ?s = "fold factor_step enabling init_factor"
  have "factor_view ?s = OnView" "tf_waiting ?s = None" "six_digits ''654321'' \<noteq> []"
      "trim (six_digits ''654321'') = six_digits ''654321''"
    by code_simp+
  moreover have "tf_setup ?s = Some example_setup" by code_simp
  ultimately show ?thesis using disabled_factor_offers_old_secret [of ?s example_setup "''654321''"] by simp
qed

section \<open>Passkeys\<close>

text \<open>The passkeys that the server listed.\<close>

definition listed_ids :: "passkey_event list \<Rightarrow> string set" where
  "listed_ids es = {pc_id c | c cs. (InitialList (Inr cs) \<in> set es \<or> ReloadList (Inr cs) \<in> set es) \<and> c \<in> set cs}"

definition is_removal :: "call \<Rightarrow> bool" where
  "is_removal c \<longleftrightarrow> omethod (snd c) = Some ''DELETE''"

definition removals_ok :: "passkey_event list \<Rightarrow> passkeys \<Rightarrow> bool" where
  "removals_ok es s \<longleftrightarrow>
     (\<forall>c \<in> set (pk_creds s). pc_id c \<in> listed_ids es)
     \<and> (\<forall>i. pk_deleteId s = Some i \<longrightarrow> i \<in> listed_ids es)
     \<and> (\<forall>c \<in> set (pk_calls s). is_removal c \<longrightarrow> (\<exists>i \<in> listed_ids es. c = webauthn_remove i))
     \<and> length (filter is_removal (pk_calls s)) \<le> length (filter (\<lambda>e. e = ConfirmRemove) es)"

lemma removal_calls [simp]:
  "is_removal (webauthn_remove i)" "\<not> is_removal webauthn_list" "\<not> is_removal registerBegin"
  "\<not> is_removal (registerFinish a b nm)" "\<not> is_removal (webauthn_rename i x)" "\<not> is_removal twofa_getStatus"
  by (simp_all add: is_removal_def webauthn_remove_def webauthn_list_def registerBegin_def registerFinish_def
      webauthn_rename_def twofa_getStatus_def with_body_def get_options_def)

lemma listed_ids_mono: "listed_ids es \<subseteq> listed_ids (es @ [e])"
  by (auto simp: listed_ids_def)

lemma listed_ids_reply:
  "c \<in> set cs \<Longrightarrow> pc_id c \<in> listed_ids (es @ [InitialList (Inr cs)])"
  "c \<in> set cs \<Longrightarrow> pc_id c \<in> listed_ids (es @ [ReloadList (Inr cs)])"
  by (auto simp: listed_ids_def)

lemma removals_later: "removals_ok es s \<Longrightarrow> removals_ok (es @ [e]) s"
  unfolding removals_ok_def using listed_ids_mono [of es e] by (auto; meson subsetD)

lemma removals_quiet:
  assumes "removals_ok es s" and "pk_creds s' = pk_creds s" and "pk_deleteId s' \<in> {pk_deleteId s, None}"
    and "\<exists>cs. pk_calls s' = pk_calls s @ cs \<and> list_all (\<lambda>c. \<not> is_removal c) cs"
  shows "removals_ok es s'"
proof -
  obtain cs where c: "pk_calls s' = pk_calls s @ cs" "\<forall>c \<in> set cs. \<not> is_removal c"
    using assms(4) by (auto simp: list_all_iff)
  then have "filter is_removal cs = []" by (simp add: filter_empty_conv)
  with assms(1-3) c show ?thesis by (auto simp: removals_ok_def)
qed

lemmas passkey_defs =
  load_at_def load_done_def load_status_def load_list_def pk_send_def pk_fails_def pk_reload_def handleAdd_def begin_ends_def
  device_ends_def finish_ends_def handleRename_def rename_ends_def remove_ends_def Let_def

lemma removals_load:
  assumes "removals_ok es s" and "e = InitialList res \<or> e = ReloadList res"
  shows "removals_ok (es @ [e]) (load_list first res s)"
proof (cases res)
  case (Inl m)
  with removals_later [OF assms(1)] show ?thesis
    by (auto simp: load_list_def load_done_def load_at_def removals_ok_def)
next
  case (Inr cs)
  then have "\<forall>c \<in> set cs. pc_id c \<in> listed_ids (es @ [e])" using assms(2) listed_ids_reply by auto
  with removals_later [OF assms(1), of e] Inr show ?thesis
    by (auto simp: load_list_def load_done_def load_at_def removals_ok_def)
qed

lemma removals_confirm:
  assumes "removals_ok es s" and "pk_deleteId s = Some i"
  shows "removals_ok (es @ [ConfirmRemove]) (doRemove i s)"
  using removals_later [OF assms(1), of ConfirmRemove] assms
  by (auto simp: doRemove_def pk_send_def removals_ok_def)

lemma removals_handlers:
  assumes "removals_ok es s"
  shows "removals_ok es (load_status first res s)" "removals_ok es (handleAdd s)"
    "removals_ok es (begin_ends b nm s)" "removals_ok es (device_ends d challenge nm s)"
    "removals_ok es (finish_ends r s)" "removals_ok es (handleRename i s)" "removals_ok es (rename_ends r s)"
    "removals_ok es (remove_ends r s)"
  by (rule removals_quiet [OF assms]; auto simp: passkey_defs split: sum.split prod.split)+

lemma removals_fields:
  assumes "removals_ok es s"
  shows "removals_ok es (s\<lparr>pk_newName := v\<rparr>)" "removals_ok es (s\<lparr>pk_renamingId := r, pk_renameVal := v\<rparr>)"
    "removals_ok es (s\<lparr>pk_renameVal := v\<rparr>)" "removals_ok es (s\<lparr>pk_deleteId := None\<rparr>)"
  by (rule removals_quiet [OF assms]; simp)+

lemma removals_step:
  assumes "removals_ok es s"
  shows "removals_ok (es @ [e]) (passkey_step has e s)"
proof (cases e)
  case (InitialList res)
  with removals_load [OF assms] removals_later [OF assms] show ?thesis by auto
next
  case (ReloadList res)
  with removals_load [OF assms] removals_later [OF assms] show ?thesis by auto
next
  case ConfirmRemove
  with removals_confirm [OF assms] removals_later [OF assms] show ?thesis by (auto split: option.split)
next
  case (AskRemove i)
  with removals_later [OF assms, of e] show ?thesis by (auto simp: removals_ok_def has_cred_def list_ex_iff)
qed (simp_all add: removals_handlers removals_fields removals_later [OF assms] split: option.split passkey_wait.split)

lemma removals_history: "removals_ok es (fold (passkey_step has) es init_passkeys)"
proof (induction es rule: rev_induct)
  case Nil
  show ?case by (simp add: removals_ok_def init_passkeys_def)
next
  case (snoc e es)
  then show ?case using removals_step by simp
qed

text \<open>In every history the requests that delete a passkey are at most as many as the confirmations of the user,
  and each is for a passkey that the server listed.\<close>

theorem passkey_removals_are_confirmed:
  "case fold (passkey_step has) es init_passkeys of s \<Rightarrow>
     length (filter is_removal (pk_calls s)) \<le> length (filter (\<lambda>e. e = ConfirmRemove) es)
     \<and> set (filter is_removal (pk_calls s)) \<subseteq> webauthn_remove ` listed_ids es"
  using removals_history [of es has] by (auto simp: removals_ok_def)

end
