(* ===== verification/Contacts.thy ===== *)
theory Contacts
  imports Pgp Stores
begin

text \<open>
  The page of the contacts, \<open>frontend/src/components/contacts/ContactsPage.tsx\<close>: the address book and the keys of
  contacts shown as one list, with making, changing, deleting, importing and exporting contacts.  The queries
  are caches whose answers are events; a mutation is cut at each \<open>await\<close>, and what it waits for holds the
  variables of its closure.  The library of keys and the texts of the interface are parameters.
\<close>

section \<open>The list\<close>

record merged_contact = contact +
  mc_hasPgp :: bool
  mc_publicKeyArmored :: "string option"
  mc_pgpOnly :: bool

text \<open>\<open>keyByEmail.get\<close>: of two keys for an address the map keeps the later one.\<close>

definition key_for :: "pgp_contact_key list \<Rightarrow> string \<Rightarrow> pgp_contact_key option" where
  "key_for keys em = find (\<lambda>k. to_lower (ck_email k) = to_lower em) (rev keys)"

definition contact_row :: "pgp_contact_key list \<Rightarrow> contact \<Rightarrow> merged_contact" where
  "contact_row keys c =
     contact.extend c
       \<lparr>mc_hasPgp = key_for keys (c_email c) \<noteq> None,
        mc_publicKeyArmored = map_option ck_publicKeyArmored (key_for keys (c_email c)), mc_pgpOnly = False\<rparr>"

definition key_row :: "pgp_contact_key \<Rightarrow> merged_contact" where
  "key_row k =
     \<lparr>c_id = ''pgp:'' @ ck_email k, c_email = ck_email k, c_displayName = or_else (opt_string (ck_name k)) (ck_email k),
      c_givenName = None, c_familyName = None, c_hasAvatar = False, c_note = None, c_source = None,
      c_createdAt = [], c_updatedAt = [], mc_hasPgp = True, mc_publicKeyArmored = Some (ck_publicKeyArmored k),
      mc_pgpOnly = True\<rparr>"

definition has_address :: "string \<Rightarrow> merged_contact list \<Rightarrow> bool" where
  "has_address em rows \<longleftrightarrow> list_ex (\<lambda>c. to_lower (c_email c) = to_lower em) rows"

definition key_matches :: "string \<Rightarrow> pgp_contact_key \<Rightarrow> bool" where
  "key_matches q k \<longleftrightarrow>
     q = [] \<or> contains (to_lower (ck_email k)) (to_lower q) \<or> contains (to_lower (opt_string (ck_name k))) (to_lower q)"

fun add_key_rows :: "string \<Rightarrow> pgp_contact_key list \<Rightarrow> merged_contact list \<Rightarrow> merged_contact list" where
  "add_key_rows q [] rows = rows"
| "add_key_rows q (k # ks) rows =
     add_key_rows q ks
       (if has_address (ck_email k) rows then rows
        else if \<not> key_matches q k then rows else rows @ [key_row k])"

definition merged :: "string \<Rightarrow> contact list option \<Rightarrow> pgp_contact_key list option \<Rightarrow> merged_contact list" where
  "merged q contacts keys =
     (let ks = (case keys of None \<Rightarrow> [] | Some ks \<Rightarrow> ks); cs = (case contacts of None \<Rightarrow> [] | Some cs \<Rightarrow> cs)
      in add_key_rows q ks (map (contact_row ks) cs))"

section \<open>State\<close>

record contact_form =
  cf_displayName :: string
  cf_email :: string
  cf_note :: string
  cf_publicKeyArmored :: string

definition empty_contact_form :: contact_form where
  "empty_contact_form = \<lparr>cf_displayName = [], cf_email = [], cf_note = [], cf_publicKeyArmored = []\<rparr>"

datatype contact_field = NameField | EmailField | NoteField | KeyField

fun set_field :: "contact_field \<Rightarrow> string \<Rightarrow> contact_form \<Rightarrow> contact_form" where
  "set_field NameField v f = f\<lparr>cf_displayName := v\<rparr>"
| "set_field EmailField v f = f\<lparr>cf_email := v\<rparr>"
| "set_field NoteField v f = f\<lparr>cf_note := v\<rparr>"
| "set_field KeyField v f = f\<lparr>cf_publicKeyArmored := v\<rparr>"

text \<open>What a mutation awaits: the address book, or the keys; \<open>SavingKey\<close> fails with its request, \<open>RemovingKey\<close>
  does not.\<close>

datatype delete_wait = DeletingContact merged_contact | DeletingKey
datatype update_wait = UpdatingContact merged_contact contact_form | SavingKey | RemovingKey
datatype create_wait = CreatingContact contact_form | CreatingKey contact

type_synonym import_result = "nat \<times> string list \<times> nat"

record contacts_page =
  cp_q :: string
  cp_searchInput :: string
  cp_editing :: "merged_contact option"
  cp_toDelete :: "merged_contact option"
  cp_editForm :: contact_form
  cp_creating :: bool
  cp_createForm :: contact_form
  cp_importMode :: import_mode
  cp_importResult :: "import_result option"
  cp_lists :: "string \<Rightarrow> contact list option"
  cp_failed :: "string \<Rightarrow> message option"
  cp_keys :: "pgp_contact_key list option"
  cp_stale :: nat
  cp_deleting :: "delete_wait option"
  cp_updating :: "update_wait option"
  cp_adding :: "create_wait option"
  cp_files :: nat
  cp_avatars :: nat
  cp_calls :: "call list"
  cp_uploads :: "http_request list"
  cp_exports :: "string list"
  cp_saved :: "string list"
  cp_toasts :: "message list"

definition init_contacts :: contacts_page where
  "init_contacts =
     \<lparr>cp_q = [], cp_searchInput = [], cp_editing = None, cp_toDelete = None, cp_editForm = empty_contact_form,
      cp_creating = False, cp_createForm = empty_contact_form, cp_importMode = SkipExisting, cp_importResult = None,
      cp_lists = (\<lambda>_. None), cp_failed = (\<lambda>_. None), cp_keys = None, cp_stale = 0, cp_deleting = None,
      cp_updating = None, cp_adding = None, cp_files = 0, cp_avatars = 0, cp_calls = [], cp_uploads = [],
      cp_exports = [], cp_saved = [], cp_toasts = []\<rparr>"

record ('k, 'm) contacts_env =
  ce_lib :: "('k, 'm) openpgp"
  ce_text :: "message \<Rightarrow> string"

definition cp_send :: "call \<Rightarrow> contacts_page \<Rightarrow> contacts_page" where
  "cp_send c s = s\<lparr>cp_calls := cp_calls s @ [c]\<rparr>"

definition cp_toast :: "message \<Rightarrow> contacts_page \<Rightarrow> contacts_page" where
  "cp_toast m s = s\<lparr>cp_toasts := cp_toasts s @ [m]\<rparr>"

text \<open>\<open>invalidateQueries\<close>: the caches are asked for again; the answers are events.\<close>

definition invalidate :: "contacts_page \<Rightarrow> contacts_page" where
  "invalidate s = s\<lparr>cp_stale := Suc (cp_stale s)\<rparr>"

text \<open>The rows that are shown: none while the list loads or after it failed.\<close>

definition shown_rows :: "contacts_page \<Rightarrow> merged_contact list" where
  "shown_rows s =
     (if cp_failed s (cp_q s) \<noteq> None then []
      else case cp_lists s (cp_q s) of None \<Rightarrow> [] | Some cs \<Rightarrow> merged (cp_q s) (Some cs) (cp_keys s))"

definition shown_row :: "string \<Rightarrow> contacts_page \<Rightarrow> merged_contact option" where
  "shown_row i s = find (\<lambda>c. c_id c = i) (shown_rows s)"

section \<open>The request of \<open>saveContactKey\<close>\<close>

definition save_request :: "('k, 'm) openpgp \<Rightarrow> string \<Rightarrow> string \<Rightarrow> string option \<Rightarrow> api_error + call" where
  "save_request lib email publicKeyArmored name =
     (case parseKeyInfo lib publicKeyArmored of
        Inl e \<Rightarrow> Inl e
      | Inr info \<Rightarrow>
          (let finalEmail = trim (to_lower (or_else email (ki_email info)))
           in if finalEmail = [] then Inl (thrown (Tr ''pgp.noEmailSpecify'' []))
              else Inr (save_contact_call finalEmail name publicKeyArmored info)))"

lemma saveContactKey_request:
  "saveContactKey lib sv email armored name w =
     (case save_request lib email armored name of
        Inl e \<Rightarrow> (Inl e, w)
      | Inr c \<Rightarrow> (sv_contact sv (sentCalls (send c w)), send c w))"
  by (simp add: saveContactKey_def save_request_def Let_def split: sum.split)

section \<open>Deleting\<close>

definition is_key_id :: "string \<Rightarrow> bool" where
  "is_key_id i \<longleftrightarrow> starts_with i ''pgp:''"

definition delete_key_of :: "merged_contact \<Rightarrow> contacts_page \<Rightarrow> contacts_page" where
  "delete_key_of c s = cp_send (remove_contact_call (c_email c)) (s\<lparr>cp_deleting := Some DeletingKey\<rparr>)"

definition delete_contact :: "merged_contact \<Rightarrow> contacts_page \<Rightarrow> contacts_page" where
  "delete_contact c s =
     (if \<not> mc_pgpOnly c \<and> \<not> is_key_id (c_id c)
      then cp_send (contacts_remove (c_id c)) (s\<lparr>cp_deleting := Some (DeletingContact c)\<rparr>)
      else delete_key_of c s)"

text \<open>There is no \<open>onError\<close>: a deletion that fails says nothing.\<close>

definition delete_contact_ends :: "api_error + unit \<Rightarrow> merged_contact \<Rightarrow> contacts_page \<Rightarrow> contacts_page" where
  "delete_contact_ends res c s =
     (case res of Inl _ \<Rightarrow> s\<lparr>cp_deleting := None\<rparr> | Inr _ \<Rightarrow> delete_key_of c s)"

definition delete_succeeds :: "contacts_page \<Rightarrow> contacts_page" where
  "delete_succeeds s =
     cp_toast (Tr ''contacts.deleted'' []) (invalidate (invalidate (s\<lparr>cp_deleting := None, cp_toDelete := None\<rparr>)))"

section \<open>Changing\<close>

definition update_input :: "contact_form \<Rightarrow> contact_input" where
  "update_input f =
     \<lparr>ci_email = Some (cf_email f), ci_displayName = Some (cf_displayName f), ci_note = Some (cf_note f),
      ci_givenName = None, ci_familyName = None, ci_source = None\<rparr>"

definition create_input :: "contact_form \<Rightarrow> contact_input" where
  "create_input f =
     \<lparr>ci_email = Some (trim (cf_email f)), ci_displayName = Some (trim (cf_displayName f)),
      ci_note = Some (trim (cf_note f)), ci_givenName = None, ci_familyName = None, ci_source = Some ''manual''\<rparr>"

definition save_edit :: "contacts_page \<Rightarrow> contacts_page" where
  "save_edit s =
     (case cp_editing s of
        None \<Rightarrow> s
      | Some c \<Rightarrow>
          cp_send
            (if is_key_id (c_id c) then contacts_create (create_input (cp_editForm s))
             else contacts_update (c_id c) (update_input (cp_editForm s)))
            (s\<lparr>cp_updating := Some (UpdatingContact c (cp_editForm s))\<rparr>))"

definition update_succeeds :: "contacts_page \<Rightarrow> contacts_page" where
  "update_succeeds s =
     cp_toast (Tr ''contacts.updated'' []) (invalidate (invalidate (s\<lparr>cp_updating := None, cp_editing := None\<rparr>)))"

definition update_key :: "('k, 'm) contacts_env \<Rightarrow> merged_contact \<Rightarrow> contact_form \<Rightarrow> contacts_page \<Rightarrow> contacts_page" where
  "update_key env c f s =
     (let armored = trim (cf_publicKeyArmored f); email = trim (cf_email f)
      in if armored \<noteq> [] then
           (case save_request (ce_lib env) email armored (Some (trim (cf_displayName f))) of
              Inl _ \<Rightarrow> s\<lparr>cp_updating := None\<rparr>
            | Inr req \<Rightarrow> cp_send req (s\<lparr>cp_updating := Some SavingKey\<rparr>))
         else if mc_hasPgp c then cp_send (remove_contact_call email) (s\<lparr>cp_updating := Some RemovingKey\<rparr>)
         else update_succeeds s)"

text \<open>The answer for the address book: for a row that only has a key every error counts as "already there".\<close>

definition update_contact_ends ::
    "('k, 'm) contacts_env \<Rightarrow> api_error + unit \<Rightarrow> merged_contact \<Rightarrow> contact_form \<Rightarrow> contacts_page \<Rightarrow> contacts_page" where
  "update_contact_ends env res c f s =
     (case res of
        Inl _ \<Rightarrow> if is_key_id (c_id c) then update_key env c f s else s\<lparr>cp_updating := None\<rparr>
      | Inr _ \<Rightarrow> update_key env c f s)"

definition update_key_ends :: "bool \<Rightarrow> api_error + unit \<Rightarrow> contacts_page \<Rightarrow> contacts_page" where
  "update_key_ends saving res s =
     (case res of
        Inl _ \<Rightarrow> if saving then s\<lparr>cp_updating := None\<rparr> else update_succeeds s
      | Inr _ \<Rightarrow> update_succeeds s)"

section \<open>Making\<close>

definition address_char :: "char \<Rightarrow> bool" where
  "address_char c \<longleftrightarrow> \<not> is_ws c \<and> c \<noteq> CHR ''@''"

definition address_rx :: rx where
  "address_rx =
     cat [Bol False, Plus (Ch address_char), lit_cs ''@'', Plus (Ch address_char), lit_cs ''.'',
          Cat (Ch address_char) (Plus (Ch address_char)), Eol]"

definition handleCreateSubmit :: "contacts_page \<Rightarrow> contacts_page" where
  "handleCreateSubmit s =
     (if \<not> rx_test address_rx (trim (cf_email (cp_createForm s))) then cp_toast (Tr ''contacts.needEmail'' []) s
      else cp_send (contacts_create (create_input (cp_createForm s)))
             (s\<lparr>cp_adding := Some (CreatingContact (cp_createForm s))\<rparr>))"

definition create_succeeds :: "contact \<Rightarrow> contacts_page \<Rightarrow> contacts_page" where
  "create_succeeds c s =
     cp_toast (Tr ''contacts.added'' [(''name'', Raw (c_displayName c))])
       (invalidate (invalidate
          (s\<lparr>cp_adding := None, cp_creating := False, cp_createForm := empty_contact_form\<rparr>)))"

definition create_fails :: "('k, 'm) contacts_env \<Rightarrow> api_error \<Rightarrow> contacts_page \<Rightarrow> contacts_page" where
  "create_fails env e s =
     cp_toast
       (if rx_test (lit ''already exists'') (ce_text env (error_text e)) then Tr ''contacts.exists'' []
        else Tr ''contacts.addFailed'' [(''error'', error_text e)])
       (s\<lparr>cp_adding := None\<rparr>)"

definition create_contact_ends ::
    "('k, 'm) contacts_env \<Rightarrow> api_error + contact \<Rightarrow> contact_form \<Rightarrow> contacts_page \<Rightarrow> contacts_page" where
  "create_contact_ends env res f s =
     (case res of
        Inl e \<Rightarrow> create_fails env e s
      | Inr c \<Rightarrow>
          (let armored = trim (cf_publicKeyArmored f)
           in if armored = [] then create_succeeds c s
              else
                (case save_request (ce_lib env) (c_email c) armored (Some (c_displayName c)) of
                   Inl e \<Rightarrow> create_fails env e s
                 | Inr req \<Rightarrow> cp_send req (s\<lparr>cp_adding := Some (CreatingKey c)\<rparr>))))"

definition create_key_ends ::
    "('k, 'm) contacts_env \<Rightarrow> api_error + unit \<Rightarrow> contact \<Rightarrow> contacts_page \<Rightarrow> contacts_page" where
  "create_key_ends env res c s =
     (case res of Inl e \<Rightarrow> create_fails env e s | Inr _ \<Rightarrow> create_succeeds c s)"

section \<open>Search, files and editors\<close>

definition handleContactSearch :: "contacts_page \<Rightarrow> contacts_page" where
  "handleContactSearch s = s\<lparr>cp_q := trim (cp_searchInput s)\<rparr>"

definition openEdit :: "merged_contact \<Rightarrow> contacts_page \<Rightarrow> contacts_page" where
  "openEdit c s =
     s\<lparr>cp_editing := Some c,
       cp_editForm := \<lparr>cf_displayName = c_displayName c, cf_email = c_email c, cf_note = opt_string (c_note c),
                       cf_publicKeyArmored = opt_string (mc_publicKeyArmored c)\<rparr>\<rparr>"

text \<open>An upload or an export that ends: a network error, or the status, the text and the result.\<close>

type_synonym 'a upload_end = "string + nat \<times> string \<times> 'a"

definition upload_ended :: "string \<Rightarrow> 'a upload_end \<Rightarrow> string + 'a" where
  "upload_ended what res = (case res of Inl m \<Rightarrow> Inl m | Inr r \<Rightarrow> upload_result what r)"

definition handleImport :: "upload_file \<Rightarrow> contacts_page \<Rightarrow> contacts_page" where
  "handleImport f s =
     s\<lparr>cp_files := Suc (cp_files s), cp_uploads := cp_uploads s @ [fst (importContacts f (cp_importMode s) (0, [], ()))]\<rparr>"

definition import_ends :: "import_result upload_end \<Rightarrow> contacts_page \<Rightarrow> contacts_page" where
  "import_ends res s =
     (let s = s\<lparr>cp_files := cp_files s - 1\<rparr>
      in case upload_ended ''import'' res of
           Inl m \<Rightarrow> cp_toast (Tr ''contacts.importFailed'' [(''error'', Raw m)]) s
         | Inr (saved, skipped, invalid) \<Rightarrow>
             cp_toast
               (Tr ''contacts.importDone''
                  [(''saved'', Raw (nat_str saved)), (''skipped'', Raw (nat_str (length skipped))),
                   (''invalid'', Raw (nat_str invalid))])
               (invalidate (s\<lparr>cp_importResult := Some (saved, skipped, invalid)\<rparr>)))"

definition handleExport :: "export_format \<Rightarrow> contacts_page \<Rightarrow> contacts_page" where
  "handleExport fmt s = s\<lparr>cp_exports := cp_exports s @ [fst (exportContacts fmt 0)]\<rparr>"

definition export_ends :: "export_format \<Rightarrow> string + nat \<Rightarrow> contacts_page \<Rightarrow> contacts_page" where
  "export_ends fmt res s =
     (case (case res of Inl m \<Rightarrow> Inl m | Inr stat \<Rightarrow> snd (exportContacts fmt stat)) of
        Inl m \<Rightarrow> cp_toast (Tr ''contacts.exportFailed'' [(''error'', Raw m)]) s
      | Inr file \<Rightarrow> s\<lparr>cp_saved := cp_saved s @ [file]\<rparr>)"

definition handleAvatarUpload :: "merged_contact \<Rightarrow> upload_file \<Rightarrow> contacts_page \<Rightarrow> contacts_page" where
  "handleAvatarUpload c f s =
     s\<lparr>cp_avatars := Suc (cp_avatars s), cp_uploads := cp_uploads s @ [fst (uploadAvatar (c_id c) f (0, [], ()))]\<rparr>"

definition avatar_ends :: "unit upload_end \<Rightarrow> contacts_page \<Rightarrow> contacts_page" where
  "avatar_ends res s =
     (let s = s\<lparr>cp_avatars := cp_avatars s - 1\<rparr>
      in case upload_ended ''upload'' res of
           Inl m \<Rightarrow> cp_toast (Tr ''contacts.avatarFailed'' [(''error'', Raw m)]) s
         | Inr _ \<Rightarrow> cp_toast (Tr ''contacts.avatarUpdated'' []) (invalidate s))"

text \<open>The answer of the query for the list of a search.\<close>

definition list_answered :: "string \<Rightarrow> message + contact list \<Rightarrow> contacts_page \<Rightarrow> contacts_page" where
  "list_answered q res s =
     (case res of
        Inl m \<Rightarrow> s\<lparr>cp_failed := (cp_failed s)(q := Some m)\<rparr>
      | Inr cs \<Rightarrow> s\<lparr>cp_lists := (cp_lists s)(q := Some cs), cp_failed := (cp_failed s)(q := None)\<rparr>)"

section \<open>Events\<close>

datatype contacts_event =
    ContactsAnswer string "message + contact list"
  | KeysAnswer "pgp_contact_key list"
  | TypeContactSearch string
  | SubmitContactSearch
  | ClickAddContact
  | CloseAddContact
  | TypeNewContact contact_field string
  | SubmitNewContact
  | CreateReply "api_error + contact"
  | CreateKeyReply "api_error + unit"
  | ClickEditContact string
  | TypeEditContact contact_field string
  | CancelEditContact
  | SaveEditContact
  | UpdateReply "api_error + unit"
  | UpdateKeyReply "api_error + unit"
  | ClickDeleteContact string
  | CancelDeleteContact
  | ConfirmDeleteContact
  | DeleteReply "api_error + unit"
  | DeleteKeyReply "api_error + unit"
  | PickImportMode import_mode
  | PickImportFile upload_file
  | ImportReply "import_result upload_end"
  | DismissImport
  | ClickExport export_format
  | ExportReply export_format "string + nat"
  | PickAvatar string upload_file
  | AvatarReply "unit upload_end"

fun contacts_step :: "('k, 'm) contacts_env \<Rightarrow> contacts_event \<Rightarrow> contacts_page \<Rightarrow> contacts_page" where
  "contacts_step env (ContactsAnswer q res) s = list_answered q res s"
| "contacts_step env (KeysAnswer ks) s = s\<lparr>cp_keys := Some ks\<rparr>"
| "contacts_step env (TypeContactSearch v) s = s\<lparr>cp_searchInput := v\<rparr>"
| "contacts_step env SubmitContactSearch s = handleContactSearch s"
| "contacts_step env ClickAddContact s = s\<lparr>cp_createForm := empty_contact_form, cp_creating := True\<rparr>"
| "contacts_step env CloseAddContact s = s\<lparr>cp_creating := False\<rparr>"
| "contacts_step env (TypeNewContact fld v) s =
     (if cp_creating s then s\<lparr>cp_createForm := set_field fld v (cp_createForm s)\<rparr> else s)"
| "contacts_step env SubmitNewContact s = (if cp_creating s \<and> cp_adding s = None then handleCreateSubmit s else s)"
| "contacts_step env (CreateReply res) s =
     (case cp_adding s of Some (CreatingContact f) \<Rightarrow> create_contact_ends env res f s | _ \<Rightarrow> s)"
| "contacts_step env (CreateKeyReply res) s =
     (case cp_adding s of Some (CreatingKey c) \<Rightarrow> create_key_ends env res c s | _ \<Rightarrow> s)"
| "contacts_step env (ClickEditContact i) s = (case shown_row i s of None \<Rightarrow> s | Some c \<Rightarrow> openEdit c s)"
| "contacts_step env (TypeEditContact fld v) s =
     (if cp_editing s \<noteq> None then s\<lparr>cp_editForm := set_field fld v (cp_editForm s)\<rparr> else s)"
| "contacts_step env CancelEditContact s = s\<lparr>cp_editing := None\<rparr>"
| "contacts_step env SaveEditContact s = (if cp_updating s = None then save_edit s else s)"
| "contacts_step env (UpdateReply res) s =
     (case cp_updating s of Some (UpdatingContact c f) \<Rightarrow> update_contact_ends env res c f s | _ \<Rightarrow> s)"
| "contacts_step env (UpdateKeyReply res) s =
     (case cp_updating s of
        Some SavingKey \<Rightarrow> update_key_ends True res s
      | Some RemovingKey \<Rightarrow> update_key_ends False res s
      | _ \<Rightarrow> s)"
| "contacts_step env (ClickDeleteContact i) s =
     (case shown_row i s of None \<Rightarrow> s | Some c \<Rightarrow> s\<lparr>cp_toDelete := Some c\<rparr>)"
| "contacts_step env CancelDeleteContact s = s\<lparr>cp_toDelete := None\<rparr>"
| "contacts_step env ConfirmDeleteContact s =
     (case cp_toDelete s of
        None \<Rightarrow> s
      | Some c \<Rightarrow> if cp_deleting s = None then delete_contact c s else s)"
| "contacts_step env (DeleteReply res) s =
     (case cp_deleting s of Some (DeletingContact c) \<Rightarrow> delete_contact_ends res c s | _ \<Rightarrow> s)"
| "contacts_step env (DeleteKeyReply res) s = (if cp_deleting s = Some DeletingKey then delete_succeeds s else s)"
| "contacts_step env (PickImportMode m) s = s\<lparr>cp_importMode := m\<rparr>"
| "contacts_step env (PickImportFile f) s = handleImport f s"
| "contacts_step env (ImportReply res) s = (if cp_files s > 0 then import_ends res s else s)"
| "contacts_step env DismissImport s = s\<lparr>cp_importResult := None\<rparr>"
| "contacts_step env (ClickExport fmt) s = handleExport fmt s"
| "contacts_step env (ExportReply fmt res) s =
     (if fst (exportContacts fmt 0) \<in> set (cp_exports s) then export_ends fmt res s else s)"
| "contacts_step env (PickAvatar i f) s =
     (case shown_row i s of
        None \<Rightarrow> s
      | Some c \<Rightarrow> if mc_pgpOnly c then s else handleAvatarUpload c f s)"
| "contacts_step env (AvatarReply res) s = (if cp_avatars s > 0 then avatar_ends res s else s)"

end
