(* ===== verification/ContactsProps.thy ===== *)
theory ContactsProps
  imports Contacts JsRegexFacts Machine
begin

text \<open>
  Properties of the page of the contacts: what its list shows, which contacts its requests name over all
  histories, which addresses it accepts, and what two of its mutations leave behind.
\<close>

section \<open>The list\<close>

lemma key_for_iff: "key_for ks em \<noteq> None \<longleftrightarrow> (\<exists>k \<in> set ks. to_lower (ck_email k) = to_lower em)"
  by (auto simp: key_for_def find_None_iff)

lemma contact_row_sel [simp]:
  "c_id (contact_row ks c) = c_id c" "c_email (contact_row ks c) = c_email c"
  "mc_hasPgp (contact_row ks c) \<longleftrightarrow> (\<exists>k \<in> set ks. to_lower (ck_email k) = to_lower (c_email c))"
  "contact.truncate (contact_row ks c) = c"
  by (cases c; simp add: contact_row_def contact.defs key_for_iff del: not_None_eq)+

lemma key_row_sel [simp]:
  "c_id (key_row k) = ''pgp:'' @ ck_email k" "c_email (key_row k) = ck_email k" "mc_hasPgp (key_row k)" "mc_pgpOnly (key_row k)"
  by (simp_all add: key_row_def)

abbreviation row_address :: "merged_contact \<Rightarrow> string" where
  "row_address r \<equiv> to_lower (c_email r)"

abbreviation key_address :: "pgp_contact_key \<Rightarrow> string" where
  "key_address k \<equiv> to_lower (ck_email k)"

lemma has_address_iff: "has_address em rows \<longleftrightarrow> to_lower em \<in> row_address ` set rows"
  unfolding has_address_def list_ex_iff by (metis (mono_tags, lifting) image_iff)

definition added_keys :: "string \<Rightarrow> pgp_contact_key list \<Rightarrow> merged_contact list \<Rightarrow> pgp_contact_key list \<Rightarrow> bool" where
  "added_keys q ks rows xs \<longleftrightarrow>
     set xs \<subseteq> {k \<in> set ks. key_matches q k}
     \<and> row_address ` set rows \<union> key_address ` set xs
         = row_address ` set rows \<union> key_address ` {k \<in> set ks. key_matches q k}
     \<and> distinct (map key_address xs) \<and> key_address ` set xs \<inter> row_address ` set rows = {}"

lemma added_keys_skip:
  assumes "added_keys q ks rows xs" and "has_address (ck_email k) rows \<or> \<not> key_matches q k"
  shows "added_keys q (k # ks) rows xs"
proof (cases "key_matches q k")
  case False
  then have "{x \<in> set (k # ks). key_matches q x} = {x \<in> set ks. key_matches q x}" by auto
  with assms(1) show ?thesis unfolding added_keys_def by simp
next
  case True
  with assms(2) have "key_address k \<in> row_address ` set rows" by (simp add: has_address_iff)
  moreover have "{x \<in> set (k # ks). key_matches q x} = insert k {x \<in> set ks. key_matches q x}"
    using True by auto
  ultimately show ?thesis using assms(1) unfolding added_keys_def by (auto simp: insert_absorb)
qed

lemma added_keys_take:
  assumes "added_keys q ks (rows @ [key_row k]) xs" and "\<not> has_address (ck_email k) rows" and "key_matches q k"
  shows "added_keys q (k # ks) rows (k # xs)"
proof -
  have all: "{x \<in> set (k # ks). key_matches q x} = insert k {x \<in> set ks. key_matches q x}" using assms(3) by auto
  have fresh: "key_address k \<notin> row_address ` set rows" using assms(2) by (simp add: has_address_iff)
  show ?thesis using assms(1) fresh unfolding added_keys_def all by auto
qed

lemma add_key_rows_append: "\<exists>xs. add_key_rows q ks rows = rows @ map key_row xs \<and> added_keys q ks rows xs"
proof (induction ks arbitrary: rows)
  case Nil
  show ?case by (rule exI [of _ "[]"]) (simp add: added_keys_def)
next
  case (Cons k ks)
  show ?case
  proof (cases "has_address (ck_email k) rows \<or> \<not> key_matches q k")
    case True
    then have "add_key_rows q (k # ks) rows = add_key_rows q ks rows" by auto
    with Cons.IH [of rows] added_keys_skip [OF _ True] show ?thesis by metis
  next
    case False
    then have "add_key_rows q (k # ks) rows = add_key_rows q ks (rows @ [key_row k])" by simp
    with Cons.IH [of "rows @ [key_row k]"] obtain xs where
      "add_key_rows q (k # ks) rows = rows @ map key_row (k # xs)" "added_keys q ks (rows @ [key_row k]) xs" by auto
    with False added_keys_take show ?thesis by blast
  qed
qed

lemma distinct_key_ids: "distinct (map key_address xs) \<Longrightarrow> distinct (map (c_id \<circ> key_row) xs)"
  by (induction xs) auto

text \<open>C28: the list of the page has every contact of the address book once and in its order, then a row for every other
  address that has a key and matches the search; a row shows a key exactly when its address has one, and the
  ids of the rows differ.\<close>

theorem contact_rows_are_complete:
  assumes "distinct (map c_id cs)" and "\<forall>c \<in> set cs. \<not> is_key_id (c_id c)"
  shows "case merged q (Some cs) (Some ks) of rows \<Rightarrow>
     map contact.truncate (take (length cs) rows) = cs
     \<and> row_address ` set rows = (to_lower \<circ> c_email) ` set cs \<union> key_address ` {k \<in> set ks. key_matches q k}
     \<and> (\<forall>r \<in> set rows. mc_hasPgp r \<longleftrightarrow> (\<exists>k \<in> set ks. key_address k = row_address r))
     \<and> distinct (map c_id rows)"
proof -
  obtain xs where xs:
    "add_key_rows q ks (map (contact_row ks) cs) = map (contact_row ks) cs @ map key_row xs"
    "added_keys q ks (map (contact_row ks) cs) xs"
    using add_key_rows_append [of q ks "map (contact_row ks) cs"] by blast
  note added = xs(2) [unfolded added_keys_def]
  have rows: "merged q (Some cs) (Some ks) = map (contact_row ks) cs @ map key_row xs"
    using xs(1) by (simp add: merged_def)
  have addresses: "row_address ` set (map (contact_row ks) cs) = (to_lower \<circ> c_email) ` set cs"
    by (simp add: image_image)
  have "c_id c \<noteq> ''pgp:'' @ e" if "c \<in> set cs" for c e
    using assms(2) that by (auto simp: is_key_id_def starts_with_def)
  moreover have ids: "map c_id (map (contact_row ks) cs) = map c_id cs" by (simp add: comp_def)
  ultimately have "distinct (map c_id (map (contact_row ks) cs @ map key_row xs))"
    unfolding map_append distinct_append ids using assms(1) distinct_key_ids added by auto
  moreover have "row_address ` set (map (contact_row ks) cs @ map key_row xs)
      = (to_lower \<circ> c_email) ` set cs \<union> key_address ` {k \<in> set ks. key_matches q k}"
    using added unfolding addresses by (simp add: image_Un image_image)
  moreover have "mc_hasPgp r \<longleftrightarrow> (\<exists>k \<in> set ks. key_address k = row_address r)"
    if "r \<in> set (map (contact_row ks) cs @ map key_row xs)" for r
    using that added by auto
  moreover have "map contact.truncate (take (length cs) (map (contact_row ks) cs @ map key_row xs)) = cs"
    by (simp add: comp_def)
  ultimately show ?thesis unfolding rows by simp
qed

section \<open>The address of a new contact\<close>

text \<open>What the expression of the code means: a name, an at sign, and a domain with a dot and two characters after it.\<close>

definition address_form :: "string \<Rightarrow> bool" where
  "address_form s \<longleftrightarrow>
     (\<exists>a b c. s = a @ ''@'' @ b @ ''.'' @ c \<and> a \<noteq> [] \<and> b \<noteq> [] \<and> 2 \<le> length c \<and> list_all address_char (a @ b @ c))"

lemma address_rx_form: "rx_test address_rx s \<longleftrightarrow> address_form s"
proof -
  let ?f = address_char
  have "accepts (rxm (cat [Plus (Ch ?f), lit_cs ''@'', Plus (Ch ?f), lit_cs ''.'', Cat (Ch ?f) (Plus (Ch ?f)), Eol]) Some)
      (\<lambda>s. \<exists>u v. s = u @ v \<and> u \<noteq> [] \<and> list_all ?f u \<and>
        (\<exists>c w. v = c # w \<and> c = CHR ''@'' \<and> (\<exists>u v. w = u @ v \<and> u \<noteq> [] \<and> list_all ?f u \<and>
          (\<exists>c w. v = c # w \<and> c = CHR ''.'' \<and> (\<exists>c v. w = c # v \<and> ?f c \<and>
            (\<exists>u w. v = u @ w \<and> u \<noteq> [] \<and> list_all ?f u \<and> w = []))))))" (is "accepts _ ?A")
    unfolding cat.simps lit_cs_def list.map rxm.simps(3)
    by (intro accepts_Plus_Ch accepts_Ch accepts_Eol)
  then have "rx_test address_rx s \<longleftrightarrow> ?A s" unfolding address_rx_def by (rule rx_test_start)
  also have "\<dots> \<longleftrightarrow> address_form s" (is "?l \<longleftrightarrow> ?r")
  proof
    assume ?l
    then obtain a b c u where s: "s = a @ CHR ''@'' # b @ CHR ''.'' # c # u" "a \<noteq> []" "b \<noteq> []" "u \<noteq> []"
        "list_all ?f a" "list_all ?f b" "?f c" "list_all ?f u" by blast
    have "2 \<le> length (c # u)" using s(4) by (cases u) simp_all
    with s show ?r unfolding address_form_def
      by (intro exI [of _ a] exI [of _ b] exI [of _ "c # u"]) simp
  next
    assume ?r
    then obtain a b c where s: "s = a @ ''@'' @ b @ ''.'' @ c" "a \<noteq> []" "b \<noteq> []" "2 \<le> length c"
        "list_all ?f (a @ b @ c)" by (auto simp: address_form_def)
    then obtain d u where c: "c = d # u" "u \<noteq> []" by (cases c) (auto simp: Suc_le_eq)
    have tail: "\<exists>c v. d # u = c # v \<and> ?f c \<and> (\<exists>u w. v = u @ w \<and> u \<noteq> [] \<and> list_all ?f u \<and> w = [])"
      using s(5) c by simp
    show ?l
      by (rule exI [of _ a], rule exI [of _ "CHR ''@'' # b @ CHR ''.'' # d # u"])
        (use s c tail in \<open>auto intro: exI [of _ b]\<close>)
  qed
  finally show ?thesis .
qed

text \<open>The form for a new contact sends its request exactly for a text that has, without the blanks around it, the
  form of an address, whatever its other fields are; else it only shows a message.\<close>

theorem new_contacts_have_addresses:
  "handleCreateSubmit s =
     (if address_form (trim (cf_email (cp_createForm s)))
      then s\<lparr>cp_adding := Some (CreatingContact (cp_createForm s)),
             cp_calls := cp_calls s @ [contacts_create (create_input (cp_createForm s))]\<rparr>
      else s\<lparr>cp_toasts := cp_toasts s @ [Tr ''contacts.needEmail'' []]\<rparr>)"
  by (simp add: handleCreateSubmit_def cp_toast_def cp_send_def address_rx_form)

section \<open>Which contacts the requests name\<close>

text \<open>The contacts that the server listed.\<close>

definition listed_contacts :: "contacts_event list \<Rightarrow> string set" where
  "listed_contacts es = {c_id c | c q cs. ContactsAnswer q (Inr cs) \<in> set es \<and> c \<in> set cs}"

definition contact_deletion :: "call \<Rightarrow> bool" where
  "contact_deletion c \<longleftrightarrow> omethod (snd c) = Some ''DELETE'' \<and> starts_with (fst c) ''/contacts/''"

definition contact_change :: "call \<Rightarrow> bool" where
  "contact_change c \<longleftrightarrow> omethod (snd c) = Some ''PUT''"

definition known_row :: "string set \<Rightarrow> merged_contact \<Rightarrow> bool" where
  "known_row ids c \<longleftrightarrow> is_key_id (c_id c) \<or> c_id c \<in> ids"

text \<open>The rows that a state refers to, and what it has sent.\<close>

definition rows_known :: "string set \<Rightarrow> contacts_page \<Rightarrow> bool" where
  "rows_known ids s \<longleftrightarrow>
     (\<forall>q cs. cp_lists s q = Some cs \<longrightarrow> c_id ` set cs \<subseteq> ids)
     \<and> pred_option (known_row ids) (cp_editing s) \<and> pred_option (known_row ids) (cp_toDelete s)"

definition calls_known :: "string set \<Rightarrow> call list \<Rightarrow> bool" where
  "calls_known ids cs \<longleftrightarrow>
     set (filter contact_deletion cs) \<subseteq> contacts_remove ` ids
     \<and> set (filter contact_change cs) \<subseteq> {contacts_update i f | i f. i \<in> ids}"

definition deletions :: "contacts_page \<Rightarrow> nat" where
  "deletions s = length (filter contact_deletion (cp_calls s))"

lemma call_kinds [simp]:
  "contact_deletion (contacts_remove i)" "\<not> contact_change (contacts_remove i)"
  "contact_change (contacts_update i f)" "\<not> contact_deletion (contacts_update i f)"
  "\<not> contact_deletion (contacts_create f)" "\<not> contact_change (contacts_create f)"
  "\<not> contact_deletion (remove_contact_call em)" "\<not> contact_change (remove_contact_call em)"
  "\<not> contact_deletion (save_contact_call em nm a k)" "\<not> contact_change (save_contact_call em nm a k)"
  by (simp_all add: contact_deletion_def contact_change_def contacts_remove_def contacts_update_def contacts_create_def
      remove_contact_call_def save_contact_call_def with_body_def starts_with_def)

lemma save_request_kind: "save_request lib em a nm = Inr c \<Longrightarrow> \<not> contact_deletion c \<and> \<not> contact_change c"
  by (auto simp: save_request_def Let_def split: sum.splits if_splits)

lemma key_row_known: "known_row ids (key_row k)"
  by (simp add: known_row_def is_key_id_def starts_with_def)

lemma merged_known:
  assumes "c_id ` set cs \<subseteq> ids" and "r \<in> set (merged q (Some cs) ks)"
  shows "known_row ids r"
proof -
  let ?kl = "case ks of None \<Rightarrow> [] | Some x \<Rightarrow> x"
  have m: "merged q (Some cs) ks = add_key_rows q ?kl (map (contact_row ?kl) cs)" by (simp add: merged_def Let_def)
  obtain xs where "merged q (Some cs) ks = map (contact_row ?kl) cs @ map key_row xs"
    using add_key_rows_append [of q ?kl "map (contact_row ?kl) cs"] unfolding m by blast
  with assms show ?thesis by (auto simp: key_row_known) (auto simp: known_row_def)
qed

lemma shown_row_known: "rows_known ids s \<Longrightarrow> shown_row i s = Some r \<Longrightarrow> known_row ids r"
  unfolding shown_row_def shown_rows_def rows_known_def
  by (auto dest!: find_Some_set split: if_splits option.splits) (metis merged_known)

lemmas contacts_defs =
  cp_send_def cp_toast_def invalidate_def delete_key_of_def delete_contact_def delete_contact_ends_def
  delete_succeeds_def save_edit_def update_succeeds_def update_key_def update_contact_ends_def update_key_ends_def
  handleCreateSubmit_def create_succeeds_def create_fails_def create_contact_ends_def create_key_ends_def
  handleContactSearch_def openEdit_def handleImport_def import_ends_def handleExport_def export_ends_def
  handleAvatarUpload_def avatar_ends_def list_answered_def Let_def

text \<open>What a step sends: at most one request, a deletion only when the user confirms one.\<close>

definition step_sends :: "string set \<Rightarrow> bool \<Rightarrow> contacts_page \<Rightarrow> contacts_page \<Rightarrow> bool" where
  "step_sends ids confirmed s s' \<longleftrightarrow>
     (\<exists>cs. cp_calls s' = cp_calls s @ cs \<and> calls_known ids cs
        \<and> length (filter contact_deletion cs) \<le> (if confirmed then 1 else 0))"

lemma sends_nothing: "cp_calls s' = cp_calls s \<Longrightarrow> step_sends ids b s s'"
  by (auto simp: step_sends_def calls_known_def)

lemma sends_quiet:
  "cp_calls s' = cp_calls s @ [c] \<Longrightarrow> \<not> contact_deletion c \<Longrightarrow> \<not> contact_change c \<Longrightarrow> step_sends ids b s s'"
  by (auto simp: step_sends_def calls_known_def)

lemma sends_key:
  "step_sends ids b s (update_key env c f s)" "step_sends ids b s (delete_key_of c s)"
  "step_sends ids b s (create_contact_ends env res f s)"
proof -
  show "step_sends ids b s (update_key env c f s)"
    by (cases "save_request (ce_lib env) (trim (cf_email f)) (trim (cf_publicKeyArmored f)) (Some (trim (cf_displayName f)))")
      (auto simp: contacts_defs dest: save_request_kind intro: sends_nothing sends_quiet)
  show "step_sends ids b s (delete_key_of c s)" by (auto simp: contacts_defs intro: sends_quiet)
  show "step_sends ids b s (create_contact_ends env res f s)"
    by (cases res)
      (auto simp: contacts_defs dest: save_request_kind intro: sends_nothing sends_quiet split: sum.split)
qed

lemma sends_edit: "pred_option (known_row ids) (cp_editing s) \<Longrightarrow> step_sends ids b s (save_edit s)"
  by (cases "cp_editing s")
    (auto simp: save_edit_def cp_send_def step_sends_def calls_known_def known_row_def)

lemma sends_deletion: "known_row ids c \<Longrightarrow> step_sends ids True s (delete_contact c s)"
  by (auto simp: delete_contact_def delete_key_of_def cp_send_def step_sends_def calls_known_def known_row_def)

lemma step_sends_known:
  assumes "rows_known ids s"
  shows "step_sends ids (e = ConfirmDeleteContact) s (contacts_step env e s)"
proof (cases e)
  case (CreateReply res)
  then show ?thesis by (auto simp: sends_key sends_nothing split: option.split create_wait.split)
next
  case SubmitNewContact
  then show ?thesis by (auto simp: contacts_defs intro: sends_nothing sends_quiet)
next
  case SaveEditContact
  then show ?thesis using assms by (auto simp: rows_known_def intro: sends_edit sends_nothing)
next
  case (UpdateReply res)
  then show ?thesis
    by (auto simp: update_contact_ends_def sends_key sends_nothing split: option.split update_wait.split sum.split)
next
  case (DeleteReply res)
  then show ?thesis
    by (auto simp: delete_contact_ends_def sends_key sends_nothing split: option.split delete_wait.split sum.split)
next
  case ConfirmDeleteContact
  then show ?thesis
    using assms by (auto simp: rows_known_def sends_nothing intro: sends_deletion split: option.split)
qed (auto simp: contacts_defs intro!: sends_nothing
    split: option.split sum.split update_wait.split create_wait.split prod.split)

lemma listed_contacts_mono: "set es \<subseteq> set es' \<Longrightarrow> listed_contacts es \<subseteq> listed_contacts es'"
  unfolding listed_contacts_def by blast

lemma known_row_mono: "ids \<subseteq> ids' \<Longrightarrow> known_row ids c \<Longrightarrow> known_row ids' c"
  by (auto simp: known_row_def)

lemma rows_known_mono: "ids \<subseteq> ids' \<Longrightarrow> rows_known ids s \<Longrightarrow> rows_known ids' s"
  unfolding rows_known_def by (auto simp: pred_option_def intro: known_row_mono) (metis image_subset_iff subsetD)

lemma calls_known_mono: "ids \<subseteq> ids' \<Longrightarrow> calls_known ids cs \<Longrightarrow> calls_known ids' cs"
  unfolding calls_known_def by blast

lemma rows_known_later: "rows_known (listed_contacts es) s \<Longrightarrow> rows_known (listed_contacts (es @ [e])) s"
  by (rule rows_known_mono [OF listed_contacts_mono]) auto

lemma rows_known_same:
  "rows_known ids s \<Longrightarrow> cp_lists s' = cp_lists s \<Longrightarrow> cp_editing s' \<in> {cp_editing s, None} \<Longrightarrow>
     cp_toDelete s' \<in> {cp_toDelete s, None} \<Longrightarrow> rows_known ids s'"
  by (auto simp: rows_known_def)

lemma rows_known_step:
  assumes "rows_known (listed_contacts es) s"
  shows "rows_known (listed_contacts (es @ [e])) (contacts_step env e s)"
proof (cases e)
  case (ContactsAnswer q res)
  have "c_id ` set cs \<subseteq> listed_contacts (es @ [ContactsAnswer q (Inr cs)])" for cs
    by (auto simp: listed_contacts_def)
  with rows_known_later [OF assms, of e] ContactsAnswer show ?thesis
    unfolding rows_known_def by (cases res) (simp_all add: list_answered_def)
next
  case (ClickEditContact i)
  with rows_known_later [OF assms, of e] shown_row_known show ?thesis
    by (auto simp: rows_known_def openEdit_def split: option.split)
next
  case (ClickDeleteContact i)
  with rows_known_later [OF assms, of e] shown_row_known show ?thesis
    by (auto simp: rows_known_def split: option.split)
qed (rule rows_known_same [OF rows_known_later [OF assms]];
    auto simp: contacts_defs split: option.split sum.split update_wait.split create_wait.split delete_wait.split prod.split)+

lemma contacts_history:
  fixes env :: "('k, 'm) contacts_env"
  defines "s \<equiv> \<lambda>es. fold (contacts_step env) es init_contacts"
  shows "rows_known (listed_contacts es) (s es) \<and> calls_known (listed_contacts es) (cp_calls (s es))
     \<and> deletions (s es) \<le> length (filter (\<lambda>e. e = ConfirmDeleteContact) es)"
proof (induction es rule: rev_induct)
  case Nil
  show ?case by (simp add: s_def rows_known_def calls_known_def deletions_def init_contacts_def)
next
  case (snoc e es)
  have step: "s (es @ [e]) = contacts_step env e (s es)" by (simp add: s_def)
  let ?ids = "listed_contacts (es @ [e])"
  have sub: "listed_contacts es \<subseteq> ?ids" by (rule listed_contacts_mono) auto
  from snoc have rows: "rows_known (listed_contacts es) (s es)" by simp
  obtain cs where cs: "cp_calls (s (es @ [e])) = cp_calls (s es) @ cs" "calls_known (listed_contacts es) cs"
      "length (filter contact_deletion cs) \<le> (if e = ConfirmDeleteContact then 1 else 0)"
    using step_sends_known [OF rows, of e env] unfolding step step_sends_def by blast
  have "calls_known ?ids (cp_calls (s (es @ [e])))"
    using snoc.IH calls_known_mono [OF sub] cs(2) unfolding cs(1) by (auto simp: calls_known_def)
  moreover have "deletions (s (es @ [e])) \<le> length (filter (\<lambda>e. e = ConfirmDeleteContact) (es @ [e]))"
    using snoc.IH cs(1,3) by (auto simp: deletions_def split: if_splits)
  ultimately show ?case using rows_known_step [OF rows] unfolding step by simp
qed

text \<open>C29: over every history of the page, a request that deletes or changes a contact names a contact that the server
  listed, never the made-up id of a row that only has a key, and there are at most as many deletions as the
  user confirmed.\<close>

theorem contact_requests_name_contacts:
  "case fold (contacts_step env) es init_contacts of s \<Rightarrow>
     set (filter contact_deletion (cp_calls s)) \<subseteq> contacts_remove ` listed_contacts es
     \<and> set (filter contact_change (cp_calls s)) \<subseteq> {contacts_update i f | i f. i \<in> listed_contacts es}
     \<and> length (filter contact_deletion (cp_calls s)) \<le> length (filter (\<lambda>e. e = ConfirmDeleteContact) es)"
  using contacts_history [of es env] by (simp add: calls_known_def deletions_def)

section \<open>What a change leaves behind\<close>

lemma merged_key_only:
  assumes "k \<in> set ks" and "key_matches q k" and "key_address k \<notin> (to_lower \<circ> c_email) ` set cs"
  shows "\<exists>r \<in> set (merged q (Some cs) (Some ks)). mc_pgpOnly r \<and> row_address r = key_address k"
proof -
  let ?rows = "map (contact_row ks) cs"
  obtain xs where xs: "add_key_rows q ks ?rows = ?rows @ map key_row xs" "added_keys q ks ?rows xs"
    using add_key_rows_append [of q ks ?rows] by blast
  have rows: "row_address ` set ?rows = (to_lower \<circ> c_email) ` set cs" by (simp add: image_image)
  have "key_address k \<in> row_address ` set ?rows \<union> key_address ` set xs"
    using xs(2) assms(1,2) unfolding added_keys_def by blast
  with assms(3) rows obtain x where "x \<in> set xs" "key_address x = key_address k" by auto
  with xs(1) show ?thesis by (auto simp: merged_def intro!: bexI [of _ "key_row x"])
qed

text \<open>A contact whose address is changed keeps its key at the old address.  When the key is taken away in the
  same edit, the request names the new address; the old key stays, and as soon as the lists are loaded again
  the page shows the old address as a row of its own.\<close>

theorem key_stays_at_old_address:
  assumes "cp_editing s = Some c" and "cp_updating s = None" and "\<not> is_key_id (c_id c)" and "mc_hasPgp c"
    and "trim (cf_publicKeyArmored (cp_editForm s)) = []" and "cp_q s = []"
    and "k \<in> set ks" and "key_address k = row_address c" and "key_address k \<notin> (to_lower \<circ> c_email) ` set cs"
  shows "case fold (contacts_step env) [SaveEditContact, UpdateReply (Inr ()), UpdateKeyReply (Inr ())] s of s1 \<Rightarrow>
     cp_calls s1 = cp_calls s
       @ [contacts_update (c_id c) (update_input (cp_editForm s)), remove_contact_call (trim (cf_email (cp_editForm s)))]
     \<and> cp_editing s1 = None
     \<and> (case fold (contacts_step env) [ContactsAnswer [] (Inr cs), KeysAnswer ks] s1 of s2 \<Rightarrow>
          \<exists>r \<in> set (shown_rows s2). mc_pgpOnly r \<and> row_address r = row_address c)"
proof -
  have "\<exists>r \<in> set (merged [] (Some cs) (Some ks)). mc_pgpOnly r \<and> row_address r = key_address k"
    by (rule merged_key_only [OF assms(7) _ assms(9)]) (simp add: key_matches_def)
  with assms(1-6,8) show ?thesis
    by (simp add: contacts_defs shown_rows_def)
qed

text \<open>While a change is being saved the editor can be closed and another contact opened; the answer that then
  arrives closes this other editor, and what was typed there is neither kept nor sent.\<close>

theorem late_answer_closes_other_editor:
  assumes "cp_editing s = Some c" and "cp_updating s = None" and "\<not> is_key_id (c_id c)" and "\<not> mc_hasPgp c"
    and "trim (cf_publicKeyArmored (cp_editForm s)) = []" and "shown_row i s = Some d"
  shows "case fold (contacts_step env) [SaveEditContact, CancelEditContact, ClickEditContact i, TypeEditContact fld v] s of s1 \<Rightarrow>
     cp_editing s1 = Some d \<and> cp_editForm s1 = set_field fld v (cp_editForm (openEdit d s))
     \<and> (case contacts_step env (UpdateReply (Inr ())) s1 of s2 \<Rightarrow>
          cp_editing s2 = None
          \<and> cp_calls s2 = cp_calls s @ [contacts_update (c_id c) (update_input (cp_editForm s))]
          \<and> contacts_step env SaveEditContact s2 = s2)"
proof -
  let ?s = "s\<lparr>cp_updating := Some (UpdatingContact c (cp_editForm s)), cp_editing := None,
    cp_calls := cp_calls s @ [contacts_update (c_id c) (update_input (cp_editForm s))]\<rparr>"
  have "fold (contacts_step env) [SaveEditContact, CancelEditContact] s = ?s"
    using assms(1-3) by (simp add: save_edit_def cp_send_def)
  then have "fold (contacts_step env) [SaveEditContact, CancelEditContact, ClickEditContact i, TypeEditContact fld v] s
      = fold (contacts_step env) [ClickEditContact i, TypeEditContact fld v] ?s" by simp
  also have "shown_row i ?s = Some d" using assms(6) by (simp add: shown_row_def shown_rows_def cong: if_cong option.case_cong)
  then have "fold (contacts_step env) [ClickEditContact i, TypeEditContact fld v] ?s
      = (openEdit d ?s)\<lparr>cp_editForm := set_field fld v (cp_editForm (openEdit d ?s))\<rparr>"
    by (simp add: openEdit_def)
  finally show ?thesis
    using assms(4,5) by (simp add: openEdit_def update_contact_ends_def update_key_def update_succeeds_def cp_toast_def
        invalidate_def save_edit_def)
qed

section \<open>Examples\<close>

definition example_contact :: contact where
  "example_contact =
     \<lparr>c_id = ''c1'', c_email = ''Ann@a.org'', c_displayName = ''Ann'', c_givenName = None, c_familyName = None,
      c_hasAvatar = False, c_note = None, c_source = None, c_createdAt = [], c_updatedAt = []\<rparr>"

definition example_key :: pgp_contact_key where
  "example_key =
     \<lparr>ck_email = ''ann@a.org'', ck_name = None, ck_publicKeyArmored = ''KEY'', ck_fingerprint = ''F'', ck_keyId = None\<rparr>"

definition other_key :: pgp_contact_key where
  "other_key = example_key\<lparr>ck_email := ''bob@b.org''\<rparr>"

definition example_contacts :: contacts_page where
  "example_contacts = init_contacts\<lparr>cp_lists := (\<lambda>_. None)([] := Some [example_contact])\<rparr>"

theorem contact_rows_are_complete_witness:
  "map contact.truncate (take 1 (merged ''B'' (Some [example_contact]) (Some [example_key, other_key]))) = [example_contact]
   \<and> ''bob@b.org'' \<in> row_address ` set (merged ''B'' (Some [example_contact]) (Some [example_key, other_key]))
   \<and> distinct (map c_id (merged ''B'' (Some [example_contact]) (Some [example_key, other_key])))"
proof -
  have "\<not> is_key_id (c_id example_contact)" "key_matches ''B'' other_key" and other: "key_address other_key = ''bob@b.org''"
    by code_simp+
  moreover have "key_address other_key \<in> key_address ` {k \<in> set [example_key, other_key]. key_matches ''B'' k}"
    using calculation(2) by simp
  ultimately show ?thesis
    using contact_rows_are_complete [of "[example_contact]" "''B''" "[example_key, other_key]"] unfolding other by simp
qed

theorem key_stays_at_old_address_witness:
  "let s = openEdit (contact_row [example_key] example_contact) example_contacts;
       s = s\<lparr>cp_editForm := \<lparr>cf_displayName = ''Ann'', cf_email = ''ann@b.org'', cf_note = [], cf_publicKeyArmored = []\<rparr>\<rparr>
   in \<forall>env :: (string, string) contacts_env.
        cp_calls (fold (contacts_step env) [SaveEditContact, UpdateReply (Inr ()), UpdateKeyReply (Inr ())] s)
          = [contacts_update ''c1'' (update_input (cp_editForm s)), remove_contact_call ''ann@b.org'']"
proof -
  let ?c = "contact_row [example_key] example_contact"
  let ?s = "(openEdit ?c example_contacts)
    \<lparr>cp_editForm := \<lparr>cf_displayName = ''Ann'', cf_email = ''ann@b.org'', cf_note = [], cf_publicKeyArmored = []\<rparr>\<rparr>"
  let ?new = "example_contact\<lparr>c_email := ''ann@b.org''\<rparr>"
  have sel: "c_id ?c = ''c1''" "c_email ?c = ''Ann@a.org''" by (simp_all add: example_contact_def)
  have h: "\<not> is_key_id (c_id ?c)" "mc_hasPgp ?c" "key_address example_key = row_address ?c"
      "trim [] = []" "trim ''ann@b.org'' = ''ann@b.org''" "key_address example_key \<noteq> to_lower (c_email ?new)"
    by code_simp+
  have "fold (contacts_step env) [SaveEditContact, UpdateReply (Inr ()), UpdateKeyReply (Inr ())] ?s = s1 \<Longrightarrow>
      cp_calls s1 = [contacts_update ''c1'' (update_input (cp_editForm ?s)), remove_contact_call ''ann@b.org'']"
    for env :: "(string, string) contacts_env" and s1
    using key_stays_at_old_address [of ?s ?c example_key "[example_key]" "[?new]" env] h sel
    by (simp add: openEdit_def example_contacts_def init_contacts_def)
  then show ?thesis by (simp only: Let_def) blast
qed

theorem late_answer_closes_other_editor_witness:
  "let s = openEdit (contact_row [] example_contact) example_contacts
   in \<forall>env :: (string, string) contacts_env.
        cp_editing (fold (contacts_step env)
          [SaveEditContact, CancelEditContact, ClickEditContact ''c1'', TypeEditContact NoteField ''x'', UpdateReply (Inr ())] s)
        = None"
proof -
  let ?c = "contact_row [] example_contact"
  let ?s = "openEdit ?c example_contacts"
  have h: "\<not> is_key_id (c_id ?c)" "\<not> mc_hasPgp ?c" "trim (cf_publicKeyArmored (cp_editForm ?s)) = []"
      "shown_row ''c1'' ?s = Some ?c"
    by code_simp+
  have "cp_editing ?s = Some ?c" "cp_updating ?s = None" by (simp_all add: openEdit_def example_contacts_def init_contacts_def)
  note closed = late_answer_closes_other_editor [OF this h, where fld = NoteField and v = "''x''"]
  have last: "fold f [a, b, c, d, e] x = f e (fold f [a, b, c, d] x)" for f and a b c d e :: contacts_event and x :: contacts_page
    by simp
  show ?thesis unfolding Let_def last using closed by blast
qed

end
