(* ===== verification/AccountsPage.thy ===== *)
theory AccountsPage
  imports Stores
begin

text \<open>
  The page of the mail accounts, \<open>frontend/src/components/accounts/AccountsPage.tsx\<close>: the form of one account with
  its test and its save, and the list with the default, the editor and the deletion.  Handlers are cut at their
  \<open>await\<close>; a form that is gone gets no answers, which is why a form has a number.  A sign in a number field, the
  checks of the browser and the markup are not modelled.
\<close>

section \<open>The form\<close>

definition empty_account_form :: account_input where
  "empty_account_form =
     \<lparr>ai_label = [], ai_email = [], ai_imapHost = [], ai_imapPort = 993, ai_imapUseTls = True,
      ai_imapAllowInsecureTls = Some False, ai_smtpHost = [], ai_smtpPort = 587, ai_smtpUseTls = True,
      ai_smtpAllowInsecureTls = Some False, ai_sieveHost = Some [], ai_sievePort = Some 4190,
      ai_sieveUseTls = Some True, ai_sieveAllowInsecureTls = Some False, ai_username = [], ai_password = Some []\<rparr>"

definition form_of_account :: "account \<Rightarrow> account_input" where
  "form_of_account a =
     \<lparr>ai_label = acc_label a, ai_email = acc_email a, ai_imapHost = acc_imapHost a, ai_imapPort = acc_imapPort a,
      ai_imapUseTls = acc_imapUseTls a, ai_imapAllowInsecureTls = Some (acc_imapAllowInsecureTls a),
      ai_smtpHost = acc_smtpHost a, ai_smtpPort = acc_smtpPort a, ai_smtpUseTls = acc_smtpUseTls a,
      ai_smtpAllowInsecureTls = Some (acc_smtpAllowInsecureTls a), ai_sieveHost = Some (acc_sieveHost a),
      ai_sievePort = Some (if acc_sievePort a = 0 then 4190 else acc_sievePort a),
      ai_sieveUseTls = Some (acc_sieveUseTls a), ai_sieveAllowInsecureTls = Some (acc_sieveAllowInsecureTls a),
      ai_username = acc_username a, ai_password = Some []\<rparr>"

text \<open>\<open>parseInt(text) || d\<close>: the number that the text begins with, \<open>d\<close> for none and for zero.\<close>

definition digits_value :: "string \<Rightarrow> nat" where
  "digits_value ds = fold (\<lambda>c n. 10 * n + (code c - 48)) ds 0"

definition parse_or :: "nat \<Rightarrow> string \<Rightarrow> nat" where
  "parse_or d text = (let n = digits_value (takeWhile is_digit (trim_start text)) in if n = 0 then d else n)"

datatype account_edit =
    EditLabel string
  | EditEmail string
  | EditImapHost string
  | EditImapPort string
  | EditImapTls bool
  | EditImapInsecure bool
  | EditSmtpHost string
  | EditSmtpPort string
  | EditSmtpTls bool
  | EditSmtpInsecure bool
  | EditUsername string
  | EditPassword string
  | EditSieveHost string
  | EditSievePort string
  | EditSieveTls bool
  | EditSieveInsecure bool

fun set_account :: "account_edit \<Rightarrow> account_input \<Rightarrow> account_input" where
  "set_account (EditLabel v) f = f\<lparr>ai_label := v\<rparr>"
| "set_account (EditEmail v) f = f\<lparr>ai_email := v\<rparr>"
| "set_account (EditImapHost v) f = f\<lparr>ai_imapHost := v\<rparr>"
| "set_account (EditImapPort v) f = f\<lparr>ai_imapPort := parse_or 993 v\<rparr>"
| "set_account (EditImapTls b) f = f\<lparr>ai_imapUseTls := b\<rparr>"
| "set_account (EditImapInsecure b) f = f\<lparr>ai_imapAllowInsecureTls := Some b\<rparr>"
| "set_account (EditSmtpHost v) f = f\<lparr>ai_smtpHost := v\<rparr>"
| "set_account (EditSmtpPort v) f = f\<lparr>ai_smtpPort := parse_or 587 v\<rparr>"
| "set_account (EditSmtpTls b) f = f\<lparr>ai_smtpUseTls := b\<rparr>"
| "set_account (EditSmtpInsecure b) f = f\<lparr>ai_smtpAllowInsecureTls := Some b\<rparr>"
| "set_account (EditUsername v) f = f\<lparr>ai_username := v\<rparr>"
| "set_account (EditPassword v) f = f\<lparr>ai_password := Some v\<rparr>"
| "set_account (EditSieveHost v) f = f\<lparr>ai_sieveHost := Some v\<rparr>"
| "set_account (EditSievePort v) f = f\<lparr>ai_sievePort := Some (parse_or 4190 v)\<rparr>"
| "set_account (EditSieveTls b) f = f\<lparr>ai_sieveUseTls := Some b\<rparr>"
| "set_account (EditSieveInsecure b) f = f\<lparr>ai_sieveAllowInsecureTls := Some b\<rparr>"

record account_form =
  af_number :: nat
  af_existing :: "account option"
  af_form :: account_input
  af_testResult :: "(string \<times> string) option"
  af_error :: "message option"
  af_saving :: bool
  af_testing :: bool

definition new_account_form :: "nat \<Rightarrow> account option \<Rightarrow> account_form" where
  "new_account_form n existing =
     \<lparr>af_number = n, af_existing = existing,
      af_form = (case existing of None \<Rightarrow> empty_account_form | Some a \<Rightarrow> form_of_account a),
      af_testResult = None, af_error = None, af_saving = False, af_testing = False\<rparr>"

text \<open>The two handlers, with the request that they send.\<close>

definition handleTest :: "account_form \<Rightarrow> account_form \<times> call list" where
  "handleTest f =
     (if ai_imapHost (af_form f) = [] \<or> ai_smtpHost (af_form f) = [] \<or> \<not> truthy_opt (ai_password (af_form f))
      then (f\<lparr>af_error := Some (Tr ''accounts.needTestFields'' [])\<rparr>, [])
      else (f\<lparr>af_testing := True, af_error := None\<rparr>, [accounts_test (af_form f)]))"

definition test_ends :: "api_error + string \<times> string \<Rightarrow> account_form \<Rightarrow> account_form" where
  "test_ends res f =
     (case res of
        Inr r \<Rightarrow> f\<lparr>af_testing := False, af_testResult := Some r\<rparr>
      | Inl e \<Rightarrow> f\<lparr>af_testing := False, af_error := Some (message_or ''accounts.testFailed'' (emessage e))\<rparr>)"

definition save_account :: "account_form \<Rightarrow> account_form \<times> call list" where
  "save_account f =
     (f\<lparr>af_saving := True, af_error := None\<rparr>,
      [case af_existing f of
         Some a \<Rightarrow> accounts_update (acc_id a) (af_form f)
       | None \<Rightarrow> accounts_create (af_form f)])"

definition save_account_fails :: "api_error \<Rightarrow> account_form \<Rightarrow> account_form" where
  "save_account_fails e f =
     f\<lparr>af_saving := False, af_error := Some (message_or ''accounts.saveFailed'' (emessage e))\<rparr>"

section \<open>The page\<close>

record accounts_page =
  ap_editing :: "account option"
  ap_creating :: bool
  ap_toDelete :: "account option"
  ap_deletingId :: "string option"
  ap_accounts :: "account list option"
  ap_form :: "account_form option"
  ap_forms :: nat
  ap_defaults :: nat
  ap_stale :: nat
  ap_calls :: "call list"

definition init_accounts :: accounts_page where
  "init_accounts =
     \<lparr>ap_editing = None, ap_creating = False, ap_toDelete = None, ap_deletingId = None, ap_accounts = None,
      ap_form = None, ap_forms = 0, ap_defaults = 0, ap_stale = 0, ap_calls = []\<rparr>"

definition show_form :: "accounts_page \<Rightarrow> bool" where
  "show_form s \<longleftrightarrow> ap_creating s \<or> ap_editing s \<noteq> None"

text \<open>After a render the form is there exactly when it is shown; a new one starts from the account.\<close>

definition mount_form :: "accounts_page \<Rightarrow> accounts_page" where
  "mount_form s =
     (if \<not> show_form s then s\<lparr>ap_form := None\<rparr>
      else if ap_form s = None
      then s\<lparr>ap_form := Some (new_account_form (ap_forms s) (ap_editing s)), ap_forms := Suc (ap_forms s)\<rparr>
      else s)"

definition on_form :: "(account_form \<Rightarrow> account_form \<times> call list) \<Rightarrow> accounts_page \<Rightarrow> accounts_page" where
  "on_form h s =
     (case ap_form s of
        None \<Rightarrow> s
      | Some f \<Rightarrow> (case h f of (f', cs) \<Rightarrow> s\<lparr>ap_form := Some f', ap_calls := ap_calls s @ cs\<rparr>))"

definition save_succeeds :: "accounts_page \<Rightarrow> accounts_page" where
  "save_succeeds s = s\<lparr>ap_stale := Suc (ap_stale s), ap_creating := False, ap_editing := None\<rparr>"

text \<open>The row of an account in the list, which is hidden behind the form.\<close>

definition account_row :: "string \<Rightarrow> accounts_page \<Rightarrow> account option" where
  "account_row i s =
     (if show_form s then None
      else case ap_accounts s of None \<Rightarrow> None | Some accs \<Rightarrow> find (\<lambda>a. acc_id a = i) accs)"

definition delete_disabled :: "account \<Rightarrow> accounts_page \<Rightarrow> bool" where
  "delete_disabled a s \<longleftrightarrow> ap_deletingId s = Some (acc_id a) \<or> map_option length (ap_accounts s) = Some 1"

definition handleDeleteAccount :: "account \<Rightarrow> accounts_page \<Rightarrow> accounts_page" where
  "handleDeleteAccount a s =
     s\<lparr>ap_deletingId := Some (acc_id a), ap_calls := ap_calls s @ [accounts_remove (acc_id a)]\<rparr>"

text \<open>\<open>finally\<close>: the dialog closes after a failure as well, and nothing says so.\<close>

definition delete_account_ends :: "api_error + unit \<Rightarrow> accounts_page \<Rightarrow> accounts_page" where
  "delete_account_ends res s =
     s\<lparr>ap_stale := (case res of Inr _ \<Rightarrow> Suc (ap_stale s) | Inl _ \<Rightarrow> ap_stale s), ap_deletingId := None,
       ap_toDelete := None\<rparr>"

section \<open>Events\<close>

datatype accounts_event =
    AccountsAnswer "account list"
  | ClickAddAccount
  | ClickEditAccount string
  | ClickDefaultAccount string
  | DefaultReply "api_error + unit"
  | ClickDeleteAccount string
  | CancelDeleteAccount
  | ConfirmDeleteAccount
  | DeleteAccountReply "api_error + unit"
  | EditAccount account_edit
  | ClickTestAccount
  | TestAccountReply nat "api_error + string \<times> string"
  | SubmitAccount
  | SaveAccountReply "api_error + unit"

fun accounts_handle :: "accounts_event \<Rightarrow> accounts_page \<Rightarrow> accounts_page" where
  "accounts_handle (AccountsAnswer accs) s = s\<lparr>ap_accounts := Some accs\<rparr>"
| "accounts_handle ClickAddAccount s = (if show_form s then s else s\<lparr>ap_creating := True\<rparr>)"
| "accounts_handle (ClickEditAccount i) s =
     (case account_row i s of None \<Rightarrow> s | Some a \<Rightarrow> s\<lparr>ap_editing := Some a, ap_creating := False\<rparr>)"
| "accounts_handle (ClickDefaultAccount i) s =
     (case account_row i s of
        None \<Rightarrow> s
      | Some a \<Rightarrow>
          if acc_isDefault a then s
          else s\<lparr>ap_defaults := Suc (ap_defaults s), ap_calls := ap_calls s @ [accounts_setDefault (acc_id a)]\<rparr>)"
| "accounts_handle (DefaultReply res) s =
     (if ap_defaults s = 0 then s
      else s\<lparr>ap_defaults := ap_defaults s - 1,
             ap_stale := (case res of Inr _ \<Rightarrow> Suc (ap_stale s) | Inl _ \<Rightarrow> ap_stale s)\<rparr>)"
| "accounts_handle (ClickDeleteAccount i) s =
     (case account_row i s of
        None \<Rightarrow> s
      | Some a \<Rightarrow> if delete_disabled a s then s else s\<lparr>ap_toDelete := Some a\<rparr>)"
| "accounts_handle CancelDeleteAccount s = s\<lparr>ap_toDelete := None\<rparr>"
| "accounts_handle ConfirmDeleteAccount s =
     (case ap_toDelete s of
        None \<Rightarrow> s
      | Some a \<Rightarrow> if truthy_opt (ap_deletingId s) then s else handleDeleteAccount a s)"
| "accounts_handle (DeleteAccountReply res) s = (if ap_deletingId s = None then s else delete_account_ends res s)"
| "accounts_handle (EditAccount e) s = on_form (\<lambda>f. (f\<lparr>af_form := set_account e (af_form f)\<rparr>, [])) s"
| "accounts_handle ClickTestAccount s = on_form (\<lambda>f. if af_testing f then (f, []) else handleTest f) s"
| "accounts_handle (TestAccountReply n res) s =
     on_form (\<lambda>f. (if af_testing f \<and> af_number f = n then test_ends res f else f, [])) s"
| "accounts_handle SubmitAccount s = on_form (\<lambda>f. if af_saving f then (f, []) else save_account f) s"
| "accounts_handle (SaveAccountReply res) s =
     (case ap_form s of
        None \<Rightarrow> s
      | Some f \<Rightarrow>
          if \<not> af_saving f then s
          else case res of
                 Inr _ \<Rightarrow> save_succeeds s
               | Inl e \<Rightarrow> on_form (\<lambda>f. (save_account_fails e f, [])) s)"

definition accounts_step :: "accounts_event \<Rightarrow> accounts_page \<Rightarrow> accounts_page" where
  "accounts_step e s = mount_form (accounts_handle e s)"

end
