(* ===== verification/AccountsPageProps.thy ===== *)
theory AccountsPageProps
  imports AccountsPage
begin

text \<open>
  Properties of the page of the accounts: an edit reaches the stored account as it was typed, and the form is only
  left by saving it.
\<close>

section \<open>Ports\<close>

lemma digits_value_snoc: "digits_value (ds @ [c]) = 10 * digits_value ds + (code c - 48)"
  by (simp add: digits_value_def)

lemma digits_value_nat_str [simp]: "digits_value (nat_str n) = n"
proof (induction n rule: nat_str.induct)
  case (1 n)
  show ?case
  proof (cases "n < 10")
    case True
    then show ?thesis by (subst nat_str.simps) (simp add: digits_value_def code_char_of)
  next
    case False
    then have "nat_str n = nat_str (n div 10) @ [char_of (48 + n mod 10)]" by (subst nat_str.simps) simp
    with 1 False show ?thesis by (simp add: digits_value_snoc code_char_of)
  qed
qed

lemma parse_or_nat_str: "parse_or d (nat_str n) = (if n = 0 then d else n)"
proof -
  have digits: "\<forall>c \<in> set (nat_str n). is_digit c" using nat_str_digits by blast
  then have "trim_start (nat_str n) = nat_str n"
    by (cases "nat_str n") (auto simp: trim_start_def is_ws_def is_digit_def in_range_def)
  moreover have "takeWhile is_digit (nat_str n) = nat_str n" using digits by (simp add: takeWhile_eq_all_conv)
  ultimately have "parse_or d (nat_str n) = (let m = digits_value (nat_str n) in if m = 0 then d else m)"
    by (simp only: parse_or_def)
  then show ?thesis by (simp add: Let_def)
qed

lemma parse_or_positive: "0 < d \<Longrightarrow> 0 < parse_or d v"
  by (simp add: parse_or_def Let_def)

section \<open>An edit reaches the account\<close>

text \<open>How the server changes a stored account (\<open>UpdateAccount\<close> of the backend): an empty text and a port of zero keep
  the old value.\<close>

definition server_update :: "account_input \<Rightarrow> account \<Rightarrow> account" where
  "server_update f a =
     a\<lparr>acc_label := (if ai_email f = [] \<and> ai_label f = [] then acc_email a else ai_label f),
       acc_email := or_else (ai_email f) (acc_email a), acc_imapHost := or_else (ai_imapHost f) (acc_imapHost a),
       acc_imapPort := (if ai_imapPort f > 0 then ai_imapPort f else acc_imapPort a),
       acc_smtpHost := or_else (ai_smtpHost f) (acc_smtpHost a),
       acc_smtpPort := (if ai_smtpPort f > 0 then ai_smtpPort f else acc_smtpPort a),
       acc_username := or_else (ai_username f) (acc_username a), acc_imapUseTls := ai_imapUseTls f,
       acc_imapAllowInsecureTls := (ai_imapAllowInsecureTls f = Some True), acc_smtpUseTls := ai_smtpUseTls f,
       acc_smtpAllowInsecureTls := (ai_smtpAllowInsecureTls f = Some True),
       acc_sieveHost := opt_string (ai_sieveHost f),
       acc_sievePort := (case ai_sievePort f of None \<Rightarrow> 0 | Some p \<Rightarrow> p),
       acc_sieveUseTls := (ai_sieveUseTls f = Some True),
       acc_sieveAllowInsecureTls := (ai_sieveAllowInsecureTls f = Some True)\<rparr>"

text \<open>What an edit means for the account itself.\<close>

fun edit_account :: "account_edit \<Rightarrow> account \<Rightarrow> account" where
  "edit_account (EditLabel v) a = a\<lparr>acc_label := v\<rparr>"
| "edit_account (EditEmail v) a = a\<lparr>acc_email := v\<rparr>"
| "edit_account (EditImapHost v) a = a\<lparr>acc_imapHost := v\<rparr>"
| "edit_account (EditImapPort v) a = a\<lparr>acc_imapPort := parse_or 993 v\<rparr>"
| "edit_account (EditImapTls b) a = a\<lparr>acc_imapUseTls := b\<rparr>"
| "edit_account (EditImapInsecure b) a = a\<lparr>acc_imapAllowInsecureTls := b\<rparr>"
| "edit_account (EditSmtpHost v) a = a\<lparr>acc_smtpHost := v\<rparr>"
| "edit_account (EditSmtpPort v) a = a\<lparr>acc_smtpPort := parse_or 587 v\<rparr>"
| "edit_account (EditSmtpTls b) a = a\<lparr>acc_smtpUseTls := b\<rparr>"
| "edit_account (EditSmtpInsecure b) a = a\<lparr>acc_smtpAllowInsecureTls := b\<rparr>"
| "edit_account (EditUsername v) a = a\<lparr>acc_username := v\<rparr>"
| "edit_account (EditPassword v) a = a"
| "edit_account (EditSieveHost v) a = a\<lparr>acc_sieveHost := v\<rparr>"
| "edit_account (EditSievePort v) a = a\<lparr>acc_sievePort := parse_or 4190 v\<rparr>"
| "edit_account (EditSieveTls b) a = a\<lparr>acc_sieveUseTls := b\<rparr>"
| "edit_account (EditSieveInsecure b) a = a\<lparr>acc_sieveAllowInsecureTls := b\<rparr>"

text \<open>The form \<open>f\<close> stands for the account \<open>b\<close>, but for the password.\<close>

definition form_shows :: "account_input \<Rightarrow> account \<Rightarrow> bool" where
  "form_shows f b \<longleftrightarrow>
     f\<lparr>ai_password := Some []\<rparr> = form_of_account b \<and> 0 < acc_imapPort b \<and> 0 < acc_smtpPort b \<and> 0 < acc_sievePort b"

lemma form_shows_edit: "form_shows f b \<Longrightarrow> form_shows (set_account e f) (edit_account e b)"
  by (cases e; cases f; cases b; simp add: form_shows_def form_of_account_def parse_or_positive)

lemma form_shows_edits: "form_shows f b \<Longrightarrow> form_shows (fold set_account es f) (fold edit_account es b)"
  by (induction es arbitrary: f b) (auto intro: form_shows_edit)

text \<open>The fields of an account that no form has.\<close>

definition own_fields :: "account \<Rightarrow> string \<times> bool \<times> nat \<times> string \<times> string" where
  "own_fields a = (acc_id a, acc_isDefault a, acc_sortOrder a, acc_createdAt a, acc_updatedAt a)"

lemma edits_keep_own: "own_fields (fold edit_account es a) = own_fields a"
proof (induction es arbitrary: a)
  case (Cons e es)
  then show ?case by (cases e) (simp_all add: own_fields_def)
qed simp

lemma server_update_shown:
  assumes "form_shows f b" and "own_fields b = own_fields a"
    and "ai_email f \<noteq> []" "ai_imapHost f \<noteq> []" "ai_smtpHost f \<noteq> []" "ai_username f \<noteq> []"
  shows "server_update f a = b"
  using assms
  by (cases f; cases a; cases b) (simp add: form_shows_def form_of_account_def server_update_def own_fields_def or_else_def)


section \<open>The way out of the form\<close>

definition form_kept :: "account_form \<Rightarrow> accounts_page \<Rightarrow> bool" where
  "form_kept f s \<longleftrightarrow>
     show_form s \<and> (\<exists>g. ap_form s = Some g \<and> af_number g = af_number f \<and> af_existing g = af_existing f)"

lemma form_kept_same:
  "form_kept f s \<Longrightarrow> ap_form s' = ap_form s \<Longrightarrow> ap_creating s' = ap_creating s \<Longrightarrow> ap_editing s' = ap_editing s \<Longrightarrow>
     form_kept f (mount_form s')"
  by (auto simp: form_kept_def mount_form_def show_form_def)

lemma form_kept_on_form:
  assumes "form_kept f s" and "\<And>g. af_number (fst (h g)) = af_number g \<and> af_existing (fst (h g)) = af_existing g"
  shows "form_kept f (mount_form (on_form h s))"
proof -
  obtain g where "show_form s" "ap_form s = Some g" "af_number g = af_number f" "af_existing g = af_existing f"
    using assms(1) by (auto simp: form_kept_def)
  with assms(2) [of g] show ?thesis
    by (cases "h g") (auto simp: form_kept_def on_form_def mount_form_def show_form_def)
qed

lemma form_kept_row: "form_kept f s \<Longrightarrow> account_row i s = None" "form_kept f s \<Longrightarrow> show_form s"
  by (simp_all add: form_kept_def account_row_def)

lemma form_kept_step:
  assumes "form_kept f s" and "e \<noteq> SaveAccountReply (Inr ())"
  shows "form_kept f (accounts_step e s)"
proof (cases e)
  case (SaveAccountReply res)
  then obtain m where e: "e = SaveAccountReply (Inl m)" using assms(2) by (cases res) auto
  have "form_kept f (mount_form (on_form (\<lambda>f. (save_account_fails m f, [])) s))"
    by (rule form_kept_on_form [OF assms(1)]) (simp add: save_account_fails_def)
  moreover have "form_kept f (mount_form s)" by (rule form_kept_same [OF assms(1)]) simp_all
  moreover have "accounts_handle e s = s \<or> accounts_handle e s = on_form (\<lambda>f. (save_account_fails m f, [])) s"
    unfolding e accounts_handle.simps by (cases "ap_form s") simp_all
  ultimately show ?thesis unfolding accounts_step_def by metis
next
  case (EditAccount x)
  show ?thesis unfolding EditAccount accounts_step_def accounts_handle.simps
    by (rule form_kept_on_form [OF assms(1)]) simp
next
  case ClickTestAccount
  show ?thesis unfolding ClickTestAccount accounts_step_def accounts_handle.simps
    by (rule form_kept_on_form [OF assms(1)]) (simp add: handleTest_def)
next
  case (TestAccountReply n res)
  show ?thesis unfolding TestAccountReply accounts_step_def accounts_handle.simps
    by (rule form_kept_on_form [OF assms(1)]) (simp add: test_ends_def split: sum.split)
next
  case SubmitAccount
  show ?thesis unfolding SubmitAccount accounts_step_def accounts_handle.simps
    by (rule form_kept_on_form [OF assms(1)]) (simp add: save_account_def)
qed (unfold accounts_step_def, rule form_kept_same [OF assms(1)];
    simp add: form_kept_row [OF assms(1)] handleDeleteAccount_def delete_account_ends_def split: option.split)+

text \<open>C31: once the form of an account is open, nothing but a save that succeeds leads back to the list: whatever else
  happens, the same form stays and every button of the list is out of reach.\<close>

theorem form_is_only_left_by_saving:
  assumes "show_form s" and "ap_form s = Some f" and "SaveAccountReply (Inr ()) \<notin> set es"
  shows "case fold accounts_step es s of s1 \<Rightarrow>
     (\<exists>g. ap_form s1 = Some g \<and> af_number g = af_number f \<and> af_existing g = af_existing f) \<and> account_row i s1 = None"
proof -
  have "form_kept f s" using assms(1,2) by (simp add: form_kept_def)
  then have "form_kept f (fold accounts_step es s)"
    using assms(3)
  proof (induction es arbitrary: s)
    case (Cons e es)
    have "form_kept f (accounts_step e s)" by (rule form_kept_step) (use Cons.prems in auto)
    moreover have "SaveAccountReply (Inr ()) \<notin> set es" using Cons.prems(2) by simp
    ultimately have "form_kept f (fold accounts_step es (accounts_step e s))" by (rule Cons.IH)
    then show ?case by (simp only: fold_simps)
  qed simp
  then show ?thesis by (auto simp: form_kept_def account_row_def)
qed

definition mail_account :: account where
  "mail_account =
     \<lparr>acc_id = ''a1'', acc_label = ''Work'', acc_email = ''ann@a.org'', acc_imapHost = ''imap.a.org'', acc_imapPort = 993,
      acc_imapUseTls = True, acc_imapAllowInsecureTls = False, acc_smtpHost = ''smtp.a.org'', acc_smtpPort = 587,
      acc_smtpUseTls = True, acc_smtpAllowInsecureTls = False, acc_sieveHost = [], acc_sievePort = 4190,
      acc_sieveUseTls = True, acc_sieveAllowInsecureTls = False, acc_username = ''ann'', acc_isDefault = True,
      acc_sortOrder = 0, acc_createdAt = [], acc_updatedAt = []\<rparr>"

definition editing_account :: accounts_page where
  "editing_account = fold accounts_step [AccountsAnswer [mail_account], ClickEditAccount ''a1''] init_accounts"

lemma editing_account_form:
  "show_form editing_account" "ap_form editing_account = Some (new_account_form 0 (Some mail_account))"
  "ap_calls editing_account = []"
  by code_simp+


theorem form_is_only_left_by_saving_witness:
  "account_row ''a1''
     (fold accounts_step [ClickTestAccount, SubmitAccount, SaveAccountReply (Inl (\<lparr>emessage = Raw [], estatus = None\<rparr>))]
       editing_account) = None"
  using form_is_only_left_by_saving [OF editing_account_form(1,2),
      where es = "[ClickTestAccount, SubmitAccount, SaveAccountReply (Inl (\<lparr>emessage = Raw [], estatus = None\<rparr>))]"]
  by simp

end
