(* ===== verification/Header.thy ===== *)
theory Header
  imports Folders
begin

text \<open>
  The bar at the top, \<open>frontend/src/components/layout/Header.tsx\<close>: the search with its delay, the counter of unread
  messages and the buttons, over the store of the mail view; and the page of the settings,
  \<open>frontend/src/components/settings/SettingsPage.tsx\<close>, with the choices of its own section.  Time passes in
  milliseconds by an event.
\<close>

section \<open>The counter\<close>

definition countable :: "folder_info \<Rightarrow> bool" where
  "countable f \<longleftrightarrow> \<not> (\<not> isTopLevelFolder f \<or> isTrashFolder f \<or> isVirtualFolder f)"

text \<open>The two loops: over the queries of the accounts, and over the folders of one that has answered.\<close>

definition add_folder :: "folder_info \<Rightarrow> nat \<Rightarrow> nat" where
  "add_folder f n = (if \<not> countable f then n else n + fi_unreadCount f)"

definition add_query :: "folder_info list option \<Rightarrow> nat \<Rightarrow> nat" where
  "add_query q n = (case q of None \<Rightarrow> n | Some fs \<Rightarrow> fold add_folder fs n)"

definition totalUnread :: "folder_info list option list \<Rightarrow> nat" where
  "totalUnread queries = fold add_query queries 0"

definition badge_text :: "nat \<Rightarrow> string option" where
  "badge_text n = (if n = 0 then None else Some (if n > 99 then ''99+'' else nat_str n))"

section \<open>The search\<close>

text \<open>The running timer: the text that it will commit, and the milliseconds that are left.\<close>

record header =
  hd_world :: "mail_state \<times> browser"
  hd_timer :: "(string \<times> nat) option"
  hd_mobileSearch :: bool
  hd_focused :: bool
  hd_logouts :: nat

definition SEARCH_DELAY :: nat where
  "SEARCH_DELAY = 800"

definition hd_mail :: "header \<Rightarrow> mail_state" where
  "hd_mail s = fst (hd_world s)"

definition on_mail :: "(mail_state \<Rightarrow> mail_state) \<Rightarrow> header \<Rightarrow> header" where
  "on_mail f s = s\<lparr>hd_world := apfst f (hd_world s)\<rparr>"

text \<open>The effect: it runs when the text or the query has changed, and its clean-up stops the old timer.\<close>

definition run_search_effect :: "header \<Rightarrow> header" where
  "run_search_effect s =
     (let q = trim (searchInput (hd_mail s))
      in s\<lparr>hd_timer := (if q = searchQuery (hd_mail s) then None else Some (q, SEARCH_DELAY))\<rparr>)"

definition search_effect :: "header \<Rightarrow> header \<Rightarrow> header" where
  "search_effect old s =
     (if searchInput (hd_mail s) = searchInput (hd_mail old) \<and> searchQuery (hd_mail s) = searchQuery (hd_mail old)
      then s else run_search_effect s)"

definition init_header :: "browser \<Rightarrow> header" where
  "init_header b =
     run_search_effect
       \<lparr>hd_world = (init_mail b, b), hd_timer = None, hd_mobileSearch = False, hd_focused = False, hd_logouts = 0\<rparr>"

definition time_passes :: "nat \<Rightarrow> header \<Rightarrow> header" where
  "time_passes n s =
     (case hd_timer s of
        None \<Rightarrow> s
      | Some (q, left) \<Rightarrow>
          if left \<le> n then on_mail (setSearchQuery q) (s\<lparr>hd_timer := None\<rparr>)
          else s\<lparr>hd_timer := Some (q, left - n)\<rparr>)"

definition searchOperators :: "string list" where
  "searchOperators =
     [''from:'', ''to:'', ''subject:'', ''body:'', ''is:unread'', ''is:read'', ''is:starred'', ''has:attachment'',
      ''after:2024-01-01'', ''before:2024-12-31'']"

definition showSearchHint :: "header \<Rightarrow> bool" where
  "showSearchHint s \<longleftrightarrow>
     hd_focused s \<and> (trim (searchInput (hd_mail s)) \<noteq> [] \<or> contains (searchInput (hd_mail s)) '':'')"

definition appendSearchOperator :: "string \<Rightarrow> header \<Rightarrow> header" where
  "appendSearchOperator op s =
     (let t = trim (searchInput (hd_mail s))
      in on_mail (setSearchInput ((if t \<noteq> [] then t @ '' '' else []) @ op)) s)"

definition handleSearchSubmit :: "header \<Rightarrow> header" where
  "handleSearchSubmit s =
     (on_mail (setSearchQuery (trim (searchInput (hd_mail s)))) s)\<lparr>hd_mobileSearch := False\<rparr>"

section \<open>The buttons\<close>

definition goHome :: "mail_state \<Rightarrow> mail_state" where
  "goHome s =
     (let s1 = setUnreadView False (setView MailView (setSelectedUID None (clearSearch s)))
      in if currentFolder s \<noteq> ''INBOX'' then setCurrentFolder ''INBOX'' s1 else s1)"

definition openUnread :: "account list \<Rightarrow> mail_state \<Rightarrow> mail_state" where
  "openUnread accounts s =
     (case (case useActiveAccount accounts s of
              Some a \<Rightarrow> Some a
            | None \<Rightarrow> (case accounts of [] \<Rightarrow> None | a # _ \<Rightarrow> Some a)) of
        None \<Rightarrow> s
      | Some a \<Rightarrow> setUnreadView True (setActiveAccountId (Some (acc_id a)) s))"

definition toggleThreads :: "header \<Rightarrow> header" where
  "toggleThreads s =
     s\<lparr>hd_world := setListMode (if listMode (hd_mail s) = Threads then Messages else Threads) (hd_world s)\<rparr>"

datatype header_event =
    FromStore mail_event
  | TypeSearch string
  | SubmitSearch
  | ClearSearchField
  | PickOperator string
  | FocusSearch bool
  | ShowMobileSearch bool
  | ClickHome
  | ClickUnread
  | ClickThreads
  | ClickCompose
  | ClickMenu
  | ClickLogout
  | TimePasses nat

text \<open>A click on the counter needs the counter to be there.\<close>

fun header_handle :: "account list \<Rightarrow> folder_info list option list \<Rightarrow> header_event \<Rightarrow> header \<Rightarrow> header" where
  "header_handle accs qs (FromStore e) s = s\<lparr>hd_world := mail_step e (hd_world s)\<rparr>"
| "header_handle accs qs (TypeSearch v) s = on_mail (setSearchInput v) s"
| "header_handle accs qs SubmitSearch s = handleSearchSubmit s"
| "header_handle accs qs ClearSearchField s = on_mail clearSearch s"
| "header_handle accs qs (PickOperator op) s =
     (if showSearchHint s \<and> op \<in> set searchOperators then appendSearchOperator op s else s)"
| "header_handle accs qs (FocusSearch b) s = s\<lparr>hd_focused := b\<rparr>"
| "header_handle accs qs (ShowMobileSearch b) s = s\<lparr>hd_mobileSearch := b\<rparr>"
| "header_handle accs qs ClickHome s = on_mail goHome s"
| "header_handle accs qs ClickUnread s = (if totalUnread qs > 0 then on_mail (openUnread accs) s else s)"
| "header_handle accs qs ClickThreads s = (if unreadView (hd_mail s) then s else toggleThreads s)"
| "header_handle accs qs ClickCompose s = on_mail (openComposer empty_draft) s"
| "header_handle accs qs ClickMenu s = on_mail toggleSidebar s"
| "header_handle accs qs ClickLogout s = s\<lparr>hd_logouts := Suc (hd_logouts s)\<rparr>"
| "header_handle accs qs (TimePasses n) s = time_passes n s"

definition header_step :: "account list \<Rightarrow> folder_info list option list \<Rightarrow> header_event \<Rightarrow> header \<Rightarrow> header" where
  "header_step accs qs e s = search_effect s (header_handle accs qs e s)"

section \<open>The page of the settings\<close>

definition sectionMeta :: "(settings_section \<times> string) list" where
  "sectionMeta =
     [(Security, ''settings.security''), (PgpKeys, ''settings.pgp''), (Accounts, ''settings.accounts''),
      (SieveRules, ''settings.sieve''), (Contacts, ''settings.contacts''), (Appearance, ''settings.appearance'')]"

definition current_section :: "settings_section \<Rightarrow> settings_section \<times> string" where
  "current_section sec = (case find (\<lambda>m. fst m = sec) sectionMeta of Some m \<Rightarrow> m | None \<Rightarrow> hd sectionMeta)"

datatype settings_panel = SecurityPanel | KeysPanel | AccountsPanel | SievePanel | ContactsPanel | AppearancePanel

fun settings_content :: "settings_section \<Rightarrow> settings_panel" where
  "settings_content PgpKeys = KeysPanel"
| "settings_content Accounts = AccountsPanel"
| "settings_content SieveRules = SievePanel"
| "settings_content Contacts = ContactsPanel"
| "settings_content Appearance = AppearancePanel"
| "settings_content Security = SecurityPanel"

text \<open>A choice of the language is stored by the translation module and sent to the server, whose answer is dropped.\<close>

definition changeLocale :: "locale_id \<Rightarrow> i18n_state \<times> call list \<Rightarrow> i18n_state \<times> call list" where
  "changeLocale l w = (setLocale l (fst w), snd w @ [prefs_set ''locale'' (locale_str l)])"

end
