(* ===== verification/HeaderProps.thy ===== *)
theory HeaderProps
  imports Header Machine
begin

text \<open>
  Properties of the bar at the top: the delayed search over all histories, and the counter of unread messages against
  the counters of the sidebar.
\<close>

section \<open>The search\<close>

text \<open>A timer runs exactly while the text and the query differ, and it holds the text of now.\<close>

definition search_inv :: "header \<Rightarrow> bool" where
  "search_inv s \<longleftrightarrow>
     (case hd_timer s of
        None \<Rightarrow> trim (searchInput (hd_mail s)) = searchQuery (hd_mail s)
      | Some (q, left) \<Rightarrow>
          q = trim (searchInput (hd_mail s)) \<and> q \<noteq> searchQuery (hd_mail s) \<and> 0 < left \<and> left \<le> SEARCH_DELAY)"

lemma hd_mail_simps [simp]:
  "hd_mail (s\<lparr>hd_timer := t\<rparr>) = hd_mail s" "hd_mail (s\<lparr>hd_focused := b\<rparr>) = hd_mail s"
  "hd_mail (s\<lparr>hd_mobileSearch := b\<rparr>) = hd_mail s" "hd_mail (s\<lparr>hd_logouts := n\<rparr>) = hd_mail s"
  "hd_mail (s\<lparr>hd_world := w\<rparr>) = fst w"
  "hd_mail (on_mail f s) = f (hd_mail s)" "hd_timer (on_mail f s) = hd_timer s"
  by (simp_all add: hd_mail_def on_mail_def)

lemma run_search_inv: "search_inv (run_search_effect s)"
  by (simp add: search_inv_def run_search_effect_def Let_def SEARCH_DELAY_def)

lemma search_effect_inv:
  assumes "search_inv old" and "hd_timer s = hd_timer old"
  shows "search_inv (search_effect old s)"
proof (cases "searchInput (hd_mail s) = searchInput (hd_mail old) \<and> searchQuery (hd_mail s) = searchQuery (hd_mail old)")
  case True
  with assms show ?thesis by (cases "hd_timer old") (auto simp: search_effect_def search_inv_def)
qed (auto simp: search_effect_def run_search_inv)

lemma handle_timer: "\<forall>n. e \<noteq> TimePasses n \<Longrightarrow> hd_timer (header_handle accs qs e s) = hd_timer s"
  by (cases e) (auto simp: handleSearchSubmit_def appendSearchOperator_def toggleThreads_def Let_def)

lemma time_inv:
  assumes "search_inv s"
  shows "search_inv (search_effect s (time_passes n s))"
proof (cases "hd_timer s")
  case None
  with assms show ?thesis by (simp add: time_passes_def search_effect_inv)
next
  case (Some a)
  then obtain q left where t: "hd_timer s = Some (q, left)" by (cases a) auto
  show ?thesis
  proof (cases "left \<le> n")
    case True
    with t assms have "search_effect s (time_passes n s) = run_search_effect (time_passes n s)"
      by (auto simp: time_passes_def search_effect_def setSearchQuery_def search_inv_def)
    then show ?thesis by (simp add: run_search_inv)
  next
    case False
    with t assms show ?thesis by (auto simp: time_passes_def search_effect_def search_inv_def)
  qed
qed

lemma header_step_inv:
  assumes "search_inv s"
  shows "search_inv (header_step accs qs e s)"
proof (cases "\<exists>n. e = TimePasses n")
  case True
  with assms show ?thesis by (auto simp: header_step_def time_inv)
next
  case False
  then show ?thesis unfolding header_step_def by (intro search_effect_inv [OF assms] handle_timer) simp
qed

interpretation search_box: safe_machine "init_header b" "header_step accs qs" search_inv for b accs qs
  by unfold_locales (auto simp: init_header_def run_search_inv header_step_inv)

text \<open>C32: over every history the query of the list follows the text of the search field: after 800 milliseconds without
  a change it is this text, time never commits an older text, and a text that was just typed is not committed
  earlier.\<close>

theorem search_follows_text:
  assumes "s = fold (header_step accs qs) es (init_header b)"
  shows "searchQuery (hd_mail (header_step accs qs (TimePasses SEARCH_DELAY) s)) = trim (searchInput (hd_mail s))
     \<and> searchQuery (hd_mail (header_step accs qs (TimePasses n) s))
         \<in> {searchQuery (hd_mail s), trim (searchInput (hd_mail s))}
     \<and> (v \<noteq> searchInput (hd_mail s) \<and> n < SEARCH_DELAY \<longrightarrow>
          searchQuery (hd_mail (fold (header_step accs qs) [TypeSearch v, TimePasses n] s)) = searchQuery (hd_mail s))"
proof -
  have inv: "search_inv s" using search_box.inv_history [of accs qs es b] assms by simp
  have after: "searchQuery (hd_mail (header_step accs qs (TimePasses n) s))
      = (case hd_timer s of None \<Rightarrow> searchQuery (hd_mail s)
         | Some (q, left) \<Rightarrow> if left \<le> n then q else searchQuery (hd_mail s))" for n s
    by (simp add: header_step_def time_passes_def search_effect_def run_search_effect_def setSearchQuery_def Let_def
        split: option.split)
  have typed: "hd_timer (header_step accs qs (TypeSearch v) s)
        = (if trim v = searchQuery (hd_mail s) then None else Some (trim v, SEARCH_DELAY))
      \<and> searchQuery (hd_mail (header_step accs qs (TypeSearch v) s)) = searchQuery (hd_mail s)"
    if "v \<noteq> searchInput (hd_mail s)"
    using that by (simp add: header_step_def search_effect_def run_search_effect_def setSearchInput_def Let_def)
  show ?thesis using inv typed by (auto simp: after search_inv_def split: option.splits)
qed

section \<open>The counter\<close>

text \<open>The folders of the top level that count, of an account that has answered.\<close>

definition counted_folders :: "folder_info list option \<Rightarrow> folder_info list" where
  "counted_folders q = (case q of None \<Rightarrow> [] | Some fs \<Rightarrow> filter countable fs)"

lemma add_folder_sum: "fold add_folder fs n = n + sum_list (map fi_unreadCount (filter countable fs))"
  by (induction fs arbitrary: n) (simp_all add: add_folder_def)

lemma add_query_sum: "add_query q n = n + sum_list (map fi_unreadCount (counted_folders q))"
  by (simp add: add_query_def counted_folders_def add_folder_sum split: option.split)

lemma totalUnread_sum: "totalUnread qs = (\<Sum>q\<leftarrow>qs. sum_list (map fi_unreadCount (counted_folders q)))"
proof -
  have "fold add_query qs n = n + (\<Sum>q\<leftarrow>qs. sum_list (map fi_unreadCount (counted_folders q)))" for n
    by (induction qs arbitrary: n) (simp_all add: add_query_sum)
  then show ?thesis by (simp add: totalUnread_def)
qed

lemma sum_list_filter_split:
  "sum_list (map (f :: 'a \<Rightarrow> nat) (filter P xs)) + sum_list (map f (filter (\<lambda>x. \<not> P x) xs)) = sum_list (map f xs)"
  by (induction xs) simp_all

lemma counted_folders_split:
  "sum_list (map fi_unreadCount (counted_folders q))
     = accountUnread prefs q + sum_list (map fi_unreadCount (filter (\<lambda>f. \<not> isVisibleFolder prefs f) (counted_folders q)))"
proof -
  have "sum_list (map fi_unreadCount (filter (isVisibleFolder prefs) (counted_folders q))) = accountUnread prefs q"
    by (cases q) (simp_all add: counted_folders_def accountUnread_def visibleFolders_def countable_def conj_commute conj_left_commute)
  with sum_list_filter_split [of fi_unreadCount "isVisibleFolder prefs" "counted_folders q"] show ?thesis by simp
qed

text \<open>C33: the counter at the top is the sum of the counters that the sidebar shows for the accounts and of the unread
  messages in the folders that the user has hidden; the two agree exactly when no hidden folder has unread
  messages.\<close>

theorem counter_includes_hidden_folders:
  "totalUnread (map snd accounts)
     = (\<Sum>(prefs, q)\<leftarrow>accounts. accountUnread prefs q)
       + (\<Sum>(prefs, q)\<leftarrow>accounts. sum_list (map fi_unreadCount (filter (\<lambda>f. \<not> isVisibleFolder prefs f) (counted_folders q))))
   \<and> (totalUnread (map snd accounts) = (\<Sum>(prefs, q)\<leftarrow>accounts. accountUnread prefs q)
        \<longleftrightarrow> list_all (\<lambda>(prefs, q). list_all (\<lambda>f. isVisibleFolder prefs f \<or> fi_unreadCount f = 0) (counted_folders q)) accounts)"
proof -
  let ?hidden = "\<lambda>(prefs, q). sum_list (map fi_unreadCount (filter (\<lambda>f. \<not> isVisibleFolder prefs f) (counted_folders q)))"
  have sum: "totalUnread (map snd accounts) = (\<Sum>(prefs, q)\<leftarrow>accounts. accountUnread prefs q) + (\<Sum>a\<leftarrow>accounts. ?hidden a)"
    unfolding totalUnread_sum
  proof (induction accounts)
    case (Cons a accounts)
    then show ?case using counted_folders_split [of "snd a" "fst a"] by (cases a) simp
  qed simp
  have "(\<Sum>a\<leftarrow>accounts. ?hidden a) = 0
      \<longleftrightarrow> list_all (\<lambda>(prefs, q). list_all (\<lambda>f. isVisibleFolder prefs f \<or> fi_unreadCount f = 0) (counted_folders q)) accounts"
  proof (induction accounts)
    case (Cons a accounts)
    obtain prefs q where a: "a = (prefs, q)" by (cases a)
    have "sum_list (map fi_unreadCount (filter (\<lambda>f. \<not> isVisibleFolder prefs f) (counted_folders q))) = 0
        \<longleftrightarrow> list_all (\<lambda>f. isVisibleFolder prefs f \<or> fi_unreadCount f = 0) (counted_folders q)"
      by (auto simp: list_all_iff)
    with Cons show ?case by (simp add: a del: sum_list_eq_0_iff)
  qed simp
  with sum show ?thesis by simp
qed

lemma badge_short: "badge_text n = Some t \<Longrightarrow> length t \<le> 3"
proof -
  have "length (nat_str n) \<le> 2" if "n \<le> 99"
  proof (cases "n < 10")
    case False
    then have "nat_str n = nat_str (n div 10) @ [char_of (48 + n mod 10)]" by (subst nat_str.simps) simp
    moreover have "length (nat_str (n div 10)) = 1" using that by (subst nat_str.simps) simp
    ultimately show ?thesis by simp
  qed (subst nat_str.simps, simp)
  then show "badge_text n = Some t \<Longrightarrow> length t \<le> 3" by (auto simp: badge_text_def split: if_splits)
qed

lemma every_section_listed: "fst (current_section sec) = sec"
  by (cases sec) (simp_all add: current_section_def sectionMeta_def)

theorem search_follows_text_witness:
  "searchQuery (hd_mail (fold (header_step [] []) [TypeSearch ''ann '', TimePasses 500, TypeSearch ''anna '', TimePasses 799]
     (init_header empty_browser))) = []
   \<and> searchQuery (hd_mail (fold (header_step [] []) [TypeSearch ''ann '', TimePasses 500, TypeSearch ''anna '', TimePasses 800]
     (init_header empty_browser))) = ''anna''"
proof -
  let ?es = "[TypeSearch ''ann '', TimePasses 500]"
  let ?s = "fold (header_step [] []) ?es (init_header empty_browser)"
  let ?t = "fold (header_step [] []) (?es @ [TypeSearch ''anna '']) (init_header empty_browser)"
  have "searchInput (hd_mail ?s) = ''ann ''" "searchQuery (hd_mail ?s) = []" "trim (searchInput (hd_mail ?t)) = ''anna''"
    by code_simp+
  moreover have "SEARCH_DELAY = 800" by (simp add: SEARCH_DELAY_def)
  ultimately show ?thesis
    using search_follows_text [OF refl, of "[]" "[]" ?es empty_browser 799 "''anna ''"]
      search_follows_text [OF refl, of "[]" "[]" "?es @ [TypeSearch ''anna '']" empty_browser 0 "[]"]
    by simp
qed

end
