(* ===== verification/Wizard.thy ===== *)
theory Wizard
  imports Security KeyPage
begin

text \<open>
  The wizard of the first sign-in, \<open>frontend/src/components/onboarding/OnboardingWizard.tsx\<close>: the second factor, then
  an own key, then the way into the mailbox.  Its effect and its handlers are cut at each \<open>await\<close>; the flag
  \<open>loading\<close> is the one they share.  The work of the key service runs when its answer is there, on the world
  that the other dialogs use; requests that run at the same time are counted.  The clipboard is not modelled.
\<close>

datatype wizard_step = Step2FA | StepPgp | StepDone

text \<open>What the effect awaits, and what the form of the key does.\<close>

datatype wizard_effect = AwaitStatus | AwaitSetup
datatype key_wait = Generating string string | Importing string string

record wizard =
  wz_step :: wizard_step
  wz_secret :: string
  wz_otpauthUrl :: string
  wz_issuer :: string
  wz_code :: string
  wz_backupCodes :: "string list"
  wz_qrDataUrl :: string
  wz_pgpName :: string
  wz_pgpPassphrase :: string
  wz_showImport :: bool
  wz_imported :: string
  wz_importPassphrase :: string
  wz_msg :: form_note
  wz_loading :: bool
  wz_effect :: "wizard_effect option"
  wz_enabling :: nat
  wz_key :: "key_wait list"
  wz_calls :: "call list"
  wz_world :: pgp_world
  wz_refreshes :: nat
  wz_mail :: mail_state
  wz_completed :: bool

text \<open>Where the wizard goes after the second factor; and where it starts, with its effect.\<close>

definition after_2fa :: "bool \<Rightarrow> wizard_step" where
  "after_2fa requirePGP = (if requirePGP then StepPgp else StepDone)"

definition init_wizard :: "bool \<Rightarrow> bool \<Rightarrow> mail_state \<Rightarrow> pgp_world \<Rightarrow> wizard" where
  "init_wizard require2FA requirePGP m w =
     \<lparr>wz_step = (if \<not> require2FA then after_2fa requirePGP else Step2FA), wz_secret = [], wz_otpauthUrl = [],
      wz_issuer = [], wz_code = [], wz_backupCodes = [], wz_qrDataUrl = [], wz_pgpName = [], wz_pgpPassphrase = [],
      wz_showImport = False, wz_imported = [], wz_importPassphrase = [], wz_msg = None, wz_loading = False,
      wz_effect = (if require2FA then Some AwaitStatus else None), wz_enabling = 0, wz_key = [],
      wz_calls = (if require2FA then [twofa_getStatus] else []), wz_world = w, wz_refreshes = 0, wz_mail = m,
      wz_completed = False\<rparr>"

section \<open>The second factor\<close>

definition effect_fails :: "api_error \<Rightarrow> wizard \<Rightarrow> wizard" where
  "effect_fails e s =
     s\<lparr>wz_effect := None, wz_msg := bad (Tr ''onboarding.setupFailed'' [(''error'', error_text e)]), wz_loading := False\<rparr>"

definition status_answered :: "bool \<Rightarrow> api_error + bool \<Rightarrow> wizard \<Rightarrow> wizard" where
  "status_answered requirePGP res s =
     (case res of
        Inl e \<Rightarrow> effect_fails e s
      | Inr on \<Rightarrow>
          if on then s\<lparr>wz_effect := None, wz_step := after_2fa requirePGP, wz_loading := False\<rparr>
          else s\<lparr>wz_effect := Some AwaitSetup, wz_loading := True, wz_calls := wz_calls s @ [twofa_setup None]\<rparr>)"

definition setup_answered :: "api_error + factor_setup \<Rightarrow> wizard \<Rightarrow> wizard" where
  "setup_answered res s =
     (case res of
        Inl e \<Rightarrow> effect_fails e s
      | Inr su \<Rightarrow>
          s\<lparr>wz_effect := None, wz_secret := su_secret su, wz_otpauthUrl := su_otpauthUrl su, wz_issuer := su_issuer su,
            wz_qrDataUrl := su_otpauthUrl su, wz_loading := False\<rparr>)"

definition handleEnable2FA :: "wizard \<Rightarrow> wizard" where
  "handleEnable2FA s =
     (if wz_code s = [] \<or> length (wz_code s) \<noteq> 6 then s\<lparr>wz_msg := bad (Tr ''onboarding.needCode'' [])\<rparr>
      else s\<lparr>wz_loading := True, wz_msg := None, wz_enabling := Suc (wz_enabling s),
             wz_calls := wz_calls s @ [twofa_enable (wz_secret s) (wz_code s)]\<rparr>)"

definition enable_answered :: "bool \<Rightarrow> api_error + string list \<Rightarrow> wizard \<Rightarrow> wizard" where
  "enable_answered requirePGP res s =
     (case res of
        Inl e \<Rightarrow>
          s\<lparr>wz_enabling := wz_enabling s - 1, wz_msg := bad (message_or ''onboarding.enableFailed'' (emessage e)), wz_loading := False\<rparr>
      | Inr codes \<Rightarrow>
          s\<lparr>wz_enabling := wz_enabling s - 1, wz_backupCodes := codes, wz_step := after_2fa requirePGP, wz_msg := None,
            wz_loading := False\<rparr>)"

section \<open>The own key\<close>

definition finishOnboarding :: "wizard \<Rightarrow> wizard" where
  "finishOnboarding s = s\<lparr>wz_step := StepDone, wz_msg := None\<rparr>"

definition handleImportFileUpload :: "('k, 'm) key_env \<Rightarrow> upload_file \<Rightarrow> wizard \<Rightarrow> wizard" where
  "handleImportFileUpload env f s =
     (case fileToPrivateKeyArmor (ke_lib env) (ke_td env) (file_bytes f) of
        Inr armored \<Rightarrow> s\<lparr>wz_imported := armored, wz_msg := None\<rparr>
      | Inl e \<Rightarrow> s\<lparr>wz_msg := bad (Tr ''onboarding.readFailed'' [(''error'', error_text e)])\<rparr>)"

definition start_key :: "key_wait \<Rightarrow> wizard \<Rightarrow> wizard" where
  "start_key k s = s\<lparr>wz_key := wz_key s @ [k], wz_loading := True, wz_msg := None\<rparr>"

definition handleGeneratePgp :: "('k, 'm) key_env \<Rightarrow> wizard \<Rightarrow> wizard" where
  "handleGeneratePgp env s =
     (if \<not> truthy_opt (ke_email env) then s
      else if wz_pgpPassphrase s = [] then s\<lparr>wz_msg := bad (Tr ''onboarding.needPassphrase'' [])\<rparr>
      else start_key (Generating (or_else (wz_pgpName s) ''User'') (wz_pgpPassphrase s)) s)"

definition handleImportPgp :: "wizard \<Rightarrow> wizard" where
  "handleImportPgp s =
     (if trim (wz_imported s) = [] then s\<lparr>wz_msg := bad (Tr ''onboarding.needPrivateBlock'' [])\<rparr>
      else start_key (Importing (trim (wz_imported s)) (wz_importPassphrase s)) s)"

text \<open>The answer of the key service, for each of the two handlers.\<close>

definition key_result ::
    "('k, 'm) key_env \<Rightarrow> key_wait \<Rightarrow> pgp_world \<Rightarrow> (api_error + pgp_key_pair) \<times> pgp_world" where
  "key_result env k w =
     (case k of
        Generating name passphrase \<Rightarrow>
          generateKey (ke_lib env) (ke_sv env) (ke_now env) name (opt_string (ke_email env)) (Some passphrase) w
      | Importing armored passphrase \<Rightarrow>
          importPersonalKey (ke_lib env) (ke_sv env) (ke_now env) armored None (Some passphrase) w)"

definition key_error :: "key_wait \<Rightarrow> string" where
  "key_error k = (case k of Generating _ _ \<Rightarrow> ''onboarding.generateFailed'' | Importing _ _ \<Rightarrow> ''onboarding.importFailed'')"

definition key_answered :: "('k, 'm) key_env \<Rightarrow> key_wait \<Rightarrow> wizard \<Rightarrow> wizard" where
  "key_answered env k s =
     (case key_result env k (wz_world s) of
        (Inl e, w) \<Rightarrow>
          s\<lparr>wz_world := w, wz_key := remove1 k (wz_key s), wz_msg := bad (Tr (key_error k) [(''error'', error_text e)]),
            wz_loading := False\<rparr>
      | (Inr _, w) \<Rightarrow>
          (finishOnboarding (s\<lparr>wz_world := w, wz_key := remove1 k (wz_key s), wz_refreshes := Suc (wz_refreshes s)\<rparr>))
            \<lparr>wz_loading := False\<rparr>)"

definition handleDone :: "wizard \<Rightarrow> wizard" where
  "handleDone s = s\<lparr>wz_mail := setView MailView (wz_mail s), wz_completed := True\<rparr>"

section \<open>Events\<close>

text \<open>The field of the code takes six characters, of which the digits are kept.\<close>

definition code_typed :: "string \<Rightarrow> string" where
  "code_typed v = filter (in_range 48 57) (take 6 v)"

definition codes_shown :: "wizard \<Rightarrow> bool" where
  "codes_shown s \<longleftrightarrow> wz_step s = StepPgp \<and> wz_backupCodes s \<noteq> []"

definition at_step :: "wizard_step \<Rightarrow> (wizard \<Rightarrow> wizard) \<Rightarrow> wizard \<Rightarrow> wizard" where
  "at_step st f s = (if wz_step s = st then f s else s)"

definition ready :: "(wizard \<Rightarrow> wizard) \<Rightarrow> wizard \<Rightarrow> wizard" where
  "ready f s = (if wz_loading s then s else f s)"

datatype wizard_event =
    WizardStatus "api_error + bool"
  | WizardSetup "api_error + factor_setup"
  | TypeWizardCode string
  | SubmitWizardCode
  | WizardEnabled "api_error + string list"
  | TypeKeyName string
  | TypeKeyPassphrase string
  | SubmitGenerate
  | ShowWizardImport bool
  | PickWizardFile upload_file
  | TypeImported string
  | TypeImportPassphrase string
  | SubmitImport
  | KeyServiceDone key_wait
  | EnterMailbox

fun on_wizard :: "('k, 'm) key_env \<Rightarrow> bool \<Rightarrow> wizard_event \<Rightarrow> wizard \<Rightarrow> wizard" where
  "on_wizard env rp (WizardStatus res) s =
     (if wz_effect s = Some AwaitStatus then status_answered rp res s else s)"
| "on_wizard env rp (WizardSetup res) s = (if wz_effect s = Some AwaitSetup then setup_answered res s else s)"
| "on_wizard env rp (TypeWizardCode v) s = at_step Step2FA (\<lambda>s. s\<lparr>wz_code := code_typed v\<rparr>) s"
| "on_wizard env rp SubmitWizardCode s = at_step Step2FA (ready handleEnable2FA) s"
| "on_wizard env rp (WizardEnabled res) s = (if wz_enabling s > 0 then enable_answered rp res s else s)"
| "on_wizard env rp (TypeKeyName v) s =
     at_step StepPgp (\<lambda>s. if wz_showImport s then s else s\<lparr>wz_pgpName := v\<rparr>) s"
| "on_wizard env rp (TypeKeyPassphrase v) s =
     at_step StepPgp (\<lambda>s. if wz_showImport s then s else s\<lparr>wz_pgpPassphrase := v\<rparr>) s"
| "on_wizard env rp SubmitGenerate s =
     at_step StepPgp (\<lambda>s. if wz_showImport s then s else ready (handleGeneratePgp env) s) s"
| "on_wizard env rp (ShowWizardImport b) s = at_step StepPgp (\<lambda>s. s\<lparr>wz_showImport := b\<rparr>) s"
| "on_wizard env rp (PickWizardFile f) s =
     at_step StepPgp (\<lambda>s. if wz_showImport s then handleImportFileUpload env f s else s) s"
| "on_wizard env rp (TypeImported v) s =
     at_step StepPgp (\<lambda>s. if wz_showImport s then s\<lparr>wz_imported := v\<rparr> else s) s"
| "on_wizard env rp (TypeImportPassphrase v) s =
     at_step StepPgp (\<lambda>s. if wz_showImport s then s\<lparr>wz_importPassphrase := v\<rparr> else s) s"
| "on_wizard env rp SubmitImport s =
     at_step StepPgp (\<lambda>s. if wz_showImport s then ready handleImportPgp s else s) s"
| "on_wizard env rp (KeyServiceDone k) s = (if k \<in> set (wz_key s) then key_answered env k s else s)"
| "on_wizard env rp EnterMailbox s = at_step StepDone handleDone s"

end
