(* ===== verification/WizardProps.thy ===== *)
theory WizardProps
  imports Wizard KeyPageProps
begin

text \<open>
  Properties of the wizard over all its histories: what its last screen promises, which codes nobody sees, and that
  it does not look at the answer of the server for the new key.
\<close>

section \<open>The last screen\<close>

lemma key_result_memory:
  "key_result env k w = (Inr kp, w') \<Longrightarrow> memoryKeyPair w' = Some kp"
  "key_result env k w = (Inl e, w') \<Longrightarrow> w' = w"
  by (auto simp: key_result_def generateKey_def importPersonalKey_def Let_def store_memory
      split: key_wait.splits sum.splits prod.splits)

text \<open>The server has said that the second factor is on.\<close>

definition factor_confirmed :: "wizard_event list \<Rightarrow> bool" where
  "factor_confirmed es \<longleftrightarrow> WizardStatus (Inr True) \<in> set es \<or> (\<exists>codes. WizardEnabled (Inr codes) \<in> set es)"

definition wizard_inv :: "bool \<Rightarrow> bool \<Rightarrow> wizard_event list \<Rightarrow> wizard \<Rightarrow> bool" where
  "wizard_inv r2 rp es s \<longleftrightarrow>
     (r2 \<and> wz_step s \<noteq> Step2FA \<longrightarrow> factor_confirmed es) \<and> (wz_key s \<noteq> [] \<longrightarrow> wz_step s \<noteq> Step2FA)
     \<and> (rp \<and> wz_step s = StepDone \<longrightarrow> memoryKeyPair (wz_world s) \<noteq> None)
     \<and> (wz_completed s \<longrightarrow> (r2 \<longrightarrow> factor_confirmed es) \<and> (rp \<longrightarrow> memoryKeyPair (wz_world s) \<noteq> None))"

lemma factor_confirmed_later [simp]: "factor_confirmed es \<Longrightarrow> factor_confirmed (es @ [e])"
  by (auto simp: factor_confirmed_def)

lemma factor_confirmed_now [simp]:
  "factor_confirmed (es @ [WizardStatus (Inr True)])" "factor_confirmed (es @ [WizardEnabled (Inr codes)])"
  by (auto simp: factor_confirmed_def)

lemmas wizard_defs =
  at_step_def ready_def after_2fa_def effect_fails_def status_answered_def setup_answered_def handleEnable2FA_def
  enable_answered_def finishOnboarding_def handleImportFileUpload_def start_key_def handleGeneratePgp_def
  handleImportPgp_def handleDone_def

lemma wizard_inv_key:
  "wizard_inv r2 rp es s \<Longrightarrow> k \<in> set (wz_key s) \<Longrightarrow> wizard_inv r2 rp es (key_answered env k s)"
  by (auto simp: wizard_inv_def key_answered_def finishOnboarding_def dest: key_result_memory split: sum.split prod.split)

lemma wizard_inv_later: "wizard_inv r2 rp es s \<Longrightarrow> wizard_inv r2 rp (es @ [e]) s"
  by (auto simp: wizard_inv_def)

lemma wizard_inv_step:
  assumes "wizard_inv r2 rp es s"
  shows "wizard_inv r2 rp (es @ [e]) (on_wizard env rp e s)"
proof (cases e)
  case (KeyServiceDone k)
  with wizard_inv_key [OF wizard_inv_later [OF assms]] wizard_inv_later [OF assms] show ?thesis by auto
next
  case (WizardStatus res)
  with assms show ?thesis
    by (cases res) (auto simp: wizard_inv_def wizard_defs)
next
  case (WizardEnabled res)
  with assms show ?thesis
    by (cases res) (auto simp: wizard_inv_def wizard_defs)
qed (use wizard_inv_later [OF assms, of e] in \<open>auto simp: wizard_inv_def wizard_defs split: sum.split\<close>)

lemma wizard_history: "wizard_inv r2 rp es (fold (on_wizard env rp) es (init_wizard r2 rp m w))"
proof (induction es rule: rev_induct)
  case Nil
  show ?case by (simp add: wizard_inv_def init_wizard_def after_2fa_def)
next
  case (snoc e es)
  then show ?case using wizard_inv_step by simp
qed

text \<open>C34: whenever the wizard shows its last screen or has let the user into the mailbox, the server has said that the
  second factor is on, if it is required, and an own key is in memory, if one is required.\<close>

theorem wizard_ends_with_requirements:
  assumes "wz_step s = StepDone \<or> wz_completed s" and "s = fold (on_wizard env rp) es (init_wizard r2 rp m w)"
  shows "(r2 \<longrightarrow> WizardStatus (Inr True) \<in> set es \<or> (\<exists>codes. WizardEnabled (Inr codes) \<in> set es))
     \<and> (rp \<longrightarrow> memoryKeyPair (wz_world s) \<noteq> None)"
  using wizard_history [of r2 rp es env m w] assms by (auto simp: wizard_inv_def factor_confirmed_def)

section \<open>Codes that nobody sees\<close>

text \<open>C35: when no key is required, the wizard goes from the second factor straight to its end: it gets the backup codes
  and shows them in no state of any history.\<close>

theorem backup_codes_are_never_shown:
  "\<not> codes_shown (fold (on_wizard env False) es (init_wizard True False m w))
   \<and> (case fold (on_wizard env False)
          [WizardStatus (Inr False), WizardSetup (Inr su), TypeWizardCode ''123456'', SubmitWizardCode,
           WizardEnabled (Inr codes)] (init_wizard True False m w) of s \<Rightarrow>
        wz_calls s = [twofa_getStatus, twofa_setup None, twofa_enable (su_secret su) ''123456'']
        \<and> wz_step s = StepDone \<and> wz_backupCodes s = codes)"
proof -
  have keep: "wz_step s \<noteq> StepPgp \<Longrightarrow> wz_step (on_wizard env False e s) \<noteq> StepPgp" for e s
    by (cases e) (auto simp: wizard_defs key_answered_def split: sum.split prod.split)
  have "wz_step (fold (on_wizard env False) es s) \<noteq> StepPgp" if "wz_step s \<noteq> StepPgp" for s
    using that by (induction es arbitrary: s) (auto dest: keep)
  moreover have "wz_step (init_wizard True False m w) \<noteq> StepPgp" by (simp add: init_wizard_def)
  moreover have "code_typed ''123456'' = ''123456''" by code_simp
  ultimately show ?thesis by (simp add: codes_shown_def init_wizard_def wizard_defs)
qed

section \<open>The upload of the key\<close>

lemma store_new_key_server: "store_new_key sv kp w = store_new_key sv' kp w"
  by (simp add: store_new_key_def syncKeyringToCloud_def Let_def)

lemma generateKey_server: "generateKey lib sv now nm em p w = generateKey lib sv' now nm em p w"
  unfolding generateKey_def store_new_key_server [of sv _ _ sv'] ..

lemma importPersonalKey_server: "importPersonalKey lib sv now a b p w = importPersonalKey lib sv' now a b p w"
  unfolding importPersonalKey_def store_new_key_server [of sv _ _ sv'] ..

lemma key_result_server: "key_result (env\<lparr>ke_sv := sv\<rparr>) k w = key_result env k w"
  by (simp add: key_result_def generateKey_server [of _ sv _ _ _ _ _ "ke_sv env"]
      importPersonalKey_server [of _ sv _ _ _ _ _ "ke_sv env"] split: key_wait.split)

lemma on_wizard_server: "on_wizard (env\<lparr>ke_sv := sv\<rparr>) rp e s = on_wizard env rp e s"
  by (cases e) (simp_all add: handleImportFileUpload_def handleGeneratePgp_def key_answered_def key_result_server
      at_step_def ready_def)

text \<open>The wizard takes the same course whatever the server answers to the upload of the new key: with a server
  that refuses every key it shows the same screens and messages, and sends the same requests, as with one
  that stores them.\<close>

theorem wizard_ignores_key_upload:
  "fold (on_wizard (env\<lparr>ke_sv := sv\<rparr>) rp) es (init_wizard r2 rp m w) = fold (on_wizard env rp) es (init_wizard r2 rp m w)"
proof -
  have "on_wizard (env\<lparr>ke_sv := sv\<rparr>) rp = on_wizard env rp" by (intro ext) (rule on_wizard_server)
  then show ?thesis by simp
qed

theorem wizard_ends_with_requirements_witness:
  "\<forall>(env :: (string, string) key_env) w.
     let es = [WizardStatus (Inr True), EnterMailbox];
         s = fold (on_wizard env False) es (init_wizard True False (init_mail empty_browser) w)
     in wz_completed s \<and> (WizardStatus (Inr True) \<in> set es \<or> (\<exists>codes. WizardEnabled (Inr codes) \<in> set es))"
proof (intro allI)
  fix env :: "(string, string) key_env" and w
  let ?es = "[WizardStatus (Inr True), EnterMailbox]"
  let ?s = "fold (on_wizard env False) ?es (init_wizard True False (init_mail empty_browser) w)"
  have c: "wz_completed ?s" by (simp add: init_wizard_def wizard_defs)
  with wizard_ends_with_requirements [of ?s env False ?es True "init_mail empty_browser" w]
  show "let es = ?es; s = fold (on_wizard env False) es (init_wizard True False (init_mail empty_browser) w)
     in wz_completed s \<and> (WizardStatus (Inr True) \<in> set es \<or> (\<exists>codes. WizardEnabled (Inr codes) \<in> set es))"
    unfolding Let_def by blast
qed

end
